(* ===== verification/Rdc_Prelude.thy ===== *)
theory Rdc_Prelude
  imports
    Main
    "HOL-Library.Char_ord"
    "HOL-Library.List_Lexorder"
    "HOL-Library.Product_Lexorder"
    "HOL-Library.Multiset"
begin

section \<open>Shared vocabulary of the control-plane model\<close>

text \<open>
  This theory holds what every component of the development shares:
  \<^item> the scalar types of the database rows (identifiers, instants) and the raised exceptions;
  \<^item> the relational operations the services run on a table (lookup by primary key, update
    of one row, \<open>COUNT\<close>), with their algebra collected in \<open>table_simps\<close>;
  \<^item> the context of one database transaction and the part of the database every service
    writes to (the audit log and the supply of fresh identifiers).

  A table is the list of its rows. A service is a function from the transaction context and
  the database to either a raised exception or a result with the new database; a raised
  exception rolls the transaction back, which is why the left summand carries no state.
  One transaction reads the clock once: every \<open>datetime.now(UTC)\<close> and every \<open>func.now()\<close> of
  a handler is the instant \<open>tx_now\<close>.
\<close>

named_theorems table_simps \<open>algebra of table lookups, updates and counts\<close>
named_theorems handler_defs \<open>definitions unfolded to run a handler\<close>

subsection \<open>Scalars\<close>

text \<open>
  A \<open>uuid.UUID\<close> is its 128-bit integer. A timezone-aware \<open>datetime\<close> is its distance from
  the epoch in microseconds, the resolution of Python's \<open>datetime\<close> and of PostgreSQL's
  \<open>timestamptz\<close>; \<open>seconds n\<close> is \<open>timedelta(seconds=n)\<close>.
\<close>

type_synonym uuid = nat
type_synonym instant = int

definition seconds :: "int \<Rightarrow> int" where
  "seconds n = n * 1000000"

lemma seconds_mono [simp]: "seconds a \<le> seconds b \<longleftrightarrow> a \<le> b"
  by (simp add: seconds_def)

lemma seconds_strict_mono [simp]: "seconds a < seconds b \<longleftrightarrow> a < b"
  by (simp add: seconds_def)

lemma seconds_pos [simp]: "0 < seconds a \<longleftrightarrow> 0 < a" "0 \<le> seconds a \<longleftrightarrow> 0 \<le> a"
  by (simp_all add: seconds_def)

lemma seconds_add: "seconds (a + b) = seconds a + seconds b"
  by (simp add: seconds_def algebra_simps)

subsection \<open>Raised exceptions\<close>

text \<open>
  \<open>ApiError\<close> is \<open>core/errors.py\<close>'s exception with its HTTP status and its error code; the
  human-readable message and the optional details are presentation and are left out.
  \<open>ValueError\<close>, \<open>KeyError\<close>, \<open>TypeError\<close>, \<open>RuntimeError\<close>, \<open>IntegrityError\<close> (the database) and \<open>InvalidTag\<close> (AES-GCM) are the
  other exceptions a service lets escape; \<open>WorkerProtocolError\<close> is the exception of the worker client.
\<close>

datatype exn =
    ApiError (status_code: nat) (code: string)
  | ValueError
  | RuntimeError
  | IntegrityError
  | KeyError
  | TypeError
  | InvalidTag
  | WorkerProtocolError

type_synonym 'a result = "exn + 'a"

definition bind_result :: "'a result \<Rightarrow> ('a \<Rightarrow> 'b result) \<Rightarrow> 'b result" where
  "bind_result m f = (case m of Inl e \<Rightarrow> Inl e | Inr x \<Rightarrow> f x)"

lemma bind_result_simps [simp]:
  "bind_result (Inl e) f = Inl e"
  "bind_result (Inr x) f = f x"
  by (simp_all add: bind_result_def)

lemma bind_result_Inr_iff:
  "bind_result m f = Inr y \<longleftrightarrow> (\<exists>x. m = Inr x \<and> f x = Inr y)"
  by (cases m) auto

definition guard :: "bool \<Rightarrow> exn \<Rightarrow> unit result" where
  "guard ok e = (if ok then Inr () else Inl e)"

lemma guard_Inr_iff [simp]: "guard ok e = Inr u \<longleftrightarrow> ok"
  by (simp add: guard_def)

lemma guard_True [simp]: "guard True e = Inr ()"
  by (simp add: guard_def)

lemma guard_False [simp]: "guard False e = Inl e"
  by (simp add: guard_def)

definition or_else :: "'a option \<Rightarrow> 'a \<Rightarrow> 'a" where
  \<comment> \<open>Python's \<open>x or y\<close> on an optional value whose present values are all truthy.\<close>
  "or_else x y = (case x of None \<Rightarrow> y | Some v \<Rightarrow> v)"

lemma or_else_simps [simp]: "or_else None y = y" "or_else (Some v) y = v"
  by (simp_all add: or_else_def)

subsection \<open>Lists\<close>

lemma map_butlast_last: "xs \<noteq> [] \<Longrightarrow> map f xs = map f (butlast xs) @ [f (last xs)]"
  by (cases xs rule: rev_cases) auto

text \<open>
  Logs number their rows: \<open>int(SELECT max(sequence) or 0) + 1\<close> is the next number, and a log that
  starts empty stays numbered from one without gaps.
\<close>

definition max_sequence :: "int list \<Rightarrow> int" where
  "max_sequence l = (case l of [] \<Rightarrow> 0 | x # xs \<Rightarrow> fold max xs x)"

definition numbered :: "int list \<Rightarrow> bool" where
  "numbered l \<longleftrightarrow> l = map int [1..<Suc (length l)]"

lemma max_sequence_snoc: "xs \<noteq> [] \<Longrightarrow> max_sequence (xs @ [x]) = max (max_sequence xs) x"
  by (cases xs) (simp_all add: max_sequence_def max.commute)

lemma numbered_Nil [simp]: "numbered []"
  by (simp add: numbered_def)

lemma max_sequence_upto: "max_sequence (map int [1..<Suc n]) = int n"
proof (induction n)
  case (Suc n)
  have l: "map int [1..<Suc (Suc n)] = map int [1..<Suc n] @ [int n + 1]"
    by (simp add: upt_Suc_append)
  show ?case
  proof (cases n)
    case 0
    then show ?thesis by (simp add: max_sequence_def)
  next
    case (Suc k)
    then have "map int [1..<Suc n] \<noteq> []" by simp
    then have "max_sequence (map int [1..<Suc n] @ [int n + 1]) =
        max (max_sequence (map int [1..<Suc n])) (int n + 1)"
      by (rule max_sequence_snoc)
    also have "\<dots> = int (Suc n)" unfolding \<open>max_sequence (map int [1..<Suc n]) = int n\<close> by simp
    finally show ?thesis unfolding l .
  qed
qed (simp add: max_sequence_def)

lemma max_sequence_numbered: "numbered l \<Longrightarrow> max_sequence l = int (length l)"
  using max_sequence_upto [of "length l"] by (simp add: numbered_def)

lemma numbered_snoc: "numbered l \<Longrightarrow> numbered (l @ [max_sequence l + 1])"
  by (simp add: numbered_def max_sequence_numbered [unfolded numbered_def])

subsection \<open>Tables\<close>

definition find_by :: "('r \<Rightarrow> 'k) \<Rightarrow> 'k \<Rightarrow> 'r list \<Rightarrow> 'r option" where
  "find_by key i t = List.find (\<lambda>r. key r = i) t"

definition upd_by :: "('r \<Rightarrow> 'k) \<Rightarrow> 'k \<Rightarrow> ('r \<Rightarrow> 'r) \<Rightarrow> 'r list \<Rightarrow> 'r list" where
  "upd_by key i f t = map (\<lambda>r. if key r = i then f r else r) t"

definition countp :: "('r \<Rightarrow> bool) \<Rightarrow> 'r list \<Rightarrow> int" where
  "countp P t = int (length (filter P t))"

lemma find_by_Nil [simp]: "find_by key i [] = None"
  by (simp add: find_by_def)

lemma find_by_Cons [simp]:
  "find_by key i (r # t) = (if key r = i then Some r else find_by key i t)"
  by (simp add: find_by_def)

lemma upd_by_Nil [simp]: "upd_by key i f [] = []"
  by (simp add: upd_by_def)

lemma upd_by_Cons [simp]:
  "upd_by key i f (r # t) = (if key r = i then f r else r) # upd_by key i f t"
  by (simp add: upd_by_def)

lemma find_SomeD: "List.find P t = Some x \<Longrightarrow> x \<in> set t \<and> P x"
  by (auto simp: find_Some_iff)

lemma find_by_SomeD: "find_by key i t = Some r \<Longrightarrow> r \<in> set t \<and> key r = i"
  by (induction t) (auto split: if_splits)

lemma find_by_None_iff: "find_by key i t = None \<longleftrightarrow> i \<notin> key ` set t"
  by (induction t) auto

lemma find_by_append: "find_by key i (t @ u) =
    (case find_by key i t of None \<Rightarrow> find_by key i u | Some r \<Rightarrow> Some r)"
  by (induction t) auto

lemma find_by_eq_Some_iff:
  "distinct (map key t) \<Longrightarrow> find_by key i t = Some r \<longleftrightarrow> r \<in> set t \<and> key r = i"
  by (induction t) (auto simp: image_iff)

lemma distinct_key_unique:
  "distinct (map key t) \<Longrightarrow> x \<in> set t \<Longrightarrow> y \<in> set t \<Longrightarrow> key x = key y \<Longrightarrow> x = y"
  by (auto simp: distinct_map dest: inj_onD)

lemma find_unique:
  assumes "distinct (map key t)" and "x \<in> set t" and "P x" and "\<And>y. P y \<Longrightarrow> key y = key x"
  shows "List.find P t = Some x"
proof (cases "List.find P t")
  case None
  with assms(2,3) show ?thesis by (auto simp: find_None_iff)
next
  case (Some y)
  from find_SomeD [OF this] distinct_key_unique [OF assms(1) _ assms(2)] assms(4) Some show ?thesis by blast
qed

lemma find_by_upd_by [table_simps]:
  assumes "\<And>r. key (f r) = key r"
  shows "find_by key j (upd_by key i f t) =
    (if i = j then map_option f (find_by key j t) else find_by key j t)"
  using assms by (induction t) auto

lemma find_by_put:
  "key d = i \<Longrightarrow> find_by key j (upd_by key i (\<lambda>_. d) t) =
    (if i = j then map_option (\<lambda>_. d) (find_by key j t) else find_by key j t)"
  by (induction t) auto

lemma find_by_map [table_simps]:
  "(\<And>r. key (g r) = key r) \<Longrightarrow> find_by key i (map g t) = map_option g (find_by key i t)"
  by (induction t) auto

lemma map_upd_by [table_simps]:
  "(\<And>r. g (f r) = g r) \<Longrightarrow> map g (upd_by key i f t) = map g t"
  by (induction t) auto

lemma length_upd_by [simp]: "length (upd_by key i f t) = length t"
  by (simp add: upd_by_def)

lemma set_upd_by: "set (upd_by key i f t) = (\<lambda>r. if key r = i then f r else r) ` set t"
  by (simp add: upd_by_def)

lemma image_upd_by [table_simps]:
  "(\<And>r. g (f r) = g r) \<Longrightarrow> g ` set (upd_by key i f t) = g ` set t"
  by (metis list.set_map map_upd_by)

lemma ball_upd_byI:
  assumes "\<And>r. r \<in> set t \<Longrightarrow> P r" and "\<And>r. r \<in> set t \<Longrightarrow> key r = i \<Longrightarrow> P (f r)"
  shows "\<forall>r \<in> set (upd_by key i f t). P r"
  using assms by (auto simp: set_upd_by)

lemma ball_upd_by:
  "(\<forall>x \<in> set (upd_by key i f t). P x) \<longleftrightarrow> (\<forall>x \<in> set t. P (if key x = i then f x else x))"
  by (induction t) auto

lemma upd_by_absent: "i \<notin> key ` set t \<Longrightarrow> upd_by key i f t = t"
  by (induction t) auto

lemma fold_upd_by:
  assumes "distinct js" and "\<And>r. key (f r) = key r"
  shows "fold (\<lambda>j. upd_by key j f) js t = map (\<lambda>r. if key r \<in> set js then f r else r) t"
  using assms
proof (induction js arbitrary: t)
  case (Cons j js)
  then have "fold (\<lambda>j. upd_by key j f) (j # js) t =
      map (\<lambda>r. if key r \<in> set js then f r else r) (upd_by key j f t)"
    by simp
  also have "\<dots> = map (\<lambda>r. if key r \<in> set (j # js) then f r else r) t"
    using Cons.prems by (auto simp: upd_by_def)
  finally show ?case .
qed simp

lemma countp_Nil [simp]: "countp P [] = 0"
  by (simp add: countp_def)

lemma countp_Cons [simp]: "countp P (r # t) = of_bool (P r) + countp P t"
  by (simp add: countp_def)

lemma countp_append [simp]: "countp P (t @ u) = countp P t + countp P u"
  by (simp add: countp_def)

lemma countp_nonneg [simp]: "0 \<le> countp P t"
  by (simp add: countp_def)

lemma countp_pos: "r \<in> set t \<Longrightarrow> P r \<Longrightarrow> 0 < countp P t"
  by (simp add: countp_def) (metis empty_iff filter_empty_conv list.set(1))

lemma countp_mono: "(\<And>r. r \<in> set t \<Longrightarrow> P r \<Longrightarrow> Q r) \<Longrightarrow> countp P t \<le> countp Q t"
  by (induction t) (auto simp: of_bool_def)

lemma countp_cong: "(\<And>r. r \<in> set t \<Longrightarrow> P r = Q r) \<Longrightarrow> countp P t = countp Q t"
  by (induction t) auto

lemma countp_upd_by_other:
  "(\<And>r. P (f r) = P r) \<Longrightarrow> countp P (upd_by key i f t) = countp P t"
  by (induction t) auto

text \<open>How one row update moves a count: the row leaves its old class and enters its new one.\<close>

lemma countp_upd_by:
  assumes "distinct (map key t)" and "find_by key i t = Some r"
  shows "countp P (upd_by key i f t) = countp P t - of_bool (P r) + of_bool (P (f r))"
  using assms
proof (induction t)
  case (Cons x t)
  show ?case
  proof (cases "key x = i")
    case True
    with Cons.prems have "x = r" and "i \<notin> key ` set t" by auto
    with True show ?thesis by (simp add: upd_by_absent)
  next
    case False
    with Cons show ?thesis by simp
  qed
qed simp

lemma countp_upd_by_le:
  assumes "\<And>r. P (f r) \<Longrightarrow> P r"
  shows "countp P (upd_by key i f t) \<le> countp P t"
proof (induction t)
  case (Cons r t)
  then show ?case using assms [of r] by (auto simp: of_bool_def)
qed simp

subsection \<open>Transactions, audit log and fresh identifiers\<close>

text \<open>
  \<open>tx_locked i\<close> holds for a row some other transaction has locked: a statement with
  \<open>FOR UPDATE SKIP LOCKED\<close> does not see it. Every theorem is stated for an arbitrary set of
  locked rows.
\<close>

record txn =
  tx_now :: instant
  tx_request_id :: string
  tx_locked :: "uuid \<Rightarrow> bool"

text \<open>Fresh primary keys (\<open>default=uuid4\<close>) come from a counter above all identifiers in use.\<close>

definition fresh_ids :: "('r \<Rightarrow> uuid) \<Rightarrow> 'r list \<Rightarrow> uuid \<Rightarrow> bool" where
  "fresh_ids key t n \<longleftrightarrow> distinct (map key t) \<and> (\<forall>r \<in> set t. key r < n)"

lemma fresh_idsD:
  assumes "fresh_ids key t n"
  shows "distinct (map key t)" and "r \<in> set t \<Longrightarrow> key r < n"
  using assms by (auto simp: fresh_ids_def)

lemma fresh_ids_cong: "map key t = map key u \<Longrightarrow> fresh_ids key t n = fresh_ids key u n"
proof -
  assume eq: "map key t = map key u"
  have "(\<forall>r \<in> set t. key r < n) = (\<forall>x \<in> set (map key t). x < n)" for t by simp
  with eq show ?thesis unfolding fresh_ids_def by metis
qed

lemma fresh_ids_mono: "fresh_ids key t n \<Longrightarrow> n \<le> m \<Longrightarrow> fresh_ids key t m"
  by (auto simp: fresh_ids_def)

lemma fresh_ids_snoc: "fresh_ids key t n \<Longrightarrow> key r = n \<Longrightarrow> n < m \<Longrightarrow> fresh_ids key (t @ [r]) m"
  by (auto simp: fresh_ids_def)

lemma fresh_ids_snoc_ge:
  "fresh_ids key t n \<Longrightarrow> n \<le> key r \<Longrightarrow> key r < m \<Longrightarrow> fresh_ids key (t @ [r]) m"
  by (auto simp: fresh_ids_def)

lemma fresh_ids_upd_by [intro]:
  assumes "fresh_ids key t n" and "\<And>r. key (f r) = key r"
  shows "fresh_ids key (upd_by key i f t) n"
  using assms by (auto simp: fresh_ids_def map_upd_by set_upd_by)

lemma find_by_fresh: "fresh_ids key t n \<Longrightarrow> n \<le> i \<Longrightarrow> find_by key i t = None"
  by (force simp: fresh_ids_def find_by_None_iff)

subsection \<open>Selecting rows in an order\<close>

text \<open>\<open>SELECT ... WHERE P ORDER BY key LIMIT 1\<close> and its properties.\<close>

definition first_by :: "('r \<Rightarrow> 'k::linorder) \<Rightarrow> ('r \<Rightarrow> bool) \<Rightarrow> 'r list \<Rightarrow> 'r option" where
  "first_by key P t = (case sort_key key (filter P t) of [] \<Rightarrow> None | r # _ \<Rightarrow> Some r)"

definition select_limit :: "('r \<Rightarrow> 'k::linorder) \<Rightarrow> ('r \<Rightarrow> bool) \<Rightarrow> nat \<Rightarrow> 'r list \<Rightarrow> 'r list" where
  "select_limit key P n t = take n (sort_key key (filter P t))"

lemma first_by_SomeD:
  assumes "first_by key P t = Some r"
  shows "r \<in> set t \<and> P r \<and> (\<forall>x \<in> set t. P x \<longrightarrow> key r \<le> key x)"
proof -
  from assms obtain rs where sk: "sort_key key (filter P t) = r # rs"
    by (auto simp: first_by_def split: list.splits)
  have "set (sort_key key (filter P t)) = set (filter P t)" by simp
  with sk have mem: "set (r # rs) = {x \<in> set t. P x}" by simp
  have "sorted (map key (sort_key key (filter P t)))" by simp
  with sk have "\<forall>x \<in> set rs. key r \<le> key x" by simp
  with mem show ?thesis by auto
qed

lemma first_by_None_iff: "first_by key P t = None \<longleftrightarrow> (\<forall>x \<in> set t. \<not> P x)"
proof -
  have "first_by key P t = None \<longleftrightarrow> set (sort_key key (filter P t)) = {}"
    by (cases "sort_key key (filter P t)") (simp_all add: first_by_def del: set_sort)
  then show ?thesis by auto
qed

lemma select_limit_mem: "r \<in> set (select_limit key P n t) \<Longrightarrow> r \<in> set t \<and> P r"
  by (auto simp: select_limit_def dest!: in_set_takeD)

lemma length_select_limit: "length (select_limit key P n t) = min n (length (filter P t))"
  by (simp add: select_limit_def min.commute)

lemma distinct_sort_key_map:
  assumes "distinct (map g xs)"
  shows "distinct (map g (sort_key key xs))"
proof -
  have "mset (map g (sort_key key xs)) = mset (map g xs)"
    by simp
  with assms show ?thesis by (metis mset_eq_imp_distinct_iff)
qed

end
