(* ===== verification/Py_Values.thy ===== *)
theory Py_Values
  imports Rdc_Prelude
begin

section \<open>Python values: JSON objects, identifiers and timestamps as text\<close>

text \<open>
  The JSON values the services build, store in \<open>JSONB\<close> columns and hash
  (\<open>dict[str, object]\<close>), with Python's equality, \<open>dict.get\<close>, the canonical encoder
  \<open>json.dumps(..., sort_keys=True, ensure_ascii=False, separators=(",", ":"))\<close> and the text
  forms of \<open>UUID\<close> and \<open>datetime\<close>.

  A Python \<open>str\<close> is a \<^typ>\<open>string\<close>: the code points 0 to 255 (the identifiers, keys, states
  and hostnames of the program are ASCII). A dict is the association list of its items in
  insertion order. A float is its exact value \<open>m * 2 ^ e\<close> together with its \<open>repr\<close>, or one of the
  three non-finite values.
\<close>

datatype pyfloat = Finite int int string | NaN | PosInf | NegInf

datatype json =
    JNull
  | JBool bool
  | JInt int
  | JFloat pyfloat
  | JStr string
  | JList "json list"
  | JDict "(string \<times> json) list"

type_synonym dict = "(string \<times> json) list"

subsection \<open>Dictionaries\<close>

definition dget :: "dict \<Rightarrow> string \<Rightarrow> json" where
  \<comment> \<open>\<open>d.get(k)\<close>, which is \<open>None\<close> for an absent key.\<close>
  "dget d k = (case map_of d k of None \<Rightarrow> JNull | Some v \<Rightarrow> v)"

definition dset :: "string \<Rightarrow> json \<Rightarrow> dict \<Rightarrow> dict" where
  \<comment> \<open>\<open>d[k] = v\<close>: an existing key keeps its position.\<close>
  "dset k v d = (if k \<in> fst ` set d then map (\<lambda>(k', v'). (k', if k' = k then v else v')) d
                 else d @ [(k, v)])"

definition dupdate :: "dict \<Rightarrow> dict \<Rightarrow> dict" where
  \<comment> \<open>\<open>{**d, **e}\<close>.\<close>
  "dupdate d e = fold (\<lambda>(k, v). dset k v) e d"

definition dkeys :: "dict \<Rightarrow> string set" where
  "dkeys d = fst ` set d"

definition is_dict :: "json \<Rightarrow> bool" where
  "is_dict v = (case v of JDict _ \<Rightarrow> True | _ \<Rightarrow> False)"

definition is_str :: "json \<Rightarrow> bool" where
  "is_str v = (case v of JStr _ \<Rightarrow> True | _ \<Rightarrow> False)"

definition is_bool :: "json \<Rightarrow> bool" where
  "is_bool v = (case v of JBool _ \<Rightarrow> True | _ \<Rightarrow> False)"

lemma map_of_replace:
  "map_of (map (\<lambda>(k', v'). (k', if k' = k then v else v')) d) j =
     (if j = k \<and> k \<in> fst ` set d then Some v else map_of d j)"
proof (induction d)
  case (Cons kv d)
  obtain a b where "kv = (a, b)" by (cases kv)
  with Cons.IH show ?case by (cases "j = k"; cases "a = k") simp_all
qed simp

lemma map_of_dset: "map_of (dset k v d) j = (if j = k then Some v else map_of d j)"
proof (cases "k \<in> fst ` set d")
  case True
  then show ?thesis by (simp only: dset_def if_True map_of_replace simp_thms)
next
  case False
  then have "map_of d k = None" by (simp add: map_of_eq_None_iff)
  with False show ?thesis
    by (cases "j = k"; cases "map_of d j") (simp_all add: dset_def map_add_def)
qed

lemma dget_dset [simp]: "dget (dset k v d) j = (if j = k then v else dget d j)"
  by (simp add: dget_def map_of_dset)

lemma dget_dupdate:
  "distinct (map fst e) \<Longrightarrow>
    dget (dupdate d e) j = (case map_of e j of None \<Rightarrow> dget d j | Some v \<Rightarrow> v)"
proof (induction e arbitrary: d)
  case (Cons kv e)
  obtain k v where kv: "kv = (k, v)" by (cases kv)
  from Cons.prems kv have "k \<notin> fst ` set e" by auto
  then have "map_of e k = None" by (simp add: map_of_eq_None_iff)
  moreover have "dget (dupdate (dset k v d) e) j =
      (case map_of e j of None \<Rightarrow> dget (dset k v d) j | Some v \<Rightarrow> v)"
    using Cons.prems by (intro Cons.IH) simp
  ultimately show ?case by (auto simp: kv dupdate_def split: option.splits)
qed (simp add: dupdate_def)

subsection \<open>Equality\<close>

text \<open>
  Python's \<open>==\<close>: numbers compare by value across \<open>bool\<close>, \<open>int\<close> and \<open>float\<close>, dictionaries compare
  as sets of items, and NaN is not equal to itself.
\<close>

fun num_val :: "json \<Rightarrow> (int \<times> int) option" where
  "num_val (JBool b) = Some (of_bool b, 0)"
| "num_val (JInt n) = Some (n, 0)"
| "num_val (JFloat (Finite m e _)) = Some (m, e)"
| "num_val _ = None"

definition num_eq :: "int \<times> int \<Rightarrow> int \<times> int \<Rightarrow> bool" where
  "num_eq x y = (let lo = min (snd x) (snd y)
     in fst x * 2 ^ nat (snd x - lo) = fst y * 2 ^ nat (snd y - lo))"

fun py_eq :: "json \<Rightarrow> json \<Rightarrow> bool"
  and py_eq_list :: "json list \<Rightarrow> json list \<Rightarrow> bool"
  and py_sub_dict :: "(string \<times> json) list \<Rightarrow> (string \<times> json) list \<Rightarrow> bool"
  and py_has :: "string \<Rightarrow> json \<Rightarrow> (string \<times> json) list \<Rightarrow> bool" where
  "py_eq JNull y = (y = JNull)"
| "py_eq (JStr s) y = (y = JStr s)"
| "py_eq (JList xs) y = (case y of JList ys \<Rightarrow> py_eq_list xs ys | _ \<Rightarrow> False)"
| "py_eq (JDict d) y =
     (case y of JDict e \<Rightarrow> length d = length e \<and> py_sub_dict d e | _ \<Rightarrow> False)"
| "py_eq (JFloat PosInf) y = (y = JFloat PosInf)"
| "py_eq (JFloat NegInf) y = (y = JFloat NegInf)"
| "py_eq x y = (case (num_val x, num_val y) of (Some a, Some b) \<Rightarrow> num_eq a b | _ \<Rightarrow> False)"
| "py_eq_list [] ys = (ys = [])"
| "py_eq_list (x # xs) ys = (case ys of [] \<Rightarrow> False | y # ys' \<Rightarrow> py_eq x y \<and> py_eq_list xs ys')"
| "py_sub_dict [] e = True"
| "py_sub_dict ((k, v) # d) e = (py_has k v e \<and> py_sub_dict d e)"
| "py_has k v [] = False"
| "py_has k v ((k', v') # e) = (if k' = k then py_eq v v' else py_has k v e)"

subsection \<open>Decimal and hexadecimal text\<close>

definition digit :: "nat \<Rightarrow> char" where
  "digit n = (if n < 10 then char_of (48 + n) else char_of (87 + n))"

fun digits_in :: "nat \<Rightarrow> nat \<Rightarrow> nat \<Rightarrow> string" where
  \<comment> \<open>Exactly \<open>w\<close> digits of \<open>n\<close> in base \<open>b\<close>, most significant first.\<close>
  "digits_in b 0 n = ''''"
| "digits_in b (Suc w) n = digits_in b w (n div b) @ [digit (n mod b)]"

fun dec :: "nat \<Rightarrow> string" where
  "dec n = (if n < 10 then [digit n] else dec (n div 10) @ [digit (n mod 10)])"

declare dec.simps [simp del]

definition int_str :: "int \<Rightarrow> string" where
  "int_str n = (if n < 0 then ''-'' @ dec (nat (- n)) else dec (nat n))"

lemma length_digits_in [simp]: "length (digits_in b w n) = w"
  by (induction w arbitrary: n) auto

text \<open>\<open>str(uuid)\<close> and \<open>uuid.hex\<close>.\<close>

definition uuid_hex :: "uuid \<Rightarrow> string" where
  "uuid_hex u = digits_in 16 32 u"

definition uuid_str :: "uuid \<Rightarrow> string" where
  "uuid_str u = (let h = uuid_hex u in
     take 8 h @ ''-'' @ take 4 (drop 8 h) @ ''-'' @ take 4 (drop 12 h) @ ''-'' @
     take 4 (drop 16 h) @ ''-'' @ drop 20 h)"

subsection \<open>Timestamps\<close>

text \<open>\<open>datetime.isoformat()\<close> of a UTC instant, by the proleptic Gregorian calendar.\<close>

definition civil_from_days :: "int \<Rightarrow> int \<times> int \<times> int" where
  "civil_from_days days = (let
     z = days + 719468;
     era = z div 146097;
     doe = z mod 146097;
     yoe = (doe - doe div 1460 + doe div 36524 - doe div 146096) div 365;
     doy = doe - (365 * yoe + yoe div 4 - yoe div 100);
     mp = (5 * doy + 2) div 153;
     d = doy - (153 * mp + 2) div 5 + 1;
     m = (if mp < 10 then mp + 3 else mp - 9);
     y = yoe + era * 400 + (if m \<le> 2 then 1 else 0)
   in (y, m, d))"

definition pad :: "nat \<Rightarrow> int \<Rightarrow> string" where
  "pad w n = digits_in 10 w (nat n)"

definition isoformat :: "instant \<Rightarrow> string" where
  "isoformat t = (let
     days = t div 86400000000;
     us = t mod 86400000000;
     s = us div 1000000;
     f = us mod 1000000
   in case civil_from_days days of (y, m, d) \<Rightarrow>
     pad 4 y @ ''-'' @ pad 2 m @ ''-'' @ pad 2 d @ ''T'' @
     pad 2 (s div 3600) @ '':'' @ pad 2 (s div 60 mod 60) @ '':'' @ pad 2 (s mod 60) @
     (if f = 0 then '''' else ''.'' @ pad 6 f) @ ''+00:00'')"

subsection \<open>Optional values\<close>

definition jopt :: "('a \<Rightarrow> json) \<Rightarrow> 'a option \<Rightarrow> json" where
  \<comment> \<open>\<open>f(x) if x is not None else None\<close>.\<close>
  "jopt f x = (case x of None \<Rightarrow> JNull | Some v \<Rightarrow> f v)"

abbreviation juuid :: "uuid \<Rightarrow> json" where
  "juuid u \<equiv> JStr (uuid_str u)"

abbreviation jtime :: "instant \<Rightarrow> json" where
  "jtime t \<equiv> JStr (isoformat t)"

subsection \<open>The canonical encoder\<close>

definition json_escape_char :: "char \<Rightarrow> string" where
  "json_escape_char c = (let n = of_char c :: nat in
     if n = 34 then [char_of (92::nat), char_of (34::nat)]
     else if n = 92 then [char_of (92::nat), char_of (92::nat)]
     else if n = 10 then [char_of (92::nat)] @ ''n''
     else if n = 13 then [char_of (92::nat)] @ ''r''
     else if n = 9 then [char_of (92::nat)] @ ''t''
     else if n = 12 then [char_of (92::nat)] @ ''f''
     else if n = 8 then [char_of (92::nat)] @ ''b''
     else if n < 32 then [char_of (92::nat)] @ ''u'' @ digits_in 16 4 n
     else [c])"

definition json_quote :: "string \<Rightarrow> string" where
  "json_quote s = [char_of (34::nat)] @ concat (map json_escape_char s) @ [char_of (34::nat)]"

fun float_text :: "pyfloat \<Rightarrow> string" where
  "float_text (Finite m e t) = t"
| "float_text NaN = ''NaN''"
| "float_text PosInf = ''Infinity''"
| "float_text NegInf = ''-Infinity''"

fun sep_concat :: "string list \<Rightarrow> string" where
  "sep_concat [] = ''''"
| "sep_concat [x] = x"
| "sep_concat (x # xs) = x @ '','' @ sep_concat xs"

function (sequential) json_dumps :: "json \<Rightarrow> string" where
  "json_dumps JNull = ''null''"
| "json_dumps (JBool b) = (if b then ''true'' else ''false'')"
| "json_dumps (JInt n) = int_str n"
| "json_dumps (JFloat f) = float_text f"
| "json_dumps (JStr s) = json_quote s"
| "json_dumps (JList xs) = ''['' @ sep_concat (map json_dumps xs) @ '']''"
| "json_dumps (JDict d) = ''{'' @ sep_concat
     (map (\<lambda>(k, t). json_quote k @ '':'' @ t)
       (sort_key fst (map (\<lambda>(k, v). (k, json_dumps v)) d))) @ ''}''"
  by pat_completeness auto
termination
proof (relation "measure size", goal_cases)
  case (2 xs x)
  then show ?case by (induction xs) auto
next
  case (3 d kv k v)
  then have "size v < Suc (size_list (size_prod (\<lambda>x. 0) size) d)"
    by (induction d) auto
  then show ?case by simp
qed simp

text \<open>The number of bytes of the UTF-8 encoding: code points above 127 take two bytes.\<close>

definition utf8_length :: "string \<Rightarrow> nat" where
  "utf8_length s = sum_list (map (\<lambda>c. if (of_char c :: nat) < 128 then 1 else 2) s)"

fun has_nan :: "json \<Rightarrow> bool" where
  "has_nan (JFloat (Finite _ _ _)) = False"
| "has_nan (JFloat _) = True"
| "has_nan (JList xs) = list_ex has_nan xs"
| "has_nan (JDict d) = list_ex (\<lambda>(k, v). has_nan v) d"
| "has_nan _ = False"

text \<open>
  \<open>core/security.py: canonical_fingerprint\<close>. The digest \<open>sha256\<close> is a parameter: a function
  from the encoded text to its hexadecimal digest.
\<close>

definition canonical_fingerprint :: "(string \<Rightarrow> string) \<Rightarrow> json \<Rightarrow> string" where
  "canonical_fingerprint sha256 v = sha256 (json_dumps v)"

subsection \<open>The audit log and the identifier supply\<close>

text \<open>
  \<open>models.py: AuditEvent\<close>, without its primary key: no code of the program reads it back.
\<close>

record audit_event =
  ae_organization_id :: "uuid option"
  ae_project_id :: "uuid option"
  ae_actor_type :: string
  ae_actor_id :: string
  ae_action :: string
  ae_resource_type :: string
  ae_resource_id :: "string option"
  ae_request_id :: string
  ae_details :: dict
  ae_created_at :: instant

record session =
  audit_log :: "audit_event list"
  next_id :: uuid

text \<open>\<open>services/identity_tenancy.py: append_audit_event\<close>.\<close>

definition append_audit_event ::
  "txn \<Rightarrow> uuid option \<Rightarrow> uuid option \<Rightarrow> string \<Rightarrow> string \<Rightarrow> string \<Rightarrow> string \<Rightarrow> string option \<Rightarrow> dict \<Rightarrow>
   'a session_scheme \<Rightarrow> 'a session_scheme" where
  "append_audit_event tx org proj actor_type actor_id action rtype rid details s =
     s\<lparr>audit_log := audit_log s @
       [\<lparr>ae_organization_id = org, ae_project_id = proj, ae_actor_type = actor_type,
         ae_actor_id = actor_id, ae_action = action, ae_resource_type = rtype,
         ae_resource_id = rid, ae_request_id = tx_request_id tx, ae_details = details,
         ae_created_at = tx_now tx\<rparr>]\<rparr>"

definition audit_extends :: "'a session_scheme \<Rightarrow> 'a session_scheme \<Rightarrow> bool" where
  "audit_extends s s' \<longleftrightarrow> (\<exists>es. audit_log s' = audit_log s @ es)"

lemma audit_extends_refl [simp]: "audit_extends s s"
  by (simp add: audit_extends_def)

lemma audit_extends_trans:
  "audit_extends s s' \<Longrightarrow> audit_extends s' s'' \<Longrightarrow> audit_extends s s''"
  by (auto simp: audit_extends_def)

end
