(* ===== verification/Recovery_Policy.thy ===== *)
theory Recovery_Policy
  imports Py_Values
begin

section \<open>Server-owned retry policy\<close>

text \<open>
  \<open>apps/api/app/execution_recovery.py\<close>: the deadline of a claimed work item, the clamp that
  keeps a lease inside its hard limit and its deadline, the exponential retry delay and the
  decision whether a failed attempt is retried.
\<close>

datatype outcome = Out_SUCCEEDED | Out_FAILED | Out_TIMED_OUT | Out_ABORTED | Out_CANCELLED

fun outcome_str :: "outcome \<Rightarrow> string" where
  "outcome_str Out_SUCCEEDED = ''SUCCEEDED''"
| "outcome_str Out_FAILED = ''FAILED''"
| "outcome_str Out_TIMED_OUT = ''TIMED_OUT''"
| "outcome_str Out_ABORTED = ''ABORTED''"
| "outcome_str Out_CANCELLED = ''CANCELLED''"

definition execution_deadline_at :: "instant \<Rightarrow> int \<Rightarrow> instant result" where
  "execution_deadline_at claimed_at timeout_seconds =
     (if timeout_seconds < 1 then Inl ValueError
      else Inr (claimed_at + seconds timeout_seconds))"

definition clamp_lease_expiry :: "instant \<Rightarrow> instant \<Rightarrow> int \<Rightarrow> instant \<Rightarrow> instant result" where
  "clamp_lease_expiry proposed claimed_at max_lifetime_seconds deadline_at =
     (if max_lifetime_seconds < 1 then Inl ValueError
      else if deadline_at \<le> claimed_at then Inl ValueError
      else (let hard_limit = claimed_at + seconds max_lifetime_seconds
            in Inr (min (min proposed hard_limit) deadline_at)))"

definition retry_delay_seconds :: "int \<Rightarrow> int \<Rightarrow> int \<Rightarrow> int result" where
  "retry_delay_seconds attempt base_seconds max_seconds =
     (if attempt < 1 then Inl ValueError
      else if base_seconds < 1 \<or> max_seconds < base_seconds then Inl ValueError
      else (let delay = push_bit (nat (attempt - 1)) base_seconds
            in Inr (min max_seconds delay)))"

definition retry_available_at :: "instant \<Rightarrow> int \<Rightarrow> int \<Rightarrow> int \<Rightarrow> instant result" where
  "retry_available_at now attempt base_seconds max_seconds =
     bind_result (retry_delay_seconds attempt base_seconds max_seconds)
       (\<lambda>d. Inr (now + seconds d))"

definition execution_retry_allowed :: "bool \<Rightarrow> outcome \<Rightarrow> int \<Rightarrow> int \<Rightarrow> bool \<Rightarrow> bool" where
  "execution_retry_allowed requested out attempt max_attempts source_available \<longleftrightarrow>
     requested \<and> source_available \<and> out \<in> {Out_FAILED, Out_TIMED_OUT} \<and>
     1 \<le> attempt \<and> attempt < max_attempts"

lemmas recovery_defs =
  execution_deadline_at_def clamp_lease_expiry_def retry_delay_seconds_def
  retry_available_at_def execution_retry_allowed_def

subsection \<open>Leases stay inside their limits\<close>

lemma clamp_lease_expiry_Inr:
  "clamp_lease_expiry p c m d = Inr e \<longleftrightarrow>
    1 \<le> m \<and> c < d \<and> e = min (min p (c + seconds m)) d"
  by (auto simp: clamp_lease_expiry_def Let_def)

lemma clamp_lease_expiry_window:
  assumes "clamp_lease_expiry p c m d = Inr e" and "c < p"
  shows "c < e" and "e \<le> d" and "e \<le> c + seconds m" and "e \<le> p"
proof -
  from assms(1) have m: "1 \<le> m" "c < d" and e: "e = min (min p (c + seconds m)) d"
    by (simp_all add: clamp_lease_expiry_Inr)
  from m have "0 < seconds m" by simp
  with m e assms(2) show "c < e" by simp
  from e show "e \<le> d" "e \<le> c + seconds m" "e \<le> p" by simp_all
qed

subsection \<open>The retry delay\<close>

lemma retry_delay_eq:
  assumes "1 \<le> attempt" and "1 \<le> base" and "base \<le> mx"
  shows "retry_delay_seconds attempt base mx = Inr (min mx (base * 2 ^ nat (attempt - 1)))"
  using assms by (simp add: retry_delay_seconds_def push_bit_eq_mult)

lemma retry_delay_total:
  assumes "1 \<le> attempt" and "1 \<le> base" and "base \<le> mx"
  obtains d where "retry_delay_seconds attempt base mx = Inr d" and "base \<le> d" and "d \<le> mx"
proof (rule that [OF retry_delay_eq [OF assms]])
  have "base * 1 \<le> base * 2 ^ nat (attempt - 1)"
    using assms(2) by (intro mult_left_mono) simp_all
  with assms(3) show "base \<le> min mx (base * 2 ^ nat (attempt - 1))" by simp
qed simp

lemma retry_available_after_now:
  assumes "1 \<le> attempt" and "1 \<le> base" and "base \<le> mx"
  obtains t where "retry_available_at now attempt base mx = Inr t"
    and "now + seconds base \<le> t" and "t \<le> now + seconds mx"
proof -
  from assms obtain d where "retry_delay_seconds attempt base mx = Inr d" "base \<le> d" "d \<le> mx"
    by (rule retry_delay_total)
  then show ?thesis
    by (intro that [of "now + seconds d"]) (simp_all add: retry_available_at_def)
qed

lemma execution_retry_allowedD:
  assumes "execution_retry_allowed rq out a mx src"
  shows "1 \<le> a" and "a < mx" and "src"
  using assms by (simp_all add: execution_retry_allowed_def)

lemma min_double:
  fixes b y mx :: int
  assumes "1 \<le> b" and "b \<le> y" and "b \<le> mx"
  shows "min mx (2 * y) = min mx (2 * min mx y)" and "b \<le> min mx y"
    and "min mx y \<le> min mx (2 * y)" and "min mx (2 * y) \<le> mx"
  using assms by (simp_all add: min_def)

text \<open>
  C24: the delay doubles from one attempt to the next until it reaches the configured maximum,
  and never leaves the interval between base and maximum.
\<close>

theorem retry_delay_doubles:
  assumes "1 \<le> attempt" and "1 \<le> base" and "base \<le> mx"
  shows "\<exists>d d'. retry_delay_seconds attempt base mx = Inr d \<and>
    retry_delay_seconds (attempt + 1) base mx = Inr d' \<and>
    d' = min mx (2 * d) \<and> base \<le> d \<and> d \<le> d' \<and> d' \<le> mx"
proof -
  let ?x = "base * 2 ^ nat (attempt - 1)"
  from assms(1) have "nat (attempt + 1 - 1) = Suc (nat (attempt - 1))" by simp
  then have step: "base * 2 ^ nat (attempt + 1 - 1) = 2 * ?x" by simp
  have x: "base \<le> ?x"
  proof -
    have "base * 1 \<le> ?x" using assms(2) by (intro mult_left_mono) simp_all
    then show ?thesis by simp
  qed
  have d: "retry_delay_seconds attempt base mx = Inr (min mx ?x)"
    using assms by (rule retry_delay_eq)
  have d': "retry_delay_seconds (attempt + 1) base mx = Inr (min mx (2 * ?x))"
    using retry_delay_eq [of "attempt + 1" base mx] assms step by simp
  note min_double [OF assms(2) x assms(3)]
  with d d' show ?thesis by blast
qed

theorem retry_delay_doubles_witness:
  "retry_delay_seconds 3 2 300 = Inr 8 \<and> retry_delay_seconds 4 2 300 = Inr 16 \<and>
   (\<exists>d d'. retry_delay_seconds 3 2 300 = Inr d \<and> retry_delay_seconds (3 + 1) 2 300 = Inr d' \<and>
     d' = min 300 (2 * d) \<and> 2 \<le> d \<and> d \<le> d' \<and> d' \<le> 300)"
proof (intro conjI)
  show "retry_delay_seconds 3 2 300 = Inr 8" "retry_delay_seconds 4 2 300 = Inr 16"
    by (simp_all add: retry_delay_eq)
  show "\<exists>d d'. retry_delay_seconds 3 2 300 = Inr d \<and>
      retry_delay_seconds (3 + 1) 2 300 = Inr d' \<and>
      d' = min 300 (2 * d) \<and> 2 \<le> d \<and> d \<le> d' \<and> d' \<le> 300"
    by (rule retry_delay_doubles) simp_all
qed

end
