(* ===== verification/Claim_Protocol.thy ===== *)
theory Claim_Protocol
  imports Rdc_Prelude
begin

section \<open>The claim protocol of a work table\<close>

text \<open>
  Request queues and webhook deliveries hand out the rows of a table under a lease: a waiting
  row is claimed, which counts as an attempt; a held row is finished, or put back for a further
  attempt while it has attempts left. This theory states that contract once, as a transition
  system on an abstract work item, proves what follows from it (attempts are bounded, an item
  finishes after finitely many steps), and gives the interface \<open>claim_rows\<close> through which a
  concrete table inherits these facts.
\<close>

datatype phase = Waiting | Held | Done

record item =
  it_phase :: phase
  it_attempts :: int
  it_max :: int

inductive item_step :: "item \<Rightarrow> item \<Rightarrow> bool" where
  claim: "it_phase i = Waiting \<Longrightarrow>
    item_step i (i\<lparr>it_phase := Held, it_attempts := it_attempts i + 1\<rparr>)"
| put_back: "it_phase i = Held \<Longrightarrow> it_attempts i < it_max i \<Longrightarrow>
    item_step i (i\<lparr>it_phase := Waiting\<rparr>)"
| finish: "it_phase i = Held \<Longrightarrow> item_step i (i\<lparr>it_phase := Done\<rparr>)"

inductive_cases item_stepE: "item_step i j"

definition item_inv :: "item \<Rightarrow> bool" where
  "item_inv i \<longleftrightarrow> 0 \<le> it_attempts i \<and> it_attempts i \<le> it_max i \<and>
     (it_phase i = Waiting \<longrightarrow> it_attempts i < it_max i) \<and>
     (it_phase i = Held \<longrightarrow> 1 \<le> it_attempts i)"

definition item_credit :: "item \<Rightarrow> nat" where
  "item_credit i = (case it_phase i of
     Waiting \<Rightarrow> 2 * nat (it_max i - it_attempts i)
   | Held \<Rightarrow> 2 * nat (it_max i - it_attempts i) + 1
   | Done \<Rightarrow> 0)"

lemma item_step_inv: "item_step i j \<Longrightarrow> item_inv i \<Longrightarrow> item_inv j"
  by (auto elim!: item_stepE simp: item_inv_def)

lemma item_step_max: "item_step i j \<Longrightarrow> it_max j = it_max i"
  by (auto elim!: item_stepE)

lemma item_step_credit: "item_step i j \<Longrightarrow> item_inv i \<Longrightarrow> item_credit j < item_credit i"
  by (auto elim!: item_stepE simp: item_inv_def item_credit_def)

lemma item_step_attempts: "item_step i j \<Longrightarrow> it_attempts i \<le> it_attempts j"
  by (auto elim!: item_stepE)

lemma item_steps_inv: "item_step\<^sup>*\<^sup>* i j \<Longrightarrow> item_inv i \<Longrightarrow> item_inv j"
  by (induction rule: rtranclp_induct) (auto intro: item_step_inv)

lemma item_steps_attempts: "item_step\<^sup>*\<^sup>* i j \<Longrightarrow> it_attempts i \<le> it_attempts j"
  by (induction rule: rtranclp_induct) (auto dest: item_step_attempts)

lemma item_steps_max: "item_step\<^sup>*\<^sup>* i j \<Longrightarrow> it_max j = it_max i"
  by (induction rule: rtranclp_induct) (auto dest: item_step_max)

lemma item_steps_done:
  assumes "item_step\<^sup>*\<^sup>* i j" and "it_phase i = Done"
  shows "j = i"
  using assms by (induction rule: rtranclp_induct) (auto elim!: item_stepE)

text \<open>A chain of steps from a well-formed item is no longer than its credit.\<close>

lemma item_relpow_bound:
  assumes "(item_step ^^ n) i j" and "item_inv i"
  shows "n + item_credit j \<le> item_credit i"
  using assms
proof (induction n arbitrary: j)
  case (Suc n)
  then obtain k where k: "(item_step ^^ n) i k" "item_step k j" by auto
  then have "item_inv k" using Suc.prems(2) by (auto dest: relpowp_imp_rtranclp item_steps_inv)
  with k Suc show ?case using item_step_credit [of k j] by fastforce
qed simp

subsection \<open>Tables of items\<close>

text \<open>
  A table evolves by the protocol when every row it had is still there and has moved by steps
  of the protocol; new rows may appear.
\<close>

definition evolves :: "('r \<Rightarrow> uuid) \<Rightarrow> ('r \<Rightarrow> item) \<Rightarrow> 'r list \<Rightarrow> 'r list \<Rightarrow> bool" where
  "evolves key item_of t u \<longleftrightarrow> (\<forall>i r. find_by key i t = Some r \<longrightarrow>
     (\<exists>r'. find_by key i u = Some r' \<and> item_step\<^sup>*\<^sup>* (item_of r) (item_of r')))"

definition items_ok :: "('r \<Rightarrow> item) \<Rightarrow> 'r list \<Rightarrow> bool" where
  "items_ok item_of t \<longleftrightarrow> (\<forall>r \<in> set t. item_inv (item_of r))"

lemma evolves_refl [simp, intro]: "evolves key item_of t t"
  by (auto simp: evolves_def)

lemma evolves_trans [trans]:
  assumes "evolves key item_of t u" and "evolves key item_of u v"
  shows "evolves key item_of t v"
  unfolding evolves_def
proof (intro allI impI)
  fix i r
  assume "find_by key i t = Some r"
  with assms(1) obtain r' where r': "find_by key i u = Some r'"
      "item_step\<^sup>*\<^sup>* (item_of r) (item_of r')"
    unfolding evolves_def by blast
  with assms(2) obtain r'' where "find_by key i v = Some r''"
      "item_step\<^sup>*\<^sup>* (item_of r') (item_of r'')"
    unfolding evolves_def by blast
  with r' show "\<exists>r'. find_by key i v = Some r' \<and> item_step\<^sup>*\<^sup>* (item_of r) (item_of r')"
    by (meson rtranclp_trans)
qed

lemma evolves_append [simp, intro]: "evolves key item_of t (t @ u)"
  by (auto simp: evolves_def find_by_append)

lemma evolves_upd_by:
  assumes "\<And>r. key (f r) = key r"
    and "\<And>r. find_by key i t = Some r \<Longrightarrow> item_step\<^sup>*\<^sup>* (item_of r) (item_of (f r))"
  shows "evolves key item_of t (upd_by key i f t)"
  using assms by (auto simp: evolves_def find_by_upd_by)

lemma evolves_put:
  assumes "find_by key i t = Some d" and "key d' = i" and "item_step\<^sup>*\<^sup>* (item_of d) (item_of d')"
  shows "evolves key item_of t (upd_by key i (\<lambda>_. d') t)"
  using assms by (auto simp: evolves_def find_by_put)

lemma evolves_map:
  assumes "\<And>r. key (g r) = key r"
    and "\<And>r. r \<in> set t \<Longrightarrow> item_step\<^sup>*\<^sup>* (item_of r) (item_of (g r))"
  shows "evolves key item_of t (map g t)"
  using assms by (auto simp: evolves_def find_by_map dest: find_by_SomeD)

lemma evolvesD:
  assumes "evolves key item_of t u" and "find_by key i t = Some r"
  obtains r' where "find_by key i u = Some r'" and "item_step\<^sup>*\<^sup>* (item_of r) (item_of r')"
  using assms unfolding evolves_def by blast

lemma items_ok_append [simp]:
  "items_ok item_of (t @ u) \<longleftrightarrow> items_ok item_of t \<and> items_ok item_of u"
  by (auto simp: items_ok_def)

lemma items_ok_Nil [simp]: "items_ok item_of []"
  by (simp add: items_ok_def)

lemma items_ok_Cons [simp]:
  "items_ok item_of (r # t) \<longleftrightarrow> item_inv (item_of r) \<and> items_ok item_of t"
  by (simp add: items_ok_def)

lemma items_ok_find_by: "items_ok item_of t \<Longrightarrow> find_by key i t = Some r \<Longrightarrow> item_inv (item_of r)"
  by (auto simp: items_ok_def dest: find_by_SomeD)

subsection \<open>The interface of a claimable table\<close>

text \<open>
  \<open>take\<close> is what a claim does to the row it selects, \<open>release\<close> what the expiry of a claim or a
  failed attempt does to it, \<open>close\<close> what the completion does to it; their extra arguments are
  the data each of them writes (worker, token, times, outcome).
\<close>

locale claim_rows =
  fixes key :: "'r \<Rightarrow> uuid"
    and item_of :: "'r \<Rightarrow> item"
    and take_row :: "'a \<Rightarrow> 'r \<Rightarrow> 'r"
    and release_row :: "'b \<Rightarrow> 'r \<Rightarrow> 'r"
    and close_row :: "'c \<Rightarrow> 'r \<Rightarrow> 'r"
  assumes key_kept: "key (take_row a r) = key r" "key (release_row b r) = key r"
      "key (close_row c r) = key r"
    and take_item: "it_phase (item_of r) = Waiting \<Longrightarrow>
      item_of (take_row a r) =
        (item_of r)\<lparr>it_phase := Held, it_attempts := it_attempts (item_of r) + 1\<rparr>"
    and release_item: "it_phase (item_of r) = Held \<Longrightarrow>
      item_of (release_row b r) = (item_of r)\<lparr>it_phase :=
        (if it_attempts (item_of r) < it_max (item_of r) then Waiting else Done)\<rparr>"
    and close_item: "it_phase (item_of r) = Held \<Longrightarrow>
      item_of (close_row c r) = (item_of r)\<lparr>it_phase := Done\<rparr>"
begin

lemma take_step:
  "it_phase (item_of r) = Waiting \<Longrightarrow> item_step (item_of r) (item_of (take_row a r))"
  by (simp add: take_item item_step.claim)

lemma release_step:
  "it_phase (item_of r) = Held \<Longrightarrow> item_step (item_of r) (item_of (release_row b r))"
  by (auto simp: release_item intro: item_step.intros)

lemma close_step:
  "it_phase (item_of r) = Held \<Longrightarrow> item_step (item_of r) (item_of (close_row c r))"
  by (simp add: close_item item_step.finish)

lemma evolves_take:
  assumes "\<And>r. find_by key i t = Some r \<Longrightarrow> it_phase (item_of r) = Waiting"
  shows "evolves key item_of t (upd_by key i (take_row a) t)"
  using assms by (intro evolves_upd_by) (auto simp: key_kept intro: take_step)

lemma evolves_release:
  assumes "\<And>r. find_by key i t = Some r \<Longrightarrow> it_phase (item_of r) = Held"
  shows "evolves key item_of t (upd_by key i (release_row b) t)"
  using assms by (intro evolves_upd_by) (auto simp: key_kept intro: release_step)

lemma evolves_close:
  assumes "\<And>r. find_by key i t = Some r \<Longrightarrow> it_phase (item_of r) = Held"
  shows "evolves key item_of t (upd_by key i (close_row c) t)"
  using assms by (intro evolves_upd_by) (auto simp: key_kept intro: close_step)

text \<open>With distinct keys the invariant of all items survives an evolution without new rows.\<close>

lemma items_ok_evolves:
  assumes "evolves key item_of t u" and "map key u = map key t" and "distinct (map key t)"
    and "items_ok item_of t"
  shows "items_ok item_of u"
  unfolding items_ok_def
proof
  fix r'
  assume r': "r' \<in> set u"
  with assms(2) have "key r' \<in> key ` set t" by (metis image_eqI list.set_map)
  then obtain r where r: "find_by key (key r') t = Some r"
    by (cases "find_by key (key r') t") (auto simp: find_by_None_iff)
  from assms(1) r obtain x where x: "find_by key (key r') u = Some x"
      "item_step\<^sup>*\<^sup>* (item_of r) (item_of x)"
    by (rule evolvesD)
  have "find_by key (key r') u = Some r'"
    using assms(2,3) r' by (simp add: find_by_eq_Some_iff)
  with x r assms(4) show "item_inv (item_of r')"
    using items_ok_find_by item_steps_inv by fastforce
qed

end

end
