(* ===== verification/Idempotency.thy ===== *)
theory Idempotency
  imports Rdc_Prelude
begin

section \<open>Idempotent operations with receipts\<close>

text \<open>
  Enqueueing a request, appending to a dataset and mutating a key-value record share one
  contract: the operation carries an idempotency key and a digest of the request, looks for a
  receipt under that key before it does anything, returns the receipt unchanged when the digest
  agrees, refuses when it does not, and otherwise does the work and stores a receipt. The locale
  \<open>receipted\<close> states the laws of one call; its lemmas say what follows for any sequence of calls.
\<close>

text \<open>A client's calls one after the other; a call that raises leaves the database as it was.\<close>

primrec run_calls ::
  "('t \<Rightarrow> 'a \<Rightarrow> 's \<Rightarrow> ('r \<times> bool \<times> 's) result) \<Rightarrow> ('t \<times> 'a) list \<Rightarrow> 's \<Rightarrow> 's" where
  "run_calls op [] s = s"
| "run_calls op (c # cs) s = run_calls op cs
     (case op (fst c) (snd c) s of Inl _ \<Rightarrow> s | Inr (_, _, s') \<Rightarrow> s')"

locale receipted =
  fixes op :: "'t \<Rightarrow> 'a \<Rightarrow> 's \<Rightarrow> ('r \<times> bool \<times> 's) result"
    and receipt_of :: "'s \<Rightarrow> 'k \<Rightarrow> 'r option"
    and key_of :: "'a \<Rightarrow> 'k"
    and digest_of :: "'a \<Rightarrow> string"
    and stored_digest :: "'r \<Rightarrow> string"
    and conflict :: exn
  assumes hit: "receipt_of s (key_of a) = Some r \<Longrightarrow>
      op t a s = (if stored_digest r \<noteq> digest_of a then Inl conflict else Inr (r, True, s))"
    and miss: "receipt_of s (key_of a) = None \<Longrightarrow> op t a s = Inr (r, b, s') \<Longrightarrow>
      \<not> b \<and> stored_digest r = digest_of a \<and> receipt_of s' (key_of a) = Some r"
    and frame: "receipt_of s (key_of a) = None \<Longrightarrow> op t a s = Inr (r, b, s') \<Longrightarrow>
      receipt_of s k = Some r0 \<Longrightarrow> receipt_of s' k = Some r0"
begin

lemma receipt_kept:
  assumes "op t a s = Inr (r, b, s')" and "receipt_of s k = Some r0"
  shows "receipt_of s' k = Some r0"
proof (cases "receipt_of s (key_of a)")
  case None
  from frame [OF None assms] show ?thesis .
next
  case (Some x)
  with assms show ?thesis by (auto simp: hit split: if_splits)
qed

lemma receipt_kept_calls:
  "receipt_of s k = Some r0 \<Longrightarrow> receipt_of (run_calls op cs s) k = Some r0"
proof (induction cs arbitrary: s)
  case (Cons c cs)
  show ?case
  proof (cases "op (fst c) (snd c) s")
    case (Inr p)
    obtain r b s' where "p = (r, b, s')" by (cases p)
    with Inr Cons show ?thesis by (auto dest: receipt_kept)
  qed (use Cons in simp)
qed simp

lemma success_receipt:
  assumes "op t a s = Inr (r, b, s')"
  shows "receipt_of s' (key_of a) = Some r" and "stored_digest r = digest_of a"
    and "b \<longleftrightarrow> receipt_of s (key_of a) \<noteq> None" and "b \<Longrightarrow> s' = s"
proof -
  have "receipt_of s' (key_of a) = Some r \<and> stored_digest r = digest_of a \<and>
      (b \<longleftrightarrow> receipt_of s (key_of a) \<noteq> None) \<and> (b \<longrightarrow> s' = s)"
  proof (cases "receipt_of s (key_of a)")
    case None
    with miss [OF None assms] show ?thesis by simp
  next
    case (Some x)
    with assms show ?thesis by (auto simp: hit split: if_splits)
  qed
  then show "receipt_of s' (key_of a) = Some r" "stored_digest r = digest_of a"
      "b \<longleftrightarrow> receipt_of s (key_of a) \<noteq> None" "b \<Longrightarrow> s' = s"
    by simp_all
qed

text \<open>
  Whatever calls come in between, a repetition of a successful call returns its receipt and
  changes nothing, and a call that reuses its key for another request is refused.
\<close>

lemma exactly_once:
  assumes "op t a s = Inr (r, b, s')" and "key_of a' = key_of a"
  shows "op t' a' (run_calls op cs s') =
    (if digest_of a' = digest_of a then Inr (r, True, run_calls op cs s') else Inl conflict)"
proof -
  from success_receipt [OF assms(1)] assms(2)
  have "receipt_of (run_calls op cs s') (key_of a') = Some r" "stored_digest r = digest_of a"
    by (simp_all add: receipt_kept_calls)
  then show ?thesis by (simp add: hit)
qed

end

end
