(* ===== verification/Request_Queue.thy ===== *)
theory Request_Queue
  imports Py_Values Claim_Protocol Idempotency
begin

section \<open>Request queues\<close>

text \<open>
  \<open>apps/api/app/services/request_queues.py\<close> on the tables \<open>control.request_queues\<close>,
  \<open>request_queue_requests\<close>, \<open>request_queue_transitions\<close> and \<open>request_queue_enqueue_receipts\<close>
  of \<open>models.py\<close>: enqueueing under an idempotency key, claiming the oldest waiting request,
  and putting expired claims back.

  The services read a queue through SQLAlchemy's identity map: a \<open>SELECT ... FOR UPDATE\<close> returns
  the object the session already holds, with the attribute values it was loaded with, and a flush
  writes the changed attributes of that object. \<open>identity_get\<close> and \<open>flush_queue\<close> say exactly
  this; the argument \<open>held\<close> is the copy the session holds before the call, if any.
\<close>

subsection \<open>Tables\<close>

datatype rq_status = Rq_PENDING | Rq_CLAIMED | Rq_HANDLED | Rq_FAILED

fun rq_status_str :: "rq_status \<Rightarrow> string" where
  "rq_status_str Rq_PENDING = ''PENDING''"
| "rq_status_str Rq_CLAIMED = ''CLAIMED''"
| "rq_status_str Rq_HANDLED = ''HANDLED''"
| "rq_status_str Rq_FAILED = ''FAILED''"

record request_queue =
  q_id :: uuid
  q_organization_id :: uuid
  q_project_id :: uuid
  q_name :: string
  q_pending_count :: int
  q_claimed_count :: int
  q_handled_count :: int
  q_failed_count :: int
  q_created_by_user_id :: uuid
  q_version :: int
  q_created_at :: instant
  q_updated_at :: instant

record queue_request =
  rq_id :: uuid
  rq_organization_id :: uuid
  rq_project_id :: uuid
  rq_queue_id :: uuid
  rq_request_url :: string
  rq_unique_key :: "string option"
  rq_identity_digest :: string
  rq_user_data :: json
  rq_status :: rq_status
  rq_attempt_count :: int
  rq_max_attempts :: int
  rq_available_at :: instant
  rq_claimed_by :: "string option"
  rq_claim_token :: "uuid option"
  rq_claim_expires_at :: "instant option"
  rq_handled_at :: "instant option"
  rq_failure_code :: "string option"
  rq_failure_summary :: "string option"
  rq_created_by_user_id :: uuid
  rq_version :: int
  rq_created_at :: instant
  rq_updated_at :: instant

record queue_transition =
  qt_id :: uuid
  qt_organization_id :: uuid
  qt_project_id :: uuid
  qt_queue_id :: uuid
  qt_request_id :: uuid
  qt_from_status :: "rq_status option"
  qt_to_status :: rq_status
  qt_reason :: string
  qt_attempt_count :: int
  qt_details :: dict
  qt_created_at :: instant

record enqueue_receipt =
  qr_id :: uuid
  qr_organization_id :: uuid
  qr_project_id :: uuid
  qr_queue_id :: uuid
  qr_request_id :: uuid
  qr_idempotency_key :: string
  qr_request_digest :: string
  qr_identity_digest :: string
  qr_created_by_user_id :: uuid
  qr_created_at :: instant

record queue_db = session +
  queues :: "request_queue list"
  requests :: "queue_request list"
  queue_transitions :: "queue_transition list"
  enqueue_receipts :: "enqueue_receipt list"

text \<open>
  \<open>request_queue_protocol.py: ValidatedQueueEnqueue\<close>; its \<open>request\<close> dictionary has exactly the
  fields below besides the constant schema version.
\<close>

record validated_enqueue =
  vq_idempotency_key :: string
  vq_url :: string
  vq_unique_key :: "string option"
  vq_user_data :: json
  vq_request_digest :: string
  vq_identity_digest :: string

subsection \<open>The session's copy of a queue\<close>

definition identity_get :: "request_queue option \<Rightarrow> uuid \<Rightarrow> request_queue list \<Rightarrow> request_queue option" where
  "identity_get held i t = (case find_by q_id i t of
     None \<Rightarrow> None
   | Some row \<Rightarrow> (case held of
       Some q \<Rightarrow> if q_id q = i then Some q else Some row
     | None \<Rightarrow> Some row))"

definition merge_column :: "int \<Rightarrow> int \<Rightarrow> int \<Rightarrow> int" where
  "merge_column loaded current stored = (if current = loaded then stored else current)"

definition queue_counts :: "request_queue \<Rightarrow> int \<times> int \<times> int \<times> int" where
  "queue_counts q = (q_pending_count q, q_claimed_count q, q_handled_count q, q_failed_count q)"

definition flush_queue :: "instant \<Rightarrow> request_queue \<Rightarrow> request_queue \<Rightarrow> request_queue \<Rightarrow> request_queue" where
  "flush_queue now loaded q row =
     (if queue_counts q = queue_counts loaded then row
      else row\<lparr>
        q_pending_count := merge_column (q_pending_count loaded) (q_pending_count q) (q_pending_count row),
        q_claimed_count := merge_column (q_claimed_count loaded) (q_claimed_count q) (q_claimed_count row),
        q_handled_count := merge_column (q_handled_count loaded) (q_handled_count q) (q_handled_count row),
        q_failed_count := merge_column (q_failed_count loaded) (q_failed_count q) (q_failed_count row),
        q_updated_at := now\<rparr>)"

subsection \<open>Operations\<close>

definition queue_audit ::
  "txn \<Rightarrow> uuid \<Rightarrow> uuid \<Rightarrow> string \<Rightarrow> string \<Rightarrow> string \<Rightarrow> uuid \<Rightarrow> dict \<Rightarrow> queue_db \<Rightarrow> queue_db" where
  "queue_audit tx org proj actor_type actor_id action rid details =
     append_audit_event tx (Some org) (Some proj) actor_type actor_id action
       ''request_queue_request'' (Some (uuid_str rid)) details"

text \<open>\<open>create_request_queue\<close>; the project row gives the tenant.\<close>

definition create_request_queue ::
  "txn \<Rightarrow> uuid \<Rightarrow> uuid \<Rightarrow> uuid \<Rightarrow> string \<Rightarrow> string \<Rightarrow> string \<Rightarrow> queue_db \<Rightarrow>
   (request_queue \<times> queue_db) result" where
  "create_request_queue tx organization_id project_id user_id actor_type actor_id name s =
     (if \<exists>q \<in> set (queues s). q_project_id q = project_id \<and> q_name q = name
      then Inl (ApiError 409 ''REQUEST_QUEUE_ALREADY_EXISTS'')
      else (let q = \<lparr>q_id = next_id s, q_organization_id = organization_id,
                     q_project_id = project_id, q_name = name, q_pending_count = 0,
                     q_claimed_count = 0, q_handled_count = 0, q_failed_count = 0,
                     q_created_by_user_id = user_id, q_version = 1,
                     q_created_at = tx_now tx, q_updated_at = tx_now tx\<rparr>
            in Inr (q, append_audit_event tx (Some organization_id) (Some project_id)
                  actor_type actor_id ''request_queue.created'' ''request_queue''
                  (Some (uuid_str (q_id q))) [(''name'', JStr name)]
                  (s\<lparr>queues := queues s @ [q], next_id := next_id s + 1\<rparr>))))"

text \<open>The keyword arguments of \<open>enqueue_request\<close>; \<open>eq_queue\<close> is the object the route loaded.\<close>

record enqueue_args =
  eq_queue :: request_queue
  eq_user_id :: uuid
  eq_actor_type :: string
  eq_actor_id :: string
  eq_validated :: validated_enqueue

definition find_receipt :: "queue_db \<Rightarrow> uuid \<times> string \<Rightarrow> enqueue_receipt option" where
  "find_receipt s k = find_by (\<lambda>r. (qr_queue_id r, qr_idempotency_key r)) k (enqueue_receipts s)"

definition new_request :: "txn \<Rightarrow> enqueue_args \<Rightarrow> uuid \<Rightarrow> queue_request" where
  "new_request tx a i = (let q = eq_queue a; v = eq_validated a in
     \<lparr>rq_id = i, rq_organization_id = q_organization_id q, rq_project_id = q_project_id q,
      rq_queue_id = q_id q, rq_request_url = vq_url v, rq_unique_key = vq_unique_key v,
      rq_identity_digest = vq_identity_digest v, rq_user_data = vq_user_data v,
      rq_status = Rq_PENDING, rq_attempt_count = 0, rq_max_attempts = 3,
      rq_available_at = tx_now tx, rq_claimed_by = None, rq_claim_token = None,
      rq_claim_expires_at = None, rq_handled_at = None, rq_failure_code = None,
      rq_failure_summary = None, rq_created_by_user_id = eq_user_id a, rq_version = 1,
      rq_created_at = tx_now tx, rq_updated_at = tx_now tx\<rparr>)"

definition new_receipt :: "txn \<Rightarrow> enqueue_args \<Rightarrow> uuid \<Rightarrow> uuid \<Rightarrow> enqueue_receipt" where
  "new_receipt tx a request_id i = (let q = eq_queue a; v = eq_validated a in
     \<lparr>qr_id = i, qr_organization_id = q_organization_id q, qr_project_id = q_project_id q,
      qr_queue_id = q_id q, qr_request_id = request_id,
      qr_idempotency_key = vq_idempotency_key v, qr_request_digest = vq_request_digest v,
      qr_identity_digest = vq_identity_digest v, qr_created_by_user_id = eq_user_id a,
      qr_created_at = tx_now tx\<rparr>)"

definition transition_of ::
  "txn \<Rightarrow> uuid \<Rightarrow> queue_request \<Rightarrow> rq_status option \<Rightarrow> rq_status \<Rightarrow> string \<Rightarrow> dict \<Rightarrow> queue_transition" where
  "transition_of tx i r from_status to_status reason details =
     \<lparr>qt_id = i, qt_organization_id = rq_organization_id r, qt_project_id = rq_project_id r,
      qt_queue_id = rq_queue_id r, qt_request_id = rq_id r, qt_from_status = from_status,
      qt_to_status = to_status, qt_reason = reason, qt_attempt_count = rq_attempt_count r,
      qt_details = details, qt_created_at = tx_now tx\<rparr>"

text \<open>
  \<open>enqueue_request\<close>. The result pairs the receipt with the flag \<open>replayed\<close>. An insert for a
  queue that no longer exists violates the foreign key.
\<close>

definition enqueue_request ::
  "txn \<Rightarrow> enqueue_args \<Rightarrow> queue_db \<Rightarrow> (enqueue_receipt \<times> bool \<times> queue_db) result" where
  "enqueue_request tx a s = (let q = eq_queue a; v = eq_validated a in
     case find_receipt s (q_id q, vq_idempotency_key v) of
       Some existing \<Rightarrow>
         if qr_request_digest existing \<noteq> vq_request_digest v
         then Inl (ApiError 409 ''IDEMPOTENCY_KEY_REUSED'')
         else Inr (existing, True, s)
     | None \<Rightarrow>
         if \<exists>r \<in> set (requests s). rq_queue_id r = q_id q \<and>
              rq_identity_digest r = vq_identity_digest v
         then Inl (ApiError 409 ''REQUEST_QUEUE_DUPLICATE'')
         else if find_by q_id (q_id q) (queues s) = None then Inl IntegrityError
         else (let
             n = next_id s;
             r = new_request tx a n;
             receipt = new_receipt tx a n (n + 1);
             q' = q\<lparr>q_pending_count := q_pending_count q + 1\<rparr>
           in Inr (receipt, False,
             queue_audit tx (q_organization_id q) (q_project_id q) (eq_actor_type a)
               (eq_actor_id a) ''request_queue.request_enqueued'' n
               [(''queue_id'', juuid (q_id q)), (''receipt_id'', juuid (n + 1)),
                (''request_digest'', JStr (vq_request_digest v)),
                (''identity_digest'', JStr (vq_identity_digest v))]
               (s\<lparr>requests := requests s @ [r],
                  enqueue_receipts := enqueue_receipts s @ [receipt],
                  queue_transitions := queue_transitions s @
                    [transition_of tx (n + 2) r None Rq_PENDING ''ENQUEUED'' []],
                  queues := upd_by q_id (q_id q) (flush_queue (tx_now tx) q q') (queues s),
                  next_id := n + 3\<rparr>))))"

definition claim_row :: "instant \<Rightarrow> string \<Rightarrow> uuid \<Rightarrow> instant \<Rightarrow> queue_request \<Rightarrow> queue_request" where
  "claim_row now worker_id token expires_at r =
     r\<lparr>rq_status := Rq_CLAIMED, rq_claimed_by := Some worker_id, rq_claim_token := Some token,
       rq_attempt_count := rq_attempt_count r + 1, rq_claim_expires_at := Some expires_at,
       rq_updated_at := now\<rparr>"

definition claimable :: "txn \<Rightarrow> uuid \<Rightarrow> queue_request \<Rightarrow> bool" where
  "claimable tx queue_id r \<longleftrightarrow> rq_queue_id r = queue_id \<and> rq_status r = Rq_PENDING \<and>
     rq_available_at r \<le> tx_now tx \<and> \<not> tx_locked tx (rq_id r)"

definition claim_next_request ::
  "txn \<Rightarrow> request_queue option \<Rightarrow> uuid \<Rightarrow> string \<Rightarrow> int \<Rightarrow> queue_db \<Rightarrow>
   (queue_request option \<times> queue_db) result" where
  "claim_next_request tx held queue_id worker_id lease_seconds s =
     (if \<not> (1 \<le> lease_seconds \<and> lease_seconds \<le> 300) then Inl ValueError
      else case identity_get held queue_id (queues s) of
        None \<Rightarrow> Inr (None, s)
      | Some q \<Rightarrow> (case first_by (\<lambda>r. (rq_created_at r, rq_id r)) (claimable tx queue_id) (requests s) of
          None \<Rightarrow> Inr (None, s)
        | Some r0 \<Rightarrow> (let
            expires_at = tx_now tx + seconds lease_seconds;
            r = claim_row (tx_now tx) worker_id (next_id s) expires_at r0;
            q' = q\<lparr>q_pending_count := q_pending_count q - 1,
                   q_claimed_count := q_claimed_count q + 1\<rparr>
          in Inr (Some r,
            queue_audit tx (rq_organization_id r) (rq_project_id r) ''worker'' worker_id
              ''request_queue.request_claimed'' (rq_id r)
              [(''queue_id'', juuid (rq_queue_id r)),
               (''attempt_count'', JInt (rq_attempt_count r)),
               (''claim_expires_at'', jtime expires_at)]
              (s\<lparr>requests := upd_by rq_id (rq_id r0)
                   (claim_row (tx_now tx) worker_id (next_id s) expires_at) (requests s),
                 queue_transitions := queue_transitions s @
                   [transition_of tx (next_id s + 1) r (Some Rq_PENDING) Rq_CLAIMED ''CLAIMED''
                      [(''worker_id'', JStr worker_id)]],
                 queues := upd_by q_id queue_id (flush_queue (tx_now tx) q q') (queues s),
                 next_id := next_id s + 2\<rparr>)))))"

definition expire_row :: "instant \<Rightarrow> queue_request \<Rightarrow> queue_request" where
  "expire_row now r = (let target =
       (if rq_attempt_count r \<ge> rq_max_attempts r then Rq_FAILED else Rq_PENDING);
     r' = r\<lparr>rq_status := target, rq_claimed_by := None, rq_claim_token := None,
            rq_claim_expires_at := None, rq_updated_at := now\<rparr>
   in if target = Rq_FAILED
      then r'\<lparr>rq_failure_code := Some ''LEASE_EXPIRED'',
               rq_failure_summary := Some ''Worker lease expired before completion.''\<rparr>
      else r')"

text \<open>One round of the loop of \<open>reclaim_expired_requests\<close>, on the queue object and the tables.\<close>

definition reclaim_one ::
  "txn \<Rightarrow> string \<Rightarrow> queue_request \<Rightarrow> request_queue \<times> queue_db \<Rightarrow> request_queue \<times> queue_db" where
  "reclaim_one tx worker_id r0 qs = (case qs of (q, s) \<Rightarrow> (let
     r = expire_row (tx_now tx) r0;
     target = rq_status r;
     q1 = q\<lparr>q_claimed_count := q_claimed_count q - 1\<rparr>;
     q2 = (if target = Rq_FAILED then q1\<lparr>q_failed_count := q_failed_count q1 + 1\<rparr>
           else q1\<lparr>q_pending_count := q_pending_count q1 + 1\<rparr>)
   in (q2,
     queue_audit tx (rq_organization_id r) (rq_project_id r) ''worker'' worker_id
       (if target = Rq_FAILED then ''request_queue.request_failed''
        else ''request_queue.request_reclaimed'') (rq_id r)
       [(''queue_id'', juuid (rq_queue_id r)), (''attempt_count'', JInt (rq_attempt_count r)),
        (''reason'', JStr ''LEASE_EXPIRED''),
        (''expired_worker_id'', jopt JStr (rq_claimed_by r0))]
       (s\<lparr>requests := upd_by rq_id (rq_id r0) (expire_row (tx_now tx)) (requests s),
          queue_transitions := queue_transitions s @
            [transition_of tx (next_id s) r (Some Rq_CLAIMED) target ''LEASE_EXPIRED'' []],
          next_id := next_id s + 1\<rparr>))))"

definition expired_claim :: "txn \<Rightarrow> uuid \<Rightarrow> queue_request \<Rightarrow> bool" where
  "expired_claim tx queue_id r \<longleftrightarrow> rq_queue_id r = queue_id \<and> rq_status r = Rq_CLAIMED \<and>
     (case rq_claim_expires_at r of None \<Rightarrow> False | Some e \<Rightarrow> e < tx_now tx) \<and>
     \<not> tx_locked tx (rq_id r)"

definition reclaim_expired_requests ::
  "txn \<Rightarrow> request_queue option \<Rightarrow> uuid \<Rightarrow> string \<Rightarrow> queue_db \<Rightarrow> nat \<times> queue_db" where
  "reclaim_expired_requests tx held queue_id worker_id s =
     (case identity_get held queue_id (queues s) of
        None \<Rightarrow> (0, s)
      | Some q \<Rightarrow> (let
          rows = filter (expired_claim tx queue_id) (requests s);
          (q', s') = fold (reclaim_one tx worker_id) rows (q, s)
        in (length rows,
            s'\<lparr>queues := upd_by q_id queue_id (flush_queue (tx_now tx) q q') (queues s')\<rparr>)))"

subsection \<open>Requests follow the claim protocol\<close>

fun rq_phase :: "rq_status \<Rightarrow> phase" where
  "rq_phase Rq_PENDING = Waiting"
| "rq_phase Rq_CLAIMED = Held"
| "rq_phase Rq_HANDLED = Done"
| "rq_phase Rq_FAILED = Done"

definition rq_item :: "queue_request \<Rightarrow> item" where
  "rq_item r = \<lparr>it_phase = rq_phase (rq_status r), it_attempts = rq_attempt_count r,
                it_max = rq_max_attempts r\<rparr>"

lemma rq_phase_iff [simp]:
  "rq_phase st = Waiting \<longleftrightarrow> st = Rq_PENDING"
  "rq_phase st = Held \<longleftrightarrow> st = Rq_CLAIMED"
  by (cases st; simp)+

lemma rq_item_sel [simp]:
  "it_phase (rq_item r) = rq_phase (rq_status r)"
  "it_attempts (rq_item r) = rq_attempt_count r"
  "it_max (rq_item r) = rq_max_attempts r"
  by (simp_all add: rq_item_def)

text \<open>
  The update \<open>complete_worker_queue_request\<close> of \<open>services/worker_request_queue.py\<close> makes on the
  row it completes; the handler is in the theory of the worker queue.
\<close>

definition complete_row ::
  "instant \<Rightarrow> rq_status \<Rightarrow> string option \<Rightarrow> string option \<Rightarrow> queue_request \<Rightarrow> queue_request" where
  "complete_row now target failure_code failure_summary r =
     r\<lparr>rq_status := target, rq_claimed_by := None, rq_claim_token := None,
       rq_claim_expires_at := None, rq_handled_at := Some now,
       rq_failure_code := failure_code, rq_failure_summary := failure_summary,
       rq_updated_at := now\<rparr>"

definition finish_row ::
  "instant \<times> bool \<times> string option \<times> string option \<Rightarrow> queue_request \<Rightarrow> queue_request" where
  "finish_row c r = (case c of (now, ok, fc, fs) \<Rightarrow>
     complete_row now (if ok then Rq_HANDLED else Rq_FAILED) fc fs r)"

interpretation rq: claim_rows rq_id rq_item "\<lambda>(now, w, tok, e). claim_row now w tok e"
  expire_row finish_row
  by unfold_locales
    (auto simp: rq_item_def claim_row_def expire_row_def finish_row_def complete_row_def Let_def)

subsection \<open>Enqueueing is idempotent\<close>

lemma find_receipt_frame [simp]:
  "find_receipt (append_audit_event tx o' p at ai ac rt rid d s) k = find_receipt s k"
  by (simp add: find_receipt_def append_audit_event_def)

interpretation enq: receipted enqueue_request find_receipt
  "\<lambda>a. (q_id (eq_queue a), vq_idempotency_key (eq_validated a))"
  "\<lambda>a. vq_request_digest (eq_validated a)" qr_request_digest
  "ApiError 409 ''IDEMPOTENCY_KEY_REUSED''"
  by unfold_locales
    (auto simp: enqueue_request_def Let_def queue_audit_def new_receipt_def find_receipt_def
      append_audit_event_def find_by_append split: if_splits)

subsection \<open>Invariant of the queue tables\<close>

definition status_count :: "rq_status \<Rightarrow> uuid \<Rightarrow> queue_request list \<Rightarrow> int" where
  "status_count st i t = countp (\<lambda>r. rq_queue_id r = i \<and> rq_status r = st) t"

definition counts_match :: "queue_request list \<Rightarrow> request_queue \<Rightarrow> bool" where
  "counts_match t q \<longleftrightarrow> queue_counts q =
     (status_count Rq_PENDING (q_id q) t, status_count Rq_CLAIMED (q_id q) t,
      status_count Rq_HANDLED (q_id q) t, status_count Rq_FAILED (q_id q) t)"

definition claim_fields_ok :: "queue_request \<Rightarrow> bool" where
  "claim_fields_ok r \<longleftrightarrow> (if rq_status r = Rq_CLAIMED
     then rq_claimed_by r \<noteq> None \<and> rq_claim_token r \<noteq> None \<and> rq_claim_expires_at r \<noteq> None
     else rq_claimed_by r = None \<and> rq_claim_token r = None \<and> rq_claim_expires_at r = None)"

definition request_rows_ok :: "queue_db \<Rightarrow> bool" where
  "request_rows_ok s \<longleftrightarrow> fresh_ids rq_id (requests s) (next_id s) \<and>
     items_ok rq_item (requests s) \<and>
     (\<forall>r \<in> set (requests s). claim_fields_ok r \<and> rq_queue_id r \<in> q_id ` set (queues s))"

definition enqueue_keys_ok :: "queue_db \<Rightarrow> bool" where
  "enqueue_keys_ok s \<longleftrightarrow>
     distinct (map (\<lambda>r. (rq_queue_id r, rq_identity_digest r)) (requests s)) \<and>
     distinct (map (\<lambda>r. (qr_queue_id r, qr_idempotency_key r)) (enqueue_receipts s)) \<and>
     (\<forall>e \<in> set (enqueue_receipts s).
        (qr_request_id e, qr_queue_id e, qr_identity_digest e) \<in>
        (\<lambda>r. (rq_id r, rq_queue_id r, rq_identity_digest r)) ` set (requests s))"

definition queue_inv :: "queue_db \<Rightarrow> bool" where
  "queue_inv s \<longleftrightarrow> fresh_ids q_id (queues s) (next_id s) \<and> request_rows_ok s \<and>
     enqueue_keys_ok s \<and> (\<forall>q \<in> set (queues s). counts_match (requests s) q)"

definition held_current :: "request_queue option \<Rightarrow> queue_db \<Rightarrow> bool" where
  \<comment> \<open>The session holds no copy of the queue, or one that agrees with the stored row.\<close>
  "held_current held s \<longleftrightarrow>
     (case held of None \<Rightarrow> True | Some q \<Rightarrow> find_by q_id (q_id q) (queues s) = Some q)"

lemma queue_invD:
  assumes "queue_inv s"
  shows "fresh_ids q_id (queues s) (next_id s)" and "request_rows_ok s" and "enqueue_keys_ok s"
    and "q \<in> set (queues s) \<Longrightarrow> counts_match (requests s) q"
    and "distinct (map rq_id (requests s))" and "distinct (map q_id (queues s))"
    and "items_ok rq_item (requests s)"
  using assms by (auto simp: queue_inv_def request_rows_ok_def dest: fresh_idsD)

lemma identity_get_current:
  assumes "held_current held s"
  shows "identity_get held i (queues s) = find_by q_id i (queues s)"
  using assms by (auto simp: identity_get_def held_current_def split: option.splits)

lemma queue_id_updates [simp]:
  "q_id (q\<lparr>q_pending_count := a\<rparr>) = q_id q" "q_id (q\<lparr>q_claimed_count := b\<rparr>) = q_id q"
  "q_id (q\<lparr>q_handled_count := c\<rparr>) = q_id q" "q_id (q\<lparr>q_failed_count := d\<rparr>) = q_id q"
  by simp_all

lemma q_id_flush_queue [simp]: "q_id (flush_queue now l q row) = q_id row"
  by (simp add: flush_queue_def)

lemma queue_counts_flush [simp]: "queue_counts (flush_queue now row q row) = queue_counts q"
  by (simp add: flush_queue_def queue_counts_def merge_column_def)

lemma counts_match_flush [simp]:
  "q_id q = q_id row \<Longrightarrow> counts_match t (flush_queue now row q row) \<longleftrightarrow> counts_match t q"
  by (simp add: counts_match_def)

lemma counts_match_sel:
  "counts_match t q \<longleftrightarrow>
     q_pending_count q = status_count Rq_PENDING (q_id q) t \<and>
     q_claimed_count q = status_count Rq_CLAIMED (q_id q) t \<and>
     q_handled_count q = status_count Rq_HANDLED (q_id q) t \<and>
     q_failed_count q = status_count Rq_FAILED (q_id q) t"
  by (simp add: counts_match_def queue_counts_def)

lemma status_count_snoc [simp]:
  "status_count st i (t @ [r]) = status_count st i t +
     of_bool (rq_queue_id r = i \<and> rq_status r = st)"
  by (simp add: status_count_def)

lemma status_count_nonneg [simp]: "0 \<le> status_count st i t"
  by (simp add: status_count_def)

text \<open>A change of status of one row moves that row from one class of its queue to another.\<close>

lemma status_count_upd_by:
  assumes "distinct (map rq_id t)" and "find_by rq_id j t = Some r"
    and "\<And>r. rq_queue_id (f r) = rq_queue_id r"
  shows "status_count st i (upd_by rq_id j f t) = status_count st i t -
     of_bool (rq_queue_id r = i \<and> rq_status r = st) +
     of_bool (rq_queue_id r = i \<and> rq_status (f r) = st)"
  using assms by (simp add: status_count_def countp_upd_by)

lemma row_updates [simp]:
  "rq_id (claim_row now w tok e r) = rq_id r" "rq_queue_id (claim_row now w tok e r) = rq_queue_id r"
  "rq_identity_digest (claim_row now w tok e r) = rq_identity_digest r"
  "rq_status (claim_row now w tok e r) = Rq_CLAIMED"
  "rq_id (expire_row now r) = rq_id r" "rq_queue_id (expire_row now r) = rq_queue_id r"
  "rq_identity_digest (expire_row now r) = rq_identity_digest r"
  "rq_status (expire_row now r) =
     (if rq_attempt_count r \<ge> rq_max_attempts r then Rq_FAILED else Rq_PENDING)"
  "rq_id (complete_row now st fc fs r) = rq_id r"
  "rq_queue_id (complete_row now st fc fs r) = rq_queue_id r"
  "rq_identity_digest (complete_row now st fc fs r) = rq_identity_digest r"
  "rq_status (complete_row now st fc fs r) = st"
  by (simp_all add: claim_row_def expire_row_def complete_row_def Let_def)

lemma claim_fields_updates [simp]:
  "claim_fields_ok (claim_row now w tok e r)"
  "claim_fields_ok (expire_row now r)"
  "st \<noteq> Rq_CLAIMED \<Longrightarrow> claim_fields_ok (complete_row now st fc fs r)"
  by (simp_all add: claim_fields_ok_def claim_row_def expire_row_def complete_row_def Let_def)

subsection \<open>One row moves, one queue object follows\<close>

fun status_field :: "rq_status \<Rightarrow> request_queue \<Rightarrow> int" where
  "status_field Rq_PENDING q = q_pending_count q"
| "status_field Rq_CLAIMED q = q_claimed_count q"
| "status_field Rq_HANDLED q = q_handled_count q"
| "status_field Rq_FAILED q = q_failed_count q"

lemma all_rq_status:
  "(\<forall>st. P st) \<longleftrightarrow> P Rq_PENDING \<and> P Rq_CLAIMED \<and> P Rq_HANDLED \<and> P Rq_FAILED"
proof
  assume P: "P Rq_PENDING \<and> P Rq_CLAIMED \<and> P Rq_HANDLED \<and> P Rq_FAILED"
  show "\<forall>st. P st"
  proof
    fix st show "P st" using P by (cases st) simp_all
  qed
qed simp

lemma counts_match_fields:
  "counts_match t q \<longleftrightarrow> (\<forall>st. status_field st q = status_count st (q_id q) t)"
  by (simp add: all_rq_status counts_match_sel)

definition moved :: "rq_status \<Rightarrow> rq_status \<Rightarrow> request_queue \<Rightarrow> request_queue \<Rightarrow> bool" where
  "moved st st' q q' \<longleftrightarrow> q_id q' = q_id q \<and>
     (\<forall>x. status_field x q' = status_field x q - of_bool (st = x) + of_bool (st' = x))"

definition mid_inv :: "request_queue \<Rightarrow> queue_db \<Rightarrow> bool" where
  \<comment> \<open>The invariant inside a transaction that has not yet flushed its queue object \<open>q\<close>.\<close>
  "mid_inv q s \<longleftrightarrow> fresh_ids q_id (queues s) (next_id s) \<and> request_rows_ok s \<and>
     enqueue_keys_ok s \<and> counts_match (requests s) q \<and>
     (\<forall>q' \<in> set (queues s). q_id q' \<noteq> q_id q \<longrightarrow> counts_match (requests s) q')"

lemma queue_inv_mid: "queue_inv s \<Longrightarrow> find_by q_id i (queues s) = Some q \<Longrightarrow> mid_inv q s"
  by (auto simp: queue_inv_def mid_inv_def dest: find_by_SomeD)

lemma mid_flush:
  assumes "mid_inv q' s" and "find_by q_id i (queues s) = Some q" and "q_id q' = q_id q"
  shows "queue_inv (s\<lparr>queues := upd_by q_id i (flush_queue now q q') (queues s)\<rparr>)"
proof -
  from assms(1) have d: "distinct (map q_id (queues s))" by (auto simp: mid_inv_def dest: fresh_idsD)
  from assms(2) have q: "q \<in> set (queues s)" "q_id q = i" by (auto dest: find_by_SomeD)
  have rows: "request_rows_ok (s\<lparr>queues := upd_by q_id i (flush_queue now q q') (queues s)\<rparr>)"
    using assms(1) unfolding mid_inv_def request_rows_ok_def
    by (simp add: image_upd_by)
  have uniq: "x = q" if "x \<in> set (queues s)" "q_id x = i" for x
    using that d q by (metis find_by_eq_Some_iff option.inject)
  have "\<forall>x \<in> set (upd_by q_id i (flush_queue now q q') (queues s)). counts_match (requests s) x"
  proof -
    have "counts_match (requests s) (if q_id x = i then flush_queue now q q' x else x)"
      if "x \<in> set (queues s)" for x
    proof (cases "q_id x = i")
      case True
      then have "x = q" by (rule uniq [OF that])
      with True assms(1,3) show ?thesis by (simp add: mid_inv_def)
    next
      case False
      with that assms(1,3) q show ?thesis by (simp add: mid_inv_def)
    qed
    then show ?thesis unfolding set_upd_by by (intro ballI) (erule imageE, simp only:)
  qed
  moreover have "fresh_ids q_id (upd_by q_id i (flush_queue now q q') (queues s)) (next_id s)"
    using assms(1) by (simp add: mid_inv_def fresh_ids_upd_by)
  moreover have "enqueue_keys_ok (s\<lparr>queues := upd_by q_id i (flush_queue now q q') (queues s)\<rparr>)"
    using assms(1) by (simp add: mid_inv_def enqueue_keys_ok_def)
  ultimately show ?thesis using rows by (simp add: queue_inv_def)
qed

lemma enqueue_keys_upd_by:
  assumes "enqueue_keys_ok s" and "requests s' = upd_by rq_id j f (requests s)"
    and "enqueue_receipts s' = enqueue_receipts s"
    and "\<And>r. rq_id (f r) = rq_id r" "\<And>r. rq_queue_id (f r) = rq_queue_id r"
      "\<And>r. rq_identity_digest (f r) = rq_identity_digest r"
  shows "enqueue_keys_ok s'"
  using assms unfolding enqueue_keys_ok_def
  by (simp add: map_upd_by image_upd_by)

lemma request_rows_upd_by:
  assumes "request_rows_ok s" and "requests s' = upd_by rq_id j f (requests s)"
    and "queues s' = queues s" and "next_id s \<le> next_id s'"
    and "\<And>r. rq_id (f r) = rq_id r" "\<And>r. rq_queue_id (f r) = rq_queue_id r"
    and "find_by rq_id j (requests s) = Some r" "claim_fields_ok (f r)"
    and "item_step (rq_item r) (rq_item (f r))"
  shows "request_rows_ok s'"
proof -
  have fr: "fresh_ids rq_id (requests s) (next_id s)" and ok: "items_ok rq_item (requests s)"
    using assms(1) by (simp_all add: request_rows_ok_def)
  then have d: "distinct (map rq_id (requests s))" by (auto dest: fresh_idsD)
  have "item_inv (rq_item (f r))"
    using items_ok_find_by [OF ok assms(7)] item_step_inv assms(9) by blast
  then have row: "item_inv (rq_item (f x)) \<and> claim_fields_ok (f x)"
    if "x \<in> set (requests s)" "rq_id x = j" for x
    using that d assms(7,8) by (metis find_by_eq_Some_iff option.inject)
  have "fresh_ids rq_id (requests s') (next_id s')"
    unfolding assms(2) using fr assms(4,5) by (blast intro: fresh_ids_mono fresh_ids_upd_by)
  moreover have "\<forall>x \<in> set (requests s'). item_inv (rq_item x) \<and> claim_fields_ok x \<and>
      rq_queue_id x \<in> q_id ` set (queues s')"
    unfolding assms(2,3) using assms(1,6) row
    by (intro ball_upd_byI) (auto simp: request_rows_ok_def items_ok_def)
  ultimately show ?thesis by (simp add: request_rows_ok_def items_ok_def)
qed

lemma mid_step:
  assumes "mid_inv q s" and "requests s' = upd_by rq_id j f (requests s)"
    and "queues s' = queues s" and "enqueue_receipts s' = enqueue_receipts s"
    and "next_id s \<le> next_id s'"
    and "\<And>r. rq_id (f r) = rq_id r" "\<And>r. rq_queue_id (f r) = rq_queue_id r"
      "\<And>r. rq_identity_digest (f r) = rq_identity_digest r"
    and "find_by rq_id j (requests s) = Some r" "rq_queue_id r = q_id q" "claim_fields_ok (f r)"
    and "item_step (rq_item r) (rq_item (f r))" and "moved (rq_status r) (rq_status (f r)) q q'"
  shows "mid_inv q' s'"
proof -
  from assms(1) have d: "distinct (map rq_id (requests s))"
    by (auto simp: mid_inv_def request_rows_ok_def dest: fresh_idsD)
  note cnt = status_count_upd_by [OF d assms(9) assms(7)]
  have "request_rows_ok s'"
    using request_rows_upd_by [OF _ assms(2,3,5,6,7,9,11,12)] assms(1) by (simp add: mid_inv_def)
  moreover have "enqueue_keys_ok s'"
    using enqueue_keys_upd_by [OF _ assms(2,4,6,7,8)] assms(1) by (simp add: mid_inv_def)
  moreover have "counts_match (requests s') q'"
    using assms(1,10,13) by (simp add: assms(2) cnt counts_match_fields mid_inv_def moved_def)
  moreover have "\<forall>x \<in> set (queues s'). q_id x \<noteq> q_id q' \<longrightarrow> counts_match (requests s') x"
  proof (intro ballI impI)
    fix x
    assume x: "x \<in> set (queues s')" "q_id x \<noteq> q_id q'"
    with assms(13) have ne: "rq_queue_id r \<noteq> q_id x" by (simp add: assms(10) moved_def)
    from x assms(1,3,13) have "counts_match (requests s) x" by (simp add: mid_inv_def moved_def)
    with ne show "counts_match (requests s') x" by (simp add: assms(2) cnt counts_match_fields)
  qed
  moreover have "fresh_ids q_id (queues s') (next_id s')"
    unfolding assms(3) by (rule fresh_ids_mono [OF _ assms(5)]) (use assms(1) in \<open>simp add: mid_inv_def\<close>)
  ultimately show ?thesis by (simp add: mid_inv_def)
qed

subsection \<open>Every operation keeps the invariant\<close>

lemma queue_audit_sel [simp]:
  "queues (queue_audit tx og pr at ai ac rid d s) = queues s"
  "requests (queue_audit tx og pr at ai ac rid d s) = requests s"
  "enqueue_receipts (queue_audit tx og pr at ai ac rid d s) = enqueue_receipts s"
  "queue_transitions (queue_audit tx og pr at ai ac rid d s) = queue_transitions s"
  "next_id (queue_audit tx og pr at ai ac rid d s) = next_id s"
  by (simp_all add: queue_audit_def append_audit_event_def)

lemma queue_inv_cong:
  assumes "queues s' = queues s" and "requests s' = requests s"
    and "enqueue_receipts s' = enqueue_receipts s" and "next_id s' = next_id s"
  shows "queue_inv s' \<longleftrightarrow> queue_inv s"
  using assms by (simp add: queue_inv_def request_rows_ok_def enqueue_keys_ok_def)

lemma mid_flush_to:
  assumes "mid_inv q' s" and "find_by q_id i (queues s) = Some q" and "q_id q' = q_id q"
    and "queues s' = upd_by q_id i (flush_queue now q q') (queues s)"
    and "requests s' = requests s" and "enqueue_receipts s' = enqueue_receipts s"
    and "next_id s' = next_id s"
  shows "queue_inv s'"
proof -
  have "queue_inv s' \<longleftrightarrow> queue_inv (s\<lparr>queues := upd_by q_id i (flush_queue now q q') (queues s)\<rparr>)"
    by (rule queue_inv_cong) (simp_all add: assms(4-7))
  with mid_flush [OF assms(1-3)] show ?thesis by simp
qed

lemma create_request_queue_inv:
  assumes "queue_inv s" and "create_request_queue tx og pr u at ai nm s = Inr (q, s')"
  shows "queue_inv s'"
proof -
  from assms have fr: "fresh_ids q_id (queues s) (next_id s)"
    and rows: "request_rows_ok s" and keys: "enqueue_keys_ok s"
    by (auto dest: queue_invD)
  let ?q = "\<lparr>q_id = next_id s, q_organization_id = og, q_project_id = pr, q_name = nm,
    q_pending_count = 0, q_claimed_count = 0, q_handled_count = 0, q_failed_count = 0,
    q_created_by_user_id = u, q_version = 1, q_created_at = tx_now tx, q_updated_at = tx_now tx\<rparr>"
  from assms(2) have s': "queues s' = queues s @ [?q]" "requests s' = requests s"
      "enqueue_receipts s' = enqueue_receipts s" "next_id s' = next_id s + 1"
    by (auto simp: create_request_queue_def Let_def append_audit_event_def split: if_splits)
  have none: "rq_queue_id r \<noteq> next_id s" if "r \<in> set (requests s)" for r
    using that rows fr by (fastforce simp: request_rows_ok_def fresh_ids_def)
  then have "status_count st (next_id s) (requests s) = 0" for st
    by (simp add: status_count_def countp_def)
  then have "counts_match (requests s) ?q" by (simp add: counts_match_fields all_rq_status)
  moreover have "fresh_ids q_id (queues s') (next_id s')"
    using fr by (simp add: s' fresh_ids_snoc)
  moreover have "request_rows_ok s'"
    using rows by (auto simp: request_rows_ok_def s' intro: fresh_ids_mono)
  moreover have "enqueue_keys_ok s'"
    using keys by (simp add: enqueue_keys_ok_def s')
  ultimately show ?thesis using assms(1) by (auto simp: queue_inv_def s')
qed

lemma rq_item_new [simp]: "item_inv (rq_item (new_request tx a n))"
  by (simp add: item_inv_def new_request_def Let_def)

lemma new_request_sel [simp]:
  "rq_id (new_request tx a n) = n" "rq_queue_id (new_request tx a n) = q_id (eq_queue a)"
  "rq_status (new_request tx a n) = Rq_PENDING" "claim_fields_ok (new_request tx a n)"
  "rq_identity_digest (new_request tx a n) = vq_identity_digest (eq_validated a)"
  by (simp_all add: new_request_def Let_def claim_fields_ok_def)

lemma new_receipt_sel [simp]:
  "qr_queue_id (new_receipt tx a n m) = q_id (eq_queue a)" "qr_request_id (new_receipt tx a n m) = n"
  "qr_idempotency_key (new_receipt tx a n m) = vq_idempotency_key (eq_validated a)"
  "qr_identity_digest (new_receipt tx a n m) = vq_identity_digest (eq_validated a)"
  "qr_request_digest (new_receipt tx a n m) = vq_request_digest (eq_validated a)"
  by (simp_all add: new_receipt_def Let_def)

lemma enqueue_request_cases:
  assumes "enqueue_request tx a s = Inr (e, b, s')"
  obtains (replay) "b" "s' = s" "e \<in> set (enqueue_receipts s)"
  | (new) row where "\<not> b" "find_by q_id (q_id (eq_queue a)) (queues s) = Some row"
      "find_receipt s (q_id (eq_queue a), vq_idempotency_key (eq_validated a)) = None"
      "\<forall>r \<in> set (requests s). \<not> (rq_queue_id r = q_id (eq_queue a) \<and>
         rq_identity_digest r = vq_identity_digest (eq_validated a))"
      "requests s' = requests s @ [new_request tx a (next_id s)]"
      "e = new_receipt tx a (next_id s) (next_id s + 1)"
      "enqueue_receipts s' = enqueue_receipts s @ [e]" "next_id s' = next_id s + 3"
      "queues s' = upd_by q_id (q_id (eq_queue a)) (flush_queue (tx_now tx) (eq_queue a)
         ((eq_queue a)\<lparr>q_pending_count := q_pending_count (eq_queue a) + 1\<rparr>)) (queues s)"
  using assms
  by (auto simp: enqueue_request_def Let_def find_receipt_def split: option.splits if_splits
      dest: find_by_SomeD)

lemma enqueue_request_inv:
  assumes inv: "queue_inv s" and cur: "held_current (Some (eq_queue a)) s"
    and run: "enqueue_request tx a s = Inr (e, b, s')"
  shows "queue_inv s'"
  using run
proof (cases rule: enqueue_request_cases)
  case replay
  with inv show ?thesis by simp
next
  case (new row)
  let ?q = "eq_queue a"
  let ?q' = "?q\<lparr>q_pending_count := q_pending_count ?q + 1\<rparr>"
  let ?s = "s'\<lparr>queues := queues s\<rparr>"
  from cur new have row: "find_by q_id (q_id ?q) (queues s) = Some ?q" by (simp add: held_current_def)
  note d = queue_invD [OF inv]
  have "request_rows_ok ?s"
    using d(2) new row
    by (auto simp: request_rows_ok_def dest!: find_by_SomeD intro: fresh_ids_snoc)
  moreover have "enqueue_keys_ok ?s"
    using d(3) new unfolding enqueue_keys_ok_def find_receipt_def find_by_None_iff
    by (auto simp: image_iff)
  moreover have "counts_match (requests ?s) ?q'"
    using d(4) [of ?q] row new by (auto simp: counts_match_fields all_rq_status dest: find_by_SomeD)
  moreover have "counts_match (requests ?s) x"
    if "x \<in> set (queues s)" "q_id x \<noteq> q_id ?q'" for x
    using d(4) [OF that(1)] that(2) new by (simp add: counts_match_fields)
  moreover have "fresh_ids q_id (queues ?s) (next_id ?s)"
    using d(1) new by (auto intro: fresh_ids_mono)
  ultimately have mid: "mid_inv ?q' ?s" by (simp add: mid_inv_def)
  show ?thesis by (rule mid_flush_to [OF mid, of "q_id ?q" ?q]) (use row new in simp_all)
qed

lemma claim_next_request_cases:
  assumes "claim_next_request tx held i w secs s = Inr (res, s')"
  obtains (idle) "res = None" "s' = s"
      "identity_get held i (queues s) = None \<or> (\<forall>r \<in> set (requests s). \<not> claimable tx i r)"
  | (claimed) q r0 r where "res = Some r" "identity_get held i (queues s) = Some q"
      "1 \<le> secs" "secs \<le> 300"
      "first_by (\<lambda>r. (rq_created_at r, rq_id r)) (claimable tx i) (requests s) = Some r0"
      "r = claim_row (tx_now tx) w (next_id s) (tx_now tx + seconds secs) r0"
      "requests s' = upd_by rq_id (rq_id r0)
         (claim_row (tx_now tx) w (next_id s) (tx_now tx + seconds secs)) (requests s)"
      "queues s' = upd_by q_id i (flush_queue (tx_now tx) q
         (q\<lparr>q_pending_count := q_pending_count q - 1, q_claimed_count := q_claimed_count q + 1\<rparr>))
         (queues s)"
      "enqueue_receipts s' = enqueue_receipts s" "next_id s' = next_id s + 2"
  using assms
  by (auto simp: claim_next_request_def Let_def first_by_None_iff split: option.splits if_splits)

lemma moved_claim:
  "moved Rq_PENDING Rq_CLAIMED q
     (q\<lparr>q_pending_count := q_pending_count q - 1, q_claimed_count := q_claimed_count q + 1\<rparr>)"
  by (simp add: moved_def all_rq_status)

lemma claim_next_request_inv:
  assumes inv: "queue_inv s" and cur: "held_current held s"
    and run: "claim_next_request tx held i w secs s = Inr (res, s')"
  shows "queue_inv s'"
  using run
proof (cases rule: claim_next_request_cases)
  case idle
  with inv show ?thesis by simp
next
  case (claimed q r0 r)
  from claimed(2) have q: "find_by q_id i (queues s) = Some q" by (simp add: identity_get_current [OF cur])
  then have qi: "q_id q = i" by (auto dest: find_by_SomeD)
  from first_by_SomeD [OF claimed(5)] have r0: "r0 \<in> set (requests s)" "claimable tx i r0"
    by simp_all
  with queue_invD(5) [OF inv] have f: "find_by rq_id (rq_id r0) (requests s) = Some r0"
    by (simp add: find_by_eq_Some_iff)
  have step: "item_step (rq_item r0)
      (rq_item (claim_row (tx_now tx) w (next_id s) (tx_now tx + seconds secs) r0))"
    using rq.take_step [of r0 "(tx_now tx, w, next_id s, tx_now tx + seconds secs)"] r0
    by (simp add: claimable_def)
  have "mid_inv (q\<lparr>q_pending_count := q_pending_count q - 1, q_claimed_count := q_claimed_count q + 1\<rparr>)
      (s'\<lparr>queues := queues s\<rparr>)"
    by (rule mid_step [where f = "claim_row (tx_now tx) w (next_id s) (tx_now tx + seconds secs)",
          OF queue_inv_mid [OF inv q] _ _ _ _ _ _ _ f _ _ step])
      (use claimed r0 qi moved_claim in \<open>simp_all add: claimable_def\<close>)
  from mid_flush_to [OF this, of i q s' "tx_now tx"] q claimed(8)
  show ?thesis by simp
qed

lemma reclaim_one_sel [simp]:
  "requests (snd (reclaim_one tx w r qs)) =
     upd_by rq_id (rq_id r) (expire_row (tx_now tx)) (requests (snd qs))"
  "queues (snd (reclaim_one tx w r qs)) = queues (snd qs)"
  "enqueue_receipts (snd (reclaim_one tx w r qs)) = enqueue_receipts (snd qs)"
  "next_id (snd (reclaim_one tx w r qs)) = next_id (snd qs) + 1"
  by (simp_all add: reclaim_one_def Let_def split: prod.splits)

lemma moved_reclaim:
  "moved Rq_CLAIMED (rq_status (expire_row now r)) q (fst (reclaim_one tx w r (q, s)))"
  by (simp add: moved_def all_rq_status reclaim_one_def Let_def)

lemma reclaim_one_mid:
  assumes "mid_inv q s" and "find_by rq_id (rq_id r) (requests s) = Some r"
    and "rq_status r = Rq_CLAIMED" and "rq_queue_id r = q_id q"
  shows "mid_inv (fst (reclaim_one tx w r (q, s))) (snd (reclaim_one tx w r (q, s)))"
  by (rule mid_step [where f = "expire_row (tx_now tx)",
        OF assms(1) _ _ _ _ _ _ _ assms(2) assms(4) _ rq.release_step])
    (use assms(3) moved_reclaim in simp_all)

lemma fold_reclaim:
  assumes "mid_inv q s" and "distinct (map rq_id rows)"
    and "\<forall>r \<in> set rows. find_by rq_id (rq_id r) (requests s) = Some r \<and>
           rq_status r = Rq_CLAIMED \<and> rq_queue_id r = q_id q"
    and "fold (reclaim_one tx w) rows (q, s) = (q', s')"
  shows "mid_inv q' s' \<and> q_id q' = q_id q \<and> queues s' = queues s \<and>
    requests s' = fold (\<lambda>j. upd_by rq_id j (expire_row (tx_now tx))) (map rq_id rows) (requests s)"
  using assms
proof (induction rows arbitrary: q s)
  case (Cons r rows)
  obtain q1 s1 where one: "reclaim_one tx w r (q, s) = (q1, s1)" by (cases "reclaim_one tx w r (q, s)")
  have sel: "requests s1 = upd_by rq_id (rq_id r) (expire_row (tx_now tx)) (requests s)"
      "queues s1 = queues s"
    using reclaim_one_sel [of tx w r "(q, s)"] by (simp_all add: one)
  have q1: "q_id q1 = q_id q" using moved_reclaim [of _ r q tx w s] by (simp add: one moved_def)
  have "mid_inv q1 s1" using reclaim_one_mid [of q s r tx w] Cons.prems by (simp add: one)
  moreover have "\<forall>x \<in> set rows. find_by rq_id (rq_id x) (requests s1) = Some x \<and>
      rq_status x = Rq_CLAIMED \<and> rq_queue_id x = q_id q1"
    using Cons.prems(2,3) by (auto simp: sel q1 find_by_upd_by)
  moreover have "fold (reclaim_one tx w) rows (q1, s1) = (q', s')"
    using Cons.prems(4) by (simp add: one)
  ultimately show ?case using Cons.IH [of q1 s1] Cons.prems(2) by (simp add: sel q1)
qed simp

lemma reclaim_expired_requests_spec:
  assumes inv: "queue_inv s" and cur: "held_current held s"
    and run: "reclaim_expired_requests tx held i w s = (n, s')"
    and ex: "find_by q_id i (queues s) = Some q"
  shows "queue_inv s'" and "n = length (filter (expired_claim tx i) (requests s))"
    and "requests s' =
      map (\<lambda>r. if expired_claim tx i r then expire_row (tx_now tx) r else r) (requests s)"
proof -
  let ?rows = "filter (expired_claim tx i) (requests s)"
  obtain q' s1 where loop: "fold (reclaim_one tx w) ?rows (q, s) = (q', s1)"
    by (cases "fold (reclaim_one tx w) ?rows (q, s)")
  have qi: "q_id q = i" using ex by (auto dest: find_by_SomeD)
  have d: "distinct (map rq_id (requests s))" by (rule queue_invD(5) [OF inv])
  then have dr: "distinct (map rq_id ?rows)" by (simp add: distinct_map_filter)
  have rows: "\<forall>r \<in> set ?rows. find_by rq_id (rq_id r) (requests s) = Some r \<and>
      rq_status r = Rq_CLAIMED \<and> rq_queue_id r = q_id q"
    using d qi by (auto simp: find_by_eq_Some_iff expired_claim_def)
  from run ex loop have s': "n = length ?rows"
      "s' = s1\<lparr>queues := upd_by q_id i (flush_queue (tx_now tx) q q') (queues s1)\<rparr>"
    by (simp_all add: reclaim_expired_requests_def identity_get_current [OF cur])
  from fold_reclaim [OF queue_inv_mid [OF inv ex] dr rows loop]
  have mid: "mid_inv q' s1" "q_id q' = q_id q" "queues s1 = queues s"
    and rq: "requests s1 = fold (\<lambda>j. upd_by rq_id j (expire_row (tx_now tx))) (map rq_id ?rows) (requests s)"
    by simp_all
  show "n = length ?rows" by (rule s'(1))
  show "queue_inv s'" unfolding s'(2) by (rule mid_flush [OF mid(1)]) (use mid ex in simp_all)
  have "rq_id r \<in> rq_id ` set ?rows \<longleftrightarrow> expired_claim tx i r" if "r \<in> set (requests s)" for r
    using that d by (auto simp: inj_on_eq_iff distinct_map)
  then show "requests s' =
      map (\<lambda>r. if expired_claim tx i r then expire_row (tx_now tx) r else r) (requests s)"
    unfolding s'(2) by (simp add: rq fold_upd_by [OF dr] image_iff cong: map_cong)
qed

lemma reclaim_expired_requests_inv:
  assumes "queue_inv s" and "held_current held s"
    and "reclaim_expired_requests tx held i w s = (n, s')"
  shows "queue_inv s'"
proof (cases "find_by q_id i (queues s)")
  case None
  with assms show ?thesis
    by (simp add: reclaim_expired_requests_def identity_get_current [OF assms(2)])
qed (use reclaim_expired_requests_spec(1) [OF assms] in simp)

subsection \<open>Rows move by the protocol\<close>

lemma enqueue_request_evolves:
  "enqueue_request tx a s = Inr (e, b, s') \<Longrightarrow> evolves rq_id rq_item (requests s) (requests s')"
  by (erule enqueue_request_cases) simp_all

lemma claim_next_request_evolves:
  assumes "claim_next_request tx held i w secs s = Inr (res, s')"
    and "distinct (map rq_id (requests s))"
  shows "evolves rq_id rq_item (requests s) (requests s')"
  using assms(1)
proof (cases rule: claim_next_request_cases)
  case (claimed q r0 r)
  from first_by_SomeD [OF claimed(5)] assms(2)
  have "find_by rq_id (rq_id r0) (requests s) = Some r0" "rq_status r0 = Rq_PENDING"
    by (simp_all add: find_by_eq_Some_iff claimable_def)
  then show ?thesis unfolding claimed(7)
    using rq.evolves_take [of "rq_id r0" "requests s"
        "(tx_now tx, w, next_id s, tx_now tx + seconds secs)"] by simp
qed simp

lemma reclaim_expired_requests_evolves:
  assumes "queue_inv s" and "held_current held s"
    and "reclaim_expired_requests tx held i w s = (n, s')"
  shows "evolves rq_id rq_item (requests s) (requests s')"
proof (cases "find_by q_id i (queues s)")
  case None
  with assms show ?thesis
    by (simp add: reclaim_expired_requests_def identity_get_current [OF assms(2)])
next
  case (Some q)
  show ?thesis unfolding reclaim_expired_requests_spec(3) [OF assms Some]
    by (intro evolves_map)
      (auto intro!: r_into_rtranclp [of item_step] rq.release_step simp: expired_claim_def)
qed

subsection \<open>A sample database\<close>

definition sample_tx :: "instant \<Rightarrow> txn" where
  "sample_tx now = \<lparr>tx_now = now, tx_request_id = ''req'', tx_locked = (\<lambda>_. False)\<rparr>"

definition sample_queue :: "int \<Rightarrow> request_queue" where
  "sample_queue n = \<lparr>q_id = 1, q_organization_id = 0, q_project_id = 0, q_name = ''q'',
     q_pending_count = n, q_claimed_count = 0, q_handled_count = 0, q_failed_count = 0,
     q_created_by_user_id = 0, q_version = 1, q_created_at = 0, q_updated_at = 0\<rparr>"

definition sample_args :: "request_queue \<Rightarrow> string \<Rightarrow> enqueue_args" where
  "sample_args q k = \<lparr>eq_queue = q, eq_user_id = 0, eq_actor_type = ''user'', eq_actor_id = ''u'',
     eq_validated = \<lparr>vq_idempotency_key = k, vq_url = ''u'', vq_unique_key = Some k,
       vq_user_data = JNull, vq_request_digest = k, vq_identity_digest = k\<rparr>\<rparr>"

definition sample_db :: queue_db where
  "sample_db = \<lparr>audit_log = [], next_id = 2, queues = [sample_queue 0], requests = [],
     queue_transitions = [], enqueue_receipts = []\<rparr>"

definition db_after :: "(enqueue_receipt \<times> bool \<times> queue_db) result \<Rightarrow> queue_db" where
  "db_after r = (case r of Inl _ \<Rightarrow> sample_db | Inr (_, _, s) \<Rightarrow> s)"

definition sample_db1 :: queue_db where
  "sample_db1 = db_after (enqueue_request (sample_tx 0) (sample_args (sample_queue 0) ''a'') sample_db)"

lemmas sample_defs = sample_tx_def sample_queue_def sample_args_def sample_db_def db_after_def
  sample_db1_def

lemmas queue_run_defs = sample_defs enqueue_request_def claim_next_request_def
  reclaim_expired_requests_def reclaim_one_def find_receipt_def identity_get_def flush_queue_def
  queue_counts_def merge_column_def claimable_def expired_claim_def first_by_def claim_row_def
  expire_row_def new_request_def new_receipt_def seconds_def Let_def

lemmas queue_inv_defs = queue_inv_def request_rows_ok_def enqueue_keys_ok_def fresh_ids_def
  items_ok_def item_inv_def claim_fields_ok_def counts_match_def status_count_def

lemma sample_db1_inv: "queue_inv sample_db1"
  by (simp add: queue_run_defs queue_inv_defs)

subsection \<open>Properties\<close>

text \<open>
  C14: enqueueing is exactly-once. After a successful enqueue, and after any further enqueues in
  between, a repetition with the same idempotency key and digest returns the same receipt as a
  replay and leaves the database alone, and a different request under that key is refused.
\<close>

theorem enqueue_request_exactly_once:
  assumes "enqueue_request tx a s = Inr (receipt, replayed, s')"
    and "q_id (eq_queue a') = q_id (eq_queue a)"
    and "vq_idempotency_key (eq_validated a') = vq_idempotency_key (eq_validated a)"
  shows "enqueue_request tx' a' (run_calls enqueue_request calls s') =
    (if vq_request_digest (eq_validated a') = vq_request_digest (eq_validated a)
     then Inr (receipt, True, run_calls enqueue_request calls s')
     else Inl (ApiError 409 ''IDEMPOTENCY_KEY_REUSED''))"
  using enq.exactly_once [OF assms(1)] assms(2,3) by simp

theorem enqueue_request_exactly_once_witness:
  "\<exists>receipt s'. enqueue_request (sample_tx 0) (sample_args (sample_queue 0) ''a'') sample_db =
       Inr (receipt, False, s') \<and>
     enqueue_request (sample_tx 9) (sample_args (sample_queue 0) ''a'')
       (run_calls enqueue_request [(sample_tx 5, sample_args (sample_queue 1) ''b'')] s') =
     Inr (receipt, True,
       run_calls enqueue_request [(sample_tx 5, sample_args (sample_queue 1) ''b'')] s')"
proof -
  let ?a = "sample_args (sample_queue 0) ''a''"
  have "\<not> isl (enqueue_request (sample_tx 0) ?a sample_db) \<and>
      \<not> fst (snd (projr (enqueue_request (sample_tx 0) ?a sample_db)))"
    by (simp add: queue_run_defs)
  then obtain receipt s' where
    run: "enqueue_request (sample_tx 0) ?a sample_db = Inr (receipt, False, s')"
    by (cases "enqueue_request (sample_tx 0) ?a sample_db") auto
  from enqueue_request_exactly_once [OF run refl refl, of "sample_tx 9"
      "[(sample_tx 5, sample_args (sample_queue 1) ''b'')]"]
  have "enqueue_request (sample_tx 9) ?a
      (run_calls enqueue_request [(sample_tx 5, sample_args (sample_queue 1) ''b'')] s') =
    Inr (receipt, True, run_calls enqueue_request [(sample_tx 5, sample_args (sample_queue 1) ''b'')] s')"
    by (simp only: refl if_True)
  with run show ?thesis by blast
qed

text \<open>
  C15: a claim takes the oldest request. A successful claim returns the claimable request of the
  queue that is smallest by creation time and identifier, leased for the requested number of
  seconds under a token that was not in use, with one more attempt counted; no other request
  changes.
\<close>

theorem claim_next_request_oldest:
  assumes "queue_inv s" and "held_current held s"
    and "claim_next_request tx held i w secs s = Inr (Some r, s')"
  shows "\<exists>r0. find_by rq_id (rq_id r) (requests s) = Some r0 \<and> claimable tx i r0 \<and>
     (\<forall>x. x \<in> set (requests s) \<and> claimable tx i x \<longrightarrow>
        (rq_created_at r0, rq_id r0) \<le> (rq_created_at x, rq_id x)) \<and>
     rq_status r = Rq_CLAIMED \<and> rq_attempt_count r = rq_attempt_count r0 + 1 \<and>
     rq_attempt_count r \<le> rq_max_attempts r \<and>
     rq_claimed_by r = Some w \<and> rq_claim_token r = Some (next_id s) \<and>
     rq_claim_expires_at r = Some (tx_now tx + seconds secs) \<and> 1 \<le> secs \<and> secs \<le> 300 \<and>
     find_by rq_id (rq_id r) (requests s') = Some r \<and>
     (\<forall>j. j \<noteq> rq_id r \<longrightarrow> find_by rq_id j (requests s') = find_by rq_id j (requests s))"
  using assms(3)
proof (cases rule: claim_next_request_cases)
  case (claimed q r0 r')
  from first_by_SomeD [OF claimed(5)] have r0: "r0 \<in> set (requests s)" "claimable tx i r0"
    "\<forall>x \<in> set (requests s). claimable tx i x \<longrightarrow> (rq_created_at r0, rq_id r0) \<le> (rq_created_at x, rq_id x)"
    by blast+
  have f: "find_by rq_id (rq_id r0) (requests s) = Some r0"
    using r0(1) queue_invD(5) [OF assms(1)] by (simp add: find_by_eq_Some_iff)
  have att: "rq_attempt_count r0 < rq_max_attempts r0"
    using items_ok_find_by [OF queue_invD(7) [OF assms(1)] f] r0(2)
    by (simp add: item_inv_def claimable_def)
  have r: "r = claim_row (tx_now tx) w (next_id s) (tx_now tx + seconds secs) r0"
    using claimed(1,6) by simp
  show ?thesis
    by (rule exI [of _ r0])
      (use r0 f att claimed(3,4) in \<open>simp add: r claimed(7) find_by_upd_by claim_row_def\<close>)
qed simp

theorem claim_next_request_oldest_witness:
  "\<exists>r s' r0. claim_next_request (sample_tx 9) None 1 ''w'' 60 sample_db1 = Inr (Some r, s') \<and>
     find_by rq_id (rq_id r) (requests sample_db1) = Some r0 \<and> rq_attempt_count r = rq_attempt_count r0 + 1"
proof -
  let ?c = "claim_next_request (sample_tx 9) None 1 ''w'' 60 sample_db1"
  have "\<not> isl ?c \<and> fst (projr ?c) \<noteq> None" by (simp add: queue_run_defs)
  then obtain r s' where run: "?c = Inr (Some r, s')" by (cases ?c) auto
  have "held_current None sample_db1" by (simp add: held_current_def)
  from claim_next_request_oldest [OF sample_db1_inv this run] run show ?thesis by blast
qed


definition sample_db2 :: queue_db where
  "sample_db2 = snd (projr (claim_next_request (sample_tx 9) None 1 ''w'' 60 sample_db1))"



end
