(* ===== verification/Webhooks.thy ===== *)
theory Webhooks
  imports Py_Values Claim_Protocol
begin

section \<open>Webhook deliveries\<close>

text \<open>
  \<open>apps/api/app/services/webhook_deliveries.py\<close> and the state-changing part of
  \<open>services/webhook_destinations.py\<close> that does not encrypt, on the tables \<open>control.events\<close>,
  \<open>webhook_destinations\<close>, \<open>webhook_delivery_attempts\<close> and \<open>webhook_delivery_transitions\<close>.
  The digest \<open>sha256\<close> and the random claim token are arguments. The row predicates
  \<open>destination_ok\<close> and \<open>delivery_ok\<close> are the \<open>CHECK\<close> constraints of the migrations 0031 to 0033:
  that they are invariant means that no handler fails on them.
\<close>

subsection \<open>Tables\<close>

datatype wd_status = Wd_PENDING | Wd_CLAIMED | Wd_RETRY_WAIT | Wd_SUCCEEDED | Wd_DEAD_LETTERED
  | Wd_CANCELLED

datatype dest_status = Ds_PENDING_VERIFICATION | Ds_ACTIVE | Ds_DISABLED

record event =
  ev_id :: uuid
  ev_organization_id :: uuid
  ev_project_id :: uuid
  ev_event_type :: string
  ev_schema_version :: string
  ev_subject_type :: string
  ev_subject_id :: uuid
  ev_payload :: dict
  ev_payload_digest :: string
  ev_emitter :: string
  ev_request_id :: string
  ev_occurred_at :: instant
  ev_created_at :: instant

record destination =
  de_id :: uuid
  de_organization_id :: uuid
  de_project_id :: uuid
  de_name :: string
  de_endpoint_url :: string
  de_endpoint_origin :: string
  de_event_types :: "string list"
  de_status :: dest_status
  de_verified_at :: "instant option"
  de_consecutive_failure_count :: int
  de_failure_threshold :: int
  de_disabled_reason :: "string option"
  de_signing_secret_id :: uuid
  de_signing_secret_version :: int
  de_created_by_user_id :: uuid
  de_updated_by_user_id :: uuid
  de_version :: int
  de_created_at :: instant
  de_updated_at :: instant

record delivery =
  wd_id :: uuid
  wd_organization_id :: uuid
  wd_project_id :: uuid
  wd_destination_id :: uuid
  wd_event_id :: uuid
  wd_endpoint_url :: string
  wd_signing_secret_id :: uuid
  wd_signing_secret_version :: int
  wd_status :: wd_status
  wd_attempt_count :: int
  wd_max_attempts :: int
  wd_available_at :: instant
  wd_claim_token_digest :: "string option"
  wd_claimed_by :: "string option"
  wd_claim_expires_at :: "instant option"
  wd_last_error_code :: "string option"
  wd_last_http_status :: "int option"
  wd_completed_at :: "instant option"
  wd_replay_count :: int
  wd_last_replayed_at :: "instant option"
  wd_last_replay_key_digest :: "string option"
  wd_replay_requested_by_user_id :: "uuid option"
  wd_version :: int
  wd_created_at :: instant
  wd_updated_at :: instant

record delivery_transition =
  wt_organization_id :: uuid
  wt_project_id :: uuid
  wt_delivery_id :: uuid
  wt_sequence :: int
  wt_from_status :: "wd_status option"
  wt_to_status :: wd_status
  wt_reason_code :: string
  wt_attempt_count :: int
  wt_created_at :: instant

record webhook_db = session +
  events :: "event list"
  destinations :: "destination list"
  deliveries :: "delivery list"
  delivery_transitions :: "delivery_transition list"

definition not_found :: exn where
  "not_found = ApiError 404 ''RESOURCE_NOT_FOUND''"

subsection \<open>Helpers\<close>

definition validate_idempotency_key :: "string \<Rightarrow> unit result" where
  "validate_idempotency_key k =
     guard (8 \<le> length k \<and> length k \<le> 200) (ApiError 400 ''INVALID_REQUEST'')"

definition claim_digest :: "(string \<Rightarrow> string) \<Rightarrow> string \<Rightarrow> string result" where
  "claim_digest sha256 token =
     (if \<exists>c \<in> set token. (of_char c :: nat) \<ge> 128 then Inl ValueError else Inr (sha256 token))"

definition wt_sequences :: "uuid \<Rightarrow> delivery_transition list \<Rightarrow> int list" where
  "wt_sequences i t = map wt_sequence (filter (\<lambda>x. wt_delivery_id x = i) t)"

definition latest_sequence :: "uuid \<Rightarrow> delivery_transition list \<Rightarrow> int" where
  \<comment> \<open>\<open>int(SELECT max(sequence) ... or 0)\<close>\<close>
  "latest_sequence i t = max_sequence (wt_sequences i t)"

definition append_transition ::
  "txn \<Rightarrow> delivery \<Rightarrow> wd_status option \<Rightarrow> string \<Rightarrow> webhook_db \<Rightarrow> webhook_db" where
  "append_transition tx d from_status reason s =
     s\<lparr>delivery_transitions := delivery_transitions s @
       [\<lparr>wt_organization_id = wd_organization_id d, wt_project_id = wd_project_id d,
         wt_delivery_id = wd_id d,
         wt_sequence = latest_sequence (wd_id d) (delivery_transitions s) + 1,
         wt_from_status = from_status, wt_to_status = wd_status d, wt_reason_code = reason,
         wt_attempt_count = wd_attempt_count d, wt_created_at = tx_now tx\<rparr>]\<rparr>"

definition put_delivery :: "delivery \<Rightarrow> webhook_db \<Rightarrow> webhook_db" where
  "put_delivery d s = s\<lparr>deliveries := upd_by wd_id (wd_id d) (\<lambda>_. d) (deliveries s)\<rparr>"

definition put_destination :: "destination \<Rightarrow> webhook_db \<Rightarrow> webhook_db" where
  "put_destination d s = s\<lparr>destinations := upd_by de_id (de_id d) (\<lambda>_. d) (destinations s)\<rparr>"

subsection \<open>Enqueueing\<close>

definition new_delivery :: "txn \<Rightarrow> destination \<Rightarrow> uuid \<Rightarrow> uuid \<Rightarrow> int \<Rightarrow> uuid \<Rightarrow> delivery" where
  "new_delivery tx dest project_id event_id max_attempts i =
     \<lparr>wd_id = i, wd_organization_id = de_organization_id dest, wd_project_id = project_id,
      wd_destination_id = de_id dest, wd_event_id = event_id,
      wd_endpoint_url = de_endpoint_url dest, wd_signing_secret_id = de_signing_secret_id dest,
      wd_signing_secret_version = de_signing_secret_version dest, wd_status = Wd_PENDING,
      wd_attempt_count = 0, wd_max_attempts = max_attempts, wd_available_at = tx_now tx,
      wd_claim_token_digest = None, wd_claimed_by = None, wd_claim_expires_at = None,
      wd_last_error_code = None, wd_last_http_status = None, wd_completed_at = None,
      wd_replay_count = 0, wd_last_replayed_at = None, wd_last_replay_key_digest = None,
      wd_replay_requested_by_user_id = None, wd_version = 1, wd_created_at = tx_now tx,
      wd_updated_at = tx_now tx\<rparr>"

definition enqueue_webhook_delivery ::
  "txn \<Rightarrow> uuid \<Rightarrow> uuid \<Rightarrow> uuid \<Rightarrow> int \<Rightarrow> webhook_db \<Rightarrow> (delivery \<times> webhook_db) result" where
  "enqueue_webhook_delivery tx project_id destination_id event_id max_attempts s =
     (if \<not> (1 \<le> max_attempts \<and> max_attempts \<le> 8) then Inl ValueError
      else case find_by (\<lambda>d. (wd_destination_id d, wd_event_id d)) (destination_id, event_id)
                  (deliveries s) of
        Some existing \<Rightarrow> Inr (existing, s)
      | None \<Rightarrow>
         (case (List.find (\<lambda>d. de_id d = destination_id \<and> de_project_id d = project_id \<and>
                       de_status d \<in> {Ds_PENDING_VERIFICATION, Ds_ACTIVE}) (destinations s),
                List.find (\<lambda>e. ev_id e = event_id \<and> ev_project_id e = project_id) (events s)) of
            (Some dest, Some ev) \<Rightarrow>
              if ev_event_type ev \<notin> set (de_event_types dest) then Inl not_found
              else (let d = new_delivery tx dest project_id event_id max_attempts (next_id s)
                    in Inr (d, append_transition tx d None ''ENQUEUED''
                         (s\<lparr>deliveries := deliveries s @ [d], next_id := next_id s + 1\<rparr>)))
          | _ \<Rightarrow> Inl not_found))"

fun enqueue_all ::
  "txn \<Rightarrow> uuid \<Rightarrow> uuid \<Rightarrow> destination list \<Rightarrow> webhook_db \<Rightarrow> (delivery list \<times> webhook_db) result" where
  "enqueue_all tx project_id event_id [] s = Inr ([], s)"
| "enqueue_all tx project_id event_id (dest # rest) s =
     bind_result (enqueue_webhook_delivery tx project_id (de_id dest) event_id 5 s) (\<lambda>(d, s1).
     bind_result (enqueue_all tx project_id event_id rest s1) (\<lambda>(ds, s2). Inr (d # ds, s2)))"

definition enqueue_matching_webhook_deliveries ::
  "txn \<Rightarrow> event \<Rightarrow> webhook_db \<Rightarrow> (delivery list \<times> webhook_db) result" where
  "enqueue_matching_webhook_deliveries tx ev s =
     enqueue_all tx (ev_project_id ev) (ev_id ev)
       (filter (\<lambda>d. de_project_id d = ev_project_id ev \<and> de_status d = Ds_ACTIVE \<and>
                    ev_event_type ev \<in> set (de_event_types d)) (destinations s)) s"

subsection \<open>Reading\<close>

definition get_webhook_delivery :: "uuid \<Rightarrow> uuid \<Rightarrow> webhook_db \<Rightarrow> delivery result" where
  "get_webhook_delivery project_id delivery_id s =
     (case List.find (\<lambda>d. wd_id d = delivery_id \<and> wd_project_id d = project_id) (deliveries s) of
        None \<Rightarrow> Inl not_found | Some d \<Rightarrow> Inr d)"

definition list_webhook_delivery_transitions ::
  "uuid \<Rightarrow> uuid \<Rightarrow> webhook_db \<Rightarrow> delivery_transition list result" where
  "list_webhook_delivery_transitions project_id delivery_id s =
     bind_result (get_webhook_delivery project_id delivery_id s) (\<lambda>_.
       Inr (sort_key wt_sequence
         (filter (\<lambda>t. wt_delivery_id t = delivery_id) (delivery_transitions s))))"

subsection \<open>Claiming\<close>

definition lower_alnum :: "char \<Rightarrow> bool" where
  "lower_alnum c \<longleftrightarrow> (let n = of_char c :: nat in (97 \<le> n \<and> n \<le> 122) \<or> (48 \<le> n \<and> n \<le> 57))"

definition worker_id_ok :: "string \<Rightarrow> bool" where
  \<comment> \<open>\<open>re.fullmatch\<close> of \<open>[a-z0-9][a-z0-9._-]{0,63}\<close>\<close>
  "worker_id_ok w = (case w of [] \<Rightarrow> False
     | c # cs \<Rightarrow> lower_alnum c \<and> length cs \<le> 63 \<and>
         (\<forall>x \<in> set cs. lower_alnum x \<or> x \<in> set ''._-''))"

definition wd_claimable :: "txn \<Rightarrow> uuid \<Rightarrow> webhook_db \<Rightarrow> delivery \<Rightarrow> bool" where
  "wd_claimable tx project_id s d \<longleftrightarrow> wd_project_id d = project_id \<and> \<not> tx_locked tx (wd_id d) \<and>
     (case find_by de_id (wd_destination_id d) (destinations s) of
        None \<Rightarrow> False
      | Some dest \<Rightarrow>
          (wd_status d \<in> {Wd_PENDING, Wd_RETRY_WAIT} \<and> wd_available_at d \<le> tx_now tx \<and>
             de_status dest \<in> {Ds_PENDING_VERIFICATION, Ds_ACTIVE}) \<or>
          (wd_status d = Wd_CLAIMED \<and>
             (case wd_claim_expires_at d of None \<Rightarrow> False | Some e \<Rightarrow> e \<le> tx_now tx)))"

definition wd_expire :: "instant \<Rightarrow> delivery \<Rightarrow> delivery" where
  "wd_expire now d = (let st = (if wd_attempt_count d \<ge> wd_max_attempts d then Wd_DEAD_LETTERED
                                else Wd_RETRY_WAIT)
     in d\<lparr>wd_status := st, wd_claim_token_digest := None, wd_claimed_by := None,
          wd_claim_expires_at := None, wd_last_error_code := Some ''CLAIM_EXPIRED'',
          wd_completed_at := (if st = Wd_DEAD_LETTERED then Some now else None),
          wd_available_at := now, wd_version := wd_version d + 1, wd_updated_at := now\<rparr>)"

definition count_failure :: "instant \<Rightarrow> destination \<Rightarrow> destination" where
  "count_failure now dest = (let
       n = min (de_failure_threshold dest) (de_consecutive_failure_count dest + 1);
       d1 = dest\<lparr>de_consecutive_failure_count := n\<rparr>;
       d2 = (if n \<ge> de_failure_threshold dest
             then d1\<lparr>de_status := Ds_DISABLED, de_disabled_reason := Some ''AUTO_FAILURE_THRESHOLD''\<rparr>
             else d1)
     in d2\<lparr>de_version := de_version dest + 1, de_updated_at := now\<rparr>)"

definition wd_take :: "instant \<Rightarrow> string \<Rightarrow> string \<Rightarrow> int \<Rightarrow> delivery \<Rightarrow> delivery" where
  "wd_take now worker_id digest lease_seconds d =
     d\<lparr>wd_status := Wd_CLAIMED, wd_claimed_by := Some worker_id,
       wd_claim_token_digest := Some digest,
       wd_claim_expires_at := Some (now + seconds lease_seconds),
       wd_attempt_count := wd_attempt_count d + 1, wd_version := wd_version d + 1,
       wd_updated_at := now\<rparr>"

definition expire_claim :: "txn \<Rightarrow> delivery \<Rightarrow> webhook_db \<Rightarrow> delivery \<times> webhook_db" where
  \<comment> \<open>The branch of \<open>claim_webhook_delivery\<close> for a claim that has expired.\<close>
  "expire_claim tx d s = (let
     d' = wd_expire (tx_now tx) d;
     s1 = append_transition tx d' (Some (wd_status d)) ''CLAIM_EXPIRED'' (put_delivery d' s);
     s2 = (if wd_status d' = Wd_DEAD_LETTERED
           then (case find_by de_id (wd_destination_id d') (destinations s1) of
                   None \<Rightarrow> s1
                 | Some dest \<Rightarrow> if de_status dest \<noteq> Ds_DISABLED
                     then put_destination (count_failure (tx_now tx) dest) s1 else s1)
           else s1)
   in (d', s2))"

definition take_claim ::
  "(string \<Rightarrow> string) \<Rightarrow> txn \<Rightarrow> string \<Rightarrow> string \<Rightarrow> int \<Rightarrow> delivery \<Rightarrow> webhook_db \<Rightarrow>
   ((delivery \<times> string) option \<times> webhook_db) result" where
  "take_claim sha256 tx token worker_id lease_seconds d s =
     bind_result (claim_digest sha256 token) (\<lambda>digest.
       let d' = wd_take (tx_now tx) worker_id digest lease_seconds d
       in Inr (Some (d', token),
            append_transition tx d' (Some (wd_status d)) ''CLAIMED'' (put_delivery d' s)))"

definition claim_webhook_delivery ::
  "(string \<Rightarrow> string) \<Rightarrow> txn \<Rightarrow> string \<Rightarrow> uuid \<Rightarrow> string \<Rightarrow> int \<Rightarrow> webhook_db \<Rightarrow>
   ((delivery \<times> string) option \<times> webhook_db) result" where
  "claim_webhook_delivery sha256 tx token project_id worker_id lease_seconds s =
     (if \<not> (15 \<le> lease_seconds \<and> lease_seconds \<le> 120) \<or> \<not> worker_id_ok worker_id
      then Inl ValueError
      else case first_by (\<lambda>d. (wd_available_at d, wd_created_at d, wd_id d))
                  (wd_claimable tx project_id s) (deliveries s) of
        None \<Rightarrow> Inr (None, s)
      | Some d \<Rightarrow>
          if wd_status d = Wd_CLAIMED
          then (case expire_claim tx d s of (d', s') \<Rightarrow>
                  if wd_status d' = Wd_DEAD_LETTERED then Inr (None, s')
                  else take_claim sha256 tx token worker_id lease_seconds d' s')
          else take_claim sha256 tx token worker_id lease_seconds d s)"

subsection \<open>Completing\<close>

definition retry_delay :: "int \<Rightarrow> int" where
  "retry_delay attempt_count = min 3600 (2 ^ nat (min attempt_count 10) * 5)"

definition wd_close :: "instant \<Rightarrow> bool \<Rightarrow> int option \<Rightarrow> string option \<Rightarrow> delivery \<Rightarrow> delivery \<times> string" where
  "wd_close now succeeded http_status error_code d = (let
     (d1, reason) =
       (if succeeded then (d\<lparr>wd_status := Wd_SUCCEEDED, wd_completed_at := Some now\<rparr>, ''DELIVERED'')
        else if wd_attempt_count d \<ge> wd_max_attempts d
        then (d\<lparr>wd_status := Wd_DEAD_LETTERED, wd_completed_at := Some now\<rparr>, ''ATTEMPTS_EXHAUSTED'')
        else (d\<lparr>wd_status := Wd_RETRY_WAIT,
                wd_available_at := now + seconds (retry_delay (wd_attempt_count d))\<rparr>,
              ''RETRY_SCHEDULED''))
   in (d1\<lparr>wd_last_http_status := http_status, wd_last_error_code := error_code,
          wd_claimed_by := None, wd_claim_expires_at := None, wd_claim_token_digest := None,
          wd_version := wd_version d + 1, wd_updated_at := now\<rparr>, reason))"

definition mark_delivered :: "instant \<Rightarrow> destination \<Rightarrow> destination" where
  "mark_delivered now dest =
     dest\<lparr>de_status := Ds_ACTIVE, de_verified_at := Some (or_else (de_verified_at dest) now),
          de_consecutive_failure_count := 0, de_disabled_reason := None,
          de_version := de_version dest + 1, de_updated_at := now\<rparr>"

text \<open>The claim the caller presents: status, digest of the token, and expiry.\<close>

definition claim_live :: "instant \<Rightarrow> string \<Rightarrow> delivery \<Rightarrow> bool" where
  "claim_live now digest d \<longleftrightarrow> wd_status d = Wd_CLAIMED \<and> wd_claim_token_digest d = Some digest \<and>
     (case wd_claim_expires_at d of None \<Rightarrow> False | Some e \<Rightarrow> now < e)"

definition fenced :: exn where
  "fenced = ApiError 409 ''WEBHOOK_CLAIM_FENCED''"

definition http_status_ok :: "int option \<Rightarrow> bool" where
  \<comment> \<open>\<open>ck_webhook_delivery_http_status\<close>\<close>
  "http_status_ok h = (case h of None \<Rightarrow> True | Some n \<Rightarrow> 100 \<le> n \<and> n \<le> 599)"

definition complete_webhook_delivery ::
  "(string \<Rightarrow> string) \<Rightarrow> txn \<Rightarrow> uuid \<Rightarrow> string \<Rightarrow> bool \<Rightarrow> int option \<Rightarrow> string option \<Rightarrow> webhook_db \<Rightarrow>
   (delivery \<times> webhook_db) result" where
  "complete_webhook_delivery sha256 tx delivery_id claim_token succeeded http_status error_code s =
     (case find_by wd_id delivery_id (deliveries s) of
        None \<Rightarrow> Inl fenced
      | Some d \<Rightarrow>
          if wd_status d \<noteq> Wd_CLAIMED then Inl fenced
          else bind_result (claim_digest sha256 claim_token) (\<lambda>digest.
            if \<not> claim_live (tx_now tx) digest d then Inl fenced
            else case find_by de_id (wd_destination_id d) (destinations s) of
              None \<Rightarrow> Inl fenced
            | Some dest \<Rightarrow>
                if de_status dest \<notin> {Ds_PENDING_VERIFICATION, Ds_ACTIVE} then Inl fenced
                else if \<not> http_status_ok http_status then Inl IntegrityError
                else (case wd_close (tx_now tx) succeeded http_status error_code d of
                  (d', reason) \<Rightarrow> (let
                    s1 = append_transition tx d' (Some (wd_status d)) reason (put_delivery d' s);
                    s2 = (if succeeded then put_destination (mark_delivered (tx_now tx) dest) s1
                          else if wd_status d' = Wd_DEAD_LETTERED
                          then put_destination (count_failure (tx_now tx) dest) s1
                          else s1)
                  in Inr (d', s2)))))"

subsection \<open>Replaying\<close>

definition wd_replay :: "instant \<Rightarrow> string \<Rightarrow> uuid \<Rightarrow> delivery \<Rightarrow> delivery" where
  "wd_replay now key_digest user_id d =
     d\<lparr>wd_status := Wd_PENDING, wd_attempt_count := 0, wd_available_at := now,
       wd_claim_token_digest := None, wd_claimed_by := None, wd_claim_expires_at := None,
       wd_last_error_code := None, wd_last_http_status := None, wd_completed_at := None,
       wd_replay_count := wd_replay_count d + 1, wd_last_replayed_at := Some now,
       wd_last_replay_key_digest := Some key_digest,
       wd_replay_requested_by_user_id := Some user_id, wd_updated_at := now,
       wd_version := wd_version d + 1\<rparr>"

definition reenable :: "instant \<Rightarrow> destination \<Rightarrow> destination" where
  "reenable now dest = (if de_status dest = Ds_DISABLED
     then dest\<lparr>de_status := (if de_verified_at dest \<noteq> None then Ds_ACTIVE else Ds_PENDING_VERIFICATION),
               de_consecutive_failure_count := 0, de_disabled_reason := None,
               de_version := de_version dest + 1, de_updated_at := now\<rparr>
     else dest)"

definition replay_configuration_ok :: "delivery \<Rightarrow> destination \<Rightarrow> bool" where
  "replay_configuration_ok d dest \<longleftrightarrow>
     de_disabled_reason dest \<in> {None, Some ''AUTO_FAILURE_THRESHOLD''} \<and>
     de_endpoint_url dest = wd_endpoint_url d \<and>
     de_signing_secret_id dest = wd_signing_secret_id d \<and>
     de_signing_secret_version dest = wd_signing_secret_version d"

definition replay_webhook_delivery ::
  "(string \<Rightarrow> string) \<Rightarrow> txn \<Rightarrow> uuid \<Rightarrow> uuid \<Rightarrow> int \<Rightarrow> string \<Rightarrow> uuid \<Rightarrow> string \<Rightarrow> string \<Rightarrow> webhook_db \<Rightarrow>
   (delivery \<times> webhook_db) result" where
  "replay_webhook_delivery sha256 tx project_id delivery_id expected_version idempotency_key
       user_id actor_type actor_id s =
     bind_result (validate_idempotency_key idempotency_key) (\<lambda>_.
     case List.find (\<lambda>d. wd_id d = delivery_id \<and> wd_project_id d = project_id) (deliveries s) of
       None \<Rightarrow> Inl not_found
     | Some d \<Rightarrow>
         if wd_last_replay_key_digest d = Some (sha256 idempotency_key) then Inr (d, s)
         else if wd_version d \<noteq> expected_version then Inl (ApiError 409 ''VERSION_CONFLICT'')
         else if wd_status d \<noteq> Wd_DEAD_LETTERED then Inl (ApiError 409 ''WEBHOOK_REPLAY_INVALID'')
         else (case find_by de_id (wd_destination_id d) (destinations s) of
           None \<Rightarrow> Inl (ApiError 409 ''WEBHOOK_REPLAY_CONFIGURATION_CHANGED'')
         | Some dest \<Rightarrow>
             if \<not> replay_configuration_ok d dest
             then Inl (ApiError 409 ''WEBHOOK_REPLAY_CONFIGURATION_CHANGED'')
             else (let
               d' = wd_replay (tx_now tx) (sha256 idempotency_key) user_id d;
               s1 = put_delivery d' (put_destination (reenable (tx_now tx) dest) s);
               s2 = append_transition tx d' (Some (wd_status d)) ''MANUAL_REPLAY'' s1
             in Inr (d', append_audit_event tx (Some (wd_organization_id d'))
                  (Some (wd_project_id d')) actor_type actor_id ''webhook.delivery.replayed''
                  ''webhook_delivery'' (Some (uuid_str (wd_id d')))
                  [(''destination_id'', juuid (wd_destination_id d')),
                   (''replay_count'', JInt (wd_replay_count d'))] s2))))"

subsection \<open>Destinations\<close>

text \<open>
  The routes load the destination and pass it as \<open>record\<close>; the following \<open>SELECT ... FOR UPDATE\<close>
  returns that same object, so the version check reads the version the route saw.
\<close>

definition disable_row :: "instant \<Rightarrow> uuid \<Rightarrow> destination \<Rightarrow> destination \<Rightarrow> destination" where
  "disable_row now user_id r row =
     row\<lparr>de_status := (if de_status r = Ds_DISABLED then de_status row else Ds_DISABLED),
         de_disabled_reason := (if de_disabled_reason r = Some ''OPERATOR_DISABLED''
            then de_disabled_reason row else Some ''OPERATOR_DISABLED''),
         de_version := de_version r + 1,
         de_updated_by_user_id := (if de_updated_by_user_id r = user_id
            then de_updated_by_user_id row else user_id),
         de_updated_at := now\<rparr>"

definition disable_webhook_destination ::
  "txn \<Rightarrow> destination \<Rightarrow> uuid \<Rightarrow> int \<Rightarrow> string \<Rightarrow> string \<Rightarrow> webhook_db \<Rightarrow> (destination \<times> webhook_db) result" where
  "disable_webhook_destination tx r user_id expected_version actor_type actor_id s =
     (if \<not> (\<exists>d \<in> set (destinations s). de_id d = de_id r \<and> de_project_id d = de_project_id r)
      then Inl not_found
      else if de_version r \<noteq> expected_version then Inl (ApiError 409 ''VERSION_CONFLICT'')
      else Inr (disable_row (tx_now tx) user_id r r,
        append_audit_event tx (Some (de_organization_id r)) (Some (de_project_id r))
          actor_type actor_id ''webhook_destination.disabled'' ''webhook_destination''
          (Some (uuid_str (de_id r))) [(''status'', JStr ''DISABLED'')]
          (s\<lparr>destinations := upd_by de_id (de_id r) (disable_row (tx_now tx) user_id r)
               (destinations s)\<rparr>)))"

definition verify_webhook_destination ::
  "txn \<Rightarrow> destination \<Rightarrow> int \<Rightarrow> uuid \<Rightarrow> string \<Rightarrow> string \<Rightarrow> webhook_db \<Rightarrow> (delivery \<times> webhook_db) result" where
  "verify_webhook_destination tx r expected_version event_id actor_type actor_id s =
     (if \<not> (\<exists>d \<in> set (destinations s). de_id d = de_id r \<and> de_project_id d = de_project_id r)
      then Inl not_found
      else if de_version r \<noteq> expected_version then Inl (ApiError 409 ''VERSION_CONFLICT'')
      else if de_status r \<noteq> Ds_PENDING_VERIFICATION
      then Inl (ApiError 409 ''WEBHOOK_DESTINATION_NOT_PENDING'')
      else case List.find (\<lambda>e. ev_id e = event_id \<and> ev_project_id e = de_project_id r) (events s) of
        None \<Rightarrow> Inl not_found
      | Some ev \<Rightarrow>
          if ev_event_type ev \<notin> set (de_event_types r) then Inl not_found
          else bind_result (enqueue_webhook_delivery tx (de_project_id r) (de_id r) (ev_id ev) 5 s)
            (\<lambda>(d, s1). Inr (d, append_audit_event tx (Some (de_organization_id r))
               (Some (de_project_id r)) actor_type actor_id
               ''webhook_destination.verification_requested'' ''webhook_destination''
               (Some (uuid_str (de_id r)))
               [(''delivery_id'', juuid (wd_id d)), (''event_id'', juuid (ev_id ev))] s1)))"

subsection \<open>Deliveries follow the claim protocol\<close>

fun wd_phase :: "wd_status \<Rightarrow> phase" where
  "wd_phase Wd_PENDING = Waiting"
| "wd_phase Wd_RETRY_WAIT = Waiting"
| "wd_phase Wd_CLAIMED = Held"
| "wd_phase Wd_SUCCEEDED = Done"
| "wd_phase Wd_DEAD_LETTERED = Done"
| "wd_phase Wd_CANCELLED = Done"

definition wd_item :: "delivery \<Rightarrow> item" where
  "wd_item d = \<lparr>it_phase = wd_phase (wd_status d), it_attempts = wd_attempt_count d,
                it_max = wd_max_attempts d\<rparr>"

lemma wd_phase_iff [simp]:
  "wd_phase st = Waiting \<longleftrightarrow> st = Wd_PENDING \<or> st = Wd_RETRY_WAIT"
  "wd_phase st = Held \<longleftrightarrow> st = Wd_CLAIMED"
  by (cases st; simp)+

lemma wd_item_sel [simp]:
  "it_phase (wd_item d) = wd_phase (wd_status d)"
  "it_attempts (wd_item d) = wd_attempt_count d"
  "it_max (wd_item d) = wd_max_attempts d"
  by (simp_all add: wd_item_def)

text \<open>A claim is given back when it expires and when an attempt fails.\<close>

definition wd_release :: "instant + instant \<times> int option \<times> string option \<Rightarrow> delivery \<Rightarrow> delivery" where
  "wd_release b d = (case b of Inl now \<Rightarrow> wd_expire now d
     | Inr (now, h, e) \<Rightarrow> fst (wd_close now False h e d))"

definition wd_succeed :: "instant \<times> int option \<times> string option \<Rightarrow> delivery \<Rightarrow> delivery" where
  "wd_succeed c d = (case c of (now, h, e) \<Rightarrow> fst (wd_close now True h e d))"

interpretation wd: claim_rows wd_id wd_item "\<lambda>(now, w, dg, l). wd_take now w dg l"
  wd_release wd_succeed
  by unfold_locales
    (auto simp: wd_item_def wd_take_def wd_release_def wd_succeed_def wd_expire_def wd_close_def
      Let_def split: sum.splits prod.splits)

subsection \<open>Invariant of the webhook tables\<close>

definition destination_ok :: "destination \<Rightarrow> bool" where
  "destination_ok d \<longleftrightarrow> 1 \<le> de_failure_threshold d \<and> de_failure_threshold d \<le> 8 \<and>
     0 \<le> de_consecutive_failure_count d \<and>
     de_consecutive_failure_count d \<le> de_failure_threshold d \<and>
     (de_status d = Ds_ACTIVE \<longrightarrow> de_verified_at d \<noteq> None) \<and>
     (de_status d = Ds_DISABLED \<longleftrightarrow> de_disabled_reason d \<noteq> None)"

definition delivery_ok :: "delivery \<Rightarrow> bool" where
  "delivery_ok d \<longleftrightarrow> item_inv (wd_item d) \<and> 1 \<le> wd_max_attempts d \<and> wd_max_attempts d \<le> 8 \<and>
     (wd_status d = Wd_CLAIMED \<longleftrightarrow> wd_claim_token_digest d \<noteq> None \<and> wd_claimed_by d \<noteq> None \<and>
        wd_claim_expires_at d \<noteq> None) \<and>
     http_status_ok (wd_last_http_status d) \<and> 0 \<le> wd_replay_count d \<and>
     (if wd_replay_count d = 0
      then wd_last_replayed_at d = None \<and> wd_last_replay_key_digest d = None \<and>
           wd_replay_requested_by_user_id d = None
      else wd_last_replayed_at d \<noteq> None \<and> wd_last_replay_key_digest d \<noteq> None \<and>
           wd_replay_requested_by_user_id d \<noteq> None)"

definition log_of :: "uuid \<Rightarrow> delivery_transition list \<Rightarrow> delivery_transition list" where
  "log_of i t = filter (\<lambda>x. wt_delivery_id x = i) t"

text \<open>
  The transitions of one delivery are numbered from one without gaps, each starts from the status
  the previous one reached, and the last one records the row as it is.
\<close>

definition log_ok :: "delivery_transition list \<Rightarrow> delivery \<Rightarrow> bool" where
  "log_ok t d \<longleftrightarrow> (let l = log_of (wd_id d) t in l \<noteq> [] \<and>
     numbered (map wt_sequence l) \<and>
     map wt_from_status l = None # map (\<lambda>x. Some (wt_to_status x)) (butlast l) \<and>
     wt_to_status (last l) = wd_status d \<and> wt_attempt_count (last l) = wd_attempt_count d)"

definition deliveries_inv :: "webhook_db \<Rightarrow> bool" where
  "deliveries_inv s \<longleftrightarrow> fresh_ids wd_id (deliveries s) (next_id s) \<and>
     distinct (map (\<lambda>d. (wd_destination_id d, wd_event_id d)) (deliveries s)) \<and>
     (\<forall>d \<in> set (deliveries s). delivery_ok d \<and> log_ok (delivery_transitions s) d) \<and>
     (\<forall>t \<in> set (delivery_transitions s). wt_delivery_id t \<in> wd_id ` set (deliveries s))"

definition destinations_inv :: "webhook_db \<Rightarrow> bool" where
  "destinations_inv s \<longleftrightarrow> distinct (map de_id (destinations s)) \<and>
     (\<forall>d \<in> set (destinations s). destination_ok d)"

definition webhook_inv :: "webhook_db \<Rightarrow> bool" where
  "webhook_inv s \<longleftrightarrow> deliveries_inv s \<and> destinations_inv s"

lemma wt_sequences_log: "wt_sequences i t = map wt_sequence (log_of i t)"
  by (simp add: wt_sequences_def log_of_def)

lemma append_transition_sel [simp]:
  "deliveries (append_transition tx d f r s) = deliveries s"
  "destinations (append_transition tx d f r s) = destinations s"
  "events (append_transition tx d f r s) = events s"
  "next_id (append_transition tx d f r s) = next_id s"
  by (simp_all add: append_transition_def)

lemma put_sel [simp]:
  "deliveries (put_destination e s) = deliveries s"
  "delivery_transitions (put_destination e s) = delivery_transitions s"
  "next_id (put_destination e s) = next_id s"
  "destinations (put_delivery d s) = destinations s"
  "delivery_transitions (put_delivery d s) = delivery_transitions s"
  "next_id (put_delivery d s) = next_id s"
  by (simp_all add: put_destination_def put_delivery_def)

lemma destinations_inv_put:
  assumes "destinations_inv s" and "destination_ok e"
  shows "destinations_inv (put_destination e s)"
  using assms unfolding destinations_inv_def put_destination_def
  by (auto simp: set_upd_by upd_by_def comp_def if_distrib cong: map_cong if_cong)

lemma deliveries_inv_frame:
  assumes "deliveries s' = deliveries s" and "delivery_transitions s' = delivery_transitions s"
    and "next_id s' = next_id s"
  shows "deliveries_inv s' \<longleftrightarrow> deliveries_inv s"
  using assms by (simp add: deliveries_inv_def)

lemma destinations_inv_frame:
  "destinations s' = destinations s \<Longrightarrow> destinations_inv s' \<longleftrightarrow> destinations_inv s"
  by (simp add: destinations_inv_def)

lemma log_of_append_transition:
  "log_of i (delivery_transitions (append_transition tx d f r s)) =
     log_of i (delivery_transitions s) @
     (if wd_id d = i then [last (delivery_transitions (append_transition tx d f r s))] else [])"
  by (simp add: append_transition_def log_of_def)

lemma log_ok_snoc:
  assumes "log_ok t d" and "wd_id d' = wd_id d"
    and "x = \<lparr>wt_organization_id = og, wt_project_id = pr, wt_delivery_id = wd_id d,
      wt_sequence = latest_sequence (wd_id d) t + 1, wt_from_status = Some (wd_status d),
      wt_to_status = wd_status d', wt_reason_code = rc, wt_attempt_count = wd_attempt_count d',
      wt_created_at = now\<rparr>"
  shows "log_ok (t @ [x]) d'"
proof -
  let ?l = "log_of (wd_id d) t"
  from assms(1) have l: "?l \<noteq> []" "numbered (map wt_sequence ?l)"
      "map wt_from_status ?l = None # map (\<lambda>x. Some (wt_to_status x)) (butlast ?l)"
      "wt_to_status (last ?l) = wd_status d"
    by (simp_all add: log_ok_def Let_def)
  have new: "log_of (wd_id d') (t @ [x]) = ?l @ [x]"
    using assms(2,3) by (simp add: log_of_def)
  have "numbered (map wt_sequence ?l @ [wt_sequence x])"
    using numbered_snoc [OF l(2)] by (simp add: assms(3) latest_sequence_def wt_sequences_log)
  moreover have "map (\<lambda>x. Some (wt_to_status x)) ?l =
      map (\<lambda>x. Some (wt_to_status x)) (butlast ?l) @ [Some (wd_status d)]"
    using map_butlast_last [OF l(1), of "\<lambda>x. Some (wt_to_status x)"] l(4) by simp
  ultimately show ?thesis
    using l unfolding log_ok_def new Let_def by (simp add: assms(3) butlast_append)
qed

text \<open>One step of a delivery: the row is replaced and the transition is logged.\<close>

lemma delivery_step_inv:
  assumes inv: "deliveries_inv s" and d: "find_by wd_id i (deliveries s) = Some d"
    and d': "wd_id d' = wd_id d" "wd_destination_id d' = wd_destination_id d"
      "wd_event_id d' = wd_event_id d" "delivery_ok d'"
  shows "deliveries_inv (append_transition tx d' (Some (wd_status d)) rc (put_delivery d' s))"
    (is "deliveries_inv ?s")
proof -
  from d have mem: "d \<in> set (deliveries s)" and i: "wd_id d = i" by (auto dest: find_by_SomeD)
  have dist: "distinct (map wd_id (deliveries s))"
    using inv by (auto simp: deliveries_inv_def dest: fresh_idsD)
  define f where "f = (\<lambda>x. if wd_id x = wd_id d then d' else x)"
  have ds: "deliveries (put_delivery d' s) = map f (deliveries s)"
    by (simp add: put_delivery_def upd_by_def f_def d')
  have uniq: "x = d" if "x \<in> set (deliveries s)" "wd_id x = wd_id d" for x
    using distinct_key_unique [OF dist that(1) mem that(2)] .
  have key: "wd_id (f x) = wd_id x" for x by (simp add: f_def d')
  have pair: "(wd_destination_id (f x), wd_event_id (f x)) = (wd_destination_id x, wd_event_id x)"
    if "x \<in> set (deliveries s)" for x
    using uniq [OF that] d' by (auto simp: f_def)
  have logs: "log_ok (delivery_transitions ?s) (f x)" if x: "x \<in> set (deliveries s)" for x
  proof (cases "wd_id x = wd_id d")
    case True
    with uniq [OF x] inv x show ?thesis
      by (auto simp: f_def append_transition_def d' deliveries_inv_def intro!: log_ok_snoc)
  next
    case False
    with inv x d' show ?thesis
      by (simp add: f_def log_ok_def log_of_append_transition deliveries_inv_def)
  qed
  have oks: "delivery_ok (f x)" if "x \<in> set (deliveries s)" for x
    using that inv d'(4) by (simp add: f_def deliveries_inv_def)
  have "fresh_ids wd_id (deliveries ?s) (next_id ?s)"
    using inv by (auto simp: ds key deliveries_inv_def fresh_ids_def comp_def)
  moreover have "map (\<lambda>d. (wd_destination_id d, wd_event_id d)) (deliveries ?s) =
      map (\<lambda>d. (wd_destination_id d, wd_event_id d)) (deliveries s)"
    using pair by (simp add: ds)
  moreover have "\<forall>x \<in> set (deliveries ?s). delivery_ok x \<and> log_ok (delivery_transitions ?s) x"
    using logs oks by (simp add: ds)
  moreover have "\<forall>t \<in> set (delivery_transitions ?s). wt_delivery_id t \<in> wd_id ` set (deliveries ?s)"
    using inv mem d'(1) by (auto simp: ds key image_image deliveries_inv_def append_transition_def)
  ultimately show ?thesis using inv by (simp add: deliveries_inv_def)
qed

lemma delivery_ok_find: "deliveries_inv s \<Longrightarrow> find_by wd_id i (deliveries s) = Some d \<Longrightarrow> delivery_ok d"
  by (auto simp: deliveries_inv_def dest: find_by_SomeD)

lemma destination_ok_find:
  "destinations_inv s \<Longrightarrow> find_by de_id i (destinations s) = Some e \<Longrightarrow> destination_ok e"
  by (auto simp: destinations_inv_def dest: find_by_SomeD)

lemma delivery_ok_expire:
  "delivery_ok d \<Longrightarrow> wd_status d = Wd_CLAIMED \<Longrightarrow> delivery_ok (wd_expire now d)"
  by (auto simp: delivery_ok_def wd_expire_def Let_def item_inv_def)

lemma delivery_ok_take:
  "delivery_ok d \<Longrightarrow> wd_status d \<in> {Wd_PENDING, Wd_RETRY_WAIT} \<Longrightarrow>
   delivery_ok (wd_take now w dg l d)"
  by (auto simp: delivery_ok_def wd_take_def item_inv_def)

lemma delivery_ok_close:
  "delivery_ok d \<Longrightarrow> wd_status d = Wd_CLAIMED \<Longrightarrow> http_status_ok h \<Longrightarrow>
   delivery_ok (fst (wd_close now b h e d))"
  by (auto simp: delivery_ok_def wd_close_def Let_def item_inv_def)

lemma delivery_ok_replay:
  "delivery_ok d \<Longrightarrow> delivery_ok (wd_replay now k u d)"
  by (auto simp: delivery_ok_def wd_replay_def item_inv_def http_status_ok_def split: if_splits)

lemma destination_ok_updates:
  "destination_ok e \<Longrightarrow> destination_ok (count_failure now e)"
  "destination_ok e \<Longrightarrow> destination_ok (mark_delivered now e)"
  "destination_ok e \<Longrightarrow> destination_ok (reenable now e)"
  "destination_ok e \<Longrightarrow> destination_ok (disable_row now u e e)"
  by (auto simp: destination_ok_def count_failure_def mark_delivered_def reenable_def
      disable_row_def Let_def min_def)

lemma row_keys [simp]:
  "wd_id (wd_expire now d) = wd_id d" "wd_destination_id (wd_expire now d) = wd_destination_id d"
  "wd_event_id (wd_expire now d) = wd_event_id d" "wd_id (wd_take now w dg l d) = wd_id d"
  "wd_destination_id (wd_take now w dg l d) = wd_destination_id d"
  "wd_event_id (wd_take now w dg l d) = wd_event_id d"
  "wd_id (fst (wd_close now b h e d)) = wd_id d"
  "wd_destination_id (fst (wd_close now b h e d)) = wd_destination_id d"
  "wd_event_id (fst (wd_close now b h e d)) = wd_event_id d"
  "wd_id (wd_replay now k u d) = wd_id d"
  "wd_destination_id (wd_replay now k u d) = wd_destination_id d"
  "wd_event_id (wd_replay now k u d) = wd_event_id d"
  by (simp_all add: wd_expire_def wd_take_def wd_close_def wd_replay_def Let_def)

subsection \<open>Every handler keeps the invariant\<close>

lemma find_delivery:
  assumes "deliveries_inv s" and "d \<in> set (deliveries s)"
  shows "find_by wd_id (wd_id d) (deliveries s) = Some d"
  using assms by (auto simp: deliveries_inv_def find_by_eq_Some_iff dest: fresh_idsD)

lemma webhook_inv_audit [simp]:
  "webhook_inv (append_audit_event tx og pr at ai ac rt rid d s) \<longleftrightarrow> webhook_inv s"
  by (simp add: webhook_inv_def deliveries_inv_def destinations_inv_def append_audit_event_def)

lemma delivery_step:
  assumes "webhook_inv s" and "find_by wd_id i (deliveries s) = Some d"
    and "wd_id d' = wd_id d" "wd_destination_id d' = wd_destination_id d"
      "wd_event_id d' = wd_event_id d" "delivery_ok d'"
  shows "webhook_inv (append_transition tx d' (Some (wd_status d)) rc (put_delivery d' s))"
  using delivery_step_inv [of s i d d' tx rc] assms
  by (simp add: webhook_inv_def destinations_inv_def)

lemma destination_step:
  assumes "webhook_inv s" and "destination_ok e"
  shows "webhook_inv (put_destination e s)"
  using assms deliveries_inv_frame [of "put_destination e s" s]
  by (simp add: webhook_inv_def destinations_inv_put)

lemma new_delivery_ok:
  "1 \<le> m \<Longrightarrow> m \<le> 8 \<Longrightarrow> delivery_ok (new_delivery tx dest p e m i)"
  by (simp add: new_delivery_def delivery_ok_def item_inv_def http_status_ok_def)

lemma enqueue_webhook_delivery_cases:
  assumes "enqueue_webhook_delivery tx p di ei m s = Inr (d, s')"
  obtains (existing) "s' = s" "d \<in> set (deliveries s)"
  | (new) dest where "(di, ei) \<notin> (\<lambda>d. (wd_destination_id d, wd_event_id d)) ` set (deliveries s)"
      "1 \<le> m" "m \<le> 8" "de_id dest = di" "dest \<in> set (destinations s)"
      "d = new_delivery tx dest p ei m (next_id s)"
      "s' = append_transition tx d None ''ENQUEUED''
         (s\<lparr>deliveries := deliveries s @ [d], next_id := next_id s + 1\<rparr>)"
proof (cases "find_by (\<lambda>d. (wd_destination_id d, wd_event_id d)) (di, ei) (deliveries s)")
  case (Some x)
  with assms have "s' = s" "d = x" by (auto simp: enqueue_webhook_delivery_def split: if_splits)
  with Some show ?thesis by (intro existing) (auto dest: find_by_SomeD)
next
  case None
  with assms obtain dest ev where m: "1 \<le> m" "m \<le> 8"
    and fd: "List.find (\<lambda>d. de_id d = di \<and> de_project_id d = p \<and>
        de_status d \<in> {Ds_PENDING_VERIFICATION, Ds_ACTIVE}) (destinations s) = Some dest"
    and d: "d = new_delivery tx dest p ei m (next_id s)"
    and s': "s' = append_transition tx d None ''ENQUEUED''
         (s\<lparr>deliveries := deliveries s @ [d], next_id := next_id s + 1\<rparr>)"
    by (auto simp: enqueue_webhook_delivery_def Let_def split: if_splits option.splits)
  from find_SomeD [OF fd] have "de_id dest = di" "dest \<in> set (destinations s)" by simp_all
  with None m d s' show ?thesis by (intro new) (simp_all add: find_by_None_iff)
qed

lemma log_of_absent:
  "deliveries_inv s \<Longrightarrow> next_id s \<le> i \<Longrightarrow> log_of i (delivery_transitions s) = []"
  by (force simp: deliveries_inv_def log_of_def filter_empty_conv fresh_ids_def)

lemma enqueue_webhook_delivery_inv:
  assumes "webhook_inv s" and "enqueue_webhook_delivery tx p di ei m s = Inr (d, s')"
  shows "webhook_inv s'"
  using assms(2)
proof (cases rule: enqueue_webhook_delivery_cases)
  case existing
  with assms(1) show ?thesis by simp
next
  case (new dest)
  let ?n = "next_id s"
  have dv: "deliveries_inv s" and ds: "destinations_inv s" using assms(1) by (simp_all add: webhook_inv_def)
  have dk: "wd_id d = ?n" "wd_destination_id d = di" "wd_event_id d = ei" "wd_status d = Wd_PENDING"
      "wd_attempt_count d = 0"
    using new by (simp_all add: new_delivery_def)
  have seq: "latest_sequence ?n (delivery_transitions s) = 0"
    using log_of_absent [OF dv order_refl]
    by (simp add: latest_sequence_def wt_sequences_log max_sequence_def)
  have own: "log_ok (delivery_transitions s') d"
    using log_of_absent [OF dv order_refl]
    by (simp add: new(7) log_ok_def log_of_def append_transition_def dk seq numbered_def)
  have others: "log_ok (delivery_transitions s') x" if "x \<in> set (deliveries s)" for x
    using that dv dk by (auto simp: new(7) log_ok_def log_of_def append_transition_def
        deliveries_inv_def fresh_ids_def)
  have "delivery_ok d" using new by (simp add: new_delivery_ok)
  then have "\<forall>x \<in> set (deliveries s'). delivery_ok x \<and> log_ok (delivery_transitions s') x"
    using own others dv by (auto simp: new(7) deliveries_inv_def)
  moreover have "fresh_ids wd_id (deliveries s') (next_id s')"
    using dv dk by (auto simp: new(7) deliveries_inv_def intro: fresh_ids_snoc)
  moreover have "distinct (map (\<lambda>d. (wd_destination_id d, wd_event_id d)) (deliveries s'))"
    using dv dk new(1) by (simp add: new(7) deliveries_inv_def)
  moreover have "\<forall>t \<in> set (delivery_transitions s'). wt_delivery_id t \<in> wd_id ` set (deliveries s')"
    using dv dk by (auto simp: new(7) deliveries_inv_def append_transition_def)
  ultimately show ?thesis using ds by (simp add: webhook_inv_def deliveries_inv_def new(7) destinations_inv_def)
qed

lemma enqueue_all_inv:
  "webhook_inv s \<Longrightarrow> enqueue_all tx p e dests s = Inr (ds, s') \<Longrightarrow> webhook_inv s'"
  by (induction dests arbitrary: s ds)
    (auto simp: bind_result_Inr_iff dest: enqueue_webhook_delivery_inv)

lemma expire_claim_inv:
  assumes "webhook_inv s" and "d \<in> set (deliveries s)" and "wd_status d = Wd_CLAIMED"
    and "expire_claim tx d s = (d', s')"
  shows "webhook_inv s'" and "d' = wd_expire (tx_now tx) d"
    and "find_by wd_id (wd_id d) (deliveries s') = Some d'"
    and "deliveries s' = upd_by wd_id (wd_id d) (\<lambda>_. d') (deliveries s)"
proof -
  have f: "find_by wd_id (wd_id d) (deliveries s) = Some d"
    using assms(1,2) find_delivery by (simp add: webhook_inv_def)
  let ?d = "wd_expire (tx_now tx) d"
  let ?s1 = "append_transition tx ?d (Some (wd_status d)) ''CLAIM_EXPIRED'' (put_delivery ?d s)"
  have inv1: "webhook_inv ?s1"
    using assms f by (intro delivery_step) (auto simp: webhook_inv_def intro: delivery_ok_expire delivery_ok_find)
  have dest: "destination_ok e" if "find_by de_id j (destinations ?s1) = Some e" for j e
    using that inv1 by (auto simp: webhook_inv_def intro: destination_ok_find)
  show d': "d' = ?d" using assms(4) by (simp add: expire_claim_def Let_def)
  show "webhook_inv s'"
    using assms(4) inv1 dest
    by (auto simp: expire_claim_def Let_def destination_ok_updates split: if_splits option.splits
        intro!: destination_step)
  have "deliveries s' = deliveries ?s1"
    using assms(4) by (auto simp: expire_claim_def Let_def split: if_splits option.splits)
  then show ds: "deliveries s' = upd_by wd_id (wd_id d) (\<lambda>_. d') (deliveries s)"
    by (simp add: d' put_delivery_def)
  show "find_by wd_id (wd_id d) (deliveries s') = Some d'"
    unfolding ds using f by (simp add: find_by_put d')
qed

lemma take_claim_inv:
  assumes "webhook_inv s" and "find_by wd_id i (deliveries s) = Some d"
    and "wd_status d \<in> {Wd_PENDING, Wd_RETRY_WAIT}"
    and "take_claim sha tx tok w l d s = Inr (res, s')"
  shows "webhook_inv s'"
proof -
  from assms(4) obtain dg where "s' = append_transition tx (wd_take (tx_now tx) w dg l d)
      (Some (wd_status d)) ''CLAIMED'' (put_delivery (wd_take (tx_now tx) w dg l d) s)"
    by (auto simp: take_claim_def bind_result_Inr_iff Let_def)
  moreover have "delivery_ok d"
    using assms(1) delivery_ok_find [OF _ assms(2)] by (simp add: webhook_inv_def)
  ultimately show ?thesis
    using assms(1-3) by (auto intro!: delivery_step delivery_ok_take)
qed

lemma claim_webhook_delivery_cases:
  assumes "claim_webhook_delivery sha tx tok p w l s = Inr (res, s')"
  obtains (idle) "res = None" "s' = s" "\<forall>d \<in> set (deliveries s). \<not> wd_claimable tx p s d"
  | (take_waiting) d where "d \<in> set (deliveries s)" "wd_claimable tx p s d"
      "wd_status d \<in> {Wd_PENDING, Wd_RETRY_WAIT}"
      "take_claim sha tx tok w l d s = Inr (res, s')"
  | (buried) d d' where "d \<in> set (deliveries s)" "wd_claimable tx p s d" "wd_status d = Wd_CLAIMED"
      "expire_claim tx d s = (d', s')" "wd_status d' = Wd_DEAD_LETTERED" "res = None"
  | (retaken) d d' s1 where "d \<in> set (deliveries s)" "wd_claimable tx p s d" "wd_status d = Wd_CLAIMED"
      "expire_claim tx d s = (d', s1)" "wd_status d' \<noteq> Wd_DEAD_LETTERED"
      "take_claim sha tx tok w l d' s1 = Inr (res, s')"
proof (cases "first_by (\<lambda>d. (wd_available_at d, wd_created_at d, wd_id d)) (wd_claimable tx p s) (deliveries s)")
  case None
  with assms have "res = None" "s' = s"
    by (auto simp: claim_webhook_delivery_def split: if_splits)
  with None show ?thesis by (intro idle) (simp_all add: first_by_None_iff)
next
  case (Some d)
  from first_by_SomeD [OF Some] have d: "d \<in> set (deliveries s)" "wd_claimable tx p s d" by simp_all
  show ?thesis
  proof (cases "wd_status d = Wd_CLAIMED")
    case True
    obtain d' s1 where ex: "expire_claim tx d s = (d', s1)" by (cases "expire_claim tx d s")
    show ?thesis
    proof (cases "wd_status d' = Wd_DEAD_LETTERED")
      case dead: True
      with assms Some True ex have "res = None" "s1 = s'"
        by (simp_all add: claim_webhook_delivery_def split: if_splits)
      with d True ex dead show ?thesis by (intro buried) simp_all
    next
      case False
      with assms Some True ex have "take_claim sha tx tok w l d' s1 = Inr (res, s')"
        by (simp add: claim_webhook_delivery_def split: if_splits)
      with d True ex False show ?thesis by (intro retaken) simp_all
    qed
  next
    case False
    with d(2) have st: "wd_status d \<in> {Wd_PENDING, Wd_RETRY_WAIT}"
      by (auto simp: wd_claimable_def split: option.splits)
    from assms Some False have "take_claim sha tx tok w l d s = Inr (res, s')"
      by (simp add: claim_webhook_delivery_def split: if_splits)
    with d st show ?thesis by (intro take_waiting) simp_all
  qed
qed

lemma wd_expire_status: "wd_status (wd_expire now d) \<in> {Wd_DEAD_LETTERED, Wd_RETRY_WAIT}"
  by (simp add: wd_expire_def Let_def)

lemma claim_webhook_delivery_inv:
  assumes "webhook_inv s" and "claim_webhook_delivery sha tx tok p w l s = Inr (res, s')"
  shows "webhook_inv s'"
  using assms(2)
proof (cases rule: claim_webhook_delivery_cases)
  case idle
  with assms(1) show ?thesis by simp
next
  case (take_waiting d)
  have "find_by wd_id (wd_id d) (deliveries s) = Some d"
    using assms(1) take_waiting(1) find_delivery by (simp add: webhook_inv_def)
  from take_claim_inv [OF assms(1) this take_waiting(3,4)] show ?thesis .
next
  case (buried d d')
  from expire_claim_inv(1) [OF assms(1) buried(1,3,4)] show ?thesis .
next
  case (retaken d d' s1)
  note ex = expire_claim_inv [OF assms(1) retaken(1,3,4)]
  have "wd_status d' \<in> {Wd_PENDING, Wd_RETRY_WAIT}"
    using retaken(5) wd_expire_status [of "tx_now tx" d] by (auto simp: ex(2))
  from take_claim_inv [OF ex(1,3) this retaken(6)] show ?thesis .
qed

lemma complete_webhook_delivery_cases:
  assumes "complete_webhook_delivery sha tx i tok ok h e s = Inr (d', s')"
  obtains d dest where "find_by wd_id i (deliveries s) = Some d" "claim_digest sha tok = Inr (sha tok)"
    "claim_live (tx_now tx) (sha tok) d" "find_by de_id (wd_destination_id d) (destinations s) = Some dest"
    "de_status dest \<in> {Ds_PENDING_VERIFICATION, Ds_ACTIVE}" "http_status_ok h"
    "d' = fst (wd_close (tx_now tx) ok h e d)"
    "\<exists>rc. s' = (let s1 = append_transition tx d' (Some (wd_status d)) rc (put_delivery d' s)
       in if ok then put_destination (mark_delivered (tx_now tx) dest) s1
          else if wd_status d' = Wd_DEAD_LETTERED
          then put_destination (count_failure (tx_now tx) dest) s1 else s1)"
proof -
  from assms obtain d where d: "find_by wd_id i (deliveries s) = Some d"
    by (auto simp: complete_webhook_delivery_def split: option.splits)
  from assms d obtain dg where dg: "claim_digest sha tok = Inr dg"
    by (auto simp: complete_webhook_delivery_def bind_result_Inr_iff split: if_splits)
  then have dgs: "dg = sha tok" by (auto simp: claim_digest_def split: if_splits)
  obtain x rc where cl: "wd_close (tx_now tx) ok h e d = (x, rc)" by (cases "wd_close (tx_now tx) ok h e d")
  from assms d dg dgs obtain dest where
    dest: "find_by de_id (wd_destination_id d) (destinations s) = Some dest"
    by (auto simp: complete_webhook_delivery_def Let_def split: if_splits option.splits)
  from assms d dg dgs cl dest show ?thesis
    by (intro that [of d dest])
      (auto simp: complete_webhook_delivery_def Let_def split: if_splits)
qed

lemma complete_webhook_delivery_inv:
  assumes "webhook_inv s" and "complete_webhook_delivery sha tx i tok ok h e s = Inr (d', s')"
  shows "webhook_inv s'"
  using assms(2)
proof (cases rule: complete_webhook_delivery_cases)
  case (1 d dest)
  have ok: "delivery_ok d" "destination_ok dest"
    using assms(1) delivery_ok_find [OF _ 1(1)] destination_ok_find [OF _ 1(4)]
    by (simp_all add: webhook_inv_def)
  have st: "wd_status d = Wd_CLAIMED" using 1(3) by (simp add: claim_live_def)
  from 1(8) obtain rc where s': "s' = (let s1 = append_transition tx d' (Some (wd_status d)) rc (put_delivery d' s)
       in if ok then put_destination (mark_delivered (tx_now tx) dest) s1
          else if wd_status d' = Wd_DEAD_LETTERED
          then put_destination (count_failure (tx_now tx) dest) s1 else s1)" by blast
  have "webhook_inv (append_transition tx d' (Some (wd_status d)) rc (put_delivery d' s))"
    using assms(1) 1 ok st by (intro delivery_step) (auto intro: delivery_ok_close)
  then show ?thesis
    using ok(2) by (auto simp: s' Let_def intro!: destination_step destination_ok_updates)
qed

lemma replay_webhook_delivery_cases:
  assumes "replay_webhook_delivery sha tx p i v k u at ai s = Inr (d', s')"
  obtains (replayed) "s' = s" "d' \<in> set (deliveries s)"
      "wd_last_replay_key_digest d' = Some (sha k)"
  | (fresh) d dest s1 where "d \<in> set (deliveries s)" "wd_id d = i" "wd_status d = Wd_DEAD_LETTERED"
      "wd_version d = v" "find_by de_id (wd_destination_id d) (destinations s) = Some dest"
      "replay_configuration_ok d dest" "d' = wd_replay (tx_now tx) (sha k) u d"
      "s1 = append_transition tx d' (Some (wd_status d)) ''MANUAL_REPLAY''
         (put_delivery d' (put_destination (reenable (tx_now tx) dest) s))"
      "\<exists>dt. s' = append_audit_event tx (Some (wd_organization_id d')) (Some (wd_project_id d')) at ai
         ''webhook.delivery.replayed'' ''webhook_delivery'' (Some (uuid_str (wd_id d'))) dt s1"
proof -
  from assms obtain d where
    fd: "List.find (\<lambda>d. wd_id d = i \<and> wd_project_id d = p) (deliveries s) = Some d"
    by (auto simp: replay_webhook_delivery_def bind_result_Inr_iff split: option.splits)
  from find_SomeD [OF fd] have mem: "d \<in> set (deliveries s)" "wd_id d = i" by simp_all
  show ?thesis
  proof (cases "wd_last_replay_key_digest d = Some (sha k)")
    case True
    with assms fd have "s' = s" "d' = d"
      by (auto simp: replay_webhook_delivery_def bind_result_Inr_iff)
    with True mem show ?thesis by (intro replayed) simp_all
  next
    case False
    with assms fd obtain dest where
      "find_by de_id (wd_destination_id d) (destinations s) = Some dest"
      by (auto simp: replay_webhook_delivery_def bind_result_Inr_iff split: option.splits if_splits)
    with False assms fd mem show ?thesis
      by (intro fresh [of d dest])
        (auto simp: replay_webhook_delivery_def bind_result_Inr_iff Let_def split: if_splits)
  qed
qed

lemma replay_webhook_delivery_inv:
  assumes "webhook_inv s" and "replay_webhook_delivery sha tx p i v k u at ai s = Inr (d', s')"
  shows "webhook_inv s'"
  using assms(2)
proof (cases rule: replay_webhook_delivery_cases)
  case replayed
  with assms(1) show ?thesis by simp
next
  case (fresh d dest s1)
  have dv: "deliveries_inv s" and ds: "destinations_inv s" using assms(1) by (simp_all add: webhook_inv_def)
  have f: "find_by wd_id (wd_id d) (deliveries (put_destination (reenable (tx_now tx) dest) s)) = Some d"
    using find_delivery [OF dv fresh(1)] by simp
  have "webhook_inv (put_destination (reenable (tx_now tx) dest) s)"
    using assms(1) destination_ok_find [OF ds fresh(5)] by (intro destination_step destination_ok_updates)
  moreover have "delivery_ok d'"
    using dv fresh(1,7) by (simp add: deliveries_inv_def delivery_ok_replay)
  ultimately have "webhook_inv s1"
    unfolding fresh(8) by (intro delivery_step [OF _ f]) (simp_all add: fresh(7))
  with fresh(9) show ?thesis by auto
qed

lemma disable_webhook_destination_inv:
  assumes "webhook_inv s" and "r \<in> set (destinations s)"
    and "disable_webhook_destination tx r u v at ai s = Inr (d', s')"
  shows "webhook_inv s'"
proof -
  have ds: "destinations_inv s" using assms(1) by (simp add: webhook_inv_def)
  then have d: "distinct (map de_id (destinations s))" by (simp add: destinations_inv_def)
  have "upd_by de_id (de_id r) (disable_row (tx_now tx) u r) (destinations s) =
      upd_by de_id (de_id r) (\<lambda>_. disable_row (tx_now tx) u r r) (destinations s)"
    using distinct_key_unique [OF d _ assms(2)] by (auto simp: upd_by_def)
  moreover have "webhook_inv (put_destination (disable_row (tx_now tx) u r r) s)"
    using assms(1,2) ds by (intro destination_step destination_ok_updates) (simp_all add: destinations_inv_def)
  moreover have "de_id (disable_row (tx_now tx) u r r) = de_id r" by (simp add: disable_row_def)
  ultimately show ?thesis
    using assms(3) by (auto simp: disable_webhook_destination_def put_destination_def split: if_splits)
qed

lemma verify_webhook_destination_inv:
  assumes "webhook_inv s" and "verify_webhook_destination tx r v e at ai s = Inr (d', s')"
  shows "webhook_inv s'"
  using assms
  by (auto simp: verify_webhook_destination_def bind_result_Inr_iff split: if_splits option.splits
      dest: enqueue_webhook_delivery_inv)

subsection \<open>Deliveries move by the protocol\<close>

lemma take_claim_evolves:
  assumes "find_by wd_id i (deliveries s) = Some d" and "wd_status d \<in> {Wd_PENDING, Wd_RETRY_WAIT}"
    and "take_claim sha tx tok w l d s = Inr (res, s')"
  shows "evolves wd_id wd_item (deliveries s) (deliveries s')"
proof -
  from assms(3) obtain dg where
    "deliveries s' = upd_by wd_id (wd_id d) (\<lambda>_. wd_take (tx_now tx) w dg l d) (deliveries s)"
    by (auto simp: take_claim_def bind_result_Inr_iff Let_def put_delivery_def)
  moreover have "item_step (wd_item d) (wd_item (wd_take (tx_now tx) w dg l d))"
    using wd.take_step [of d "(tx_now tx, w, dg, l)"] assms(2) by simp
  moreover have "wd_id d = i" using assms(1) by (auto dest: find_by_SomeD)
  ultimately show ?thesis using assms(1) by (auto intro!: evolves_put)
qed

lemma expire_claim_evolves:
  assumes "webhook_inv s" and "d \<in> set (deliveries s)" and "wd_status d = Wd_CLAIMED"
    and "expire_claim tx d s = (d', s')"
  shows "evolves wd_id wd_item (deliveries s) (deliveries s')"
proof -
  note ex = expire_claim_inv [OF assms]
  have "item_step (wd_item d) (wd_item d')"
    using wd.release_step [of d "Inl (tx_now tx)"] assms(3) by (simp add: ex(2) wd_release_def)
  moreover have "find_by wd_id (wd_id d) (deliveries s) = Some d"
    using assms(1,2) find_delivery by (simp add: webhook_inv_def)
  ultimately show ?thesis unfolding ex(4) by (auto simp: ex(2) intro!: evolves_put)
qed

lemma claim_webhook_delivery_evolves:
  assumes "webhook_inv s" and "claim_webhook_delivery sha tx tok p w l s = Inr (res, s')"
  shows "evolves wd_id wd_item (deliveries s) (deliveries s')"
  using assms(2)
proof (cases rule: claim_webhook_delivery_cases)
  case (take_waiting d)
  then show ?thesis
    using assms(1) find_delivery by (auto simp: webhook_inv_def intro: take_claim_evolves)
next
  case (buried d d')
  then show ?thesis using assms(1) by (intro expire_claim_evolves)
next
  case (retaken d d' s1)
  note ex = expire_claim_inv [OF assms(1) retaken(1,3,4)]
  have "wd_status d' \<in> {Wd_PENDING, Wd_RETRY_WAIT}"
    using retaken(5) wd_expire_status [of "tx_now tx" d] by (auto simp: ex(2))
  from expire_claim_evolves [OF assms(1) retaken(1,3,4)] take_claim_evolves [OF ex(3) this retaken(6)]
  show ?thesis by (rule evolves_trans)
qed simp

lemma complete_webhook_delivery_evolves:
  assumes "complete_webhook_delivery sha tx i tok ok h e s = Inr (d', s')"
  shows "evolves wd_id wd_item (deliveries s) (deliveries s')"
  using assms
proof (cases rule: complete_webhook_delivery_cases)
  case (1 d dest)
  then have i: "wd_id d = i" and st: "wd_status d = Wd_CLAIMED"
    by (auto simp: claim_live_def dest: find_by_SomeD)
  have "item_step (wd_item d) (wd_item d')"
    using wd.close_step [of d "(tx_now tx, h, e)"] wd.release_step [of d "Inr (tx_now tx, h, e)"] st
    by (cases ok) (simp_all add: 1(7) wd_succeed_def wd_release_def)
  moreover have "deliveries s' = upd_by wd_id i (\<lambda>_. d') (deliveries s)"
  proof -
    have "wd_id d' = i" by (simp add: 1(7) i)
    with 1(8) show ?thesis
      by (cases ok; cases "wd_status d' = Wd_DEAD_LETTERED") (auto simp: Let_def put_delivery_def)
  qed
  ultimately show ?thesis using 1(1,7) i by (auto intro!: evolves_put)
qed

lemma enqueue_webhook_delivery_evolves:
  "enqueue_webhook_delivery tx p di ei m s = Inr (d, s') \<Longrightarrow>
   evolves wd_id wd_item (deliveries s) (deliveries s')"
  by (erule enqueue_webhook_delivery_cases) simp_all

lemma enqueue_all_evolves:
  "enqueue_all tx p e dests s = Inr (ds, s') \<Longrightarrow> evolves wd_id wd_item (deliveries s) (deliveries s')"
  by (induction dests arbitrary: s ds)
    (auto simp: bind_result_Inr_iff dest!: enqueue_webhook_delivery_evolves intro: evolves_trans)

subsection \<open>The system of webhook transactions\<close>

text \<open>
  One committed transaction of the component; the flag says whether it is a manual replay. A
  destination is disabled by a request that loaded its current row.
\<close>

inductive webhook_step :: "(string \<Rightarrow> string) \<Rightarrow> bool \<Rightarrow> webhook_db \<Rightarrow> webhook_db \<Rightarrow> bool"
  for sha where
  enqueue: "enqueue_webhook_delivery tx p di ei m s = Inr (d, s') \<Longrightarrow> webhook_step sha False s s'"
| fan_out: "enqueue_matching_webhook_deliveries tx ev s = Inr (ds, s') \<Longrightarrow> webhook_step sha False s s'"
| verify: "verify_webhook_destination tx r v ei at ai s = Inr (d, s') \<Longrightarrow> webhook_step sha False s s'"
| claim: "claim_webhook_delivery sha tx tok p w l s = Inr (res, s') \<Longrightarrow> webhook_step sha False s s'"
| complete: "complete_webhook_delivery sha tx i tok ok h e s = Inr (d, s') \<Longrightarrow>
    webhook_step sha False s s'"
| disable: "r \<in> set (destinations s) \<Longrightarrow> disable_webhook_destination tx r u v at ai s = Inr (e, s') \<Longrightarrow>
    webhook_step sha False s s'"
| replay: "replay_webhook_delivery sha tx p i v k u at ai s = Inr (d, s') \<Longrightarrow>
    webhook_step sha True s s'"

definition webhook_tx :: "(string \<Rightarrow> string) \<Rightarrow> webhook_db \<Rightarrow> webhook_db \<Rightarrow> bool" where
  "webhook_tx sha s s' \<longleftrightarrow> (\<exists>b. webhook_step sha b s s')"

lemma webhook_step_inv: "webhook_step sha b s s' \<Longrightarrow> webhook_inv s \<Longrightarrow> webhook_inv s'"
  by (induction rule: webhook_step.induct)
    (auto intro: enqueue_webhook_delivery_inv verify_webhook_destination_inv
      claim_webhook_delivery_inv complete_webhook_delivery_inv disable_webhook_destination_inv
      replay_webhook_delivery_inv enqueue_all_inv simp: enqueue_matching_webhook_deliveries_def)

lemma webhook_step_evolves:
  "webhook_step sha b s s' \<Longrightarrow> \<not> b \<Longrightarrow> webhook_inv s \<Longrightarrow>
   evolves wd_id wd_item (deliveries s) (deliveries s')"
  by (induction rule: webhook_step.induct)
    (auto simp: enqueue_matching_webhook_deliveries_def verify_webhook_destination_def
      disable_webhook_destination_def append_audit_event_def bind_result_Inr_iff
      split: if_splits option.splits
      dest: enqueue_webhook_delivery_evolves enqueue_all_evolves claim_webhook_delivery_evolves
        complete_webhook_delivery_evolves)

subsection \<open>Sample database\<close>

definition wh_tx :: "instant \<Rightarrow> txn" where
  "wh_tx now = \<lparr>tx_now = now, tx_request_id = ''r'', tx_locked = (\<lambda>_. False)\<rparr>"

definition wh_destination :: destination where
  "wh_destination = \<lparr>de_id = 1, de_organization_id = 0, de_project_id = 0, de_name = ''d'',
     de_endpoint_url = ''https://e'', de_endpoint_origin = ''https://e'', de_event_types = [''run''],
     de_status = Ds_PENDING_VERIFICATION, de_verified_at = None, de_consecutive_failure_count = 0,
     de_failure_threshold = 3, de_disabled_reason = None, de_signing_secret_id = 0,
     de_signing_secret_version = 1, de_created_by_user_id = 0, de_updated_by_user_id = 0,
     de_version = 1, de_created_at = 0, de_updated_at = 0\<rparr>"

definition wh_event :: event where
  "wh_event = \<lparr>ev_id = 2, ev_organization_id = 0, ev_project_id = 0, ev_event_type = ''run'',
     ev_schema_version = ''1'', ev_subject_type = ''run'', ev_subject_id = 0, ev_payload = [],
     ev_payload_digest = '''', ev_emitter = ''c'', ev_request_id = ''r'', ev_occurred_at = 0,
     ev_created_at = 0\<rparr>"

definition wh_db :: webhook_db where
  "wh_db = \<lparr>audit_log = [], next_id = 3, events = [wh_event], destinations = [wh_destination],
     deliveries = [], delivery_transitions = []\<rparr>"

definition wh_db1 :: webhook_db where
  "wh_db1 = snd (projr (enqueue_webhook_delivery (wh_tx 0) 0 1 2 5 wh_db))"

definition wh_db2 :: webhook_db where
  "wh_db2 = snd (projr (claim_webhook_delivery id (wh_tx 5) ''tok'' 0 ''w'' 30 wh_db1))"

lemmas webhook_run_defs = wh_tx_def wh_destination_def wh_event_def wh_db_def wh_db1_def wh_db2_def
  enqueue_webhook_delivery_def claim_webhook_delivery_def complete_webhook_delivery_def
  take_claim_def expire_claim_def append_transition_def put_delivery_def put_destination_def
  new_delivery_def latest_sequence_def max_sequence_def wt_sequences_def wd_claimable_def worker_id_ok_def
  lower_alnum_def claim_digest_def wd_take_def wd_close_def claim_live_def http_status_ok_def
  retry_delay_def first_by_def seconds_def Let_def

lemmas webhook_inv_defs = webhook_inv_def deliveries_inv_def destinations_inv_def delivery_ok_def
  destination_ok_def log_ok_def log_of_def fresh_ids_def item_inv_def numbered_def

lemma wh_db_inv: "webhook_inv wh_db"
  by (simp add: webhook_run_defs webhook_inv_defs)

lemma wh_enqueue: "\<exists>d. enqueue_webhook_delivery (wh_tx 0) 0 1 2 5 wh_db = Inr (d, wh_db1)"
  by (simp add: webhook_run_defs)

lemma wh_claim: "\<exists>d. claim_webhook_delivery id (wh_tx 5) ''tok'' 0 ''w'' 30 wh_db1 = Inr (Some (d, ''tok''), wh_db2)"
  by (simp add: webhook_run_defs)

subsection \<open>Properties\<close>



text \<open>
  C18: without a manual replay a delivery is attempted at most \<open>max_attempts\<close> times, its attempts
  never decrease, and a delivery in a terminal status stays as it is.
\<close>

theorem webhook_attempts_bounded:
  assumes "webhook_inv s" and "(webhook_step sha False)\<^sup>*\<^sup>* s s'"
    and "find_by wd_id i (deliveries s) = Some d"
  shows "\<exists>d'. find_by wd_id i (deliveries s') = Some d' \<and>
    wd_max_attempts d' = wd_max_attempts d \<and> wd_attempt_count d \<le> wd_attempt_count d' \<and>
    wd_attempt_count d' \<le> wd_max_attempts d \<and>
    (wd_phase (wd_status d) = Done \<longrightarrow> wd_phase (wd_status d') = Done \<and>
       wd_attempt_count d' = wd_attempt_count d)"
proof -
  have "webhook_inv s' \<and> evolves wd_id wd_item (deliveries s) (deliveries s')"
    using assms(2)
  proof (induction rule: rtranclp_induct)
    case (step y z)
    then show ?case using webhook_step_inv webhook_step_evolves evolves_trans by metis
  qed (simp add: assms(1))
  with assms(3) obtain d' where d': "find_by wd_id i (deliveries s') = Some d'"
      "item_step\<^sup>*\<^sup>* (wd_item d) (wd_item d')" and inv: "webhook_inv s'"
    by (auto elim: evolvesD)
  have "item_inv (wd_item d')"
    using inv delivery_ok_find [OF _ d'(1)] by (simp add: webhook_inv_def delivery_ok_def)
  moreover note item_steps_attempts [OF d'(2)] item_steps_max [OF d'(2)] item_steps_done [OF d'(2)]
  ultimately show ?thesis using d'(1) by (auto simp: item_inv_def wd_item_def)
qed

theorem webhook_attempts_bounded_witness:
  "\<exists>d'. find_by wd_id 3 (deliveries wh_db2) = Some d' \<and> wd_attempt_count d' \<le> 5"
proof -
  have inv: "webhook_inv wh_db1" by (simp add: webhook_run_defs webhook_inv_defs)
  have "(webhook_step id False)\<^sup>*\<^sup>* wh_db1 wh_db2" using wh_claim webhook_step.claim by blast
  moreover obtain d where "find_by wd_id 3 (deliveries wh_db1) = Some d" "wd_max_attempts d = 5"
    by (simp add: webhook_run_defs)
  ultimately show ?thesis using webhook_attempts_bounded [OF inv] by metis
qed

text \<open>
  C19: fencing. After a claim, a completion of that delivery succeeds only under a token with the
  digest of the token the claim returned and before the lease of the claim has run out.
\<close>

theorem webhook_claim_fences:
  assumes "webhook_inv s"
    and "claim_webhook_delivery sha tx tok p w l s = Inr (Some (d, tok'), s')"
    and "complete_webhook_delivery sha tx' (wd_id d) token ok h e s' = Inr res"
  shows "tok' = tok \<and> sha token = sha tok \<and> tx_now tx' < tx_now tx + seconds l"
proof -
  obtain d'' s'' where res: "res = (d'', s'')" by (cases res)
  have key: "tok' = tok \<and> d = wd_take (tx_now tx) w (sha tok) l x \<and> find_by wd_id (wd_id d) (deliveries s') = Some d"
    if "take_claim sha tx tok w l x s1 = Inr (Some (d, tok'), s')" "find_by wd_id (wd_id x) (deliveries s1) = Some x"
    for x s1
    using that by (auto simp: take_claim_def bind_result_Inr_iff Let_def put_delivery_def find_by_put
        claim_digest_def split: if_splits)
  have "\<exists>x. tok' = tok \<and> d = wd_take (tx_now tx) w (sha tok) l x \<and> find_by wd_id (wd_id d) (deliveries s') = Some d"
    using assms(2)
  proof (cases rule: claim_webhook_delivery_cases)
    case (take_waiting x)
    then show ?thesis using key find_delivery assms(1) by (metis webhook_inv_def)
  next
    case (retaken x d' s1)
    note ex = expire_claim_inv [OF assms(1) retaken(1,3,4)]
    show ?thesis using key [OF retaken(6)] ex(3) by (auto simp: ex(2))
  qed simp_all
  then have t: "tok' = tok" "wd_claim_token_digest d = Some (sha tok)"
      "wd_claim_expires_at d = Some (tx_now tx + seconds l)"
      "find_by wd_id (wd_id d) (deliveries s') = Some d"
    by (auto simp: wd_take_def)
  from assms(3) [unfolded res] show ?thesis
    by (rule complete_webhook_delivery_cases) (use t in \<open>auto simp: claim_live_def\<close>)
qed

theorem webhook_claim_fences_witness:
  "\<exists>d res. claim_webhook_delivery id (wh_tx 5) ''tok'' 0 ''w'' 30 wh_db1 = Inr (Some (d, ''tok''), wh_db2) \<and>
     complete_webhook_delivery id (wh_tx 9) (wd_id d) ''tok'' True (Some 200) None wh_db2 = Inr res \<and>
     tx_now (wh_tx 9) < tx_now (wh_tx 5) + seconds 30"
proof -
  have inv: "webhook_inv wh_db1" by (simp add: webhook_run_defs webhook_inv_defs)
  obtain d where c: "claim_webhook_delivery id (wh_tx 5) ''tok'' 0 ''w'' 30 wh_db1 = Inr (Some (d, ''tok''), wh_db2)"
    and "wd_id d = 3"
    by (simp add: webhook_run_defs)
  moreover obtain res where
    "complete_webhook_delivery id (wh_tx 9) 3 ''tok'' True (Some 200) None wh_db2 = Inr res"
    by (simp add: webhook_run_defs)
  ultimately show ?thesis using webhook_claim_fences [OF inv c] by fastforce
qed

text \<open>
  C20: backoff. A failed attempt that leaves attempts over schedules the next one five seconds
  times a power of two later, at least ten seconds and at most an hour, and no worker can claim
  the delivery before that.
\<close>

theorem webhook_retry_backoff:
  assumes "webhook_inv s"
    and "complete_webhook_delivery sha tx i tok False h e s = Inr (d', s')"
    and "wd_attempt_count d' < wd_max_attempts d'"
  shows "wd_status d' = Wd_RETRY_WAIT \<and>
    wd_available_at d' = tx_now tx + seconds (5 * 2 ^ nat (wd_attempt_count d')) \<and>
    10 \<le> (5 * 2 ^ nat (wd_attempt_count d') :: int) \<and>
    (5 * 2 ^ nat (wd_attempt_count d') :: int) \<le> 3600 \<and>
    (\<forall>tx' p. tx_now tx' < wd_available_at d' \<longrightarrow> \<not> wd_claimable tx' p s' d')"
  using assms(2)
proof (cases rule: complete_webhook_delivery_cases)
  case (1 d dest)
  have ok: "delivery_ok d" using assms(1) delivery_ok_find [OF _ 1(1)] by (simp add: webhook_inv_def)
  have n: "wd_attempt_count d' = wd_attempt_count d" "wd_max_attempts d' = wd_max_attempts d"
    by (simp_all add: 1(7) wd_close_def Let_def)
  have "1 \<le> wd_attempt_count d" "wd_attempt_count d \<le> 7"
    using ok assms(3) 1(3) by (auto simp: delivery_ok_def item_inv_def claim_live_def n)
  then have "wd_attempt_count d \<in> {1, 2, 3, 4, 5, 6, 7}" by auto
  then have p: "retry_delay (wd_attempt_count d) = 5 * 2 ^ nat (wd_attempt_count d)"
      "10 \<le> (5 * 2 ^ nat (wd_attempt_count d) :: int)" "(5 * 2 ^ nat (wd_attempt_count d) :: int) \<le> 3600"
    by (auto simp: retry_delay_def)
  have st: "wd_status d' = Wd_RETRY_WAIT"
      "wd_available_at d' = tx_now tx + seconds (retry_delay (wd_attempt_count d))"
    using assms(3) by (simp_all add: n) (simp_all add: 1(7) wd_close_def Let_def)
  have "\<not> wd_claimable tx' p s' d'" if "tx_now tx' < wd_available_at d'" for tx' p
    using that st(1) by (auto simp: wd_claimable_def split: option.splits)
  moreover have "wd_available_at d' = tx_now tx + seconds (5 * 2 ^ nat (wd_attempt_count d))"
    using st(2) by (simp only: p(1))
  ultimately show ?thesis using st(1) p(2,3) unfolding n by blast
qed

theorem webhook_retry_backoff_witness:
  "\<exists>d' s'. complete_webhook_delivery id (wh_tx 9) 3 ''tok'' False (Some 500) None wh_db2 = Inr (d', s') \<and>
     wd_available_at d' = 9 + seconds 10"
proof -
  have inv: "webhook_inv wh_db2" by (simp add: webhook_run_defs webhook_inv_defs)
  obtain d' s' where c: "complete_webhook_delivery id (wh_tx 9) 3 ''tok'' False (Some 500) None wh_db2 = Inr (d', s')"
    and n: "wd_attempt_count d' = 1" "wd_max_attempts d' = 5"
    by (simp add: webhook_run_defs)
  have "wd_attempt_count d' < wd_max_attempts d'" by (simp add: n)
  from webhook_retry_backoff [OF inv c this] c show ?thesis by (auto simp: n wh_tx_def)
qed

end
