(* ===== verification/Schedules.thy ===== *)
theory Schedules
  imports Py_Values "HOL-Library.Option_ord"
begin

section \<open>Schedules\<close>

text \<open>
  \<open>apps/api/app/services/schedules.py\<close> on the tables \<open>control.schedules\<close>, \<open>schedule_triggers\<close>,
  \<open>builds\<close> and \<open>idempotency_records\<close>: creation under an idempotency key, pausing, and the
  dispatcher that fires what is due. The dispatcher calls \<open>services/runs.py: create_run\<close>, whose
  effect on the other tables is the argument \<open>spawn\<close>; every theorem holds for any run creation
  that leaves the schedule tables alone (\<open>spawn_frame\<close>).

  \<open>_advance_schedule\<close> divides a number of seconds held in a float. The integer division below
  agrees with it for delays under \<open>2 ^ 32\<close> seconds, where a float tells all microseconds apart.
\<close>

subsection \<open>Tables\<close>

datatype sch_status = Sc_ACTIVE | Sc_PAUSED | Sc_COMPLETED
datatype cadence = Cad_ONCE | Cad_INTERVAL
datatype missed_policy = Mp_SKIP | Mp_FIRE_ONCE
datatype trigger_outcome = To_FIRED | To_SKIPPED | To_FAILED

record schedule =
  sc_id :: uuid
  sc_organization_id :: uuid
  sc_project_id :: uuid
  sc_agent_id :: uuid
  sc_agent_version_id :: uuid
  sc_build_id :: uuid
  sc_name :: string
  sc_status :: sch_status
  sc_cadence_kind :: cadence
  sc_starts_at :: instant
  sc_interval_seconds :: "int option"
  sc_missed_run_policy :: missed_policy
  sc_misfire_grace_seconds :: int
  sc_run_payload :: json
  sc_next_fire_at :: "instant option"
  sc_last_triggered_at :: "instant option"
  sc_fired_count :: int
  sc_skipped_count :: int
  sc_failed_count :: int
  sc_created_by_user_id :: uuid
  sc_created_at :: instant
  sc_updated_at :: instant
  sc_version :: int

record trigger =
  tg_id :: uuid
  tg_organization_id :: uuid
  tg_project_id :: uuid
  tg_schedule_id :: uuid
  tg_run_id :: "uuid option"
  tg_scheduled_for :: instant
  tg_observed_at :: instant
  tg_outcome :: trigger_outcome
  tg_reason :: string
  tg_error_code :: "string option"
  tg_created_at :: instant

text \<open>The columns of \<open>control.builds\<close> this component reads.\<close>

record build_ref =
  br_id :: uuid
  br_organization_id :: uuid
  br_project_id :: uuid
  br_agent_id :: uuid
  br_agent_version_id :: uuid
  br_status :: string
  br_artifact_digest :: "string option"

text \<open>
  \<open>models.py: IdempotencyRecord\<close> of a schedule; the response snapshot is the summary of the
  created row.
\<close>

record idempotency_record =
  ir_organization_id :: uuid
  ir_principal_id :: string
  ir_endpoint :: string
  ir_key_digest :: string
  ir_request_fingerprint :: string
  ir_resource_id :: string
  ir_response_snapshot :: "schedule option"
  ir_created_at :: instant
  ir_expires_at :: instant

record schedule_db = session +
  schedules :: "schedule list"
  triggers :: "trigger list"
  build_refs :: "build_ref list"
  idempotency_records :: "idempotency_record list"

record agent_version_ref =
  av_id :: uuid
  av_organization_id :: uuid
  av_project_id :: uuid
  av_agent_id :: uuid

text \<open>
  \<open>schedule_schemas.py: CreateScheduleRequest\<close> after validation; \<open>cp_dump\<close> is the JSON image of
  the whole request, \<open>cp_run\<close> that of its run part.
\<close>

record schedule_request =
  cp_name :: string
  cp_cadence_kind :: cadence
  cp_starts_at :: instant
  cp_interval_seconds :: "int option"
  cp_missed_run_policy :: missed_policy
  cp_misfire_grace_seconds :: int
  cp_build_id :: uuid
  cp_run :: json
  cp_dump :: json

definition validate_cadence :: "schedule_request \<Rightarrow> bool" where
  \<comment> \<open>the field bounds and \<open>validate_cadence\<close>\<close>
  "validate_cadence p \<longleftrightarrow>
     (case cp_interval_seconds p of
        None \<Rightarrow> cp_cadence_kind p = Cad_ONCE
      | Some n \<Rightarrow> cp_cadence_kind p = Cad_INTERVAL \<and> 60 \<le> n \<and> n \<le> 31536000) \<and>
     60 \<le> cp_misfire_grace_seconds p \<and> cp_misfire_grace_seconds p \<le> 86400"

fun cadence_str :: "cadence \<Rightarrow> string" where
  "cadence_str Cad_ONCE = ''ONCE''"
| "cadence_str Cad_INTERVAL = ''INTERVAL''"

fun missed_policy_str :: "missed_policy \<Rightarrow> string" where
  "missed_policy_str Mp_SKIP = ''SKIP''"
| "missed_policy_str Mp_FIRE_ONCE = ''FIRE_ONCE''"

subsection \<open>Creating and pausing\<close>

definition schedule_endpoint :: string where
  "schedule_endpoint = ''POST:/api/v1/agent-versions/{version_id}/schedules''"

definition new_schedule ::
  "txn \<Rightarrow> agent_version_ref \<Rightarrow> uuid \<Rightarrow> uuid \<Rightarrow> schedule_request \<Rightarrow> uuid \<Rightarrow> schedule" where
  "new_schedule tx v build_id user_id p i =
     \<lparr>sc_id = i, sc_organization_id = av_organization_id v, sc_project_id = av_project_id v,
      sc_agent_id = av_agent_id v, sc_agent_version_id = av_id v, sc_build_id = build_id,
      sc_name = cp_name p, sc_status = Sc_ACTIVE, sc_cadence_kind = cp_cadence_kind p,
      sc_starts_at = cp_starts_at p, sc_interval_seconds = cp_interval_seconds p,
      sc_missed_run_policy = cp_missed_run_policy p,
      sc_misfire_grace_seconds = cp_misfire_grace_seconds p, sc_run_payload = cp_run p,
      sc_next_fire_at = Some (cp_starts_at p), sc_last_triggered_at = None, sc_fired_count = 0,
      sc_skipped_count = 0, sc_failed_count = 0, sc_created_by_user_id = user_id,
      sc_created_at = tx_now tx, sc_updated_at = tx_now tx, sc_version = 1\<rparr>"

definition create_schedule ::
  "(string \<Rightarrow> string) \<Rightarrow> txn \<Rightarrow> agent_version_ref \<Rightarrow> uuid \<Rightarrow> string \<Rightarrow> string \<Rightarrow> string \<Rightarrow> schedule_request \<Rightarrow>
   'a schedule_db_scheme \<Rightarrow> (schedule \<times> 'a schedule_db_scheme) result" where
  "create_schedule sha256 tx v user_id actor_type actor_id idempotency_key p s =
     (if \<not> (8 \<le> length idempotency_key \<and> length idempotency_key \<le> 200)
      then Inl (ApiError 400 ''INVALID_REQUEST'')
      else case List.find (\<lambda>b. br_id b = cp_build_id p \<and> br_organization_id b = av_organization_id v \<and>
             br_project_id b = av_project_id v \<and> br_agent_id b = av_agent_id v \<and>
             br_agent_version_id b = av_id v) (build_refs s) of
        None \<Rightarrow> Inl (ApiError 404 ''RESOURCE_NOT_FOUND'')
      | Some b \<Rightarrow>
        if br_status b \<noteq> ''SUCCEEDED'' \<or> br_artifact_digest b = None then Inl (ApiError 409 ''BUILD_NOT_READY'')
        else (let
            key_digest = sha256 idempotency_key;
            fingerprint = canonical_fingerprint sha256
              (JDict [(''agent_version_id'', juuid (av_id v)), (''schedule'', cp_dump p)])
          in case List.find (\<lambda>r. ir_organization_id r = av_organization_id v \<and>
                 ir_principal_id r = uuid_str user_id \<and> ir_endpoint r = schedule_endpoint \<and>
                 ir_key_digest r = key_digest) (idempotency_records s) of
            Some existing \<Rightarrow>
              if ir_request_fingerprint existing \<noteq> fingerprint
              then Inl (ApiError 409 ''IDEMPOTENCY_CONFLICT'')
              else (case ir_response_snapshot existing of
                      None \<Rightarrow> Inl (ApiError 409 ''RESOURCE_CONFLICT'')
                    | Some snapshot \<Rightarrow> Inr (snapshot, s))
          | None \<Rightarrow>
              if \<exists>r \<in> set (schedules s). sc_project_id r = av_project_id v \<and> sc_name r = cp_name p
              then Inl (ApiError 409 ''SCHEDULE_ALREADY_EXISTS'')
              else (let r = new_schedule tx v (br_id b) user_id p (next_id s)
                in Inr (r, append_audit_event tx (Some (sc_organization_id r)) (Some (sc_project_id r))
                     actor_type actor_id ''schedule.created'' ''schedule'' (Some (uuid_str (sc_id r)))
                     [(''agent_version_id'', juuid (sc_agent_version_id r)),
                      (''build_id'', juuid (sc_build_id r)),
                      (''cadence_kind'', JStr (cadence_str (sc_cadence_kind r))),
                      (''missed_run_policy'', JStr (missed_policy_str (sc_missed_run_policy r)))]
                     (s\<lparr>schedules := schedules s @ [r], next_id := next_id s + 1,
                        idempotency_records := idempotency_records s @
                          [\<lparr>ir_organization_id = sc_organization_id r,
                            ir_principal_id = uuid_str user_id, ir_endpoint = schedule_endpoint,
                            ir_key_digest = key_digest, ir_request_fingerprint = fingerprint,
                            ir_resource_id = uuid_str (sc_id r), ir_response_snapshot = Some r,
                            ir_created_at = tx_now tx,
                            ir_expires_at = tx_now tx + seconds (24 * 3600)\<rparr>]\<rparr>)))))"

text \<open>
  \<open>held\<close> is the copy of the row the session already holds when the route has loaded it: the
  locking \<open>SELECT\<close> then returns that object, and the flush writes the columns it changed.
\<close>

definition set_schedule_paused ::
  "txn \<Rightarrow> schedule option \<Rightarrow> uuid \<Rightarrow> bool \<Rightarrow> string \<Rightarrow> string \<Rightarrow> 'a schedule_db_scheme \<Rightarrow>
   (schedule \<times> 'a schedule_db_scheme) result" where
  "set_schedule_paused tx held schedule_id paused actor_type actor_id s =
     (case find_by sc_id schedule_id (schedules s) of
        None \<Rightarrow> Inl (ApiError 404 ''RESOURCE_NOT_FOUND'')
      | Some row \<Rightarrow> (let r = or_else held row; target = (if paused then Sc_PAUSED else Sc_ACTIVE) in
          if sc_status r = Sc_COMPLETED then Inl (ApiError 409 ''SCHEDULE_COMPLETED'')
          else if sc_status r = target then Inr (r, s)
          else (let
              change = (\<lambda>x. x\<lparr>sc_status := target, sc_updated_at := tx_now tx,
                                sc_version := sc_version r + 1\<rparr>)
            in Inr (change r,
                 append_audit_event tx (Some (sc_organization_id r)) (Some (sc_project_id r))
                   actor_type actor_id (if paused then ''schedule.paused'' else ''schedule.resumed'')
                   ''schedule'' (Some (uuid_str (sc_id r))) [(''version'', JInt (sc_version r + 1))]
                   (s\<lparr>schedules := upd_by sc_id schedule_id change (schedules s)\<rparr>)))))"

subsection \<open>Dispatching\<close>

definition advance_schedule :: "instant \<Rightarrow> instant \<Rightarrow> schedule \<Rightarrow> schedule result" where
  "advance_schedule scheduled_for now r =
     (if sc_cadence_kind r = Cad_ONCE
      then Inr (r\<lparr>sc_status := Sc_COMPLETED, sc_next_fire_at := None\<rparr>)
      else case sc_interval_seconds r of
        None \<Rightarrow> Inl RuntimeError
      | Some n \<Rightarrow> (let
          elapsed = max 0 (now - scheduled_for);
          jumps = elapsed div seconds n + 1
        in Inr (r\<lparr>sc_next_fire_at := Some (scheduled_for + seconds (jumps * n))\<rparr>)))"

text \<open>What the dispatcher decides for one schedule, and the counters of its result.\<close>

record dispatch_counts =
  dc_fired :: int
  dc_skipped :: int
  dc_failed :: int

record dispatch_result =
  dr_acquired :: bool
  dr_examined :: int
  dr_counts :: dispatch_counts

type_synonym 'a spawner =
  "txn \<Rightarrow> schedule \<Rightarrow> instant \<Rightarrow> 'a schedule_db_scheme \<Rightarrow> (string + uuid) \<times> 'a schedule_db_scheme"

definition missed_window :: "instant \<Rightarrow> instant \<Rightarrow> schedule \<Rightarrow> bool" where
  "missed_window scheduled_for now r \<longleftrightarrow> scheduled_for < now - seconds (sc_misfire_grace_seconds r)"

definition trigger_action :: "trigger_outcome \<Rightarrow> string" where
  "trigger_action oc = (case oc of To_FIRED \<Rightarrow> ''schedule.trigger_fired''
     | To_SKIPPED \<Rightarrow> ''schedule.trigger_skipped'' | To_FAILED \<Rightarrow> ''schedule.trigger_failed'')"

definition count_outcome :: "trigger_outcome \<Rightarrow> schedule \<Rightarrow> schedule" where
  "count_outcome oc r = (case oc of
     To_FIRED \<Rightarrow> r\<lparr>sc_fired_count := sc_fired_count r + 1\<rparr>
   | To_SKIPPED \<Rightarrow> r\<lparr>sc_skipped_count := sc_skipped_count r + 1\<rparr>
   | To_FAILED \<Rightarrow> r\<lparr>sc_failed_count := sc_failed_count r + 1\<rparr>)"

definition tally :: "trigger_outcome \<Rightarrow> dispatch_counts \<Rightarrow> dispatch_counts" where
  "tally oc c = (case oc of
     To_FIRED \<Rightarrow> c\<lparr>dc_fired := dc_fired c + 1\<rparr>
   | To_SKIPPED \<Rightarrow> c\<lparr>dc_skipped := dc_skipped c + 1\<rparr>
   | To_FAILED \<Rightarrow> c\<lparr>dc_failed := dc_failed c + 1\<rparr>)"

definition decide ::
  "'a spawner \<Rightarrow> txn \<Rightarrow> instant \<Rightarrow> schedule \<Rightarrow> 'a schedule_db_scheme \<Rightarrow>
   (trigger_outcome \<times> string \<times> string option \<times> uuid option) \<times> 'a schedule_db_scheme" where
  "decide spawn tx scheduled_for r s =
     (let missed = missed_window scheduled_for (tx_now tx) r in
      if missed \<and> sc_missed_run_policy r = Mp_SKIP
      then ((To_SKIPPED, ''MISSED_WINDOW'', None, None), s)
      else case spawn tx r scheduled_for s of
        (Inl ec, s') \<Rightarrow> ((To_FAILED, ''RUN_CREATION_REJECTED'', Some ec, None), s')
      | (Inr run_id, s') \<Rightarrow>
          ((To_FIRED, (if missed then ''MISSED_FIRE_ONCE'' else ''DUE''), None, Some run_id), s'))"

definition put_schedule :: "schedule \<Rightarrow> 'a schedule_db_scheme \<Rightarrow> 'a schedule_db_scheme" where
  "put_schedule r s = s\<lparr>schedules := upd_by sc_id (sc_id r) (\<lambda>_. r) (schedules s)\<rparr>"

definition dispatch_one ::
  "'a spawner \<Rightarrow> txn \<Rightarrow> schedule \<Rightarrow> dispatch_counts \<times> 'a schedule_db_scheme \<Rightarrow>
   (dispatch_counts \<times> 'a schedule_db_scheme) result" where
  "dispatch_one spawn tx r cs = (case cs of (c, s) \<Rightarrow>
     case sc_next_fire_at r of
       None \<Rightarrow> Inr (c, s)
     | Some scheduled_for \<Rightarrow>
         bind_result (advance_schedule scheduled_for (tx_now tx) r) (\<lambda>r1.
         let r2 = r1\<lparr>sc_last_triggered_at := Some (tx_now tx), sc_updated_at := tx_now tx,
                     sc_version := sc_version r + 1\<rparr> in
         if \<exists>t \<in> set (triggers s). tg_schedule_id t = sc_id r \<and> tg_scheduled_for t = scheduled_for
         then Inr (c, put_schedule r2 s)
         else (case decide spawn tx scheduled_for r2 (put_schedule r2 s) of
           ((oc, reason, error_code, run_id), s1) \<Rightarrow> (let
             r3 = count_outcome oc r2;
             t = \<lparr>tg_id = next_id s1, tg_organization_id = sc_organization_id r,
                  tg_project_id = sc_project_id r, tg_schedule_id = sc_id r, tg_run_id = run_id,
                  tg_scheduled_for = scheduled_for, tg_observed_at = tx_now tx, tg_outcome = oc,
                  tg_reason = reason, tg_error_code = error_code, tg_created_at = tx_now tx\<rparr>
           in Inr (tally oc c,
                append_audit_event tx (Some (sc_organization_id r)) (Some (sc_project_id r))
                  ''system'' ''schedule-dispatcher'' (trigger_action oc) ''schedule_trigger''
                  (Some (uuid_str (tg_id t)))
                  [(''schedule_id'', juuid (sc_id r)), (''scheduled_for'', jtime scheduled_for),
                   (''run_id'', jopt juuid run_id), (''reason'', JStr reason),
                   (''error_code'', jopt JStr error_code)]
                  ((put_schedule r3 s1)\<lparr>triggers := triggers s1 @ [t], next_id := next_id s1 + 1\<rparr>))))))"

fun dispatch_rows ::
  "'a spawner \<Rightarrow> txn \<Rightarrow> schedule list \<Rightarrow> dispatch_counts \<times> 'a schedule_db_scheme \<Rightarrow>
   (dispatch_counts \<times> 'a schedule_db_scheme) result" where
  "dispatch_rows spawn tx [] cs = Inr cs"
| "dispatch_rows spawn tx (r # rs) cs =
     bind_result (dispatch_one spawn tx r cs) (dispatch_rows spawn tx rs)"

definition due :: "txn \<Rightarrow> schedule \<Rightarrow> bool" where
  "due tx r \<longleftrightarrow> sc_status r = Sc_ACTIVE \<and>
     (case sc_next_fire_at r of None \<Rightarrow> False | Some t \<Rightarrow> t \<le> tx_now tx) \<and> \<not> tx_locked tx (sc_id r)"

definition no_counts :: dispatch_counts where
  "no_counts = \<lparr>dc_fired = 0, dc_skipped = 0, dc_failed = 0\<rparr>"

text \<open>\<open>acquired\<close> is the result of the advisory lock; the clock \<open>now\<close> of the call is \<open>tx_now\<close>.\<close>

definition dispatch_due_schedules ::
  "'a spawner \<Rightarrow> txn \<Rightarrow> bool \<Rightarrow> int \<Rightarrow> 'a schedule_db_scheme \<Rightarrow>
   (dispatch_result \<times> 'a schedule_db_scheme) result" where
  "dispatch_due_schedules spawn tx acquired batch_size s =
     (if \<not> (1 \<le> batch_size \<and> batch_size \<le> 500) then Inl ValueError
      else if \<not> acquired
      then Inr (\<lparr>dr_acquired = False, dr_examined = 0, dr_counts = no_counts\<rparr>, s)
      else (let rows = select_limit (\<lambda>r. (sc_next_fire_at r, sc_id r)) (due tx) (nat batch_size) (schedules s)
        in bind_result (dispatch_rows spawn tx rows (no_counts, s)) (\<lambda>(c, s').
             Inr (\<lparr>dr_acquired = True, dr_examined = int (length rows), dr_counts = c\<rparr>, s'))))"

subsection \<open>Advancing\<close>

lemma advance_interval:
  fixes now sf N :: int
  assumes "0 < N" and "sf \<le> now"
  defines "t \<equiv> sf + (max 0 (now - sf) div N + 1) * N"
  shows "now < t" and "t \<le> now + N"
proof -
  have "(now - sf) div N * N + (now - sf) mod N = now - sf" by simp
  moreover have "0 \<le> (now - sf) mod N" "(now - sf) mod N < N" using assms(1) by simp_all
  moreover have "t = sf + ((now - sf) div N * N + N)" using assms(2) by (simp add: t_def algebra_simps)
  ultimately show "now < t" "t \<le> now + N" by linarith+
qed

lemma seconds_mult: "seconds (k * n) = k * seconds n"
  by (simp add: seconds_def)

lemma advance_scheduleD:
  assumes "advance_schedule sf now r = Inr r'" and "sf \<le> now"
    and "\<And>n. sc_interval_seconds r = Some n \<Longrightarrow> 0 < n"
  shows "sc_next_fire_at r' = None \<and> sc_status r' = Sc_COMPLETED \<and> sc_cadence_kind r = Cad_ONCE \<or>
    sc_cadence_kind r = Cad_INTERVAL \<and> sc_status r' = sc_status r \<and>
    (\<exists>t. sc_next_fire_at r' = Some t \<and> now < t)"
proof (cases "sc_cadence_kind r")
  case Cad_ONCE
  with assms(1) show ?thesis by (auto simp: advance_schedule_def)
next
  case Cad_INTERVAL
  with assms(1) obtain n where n: "sc_interval_seconds r = Some n"
    and r': "r' = r\<lparr>sc_next_fire_at := Some (sf + (max 0 (now - sf) div seconds n + 1) * seconds n)\<rparr>"
    by (auto simp: advance_schedule_def Let_def seconds_mult split: option.splits)
  have "0 < seconds n" using assms(3) [OF n] by simp
  from advance_interval(1) [OF this assms(2)] show ?thesis by (simp add: r' Cad_INTERVAL)
qed

subsection \<open>Invariant\<close>

definition outcomes :: "trigger_outcome \<Rightarrow> uuid \<Rightarrow> trigger list \<Rightarrow> int" where
  "outcomes oc i ts = countp (\<lambda>t. tg_schedule_id t = i \<and> tg_outcome t = oc) ts"

definition schedule_checks :: "schedule \<Rightarrow> bool" where
  \<comment> \<open>the \<open>CHECK\<close> constraints of \<open>control.schedules\<close>\<close>
  "schedule_checks r \<longleftrightarrow>
     (case sc_interval_seconds r of None \<Rightarrow> sc_cadence_kind r = Cad_ONCE
      | Some n \<Rightarrow> sc_cadence_kind r = Cad_INTERVAL \<and> 60 \<le> n \<and> n \<le> 31536000) \<and>
     60 \<le> sc_misfire_grace_seconds r \<and> sc_misfire_grace_seconds r \<le> 86400 \<and>
     (sc_status r = Sc_COMPLETED \<longrightarrow> sc_cadence_kind r = Cad_ONCE \<and> sc_next_fire_at r = None)"

definition schedule_row_ok :: "trigger list \<Rightarrow> schedule \<Rightarrow> bool" where
  "schedule_row_ok ts r \<longleftrightarrow> schedule_checks r \<and>
     sc_fired_count r = outcomes To_FIRED (sc_id r) ts \<and>
     sc_skipped_count r = outcomes To_SKIPPED (sc_id r) ts \<and>
     sc_failed_count r = outcomes To_FAILED (sc_id r) ts \<and>
     (\<forall>t \<in> set ts. tg_schedule_id t = sc_id r \<longrightarrow>
        (case sc_next_fire_at r of None \<Rightarrow> True | Some x \<Rightarrow> tg_scheduled_for t < x))"

definition trigger_ok :: "trigger \<Rightarrow> bool" where
  \<comment> \<open>the \<open>CHECK\<close> constraints of \<open>control.schedule_triggers\<close>\<close>
  "trigger_ok t \<longleftrightarrow> (tg_outcome t = To_FIRED \<longleftrightarrow> tg_run_id t \<noteq> None) \<and>
     (tg_outcome t = To_FAILED \<longleftrightarrow> tg_error_code t \<noteq> None)"

definition schedule_inv :: "'a schedule_db_scheme \<Rightarrow> bool" where
  "schedule_inv s \<longleftrightarrow> fresh_ids sc_id (schedules s) (next_id s) \<and>
     (\<forall>r \<in> set (schedules s). schedule_row_ok (triggers s) r) \<and>
     (\<forall>t \<in> set (triggers s). trigger_ok t \<and> tg_schedule_id t \<in> sc_id ` set (schedules s)) \<and>
     distinct (map (\<lambda>t. (tg_schedule_id t, tg_scheduled_for t)) (triggers s))"

definition spawn_frame :: "'a spawner \<Rightarrow> bool" where
  "spawn_frame spawn \<longleftrightarrow> (\<forall>tx r sf s. schedules (snd (spawn tx r sf s)) = schedules s \<and>
     triggers (snd (spawn tx r sf s)) = triggers s \<and> next_id s \<le> next_id (snd (spawn tx r sf s)))"

definition dispatch_total :: "dispatch_counts \<Rightarrow> int" where
  "dispatch_total c = dc_fired c + dc_skipped c + dc_failed c"

lemma dispatch_total_tally [simp]: "dispatch_total (tally oc c) = dispatch_total c + 1"
  by (cases oc) (simp_all add: dispatch_total_def tally_def)

lemma outcomes_snoc [simp]:
  "outcomes oc i (ts @ [t]) = outcomes oc i ts + of_bool (tg_schedule_id t = i \<and> tg_outcome t = oc)"
  by (simp add: outcomes_def)

lemma count_outcome_sel [simp]:
  "sc_id (count_outcome oc r) = sc_id r" "sc_status (count_outcome oc r) = sc_status r"
  "sc_next_fire_at (count_outcome oc r) = sc_next_fire_at r"
  "sc_cadence_kind (count_outcome oc r) = sc_cadence_kind r"
  "sc_interval_seconds (count_outcome oc r) = sc_interval_seconds r"
  "sc_misfire_grace_seconds (count_outcome oc r) = sc_misfire_grace_seconds r"
  "sc_fired_count (count_outcome oc r) = sc_fired_count r + of_bool (oc = To_FIRED)"
  "sc_skipped_count (count_outcome oc r) = sc_skipped_count r + of_bool (oc = To_SKIPPED)"
  "sc_failed_count (count_outcome oc r) = sc_failed_count r + of_bool (oc = To_FAILED)"
  by (cases oc; simp add: count_outcome_def)+

lemma decide_frame:
  assumes "spawn_frame spawn" and "decide spawn tx sf r s = ((oc, reason, ec, rid), s')"
  shows "schedules s' = schedules s" and "triggers s' = triggers s" and "next_id s \<le> next_id s'"
    and "(oc = To_FIRED) = (rid \<noteq> None)" and "(oc = To_FAILED) = (ec \<noteq> None)"
proof -
  obtain x y where sp: "spawn tx r sf s = (x, y)" by (cases "spawn tx r sf s")
  with assms(1) have "schedules y = schedules s" "triggers y = triggers s" "next_id s \<le> next_id y"
    unfolding spawn_frame_def by (metis snd_conv)+
  with assms(2) sp show "schedules s' = schedules s" "triggers s' = triggers s" "next_id s \<le> next_id s'"
      "(oc = To_FIRED) = (rid \<noteq> None)" "(oc = To_FAILED) = (ec \<noteq> None)"
    by (auto simp: decide_def Let_def split: if_splits sum.splits)
qed

lemma upd_by_put_put [simp]:
  "key r = i \<Longrightarrow> upd_by key i (\<lambda>_. r') (upd_by key i (\<lambda>_. r) t) = upd_by key i (\<lambda>_. r') t"
  by (induction t) auto

lemma schedule_inv_step:
  assumes inv: "schedule_inv s" and r: "find_by sc_id i (schedules s) = Some r"
    and s': "schedules s' = upd_by sc_id i (\<lambda>_. r') (schedules s)" "triggers s' = triggers s @ [t]"
      "next_id s \<le> next_id s'"
    and t: "trigger_ok t" "tg_schedule_id t = i" "sc_next_fire_at r = Some (tg_scheduled_for t)"
    and r': "sc_id r' = i" "schedule_row_ok (triggers s @ [t]) r'"
  shows "schedule_inv s'"
proof -
  from r have mem: "r \<in> set (schedules s)" "sc_id r = i" by (auto dest: find_by_SomeD)
  have rows: "schedule_row_ok (triggers s') (if sc_id x = i then r' else x)" if "x \<in> set (schedules s)" for x
    using that inv r' t by (auto simp: schedule_inv_def schedule_row_ok_def s')
  have ids: "map sc_id (schedules s') = map sc_id (schedules s)"
    unfolding s' by (simp add: upd_by_def r'(1) cong: map_cong)
  then have "sc_id ` set (schedules s') = sc_id ` set (schedules s)" by (metis list.set_map)
  moreover have "fresh_ids sc_id (schedules s') (next_id s')"
  proof -
    have "fresh_ids sc_id (schedules s) (next_id s')"
      using inv s'(3) by (auto simp: schedule_inv_def intro: fresh_ids_mono)
    then show ?thesis unfolding fresh_ids_def
      using ids by (metis (no_types, lifting) imageE image_eqI list.set_map)
  qed
  moreover have "\<forall>x \<in> set (schedules s'). schedule_row_ok (triggers s') x"
    unfolding s'(1) ball_upd_by using rows by blast
  moreover have "(i, tg_scheduled_for t) \<notin> (\<lambda>t. (tg_schedule_id t, tg_scheduled_for t)) ` set (triggers s)"
    using inv mem t(3) by (force simp: schedule_inv_def schedule_row_ok_def)
  moreover have "i \<in> sc_id ` set (schedules s)" using mem by (metis image_eqI)
  ultimately show ?thesis
    using inv t unfolding schedule_inv_def by (auto simp: s'(2))
qed

lemma due_row:
  assumes "schedule_inv s" and "find_by sc_id i (schedules s) = Some r" and "due tx r"
  obtains sf r1 where "sc_next_fire_at r = Some sf" and "sf \<le> tx_now tx"
    and "advance_schedule sf (tx_now tx) r = Inr r1"
    and "\<not> (\<exists>t \<in> set (triggers s). tg_schedule_id t = sc_id r \<and> tg_scheduled_for t = sf)"
    and "schedule_row_ok (triggers s) r" and "sc_id r = i"
proof -
  from assms(3) obtain sf where sf: "sc_next_fire_at r = Some sf" "sf \<le> tx_now tx"
    by (auto simp: due_def split: option.splits)
  from assms(1,2) have ok: "schedule_row_ok (triggers s) r" and i: "sc_id r = i"
    by (auto simp: schedule_inv_def dest: find_by_SomeD)
  from ok obtain r1 where "advance_schedule sf (tx_now tx) r = Inr r1"
    by (auto simp: advance_schedule_def schedule_row_ok_def schedule_checks_def Let_def
        split: option.splits)
  moreover have "\<not> (\<exists>t \<in> set (triggers s). tg_schedule_id t = sc_id r \<and> tg_scheduled_for t = sf)"
    using ok sf by (auto simp: schedule_row_ok_def)
  ultimately show ?thesis using that sf ok i by blast
qed

lemma advance_schedule_sel:
  assumes "advance_schedule sf now r = Inr r1"
  shows "sc_id r1 = sc_id r" "sc_fired_count r1 = sc_fired_count r"
    "sc_skipped_count r1 = sc_skipped_count r" "sc_failed_count r1 = sc_failed_count r"
    "sc_cadence_kind r1 = sc_cadence_kind r" "sc_interval_seconds r1 = sc_interval_seconds r"
    "sc_misfire_grace_seconds r1 = sc_misfire_grace_seconds r"
  using assms by (auto simp: advance_schedule_def Let_def split: if_splits option.splits)

lemma dispatch_one_ok:
  assumes frame: "spawn_frame spawn" and inv: "schedule_inv s"
    and r: "find_by sc_id i (schedules s) = Some r" and due: "due tx r"
  obtains c' s' t r' where "dispatch_one spawn tx r (c, s) = Inr (c', s')"
    and "dispatch_total c' = dispatch_total c + 1" and "triggers s' = triggers s @ [t]"
    and "tg_schedule_id t = i" and "sc_next_fire_at r = Some (tg_scheduled_for t)"
    and "schedules s' = upd_by sc_id i (\<lambda>_. r') (schedules s)" and "sc_id r' = i"
    and "\<not> due tx r'" and "schedule_inv s'"
proof -
  from due_row [OF inv r due] obtain sf r1 where
    sf: "sc_next_fire_at r = Some sf" "sf \<le> tx_now tx"
    and adv: "advance_schedule sf (tx_now tx) r = Inr r1"
    and new: "\<not> (\<exists>t \<in> set (triggers s). tg_schedule_id t = sc_id r \<and> tg_scheduled_for t = sf)"
    and ok: "schedule_row_ok (triggers s) r" and i: "sc_id r = i"
    by blast
  note sel = advance_schedule_sel [OF adv]
  define r2 where "r2 = r1\<lparr>sc_last_triggered_at := Some (tx_now tx), sc_updated_at := tx_now tx,
    sc_version := sc_version r + 1\<rparr>"
  obtain oc reason ec rid s1 where
    dec: "decide spawn tx sf r2 (put_schedule r2 s) = ((oc, reason, ec, rid), s1)"
    by (metis prod.exhaust)
  note df = decide_frame [OF frame dec]
  define t where "t = \<lparr>tg_id = next_id s1, tg_organization_id = sc_organization_id r,
    tg_project_id = sc_project_id r, tg_schedule_id = sc_id r, tg_run_id = rid,
    tg_scheduled_for = sf, tg_observed_at = tx_now tx, tg_outcome = oc, tg_reason = reason,
    tg_error_code = ec, tg_created_at = tx_now tx\<rparr>"
  let ?r3 = "count_outcome oc r2"
  obtain s' where run: "dispatch_one spawn tx r (c, s) = Inr (tally oc c, s')"
    and s': "triggers s' = triggers s1 @ [t]" "schedules s' = schedules (put_schedule ?r3 s1)"
      "next_id s' = next_id s1 + 1"
    using new by (simp add: dispatch_one_def sf adv dec r2_def [symmetric] t_def [symmetric] Let_def
        append_audit_event_def)
  have id2: "sc_id r2 = i" by (simp add: r2_def sel i)
  have sch: "schedules s' = upd_by sc_id i (\<lambda>_. ?r3) (schedules s)"
    by (simp add: s'(2) put_schedule_def df(1) id2)
  have trg: "triggers s' = triggers s @ [t]" by (simp add: s'(1) df(2) put_schedule_def)
  have int: "0 < n" if "sc_interval_seconds r = Some n" for n
    using ok that by (auto simp: schedule_row_ok_def schedule_checks_def)
  note next_at = advance_scheduleD [OF adv sf(2) int]
  have "\<not> due tx ?r3" using next_at by (auto simp: due_def r2_def)
  moreover have "schedule_row_ok (triggers s @ [t]) ?r3"
  proof -
    have "schedule_checks ?r3"
      using ok next_at due
      by (auto simp: schedule_row_ok_def schedule_checks_def r2_def sel due_def split: option.splits)
    moreover have "\<forall>x \<in> set (triggers s @ [t]). tg_schedule_id x = sc_id ?r3 \<longrightarrow>
        (case sc_next_fire_at ?r3 of None \<Rightarrow> True | Some y \<Rightarrow> tg_scheduled_for x < y)"
      using ok next_at sf by (auto simp: schedule_row_ok_def r2_def sel t_def split: option.splits)
    ultimately show ?thesis
      using ok by (simp add: schedule_row_ok_def r2_def sel t_def)
  qed
  moreover have "trigger_ok t" using df(4,5) by (simp add: trigger_ok_def t_def)
  ultimately have "schedule_inv s'"
    by (intro schedule_inv_step [OF inv r sch trg])
      (use df(3) id2 sf in \<open>simp_all add: s'(3) put_schedule_def t_def i\<close>)
  with \<open>\<not> due tx ?r3\<close> id2 sf show ?thesis
    by (intro that [OF run _ trg _ _ sch]) (simp_all add: t_def i)
qed

lemma dispatch_rows_ok:
  assumes "spawn_frame spawn" and "schedule_inv s" and "distinct (map sc_id rows)"
    and "\<forall>r \<in> set rows. find_by sc_id (sc_id r) (schedules s) = Some r \<and> due tx r"
  shows "\<exists>c' s' new. dispatch_rows spawn tx rows (c, s) = Inr (c', s') \<and> schedule_inv s' \<and>
    dispatch_total c' = dispatch_total c + int (length rows) \<and> triggers s' = triggers s @ new \<and>
    map (\<lambda>t. (tg_schedule_id t, Some (tg_scheduled_for t))) new =
      map (\<lambda>r. (sc_id r, sc_next_fire_at r)) rows \<and>
    (\<forall>r \<in> set rows. \<exists>r'. find_by sc_id (sc_id r) (schedules s') = Some r' \<and> \<not> due tx r') \<and>
    (\<forall>i. i \<notin> sc_id ` set rows \<longrightarrow> find_by sc_id i (schedules s') = find_by sc_id i (schedules s))"
  using assms(2-4)
proof (induction rows arbitrary: c s)
  case (Cons r rows)
  have r: "find_by sc_id (sc_id r) (schedules s) = Some r" and due: "due tx r"
    using Cons.prems(3) by simp_all
  obtain c1 s1 t r' where one: "dispatch_one spawn tx r (c, s) = Inr (c1, s1)"
      "dispatch_total c1 = dispatch_total c + 1" "triggers s1 = triggers s @ [t]"
      "tg_schedule_id t = sc_id r" "sc_next_fire_at r = Some (tg_scheduled_for t)"
      "schedules s1 = upd_by sc_id (sc_id r) (\<lambda>_. r') (schedules s)" "sc_id r' = sc_id r"
      "\<not> due tx r'" "schedule_inv s1"
    by (rule dispatch_one_ok [OF assms(1) Cons.prems(1) r due, of c])
  have find1: "find_by sc_id j (schedules s1) =
      (if sc_id r = j then Some r' else find_by sc_id j (schedules s))" for j
    using r by (auto simp: one(6) find_by_put one(7))
  have "\<forall>x \<in> set rows. find_by sc_id (sc_id x) (schedules s1) = Some x \<and> due tx x"
    using Cons.prems(2,3) by (auto simp: find1)
  with Cons.prems(2) Cons.IH [OF one(9), of c1] obtain c' s' new where
    ih: "dispatch_rows spawn tx rows (c1, s1) = Inr (c', s')" "schedule_inv s'"
      "dispatch_total c' = dispatch_total c1 + int (length rows)" "triggers s' = triggers s1 @ new"
      "map (\<lambda>t. (tg_schedule_id t, Some (tg_scheduled_for t))) new = map (\<lambda>r. (sc_id r, sc_next_fire_at r)) rows"
      "\<forall>r \<in> set rows. \<exists>r'. find_by sc_id (sc_id r) (schedules s') = Some r' \<and> \<not> due tx r'"
      "\<forall>i. i \<notin> sc_id ` set rows \<longrightarrow> find_by sc_id i (schedules s') = find_by sc_id i (schedules s1)"
    by auto
  have "find_by sc_id (sc_id r) (schedules s') = Some r'"
    using ih(7) Cons.prems(2) by (simp add: find1)
  moreover have "find_by sc_id i (schedules s') = find_by sc_id i (schedules s)"
    if "i \<notin> sc_id ` set (r # rows)" for i
    using ih(7) that by (simp add: find1)
  ultimately show ?case
    using ih one
    by (intro exI [of _ c'] exI [of _ s'] exI [of _ "t # new"]) simp
qed simp

lemma dispatch_due_ok:
  fixes s :: "'a schedule_db_scheme" and tx :: txn and batch :: int
  assumes "spawn_frame spawn" and "schedule_inv s" and "1 \<le> batch" and "batch \<le> 500"
  defines "rows \<equiv> select_limit (\<lambda>r. (sc_next_fire_at r, sc_id r)) (due tx) (nat batch) (schedules s)"
  shows "\<exists>res s' new. dispatch_due_schedules spawn tx True batch s = Inr (res, s') \<and> schedule_inv s' \<and>
    dispatch_total (dr_counts res) = int (length rows) \<and> dr_examined res = int (length rows) \<and>
    triggers s' = triggers s @ new \<and>
    map (\<lambda>t. (tg_schedule_id t, Some (tg_scheduled_for t))) new = map (\<lambda>r. (sc_id r, sc_next_fire_at r)) rows \<and>
    (\<forall>r \<in> set rows. \<exists>r'. find_by sc_id (sc_id r) (schedules s') = Some r' \<and> \<not> due tx r') \<and>
    (\<forall>i. i \<notin> sc_id ` set rows \<longrightarrow> find_by sc_id i (schedules s') = find_by sc_id i (schedules s))"
proof -
  have d: "distinct (map sc_id (schedules s))"
    using assms(2) by (auto simp: schedule_inv_def dest: fresh_idsD)
  have "distinct (map sc_id (sort_key (\<lambda>r. (sc_next_fire_at r, sc_id r)) (filter (due tx) (schedules s))))"
    using d by (intro distinct_sort_key_map) (simp add: distinct_map_filter)
  then have dr: "distinct (map sc_id rows)"
    by (simp add: rows_def select_limit_def flip: take_map)
  have "\<forall>r \<in> set rows. find_by sc_id (sc_id r) (schedules s) = Some r \<and> due tx r"
    using d by (auto simp: rows_def find_by_eq_Some_iff dest!: select_limit_mem)
  from dispatch_rows_ok [OF assms(1,2) dr this, of no_counts] obtain c' s' new where
    run: "dispatch_rows spawn tx rows (no_counts, s) = Inr (c', s')" and
    rest: "schedule_inv s'" "dispatch_total c' = int (length rows)" "triggers s' = triggers s @ new"
      "map (\<lambda>t. (tg_schedule_id t, Some (tg_scheduled_for t))) new = map (\<lambda>r. (sc_id r, sc_next_fire_at r)) rows"
      "\<forall>r \<in> set rows. \<exists>r'. find_by sc_id (sc_id r) (schedules s') = Some r' \<and> \<not> due tx r'"
      "\<forall>i. i \<notin> sc_id ` set rows \<longrightarrow> find_by sc_id i (schedules s') = find_by sc_id i (schedules s)"
    by (auto simp: dispatch_total_def no_counts_def)
  have "dispatch_due_schedules spawn tx True batch s =
      Inr (\<lparr>dr_acquired = True, dr_examined = int (length rows), dr_counts = c'\<rparr>, s')"
    using assms(3,4) run by (simp add: dispatch_due_schedules_def rows_def [symmetric])
  with rest show ?thesis
    by (intro exI [of _ "\<lparr>dr_acquired = True, dr_examined = int (length rows), dr_counts = c'\<rparr>"]
        exI [of _ s'] exI [of _ new]) simp
qed

lemma schedule_inv_audit [simp]:
  "schedule_inv (append_audit_event tx og pr at ai ac rt rid d s) \<longleftrightarrow> schedule_inv s"
  by (simp add: schedule_inv_def append_audit_event_def)

lemma create_schedule_cases:
  assumes "create_schedule sha tx v u at ai k p s = Inr (r, s')"
  obtains (replay) "s' = s"
  | (new) b where "schedules s' = schedules s @ [new_schedule tx v b u p (next_id s)]"
      "triggers s' = triggers s" "next_id s' = next_id s + 1"
proof -
  let ?find_build = "List.find (\<lambda>b. br_id b = cp_build_id p \<and>
    br_organization_id b = av_organization_id v \<and> br_project_id b = av_project_id v \<and>
    br_agent_id b = av_agent_id v \<and> br_agent_version_id b = av_id v) (build_refs s)"
  let ?find_record = "List.find (\<lambda>r. ir_organization_id r = av_organization_id v \<and>
    ir_principal_id r = uuid_str u \<and> ir_endpoint r = schedule_endpoint \<and>
    ir_key_digest r = sha k) (idempotency_records s)"
  from assms obtain b where b: "?find_build = Some b"
    by (cases ?find_build) (simp_all add: create_schedule_def split: if_splits)
  show ?thesis
  proof (cases ?find_record)
    case None
    with assms b show ?thesis
      by (intro new [of "br_id b"])
        (auto simp: create_schedule_def Let_def append_audit_event_def split: if_splits)
  next
    case (Some e)
    with assms b have "s' = s"
      by (simp add: create_schedule_def Let_def split: if_splits option.splits)
    then show ?thesis by (rule replay)
  qed
qed

lemma create_schedule_inv:
  assumes "schedule_inv s" and "validate_cadence p"
    and "create_schedule sha tx v u at ai k p s = Inr (r, s')"
  shows "schedule_inv s'"
  using assms(3)
proof (cases rule: create_schedule_cases)
  case replay
  with assms(1) show ?thesis by simp
next
  case (new b)
  note s' = new
  have none: "tg_schedule_id t \<noteq> next_id s" if "t \<in> set (triggers s)" for t
    using that assms(1) by (fastforce simp: schedule_inv_def fresh_ids_def)
  then have "outcomes oc (next_id s) (triggers s) = 0" for oc
    by (simp add: outcomes_def countp_def)
  then have "schedule_row_ok (triggers s) (new_schedule tx v b u p (next_id s))"
    using assms(2) none
    by (simp add: schedule_row_ok_def schedule_checks_def new_schedule_def validate_cadence_def
        split: option.splits)
  moreover have "fresh_ids sc_id (schedules s') (next_id s')"
    using assms(1) by (auto simp: s' schedule_inv_def new_schedule_def intro: fresh_ids_snoc)
  ultimately show ?thesis using assms(1) by (auto simp: schedule_inv_def s')
qed

lemma schedule_row_ok_status:
  "schedule_row_ok ts x \<Longrightarrow> st \<noteq> Sc_COMPLETED \<Longrightarrow>
   schedule_row_ok ts (x\<lparr>sc_status := st, sc_updated_at := n, sc_version := v\<rparr>)"
  by (auto simp: schedule_row_ok_def schedule_checks_def split: option.splits)

lemma set_schedule_paused_inv:
  assumes "schedule_inv s" and "held = None \<or> held = find_by sc_id i (schedules s)"
    and "set_schedule_paused tx held i b at ai s = Inr (r, s')"
  shows "schedule_inv s'"
proof -
  from assms(3) obtain row where row: "find_by sc_id i (schedules s) = Some row"
    by (auto simp: set_schedule_paused_def split: option.splits)
  with assms(2) have held: "or_else held row = row" by auto
  let ?st = "if b then Sc_PAUSED else Sc_ACTIVE"
  let ?f = "\<lambda>x. x\<lparr>sc_status := ?st, sc_updated_at := tx_now tx, sc_version := sc_version row + 1\<rparr>"
  have "schedule_inv (s\<lparr>schedules := upd_by sc_id i ?f (schedules s)\<rparr>)"
  proof -
    have "\<forall>x \<in> set (upd_by sc_id i ?f (schedules s)). schedule_row_ok (triggers s) x"
      using assms(1) by (simp add: ball_upd_by schedule_inv_def schedule_row_ok_status)
    moreover have "fresh_ids sc_id (upd_by sc_id i ?f (schedules s)) (next_id s)"
      using assms(1) by (intro fresh_ids_upd_by) (simp_all add: schedule_inv_def)
    moreover have "sc_id ` set (upd_by sc_id i ?f (schedules s)) = sc_id ` set (schedules s)"
      by (rule image_upd_by) simp
    ultimately show ?thesis using assms(1) by (simp add: schedule_inv_def)
  qed
  then show ?thesis
    using assms(1,3) by (auto simp: set_schedule_paused_def row held Let_def split: if_splits)
qed

subsection \<open>The system of schedule transactions\<close>

text \<open>
  Requests are validated by \<open>CreateScheduleRequest\<close> before they reach the service; a pause comes
  from a request whose copy of the row, if it has one, is current.
\<close>

inductive schedule_step ::
  "(string \<Rightarrow> string) \<Rightarrow> 'a spawner \<Rightarrow> 'a schedule_db_scheme \<Rightarrow> 'a schedule_db_scheme \<Rightarrow> bool"
  for sha spawn where
  create: "validate_cadence p \<Longrightarrow> create_schedule sha tx v u at ai k p s = Inr (r, s') \<Longrightarrow>
    schedule_step sha spawn s s'"
| pause: "held = None \<or> held = find_by sc_id i (schedules s) \<Longrightarrow>
    set_schedule_paused tx held i b at ai s = Inr (r, s') \<Longrightarrow> schedule_step sha spawn s s'"
| dispatch: "dispatch_due_schedules spawn tx acq batch s = Inr (res, s') \<Longrightarrow>
    schedule_step sha spawn s s'"

lemma dispatch_due_inv:
  assumes "spawn_frame spawn" and "schedule_inv s"
    and "dispatch_due_schedules spawn tx acq batch s = Inr (res, s')"
  shows "schedule_inv s'"
proof (cases acq)
  case True
  with assms(3) have b: "1 \<le> batch" "batch \<le> 500"
    by (auto simp: dispatch_due_schedules_def split: if_splits)
  from dispatch_due_ok [OF assms(1,2) b, of tx] obtain x y where
    "dispatch_due_schedules spawn tx True batch s = Inr (x, y)" "schedule_inv y"
    by blast
  with assms(3) True show ?thesis by simp
next
  case False
  with assms show ?thesis by (auto simp: dispatch_due_schedules_def split: if_splits)
qed

lemma schedule_step_inv:
  "schedule_step sha spawn s s' \<Longrightarrow> spawn_frame spawn \<Longrightarrow> schedule_inv s \<Longrightarrow> schedule_inv s'"
  by (induction rule: schedule_step.induct)
    (auto intro: create_schedule_inv set_schedule_paused_inv dispatch_due_inv)

subsection \<open>Sample database\<close>

definition sd_tx :: "instant \<Rightarrow> txn" where
  "sd_tx now = \<lparr>tx_now = now, tx_request_id = ''r'', tx_locked = (\<lambda>_. False)\<rparr>"

definition sd_request :: schedule_request where
  "sd_request = \<lparr>cp_name = ''hourly'', cp_cadence_kind = Cad_INTERVAL, cp_starts_at = seconds 100,
     cp_interval_seconds = Some 60, cp_missed_run_policy = Mp_SKIP, cp_misfire_grace_seconds = 60,
     cp_build_id = 1, cp_run = JNull, cp_dump = JNull\<rparr>"

definition sd_version :: agent_version_ref where
  "sd_version = \<lparr>av_id = 2, av_organization_id = 0, av_project_id = 0, av_agent_id = 0\<rparr>"

definition sd_db :: schedule_db where
  "sd_db = \<lparr>audit_log = [], next_id = 3, schedules = [], triggers = [],
     build_refs = [\<lparr>br_id = 1, br_organization_id = 0, br_project_id = 0, br_agent_id = 0,
       br_agent_version_id = 2, br_status = ''SUCCEEDED'', br_artifact_digest = Some ''d''\<rparr>],
     idempotency_records = []\<rparr>"

definition sd_spawn :: "unit spawner" where
  "sd_spawn tx r sf s = (Inr (next_id s), s\<lparr>next_id := next_id s + 1\<rparr>)"

definition sd_db1 :: schedule_db where
  "sd_db1 = snd (projr (create_schedule id (sd_tx 0) sd_version 0 ''user'' ''u'' ''12345678'' sd_request sd_db))"

lemmas schedule_run_defs = sd_tx_def sd_request_def sd_version_def sd_db_def sd_db1_def sd_spawn_def
  create_schedule_def new_schedule_def validate_cadence_def dispatch_due_schedules_def dispatch_one_def
  decide_def missed_window_def advance_schedule_def put_schedule_def count_outcome_def tally_def
  select_limit_def due_def no_counts_def append_audit_event_def seconds_def Let_def

lemma sd_spawn_frame: "spawn_frame sd_spawn"
  by (simp add: spawn_frame_def sd_spawn_def)

lemma sd_db_inv: "schedule_inv sd_db"
  by (simp add: schedule_inv_def sd_db_def fresh_ids_def)

lemma sd_create: "\<exists>r. create_schedule id (sd_tx 0) sd_version 0 ''user'' ''u'' ''12345678'' sd_request sd_db = Inr (r, sd_db1)"
  by (simp add: schedule_run_defs)

lemma sd_valid: "validate_cadence sd_request"
  by (simp add: validate_cadence_def sd_request_def)

lemma sd_db1_inv: "schedule_inv sd_db1"
  using sd_create create_schedule_inv [OF sd_db_inv sd_valid] by blast

subsection \<open>Properties\<close>



text \<open>
  C22: in every database the transactions reach, each scheduled instant of a schedule has at most
  one trigger, all recorded triggers lie before the next firing time, the three counters of a
  schedule are the numbers of its triggers by outcome, and no \<open>CHECK\<close> constraint is violated.
\<close>

theorem schedule_reachable_inv:
  assumes "spawn_frame spawn" and "schedule_inv s" and "(schedule_step sha spawn)\<^sup>*\<^sup>* s s'"
  shows "schedule_inv s'"
  using assms(3,2) by (induction rule: rtranclp_induct) (auto intro: schedule_step_inv [OF _ assms(1)])

theorem schedule_reachable_inv_witness: "schedule_inv sd_db1 \<and> schedules sd_db1 \<noteq> []"
proof
  have "schedule_step id sd_spawn sd_db sd_db1"
    using sd_create schedule_step.create [OF sd_valid] by blast
  then have "(schedule_step id sd_spawn)\<^sup>*\<^sup>* sd_db sd_db1" by blast
  from schedule_reachable_inv [OF sd_spawn_frame sd_db_inv this] show "schedule_inv sd_db1" .
  show "schedules sd_db1 \<noteq> []" by (simp add: schedule_run_defs)
qed



end
