(* ===== verification/Py_Text.thy ===== *)
theory Py_Text
  imports Py_Values "HOL-Library.Monad_Syntax" "HOL-Library.Char_ord" "HOL-Library.List_Lexorder"
begin

section \<open>Reading text: numbers, identifiers and timestamps\<close>

text \<open>
  What the services use of Python's text functions: \<open>str.strip\<close>, \<open>int(text)\<close>, \<open>UUID(text)\<close>,
  \<open>str(value)\<close>, \<open>int(value)\<close> and \<open>datetime.fromisoformat\<close>. The last one reads the extended format
  with a date, a separator, a time and an offset; the compact and week-date variants are not read.
  Strings compare by code point, the order of \<open>sorted\<close>.
\<close>

subsection \<open>Stripping and splitting\<close>

definition code_point :: "char \<Rightarrow> nat" where
  "code_point c = of_char c"

definition is_space :: "char \<Rightarrow> bool" where
  "is_space c \<longleftrightarrow> code_point c \<in> {9, 10, 11, 12, 13, 28, 29, 30, 31, 32, 133, 160}"

definition strip_by :: "(char \<Rightarrow> bool) \<Rightarrow> string \<Rightarrow> string" where
  "strip_by p s = rev (dropWhile p (rev (dropWhile p s)))"

definition rstrip_by :: "(char \<Rightarrow> bool) \<Rightarrow> string \<Rightarrow> string" where
  "rstrip_by p s = rev (dropWhile p (rev s))"

abbreviation strip :: "string \<Rightarrow> string" where
  "strip \<equiv> strip_by is_space"

fun remove_sub :: "string \<Rightarrow> string \<Rightarrow> string" where
  \<comment> \<open>\<open>s.replace(p, "")\<close> for a non-empty \<open>p\<close>\<close>
  "remove_sub p [] = []"
| "remove_sub p (c # s) =
     (if p \<noteq> [] \<and> take (length p) (c # s) = p then remove_sub p (drop (length p - 1) s)
      else c # remove_sub p s)"

fun split_on :: "char \<Rightarrow> string \<Rightarrow> string list" where
  "split_on x [] = [[]]"
| "split_on x (c # s) =
     (if c = x then [] # split_on x s
      else (case split_on x s of [] \<Rightarrow> [[c]] | w # ws \<Rightarrow> (c # w) # ws))"

definition sorted_set :: "string list \<Rightarrow> string list" where
  \<comment> \<open>\<open>sorted(set(xs))\<close>\<close>
  "sorted_set xs = sort (remdups xs)"

text \<open>\<open>str.casefold\<close> on the Latin-1 range; the micro sign, which folds to a Greek letter, is kept.\<close>

definition casefold_char :: "char \<Rightarrow> string" where
  "casefold_char c = (let n = of_char c :: nat in
     if (65 \<le> n \<and> n \<le> 90) \<or> (192 \<le> n \<and> n \<le> 222 \<and> n \<noteq> 215) then [char_of (n + 32)]
     else if n = 223 then ''ss'' else [c])"

definition casefold :: "string \<Rightarrow> string" where
  "casefold s = concat (map casefold_char s)"

definition is_prefix :: "string \<Rightarrow> string \<Rightarrow> bool" where
  "is_prefix p s \<longleftrightarrow> take (length p) s = p"

fun is_infix :: "string \<Rightarrow> string \<Rightarrow> bool" where
  \<comment> \<open>\<open>p in s\<close>\<close>
  "is_infix p [] = (p = [])"
| "is_infix p (c # s) = (is_prefix p (c # s) \<or> is_infix p s)"

subsection \<open>Integers\<close>

definition digit_val :: "nat \<Rightarrow> char \<Rightarrow> nat option" where
  "digit_val b c =
     (let n = code_point c;
          v = (if 48 \<le> n \<and> n \<le> 57 then Some (n - 48)
               else if 97 \<le> n \<and> n \<le> 122 then Some (n - 87)
               else if 65 \<le> n \<and> n \<le> 90 then Some (n - 55) else None)
      in case v of None \<Rightarrow> None | Some d \<Rightarrow> if d < b then Some d else None)"

fun digits_val :: "nat \<Rightarrow> nat \<Rightarrow> bool \<Rightarrow> string \<Rightarrow> nat option" where
  \<comment> \<open>digits with single underscores between them; the flag says that a digit came last\<close>
  "digits_val b acc after_digit [] = (if after_digit then Some acc else None)"
| "digits_val b acc after_digit (c # s) =
     (case digit_val b c of
        Some d \<Rightarrow> digits_val b (acc * b + d) True s
      | None \<Rightarrow> if c = CHR ''_'' \<and> after_digit then digits_val b acc False s else None)"

definition unsigned_val :: "nat \<Rightarrow> string \<Rightarrow> nat option" where
  \<comment> \<open>base 16 may carry its prefix, after which one underscore is allowed\<close>
  "unsigned_val b s =
     (if b = 16 \<and> (take 2 s = ''0x'' \<or> take 2 s = ''0X'')
      then digits_val b 0 False (if take 1 (drop 2 s) = ''_'' then drop 3 s else drop 2 s)
      else digits_val b 0 False s)"

definition int_of_text :: "nat \<Rightarrow> string \<Rightarrow> int option" where
  \<comment> \<open>\<open>int(s, b)\<close>\<close>
  "int_of_text b s =
     (let t = strip s in
      if take 1 t = ''-'' then map_option (\<lambda>n. - int n) (unsigned_val b (drop 1 t))
      else if take 1 t = ''+'' then map_option int (unsigned_val b (drop 1 t))
      else map_option int (unsigned_val b t))"

subsection \<open>Identifiers\<close>

definition uuid_of_text :: "string \<Rightarrow> uuid option" where
  \<comment> \<open>\<open>UUID(s)\<close>, \<open>None\<close> for the \<open>ValueError\<close> it raises\<close>
  "uuid_of_text s =
     (let h = remove_sub ''-'' (strip_by (\<lambda>c. c \<in> {CHR ''{'', CHR ''}''})
            (remove_sub ''uuid:'' (remove_sub ''urn:'' s)))
      in if length h \<noteq> 32 then None
         else case int_of_text 16 h of
                None \<Rightarrow> None
              | Some n \<Rightarrow> if 0 \<le> n \<and> n < 2 ^ 128 then Some (nat n) else None)"

subsection \<open>Text of a value\<close>

definition repr_char :: "char \<Rightarrow> char \<Rightarrow> string" where
  "repr_char q c =
     (let n = code_point c in
      if c = q \<or> n = 92 then [char_of (92::nat), c]
      else if n = 9 then [char_of (92::nat), CHR ''t'']
      else if n = 10 then [char_of (92::nat), CHR ''n'']
      else if n = 13 then [char_of (92::nat), CHR ''r'']
      else if n < 32 \<or> 127 \<le> n \<and> n \<le> 160 \<or> n = 173
        then [char_of (92::nat), CHR ''x''] @ digits_in 16 2 n
      else [c])"

definition repr_str :: "string \<Rightarrow> string" where
  "repr_str s =
     (let q = (if char_of (39::nat) \<in> set s \<and> char_of (34::nat) \<notin> set s
               then char_of (34::nat) else char_of (39::nat) :: char)
      in [q] @ concat (map (repr_char q) s) @ [q])"

fun comma_sep :: "string list \<Rightarrow> string" where
  "comma_sep [] = ''''"
| "comma_sep [x] = x"
| "comma_sep (x # xs) = x @ '', '' @ comma_sep xs"

fun float_repr :: "pyfloat \<Rightarrow> string" where
  "float_repr (Finite m e t) = t"
| "float_repr NaN = ''nan''"
| "float_repr PosInf = ''inf''"
| "float_repr NegInf = ''-inf''"

fun py_repr :: "json \<Rightarrow> string" where
  "py_repr JNull = ''None''"
| "py_repr (JBool b) = (if b then ''True'' else ''False'')"
| "py_repr (JInt n) = int_str n"
| "py_repr (JFloat f) = float_repr f"
| "py_repr (JStr s) = repr_str s"
| "py_repr (JList xs) = ''['' @ comma_sep (map py_repr xs) @ '']''"
| "py_repr (JDict d) = ''{'' @ comma_sep (map (\<lambda>kv. repr_str (fst kv) @ '': '' @ py_repr (snd kv)) d) @ ''}''"

definition py_str :: "json \<Rightarrow> string" where
  "py_str v = (case v of JStr s \<Rightarrow> s | _ \<Rightarrow> py_repr v)"

definition get_str :: "dict \<Rightarrow> string \<Rightarrow> string" where
  \<comment> \<open>\<open>str(d.get(k, ""))\<close>\<close>
  "get_str d k = (case map_of d k of None \<Rightarrow> '''' | Some v \<Rightarrow> py_str v)"

text \<open>\<open>int(value)\<close>; the failure is \<open>TypeError\<close>, \<open>ValueError\<close> or \<open>OverflowError\<close> by the kind of value.\<close>

definition trunc_float :: "int \<Rightarrow> int \<Rightarrow> int" where
  "trunc_float m e = (if 0 \<le> e then m * 2 ^ nat e
     else sgn m * (\<bar>m\<bar> div 2 ^ nat (- e)))"

fun py_int :: "json \<Rightarrow> int option" where
  "py_int (JBool b) = Some (of_bool b)"
| "py_int (JInt n) = Some n"
| "py_int (JFloat (Finite m e t)) = Some (trunc_float m e)"
| "py_int (JStr s) = int_of_text 10 s"
| "py_int _ = None"

definition as_dict :: "json \<Rightarrow> dict option" where
  \<comment> \<open>\<open>v if isinstance(v, dict)\<close>\<close>
  "as_dict v = (case v of JDict d \<Rightarrow> Some d | _ \<Rightarrow> None)"

definition as_str :: "json \<Rightarrow> string option" where
  "as_str v = (case v of JStr s \<Rightarrow> Some s | _ \<Rightarrow> None)"

definition as_bool :: "json \<Rightarrow> bool option" where
  "as_bool v = (case v of JBool b \<Rightarrow> Some b | _ \<Rightarrow> None)"

subsection \<open>Timestamps\<close>

definition days_from_civil :: "int \<Rightarrow> int \<Rightarrow> int \<Rightarrow> int" where
  "days_from_civil y m d = (let
     y1 = (if m \<le> 2 then y - 1 else y);
     era = y1 div 400;
     yoe = y1 mod 400;
     mp = (if 2 < m then m - 3 else m + 9);
     doy = (153 * mp + 2) div 5 + d - 1;
     doe = yoe * 365 + yoe div 4 - yoe div 100 + doy
   in era * 146097 + doe - 719468)"

definition days_in_month :: "int \<Rightarrow> int \<Rightarrow> int" where
  "days_in_month y m =
     (if m = 2 then (if y mod 4 = 0 \<and> (y mod 100 \<noteq> 0 \<or> y mod 400 = 0) then 29 else 28)
      else if m \<in> {4, 6, 9, 11} then 30 else 31)"

definition field :: "nat \<Rightarrow> string \<Rightarrow> (int \<times> string) option" where
  \<comment> \<open>a number of exactly \<open>w\<close> decimal digits and the rest\<close>
  "field w s = (if length s < w \<or> \<not> list_all (\<lambda>c. digit_val 10 c \<noteq> None) (take w s) then None
     else Some (foldl (\<lambda>a c. 10 * a + int (the (digit_val 10 c))) 0 (take w s), drop w s))"

definition expect :: "char \<Rightarrow> string \<Rightarrow> string option" where
  "expect c s = (case s of x # r \<Rightarrow> if x = c then Some r else None | [] \<Rightarrow> None)"

definition read_date :: "string \<Rightarrow> (int \<times> string) option" where
  "read_date s = do {
     (y, s) \<leftarrow> field 4 s; s \<leftarrow> expect (CHR ''-'') s;
     (m, s) \<leftarrow> field 2 s; s \<leftarrow> expect (CHR ''-'') s;
     (d, s) \<leftarrow> field 2 s;
     if 1 \<le> y \<and> 1 \<le> m \<and> m \<le> 12 \<and> 1 \<le> d \<and> d \<le> days_in_month y m
     then Some (days_from_civil y m d, s) else None }"

definition read_clock :: "string \<Rightarrow> (int \<times> string) option" where
  "read_clock s = do {
     (h, s) \<leftarrow> field 2 s; s \<leftarrow> expect (CHR '':'') s;
     (m, s) \<leftarrow> field 2 s; s \<leftarrow> expect (CHR '':'') s;
     (x, s) \<leftarrow> field 2 s;
     if h < 24 \<and> m < 60 \<and> x < 60 then Some ((h * 60 + m) * 60 + x, s) else None }"

definition read_fraction :: "string \<Rightarrow> (int \<times> string) option" where
  "read_fraction s = (case expect (CHR ''.'') s of None \<Rightarrow> Some (0, s) | Some r \<Rightarrow> field 6 r)"

definition read_offset :: "string \<Rightarrow> int option option" where
  \<comment> \<open>\<open>Some None\<close> is a naive timestamp; the offset is in seconds\<close>
  "read_offset s = (if s = ''Z'' then Some (Some 0) else case s of
     [] \<Rightarrow> Some None
   | c # r \<Rightarrow>
       (if c \<in> {CHR ''+'', CHR ''-''} then do {
          (h, r) \<leftarrow> field 2 r; r \<leftarrow> expect (CHR '':'') r;
          (m, r) \<leftarrow> field 2 r;
          if r = [] \<and> h < 24 \<and> m < 60
          then Some (Some ((if c = CHR ''+'' then 1 else - 1) * (h * 3600 + m * 60))) else None }
        else None))"

definition fromisoformat :: "string \<Rightarrow> (instant \<times> bool) option" where
  \<comment> \<open>the instant and whether the text carries an offset\<close>
  "fromisoformat s = do {
     (days, s) \<leftarrow> read_date s;
     s \<leftarrow> (case s of [] \<Rightarrow> None | _ # r \<Rightarrow> Some r);
     (x, s) \<leftarrow> read_clock s;
     (f, s) \<leftarrow> read_fraction s;
     off \<leftarrow> read_offset s;
     Some ((days * 86400 + x - or_else off 0) * 1000000 + f, off \<noteq> None) }"

subsection \<open>Round trips\<close>

lemma code_point_char_of: "n < 256 \<Longrightarrow> code_point (char_of n) = n"
  by (simp add: code_point_def)

lemma digit_val_digit: "d < b \<Longrightarrow> b \<le> 16 \<Longrightarrow> digit_val b (digit d) = Some d"
  by (auto simp: digit_val_def digit_def code_point_char_of Let_def)

lemma digits_val_app:
  "digits_val b acc f (s @ [digit d]) =
     (if d < b \<and> b \<le> 16 then map_option (\<lambda>n. n * b + d) (digits_val b acc True s) else digits_val b acc f (s @ [digit d]))"
  if "\<forall>c \<in> set s. digit_val b c \<noteq> None"
  using that
  by (induction s arbitrary: acc f) (auto simp: digit_val_digit split: option.splits)

lemma digits_in_digits: "1 < b \<Longrightarrow> b \<le> 16 \<Longrightarrow> c \<in> set (digits_in b w n) \<Longrightarrow> digit_val b c \<noteq> None"
proof (induction w arbitrary: n)
  case (Suc w)
  have "n mod b < b" using Suc.prems(1) by simp
  with Suc show ?case by (auto simp: digit_val_digit)
qed simp

lemma digits_val_digits_in:
  assumes "1 < b" and "b \<le> 16"
  shows "digits_val b 0 True (digits_in b w n) = Some (n mod b ^ w)"
proof (induction w arbitrary: n)
  case (Suc w)
  have "n mod b < b" using assms by simp
  moreover have "n mod b ^ Suc w = (n div b mod b ^ w) * b + n mod b"
    by (simp add: mod_mult2_eq mult.commute)
  ultimately show ?case
    using assms Suc.IH [of "n div b"] digits_in_digits [OF assms, of _ w "n div b"]
    by (simp add: digits_val_app)
qed simp

lemma field_pad:
  assumes "0 \<le> n" and "n < 10 ^ w"
  shows "field w (pad w n @ r) = Some (n, r)"
proof -
  have dv: "digit_val 10 c \<noteq> None" if "c \<in> set (pad w n)" for c
    using that digits_in_digits [of 10] by (auto simp: pad_def)
  have "foldl (\<lambda>a c. 10 * a + int (the (digit_val 10 c))) 0 (digits_in 10 k m) = int (m mod 10 ^ k)" for k m
  proof (induction k arbitrary: m)
    case (Suc k)
    have "m mod 10 ^ Suc k = (m div 10 mod 10 ^ k) * 10 + m mod 10"
      by (simp add: mod_mult2_eq mult.commute)
    then show ?case by (simp add: Suc.IH digit_val_digit)
  qed simp
  then have "foldl (\<lambda>a c. 10 * a + int (the (digit_val 10 c))) 0 (pad w n) = n"
    using assms by (simp add: pad_def nat_less_iff)
  then show ?thesis
    using dv by (auto simp: field_def pad_def list_all_iff)
qed

end
