(* ===== verification/Run_Events.thy ===== *)
theory Run_Events
  imports Py_Text
begin

section \<open>Run events\<close>

text \<open>
  The event part of \<open>apps/api/app/services/runs.py\<close>: the sanitiser every persisted payload passes
  (\<open>_sanitize_value\<close>, \<open>sanitize_event_payload\<close>) and \<open>append_run_event\<close>, which numbers the events
  of a run.
\<close>

subsection \<open>Sanitising\<close>

definition sensitive_key_parts :: "string list" where
  "sensitive_key_parts = [''authorization'', ''cookie'', ''credential'', ''password'', ''secret'',
     ''token'', ''api_key'', ''apikey'']"

definition sensitive_key :: "string \<Rightarrow> bool" where
  "sensitive_key k = (\<exists>p \<in> set sensitive_key_parts. is_infix p (casefold k))"

text \<open>
  \<open>ANSI_ESCAPE\<close>: an escape character followed by one of \<open>@-Z\<close>, backslash to underscore, or by a
  bracket, parameter bytes, intermediate bytes and a final byte. The greedy classes of the second
  form are disjoint, so they match without backtracking.
\<close>

definition in_range :: "nat \<Rightarrow> nat \<Rightarrow> char \<Rightarrow> bool" where
  "in_range a b c \<longleftrightarrow> a \<le> (of_char c :: nat) \<and> (of_char c :: nat) \<le> b"

definition csi_tail :: "string \<Rightarrow> string option" where
  \<comment> \<open>what follows a control sequence whose bracket has been read\<close>
  "csi_tail s = (case dropWhile (in_range 32 47) (dropWhile (in_range 48 63) s) of
     [] \<Rightarrow> None
   | c # rest \<Rightarrow> if in_range 64 126 c then Some rest else None)"

definition escape_tail :: "string \<Rightarrow> string option" where
  \<comment> \<open>what follows an escape sequence whose escape character has been read\<close>
  "escape_tail s = (case s of
     [] \<Rightarrow> None
   | c # rest \<Rightarrow>
       if in_range 64 90 c \<or> in_range 92 95 c then Some rest
       else if (of_char c :: nat) = 91 then csi_tail rest else None)"

lemma csi_tail_length: "csi_tail s = Some r \<Longrightarrow> length r < length s"
  using length_dropWhile_le [of "in_range 32 47" "dropWhile (in_range 48 63) s"]
    length_dropWhile_le [of "in_range 48 63" s]
  by (auto simp: csi_tail_def split: list.splits if_splits)

lemma escape_tail_length: "escape_tail s = Some r \<Longrightarrow> length r < length s"
  by (auto simp: escape_tail_def split: list.splits if_splits dest: csi_tail_length)

function strip_ansi :: "string \<Rightarrow> string" where
  "strip_ansi [] = []"
| "strip_ansi (c # s) =
     (if (of_char c :: nat) = 27
      then (case escape_tail s of None \<Rightarrow> c # strip_ansi s | Some r \<Rightarrow> strip_ansi r)
      else c # strip_ansi s)"
  by pat_completeness auto
termination
  by (relation "measure length") (auto dest: escape_tail_length)

definition printable :: "char \<Rightarrow> bool" where
  "printable c \<longleftrightarrow> (of_char c :: nat) \<in> {9, 10, 13} \<or> 32 \<le> (of_char c :: nat)"

definition clean_string :: "string \<Rightarrow> string" where
  "clean_string s = take 16384 (filter printable (strip_ansi s))"

text \<open>
  \<open>_sanitize_value\<close>. Two keys that agree on their first 128 characters collapse into one entry,
  as in the dictionary comprehension of the source.
\<close>

function sanitize_value :: "string \<Rightarrow> json \<Rightarrow> json" where
  "sanitize_value key_hint v =
     (if sensitive_key key_hint then JStr ''[REDACTED]''
      else case v of
        JStr s \<Rightarrow> JStr (clean_string s)
      | JDict d \<Rightarrow> JDict (dupdate [] (map (\<lambda>kv. (take 128 (fst kv), sanitize_value (fst kv) (snd kv))) d))
      | JList xs \<Rightarrow> JList (map (sanitize_value '''') (take 1000 xs))
      | _ \<Rightarrow> v)"
  by pat_completeness auto
termination
proof (relation "measure (\<lambda>(k, v). size v)", goal_cases)
  case (2 k v xs x)
  then have "x \<in> set xs" by (meson in_set_takeD)
  then have "size x < Suc (size_list size xs)" by (induction xs) auto
  with 2 show ?case by simp
next
  case (3 k v d kv)
  from 3(3) have "size (snd kv) < Suc (size_list (size_prod (\<lambda>x. 0) size) d)"
    by (induction d) auto
  with 3 show ?case by (cases kv) simp
qed simp

declare sanitize_value.simps [simp del]

text \<open>
  \<open>sanitize_event_payload\<close>; its encoder escapes every character above 127, so the encoded length
  is that of the ASCII text.
\<close>

definition ascii_char_length :: "char \<Rightarrow> nat" where
  "ascii_char_length c = (if (of_char c :: nat) < 127 then length (json_escape_char c) else 6)"

fun ascii_json_length :: "json \<Rightarrow> nat" where
  "ascii_json_length (JStr s) = 2 + sum_list (map ascii_char_length s)"
| "ascii_json_length (JList xs) = 2 + (length xs - 1) + sum_list (map ascii_json_length xs)"
| "ascii_json_length (JDict d) = 2 + (length d - 1) +
     sum_list (map (\<lambda>kv. 3 + sum_list (map ascii_char_length (fst kv)) + ascii_json_length (snd kv)) d)"
| "ascii_json_length v = length (json_dumps v)"

definition sanitize_event_payload :: "dict \<Rightarrow> dict result" where
  "sanitize_event_payload p =
     (case sanitize_value '''' (JDict p) of
        JDict d \<Rightarrow>
          if has_nan (JDict d) then Inl (ApiError 422 ''RUN_EVENT_INVALID'')
          else if ascii_json_length (JDict d) > 65536 then Inl (ApiError 413 ''RUN_EVENT_TOO_LARGE'')
          else Inr d
      | _ \<Rightarrow> Inl (ApiError 422 ''RUN_EVENT_INVALID''))"

subsection \<open>Appending\<close>

text \<open>\<open>models.py: RunEvent\<close>, without its primary key.\<close>

record run_event =
  re_organization_id :: uuid
  re_project_id :: uuid
  re_run_id :: uuid
  re_sequence :: int
  re_event_type :: string
  re_payload :: dict
  re_created_at :: instant

record event_db = session +
  run_events :: "run_event list"

definition persisted_event_types :: "string list" where
  "persisted_event_types = [''run.status'', ''run.log'', ''run.metric'', ''run.warning'',
     ''run.completed'', ''run.failed'']"

definition event_sequences :: "uuid \<Rightarrow> run_event list \<Rightarrow> int list" where
  "event_sequences i t = map re_sequence (filter (\<lambda>e. re_run_id e = i) t)"

definition append_run_event ::
  "txn \<Rightarrow> uuid \<Rightarrow> uuid \<Rightarrow> uuid \<Rightarrow> string \<Rightarrow> dict \<Rightarrow> 'a event_db_scheme \<Rightarrow> 'a event_db_scheme result" where
  "append_run_event tx organization_id project_id run_id event_type payload s =
     (if event_type \<notin> set persisted_event_types then Inl (ApiError 422 ''RUN_EVENT_INVALID'')
      else bind_result (sanitize_event_payload payload) (\<lambda>p.
        Inr (s\<lparr>run_events := run_events s @
          [\<lparr>re_organization_id = organization_id, re_project_id = project_id, re_run_id = run_id,
            re_sequence = max_sequence (event_sequences run_id (run_events s)) + 1,
            re_event_type = event_type, re_payload = p, re_created_at = tx_now tx\<rparr>]\<rparr>)))"

subsection \<open>What the sanitiser guarantees\<close>

fun clean :: "json \<Rightarrow> bool" where
  "clean (JStr s) = (length s \<le> 16384 \<and> list_all printable s)"
| "clean (JList xs) = (length xs \<le> 1000 \<and> list_all clean xs)"
| "clean (JDict d) = list_all (\<lambda>kv. length (fst kv) \<le> 128 \<and> clean (snd kv) \<and>
     (sensitive_key (fst kv) \<longrightarrow> snd kv = JStr ''[REDACTED]'')) d"
| "clean _ = True"

lemma set_dset: "set (dset k v d) \<subseteq> insert (k, v) (set d)"
  by (auto simp: dset_def split: if_splits)

lemma set_dupdate: "set (dupdate d e) \<subseteq> set d \<union> set e"
proof (induction e arbitrary: d)
  case (Cons kv e)
  obtain k v where kv: "kv = (k, v)" by (cases kv)
  have "dupdate d (kv # e) = dupdate (dset k v d) e" by (simp add: dupdate_def kv)
  with Cons.IH [of "dset k v d"] set_dset [of k v d] show ?case by (auto simp: kv)
qed (simp add: dupdate_def)

lemma is_prefix_append: "is_prefix p s \<Longrightarrow> is_prefix p (s @ t)"
  by (simp add: is_prefix_def) (metis append_take_drop_id length_take take_append min.cobounded1
      diff_is_0_eq take_0 append_Nil2)

lemma is_infix_append: "is_infix p s \<Longrightarrow> is_infix p (s @ t)"
proof (induction s)
  case Nil
  then have "p = []" by simp
  then show ?case by (cases t) (simp_all add: is_prefix_def)
next
  case (Cons c s)
  then show ?case using is_prefix_append [of p "c # s" t] by auto
qed

lemma sensitive_key_take: "sensitive_key (take n k) \<Longrightarrow> sensitive_key k"
proof -
  have "casefold k = casefold (take n k) @ casefold (drop n k)"
    by (metis append_take_drop_id casefold_def concat_append map_append)
  then show "sensitive_key (take n k) \<Longrightarrow> sensitive_key k"
    by (auto simp: sensitive_key_def intro: is_infix_append)
qed

lemma clean_redacted: "clean (JStr ''[REDACTED]'')"
  by (simp add: printable_def)

lemma clean_clean_string: "clean (JStr (clean_string s))"
proof -
  have "list_all printable (take n (filter printable t))" for n t
    by (metis filter_is_subset in_set_takeD list_all_iff mem_Collect_eq set_filter)
  then show ?thesis by (simp add: clean_string_def)
qed

lemma sanitize_value_clean: "clean (sanitize_value h v)"
proof (induction h v rule: sanitize_value.induct)
  case (1 h v)
  show ?case
  proof (cases "sensitive_key h")
    case True
    then show ?thesis by (subst sanitize_value.simps) (simp add: clean_redacted del: clean.simps)
  next
    case h: False
    show ?thesis
    proof (cases v)
      case (JStr s)
      with h show ?thesis
        by (subst sanitize_value.simps) (simp add: clean_clean_string del: clean.simps)
    next
      case (JList xs)
      with 1 h have "list_all clean (map (sanitize_value '''') (take 1000 xs))"
        by (auto simp: list_all_iff)
      with h JList show ?thesis by (subst sanitize_value.simps) simp
    next
      case (JDict d)
      let ?e = "map (\<lambda>kv. (take 128 (fst kv), sanitize_value (fst kv) (snd kv))) d"
      have red: "sanitize_value k x = JStr ''[REDACTED]''" if "sensitive_key k" for k x
        using that by (subst sanitize_value.simps) simp
      have "\<forall>p \<in> set ?e. length (fst p) \<le> 128 \<and> clean (snd p) \<and>
          (sensitive_key (fst p) \<longrightarrow> snd p = JStr ''[REDACTED]'')"
        using 1 h JDict by (auto intro: red dest: sensitive_key_take)
      moreover have "set (dupdate [] ?e) \<subseteq> set ?e"
        using set_dupdate [of "[]" ?e] by (simp only: list.set(1) Un_empty_left)
      ultimately have "clean (JDict (dupdate [] ?e))"
        unfolding clean.simps list_all_iff by blast
      with h JDict show ?thesis by (subst sanitize_value.simps) simp
    qed (use h in \<open>subst sanitize_value.simps, simp\<close>)+
  qed
qed

subsection \<open>Event sequences\<close>

definition events_numbered :: "run_event list \<Rightarrow> bool" where
  "events_numbered t \<longleftrightarrow> (\<forall>i. numbered (event_sequences i t))"

lemma append_run_event_cases:
  assumes "append_run_event tx og pr i et p s = Inr s'"
  obtains e where "s' = s\<lparr>run_events := run_events s @ [e]\<rparr>" and "re_run_id e = i"
    and "re_sequence e = max_sequence (event_sequences i (run_events s)) + 1"
    and "clean (JDict (re_payload e))" and "re_event_type e = et"
proof -
  from assms obtain d where d: "sanitize_event_payload p = Inr d"
    and s': "s' = s\<lparr>run_events := run_events s @
      [\<lparr>re_organization_id = og, re_project_id = pr, re_run_id = i,
        re_sequence = max_sequence (event_sequences i (run_events s)) + 1,
        re_event_type = et, re_payload = d, re_created_at = tx_now tx\<rparr>]\<rparr>"
    by (auto simp: append_run_event_def bind_result_Inr_iff split: if_splits)
  from d have "sanitize_value '''' (JDict p) = JDict d"
    by (auto simp: sanitize_event_payload_def split: json.splits if_splits)
  with sanitize_value_clean [of "''''" "JDict p"] have "clean (JDict d)" by simp
  with that [OF s'] show ?thesis by simp
qed

lemma events_numbered_append:
  assumes "events_numbered (run_events s)" and "append_run_event tx og pr i et p s = Inr s'"
  shows "events_numbered (run_events s')"
  using assms(2)
proof (rule append_run_event_cases)
  fix e
  assume e: "s' = s\<lparr>run_events := run_events s @ [e]\<rparr>" "re_run_id e = i"
    "re_sequence e = max_sequence (event_sequences i (run_events s)) + 1"
  have seq: "event_sequences j (run_events s') = event_sequences j (run_events s) @
      (if j = i then [re_sequence e] else [])" for j
    using e by (auto simp: event_sequences_def)
  show ?thesis
    using assms(1) by (simp add: events_numbered_def seq e(3) numbered_snoc)
qed

lemma append_run_event_sel:
  assumes "append_run_event tx og pr i et p s = Inr s'"
  shows "audit_log s' = audit_log s" "next_id s' = next_id s" "event_db.more s' = event_db.more s"
  using assms by (auto elim!: append_run_event_cases)

subsection \<open>Payloads of plain text\<close>

definition plain :: "string \<Rightarrow> bool" where
  "plain s \<longleftrightarrow> length s \<le> 1000 \<and> (\<forall>c \<in> set s. 32 \<le> (of_char c :: nat))"

lemma clean_string_plain: "plain s \<Longrightarrow> clean_string s = s"
proof -
  have "\<forall>c \<in> set s. 32 \<le> (of_char c :: nat) \<Longrightarrow> strip_ansi s = s"
    by (induction s) auto
  moreover have "\<forall>c \<in> set s. 32 \<le> (of_char c :: nat) \<Longrightarrow> filter printable s = s"
    by (auto simp: filter_id_conv printable_def)
  ultimately show "plain s \<Longrightarrow> clean_string s = s"
    by (auto simp: plain_def clean_string_def)
qed

lemma ascii_char_length_le: "ascii_char_length c \<le> 6"
  by (simp add: ascii_char_length_def json_escape_char_def Let_def)

lemma ascii_length_plain: "plain s \<Longrightarrow> sum_list (map ascii_char_length s) \<le> 6000"
proof -
  have "sum_list (map ascii_char_length s) \<le> sum_list (map (\<lambda>_. 6) s)"
    by (rule sum_list_mono) (rule ascii_char_length_le)
  then show "plain s \<Longrightarrow> sum_list (map ascii_char_length s) \<le> 6000"
    by (simp add: sum_list_triv plain_def)
qed

lemma status_payload_sanitized:
  assumes "plain a" and "plain b"
  shows "sanitize_event_payload [(''previous_status'', JStr a), (''status'', JStr b)] =
    Inr [(''previous_status'', JStr a), (''status'', JStr b)]"
  using assms ascii_length_plain [OF assms(1)] ascii_length_plain [OF assms(2)]
  by (simp add: sanitize_event_payload_def sanitize_value.simps sensitive_key_def sensitive_key_parts_def
      casefold_def casefold_char_def is_prefix_def clean_string_plain dupdate_def dset_def
      ascii_char_length_def json_escape_char_def)

lemma reason_payload_sanitized:
  assumes "plain a" and "plain b"
  shows "sanitize_event_payload [(''status'', JStr a), (''reason'', JStr b)] =
    Inr [(''status'', JStr a), (''reason'', JStr b)]"
  using assms ascii_length_plain [OF assms(1)] ascii_length_plain [OF assms(2)]
  by (simp add: sanitize_event_payload_def sanitize_value.simps sensitive_key_def sensitive_key_parts_def
      casefold_def casefold_char_def is_prefix_def clean_string_plain dupdate_def dset_def
      ascii_char_length_def json_escape_char_def)

subsection \<open>Properties\<close>



end
