(* ===== verification/Exec_State.thy ===== *)
theory Exec_State
  imports Recovery_Policy Run_Events
begin

section \<open>State of the execution plane\<close>

text \<open>
  The tables \<open>services/execution_plane.py\<close> and \<open>services/execution_recovery_sweeper.py\<close> work on:
  leases, builds and runs with their outboxes, projects, workers, secret grants and run events,
  as \<open>models.py\<close> declares them, and the settings of \<open>core/config.py\<close> they read.
\<close>

datatype work_kind = Wk_BUILD | Wk_RUN_START | Wk_RUN_CANCEL

datatype lease_status = Le_ACTIVE | Le_COMPLETED | Le_FAILED | Le_EXPIRED | Le_CANCELLED

datatype run_status = Rn_DRAFT | Rn_READY | Rn_QUEUED | Rn_STARTING | Rn_RUNNING | Rn_PAUSING
  | Rn_PAUSED | Rn_TIMING_OUT | Rn_ABORTING | Rn_SUCCEEDED | Rn_PARTIALLY_SUCCEEDED | Rn_FAILED
  | Rn_TIMED_OUT | Rn_ABORTED

datatype build_status = Bd_QUEUED | Bd_STARTING | Bd_RUNNING | Bd_SUCCEEDED | Bd_FAILED
  | Bd_TIMED_OUT | Bd_CANCELLED

datatype outbox_status = Ob_PENDING | Ob_CLAIMED | Ob_DELIVERED | Ob_FAILED | Ob_CANCELLED

datatype run_command_kind = Cm_START | Cm_CANCEL

datatype grant_status = Gr_ISSUED | Gr_CONSUMED | Gr_EXPIRED | Gr_REVOKED

datatype worker_status = Ws_ACTIVE | Ws_DRAINING | Ws_REVOKED

fun work_kind_str :: "work_kind \<Rightarrow> string" where
  "work_kind_str Wk_BUILD = ''BUILD''"
| "work_kind_str Wk_RUN_START = ''RUN_START''"
| "work_kind_str Wk_RUN_CANCEL = ''RUN_CANCEL''"

fun run_status_str :: "run_status \<Rightarrow> string" where
  "run_status_str Rn_DRAFT = ''DRAFT''"
| "run_status_str Rn_READY = ''READY''"
| "run_status_str Rn_QUEUED = ''QUEUED''"
| "run_status_str Rn_STARTING = ''STARTING''"
| "run_status_str Rn_RUNNING = ''RUNNING''"
| "run_status_str Rn_PAUSING = ''PAUSING''"
| "run_status_str Rn_PAUSED = ''PAUSED''"
| "run_status_str Rn_TIMING_OUT = ''TIMING_OUT''"
| "run_status_str Rn_ABORTING = ''ABORTING''"
| "run_status_str Rn_SUCCEEDED = ''SUCCEEDED''"
| "run_status_str Rn_PARTIALLY_SUCCEEDED = ''PARTIALLY_SUCCEEDED''"
| "run_status_str Rn_FAILED = ''FAILED''"
| "run_status_str Rn_TIMED_OUT = ''TIMED_OUT''"
| "run_status_str Rn_ABORTED = ''ABORTED''"

definition run_terminal :: "run_status \<Rightarrow> bool" where
  "run_terminal st \<longleftrightarrow>
     st \<in> {Rn_SUCCEEDED, Rn_PARTIALLY_SUCCEEDED, Rn_FAILED, Rn_TIMED_OUT, Rn_ABORTED}"

definition run_cancellable_active :: "run_status \<Rightarrow> bool" where
  "run_cancellable_active st \<longleftrightarrow>
     st \<in> {Rn_STARTING, Rn_RUNNING, Rn_PAUSING, Rn_PAUSED, Rn_TIMING_OUT}"

record lease =
  le_id :: uuid
  le_worker_id :: uuid
  le_organization_id :: uuid
  le_project_id :: uuid
  le_work_kind :: work_kind
  le_source_outbox_id :: uuid
  le_source_topic :: string
  le_build_id :: "uuid option"
  le_run_id :: "uuid option"
  le_lease_token_digest :: string
  le_payload_digest :: string
  le_payload_snapshot :: dict
  le_status :: lease_status
  le_attempt :: int
  le_claimed_at :: instant
  le_expires_at :: instant
  le_deadline_at :: instant
  le_last_renewed_at :: "instant option"
  le_completed_at :: "instant option"
  le_failure_code :: "string option"
  le_failure_summary :: "string option"
  le_created_at :: instant
  le_updated_at :: instant

record build =
  bd_id :: uuid
  bd_organization_id :: uuid
  bd_project_id :: uuid
  bd_agent_id :: uuid
  bd_agent_version_id :: uuid
  bd_manifest_digest :: string
  bd_source_object_id :: "uuid option"
  bd_status :: build_status
  bd_requested_by_user_id :: uuid
  bd_started_at :: "instant option"
  bd_completed_at :: "instant option"
  bd_artifact_digest :: "string option"
  bd_error_code :: "string option"
  bd_error_message :: "string option"
  bd_version :: int
  bd_created_at :: instant
  bd_updated_at :: instant

record build_outbox =
  bo_id :: uuid
  bo_organization_id :: uuid
  bo_project_id :: uuid
  bo_build_id :: uuid
  bo_topic :: string
  bo_payload :: dict
  bo_status :: outbox_status
  bo_attempts :: int
  bo_available_at :: instant
  bo_claimed_at :: "instant option"
  bo_delivered_at :: "instant option"
  bo_last_error_code :: "string option"
  bo_created_at :: instant
  bo_updated_at :: instant

record run =
  rn_id :: uuid
  rn_organization_id :: uuid
  rn_project_id :: uuid
  rn_agent_id :: uuid
  rn_agent_version_id :: uuid
  rn_build_id :: uuid
  rn_status :: run_status
  rn_input_reference :: dict
  rn_runtime_configuration :: dict
  rn_memory_mb :: int
  rn_cpu_millis :: int
  rn_timeout_seconds :: int
  rn_requested_by_user_id :: uuid
  rn_queued_at :: instant
  rn_started_at :: "instant option"
  rn_finished_at :: "instant option"
  rn_cancel_requested_at :: "instant option"
  rn_cancel_deadline_at :: "instant option"
  rn_failure_code :: "string option"
  rn_failure_summary :: "string option"
  rn_version :: int
  rn_created_at :: instant
  rn_updated_at :: instant

record run_command =
  rc_id :: uuid
  rc_organization_id :: uuid
  rc_project_id :: uuid
  rc_run_id :: uuid
  rc_command :: run_command_kind
  rc_topic :: string
  rc_payload :: dict
  rc_status :: outbox_status
  rc_attempts :: int
  rc_available_at :: instant
  rc_claimed_at :: "instant option"
  rc_delivered_at :: "instant option"
  rc_last_error_code :: "string option"
  rc_created_at :: instant
  rc_updated_at :: instant

text \<open>The columns of \<open>control.projects\<close> admission reads.\<close>

record project =
  pj_id :: uuid
  pj_organization_id :: uuid
  pj_status :: string
  pj_deleted_at :: "instant option"
  pj_max_active_leases :: int

record worker =
  wo_id :: uuid
  wo_name :: string
  wo_public_prefix :: string
  wo_last_four :: string
  wo_token_digest :: string
  wo_capabilities :: "string list"
  wo_max_concurrency :: int
  wo_status :: worker_status
  wo_protocol_version :: string
  wo_software_version :: string
  wo_metadata_json :: dict
  wo_sandbox_profile :: "string option"
  wo_sandbox_attestation_digest :: "string option"
  wo_sandbox_execution_enabled :: bool
  wo_sandbox_attested_at :: "instant option"
  wo_registered_at :: instant
  wo_last_seen_at :: "instant option"
  wo_last_lost_at :: "instant option"
  wo_last_recovered_at :: "instant option"
  wo_last_cleanup_at :: "instant option"
  wo_cleanup_generation :: int
  wo_expires_at :: "instant option"
  wo_revoked_at :: "instant option"

text \<open>\<open>SecretInjectionGrant\<close>; the binary columns are strings of characters below 256.\<close>

record secret_grant =
  sg_id :: uuid
  sg_worker_id :: uuid
  sg_lease_id :: uuid
  sg_organization_id :: uuid
  sg_project_id :: uuid
  sg_run_id :: uuid
  sg_request_fingerprint :: string
  sg_secret_names :: "string list"
  sg_environment :: string
  sg_algorithm :: string
  sg_ephemeral_public_key :: string
  sg_nonce :: string
  sg_ciphertext :: string
  sg_worker_public_key_digest :: string
  sg_status :: grant_status
  sg_issued_at :: instant
  sg_expires_at :: instant
  sg_consumed_at :: "instant option"

record recovery_state =
  rs_status :: string
  rs_owner_id :: string
  rs_last_started_at :: "instant option"
  rs_last_completed_at :: "instant option"
  rs_last_heartbeat_at :: "instant option"
  rs_last_leases_reaped :: int
  rs_last_cancellations_converged :: int
  rs_last_workers_lost :: int
  rs_last_worker_leases_fenced :: int
  rs_total_sweeps :: int
  rs_total_failures :: int
  rs_total_workers_lost :: int
  rs_total_worker_leases_fenced :: int
  rs_last_error_code :: "string option"
  rs_last_error_summary :: "string option"
  rs_updated_at :: instant

text \<open>\<open>control.idempotency_records\<close>.\<close>

record run_idempotency =
  ix_organization_id :: uuid
  ix_principal_id :: string
  ix_endpoint :: string
  ix_key_digest :: string
  ix_request_fingerprint :: string
  ix_resource_type :: string
  ix_resource_id :: string
  ix_response_status :: int
  ix_response_snapshot :: "dict option"
  ix_created_at :: instant
  ix_expires_at :: instant

record exec_db = event_db +
  leases :: "lease list"
  builds :: "build list"
  build_outbox :: "build_outbox list"
  runs :: "run list"
  run_commands :: "run_command list"
  projects :: "project list"
  workers :: "worker list"
  secret_grants :: "secret_grant list"
  recovery_state :: "recovery_state option"
  run_idempotency :: "run_idempotency list"

text \<open>The settings the plane reads, with the bounds \<open>core/config.py\<close> declares for them.\<close>

record exec_settings =
  st_worker_lease_seconds :: int
  st_worker_lease_max_seconds :: int
  st_worker_max_attempts :: int
  st_worker_retry_base_seconds :: int
  st_worker_retry_max_seconds :: int
  st_worker_cancel_convergence_seconds :: int
  st_worker_registration_max_concurrency :: int
  st_worker_lost_after_seconds :: int
  st_sandbox_max_build_seconds :: int
  st_sandbox_max_run_seconds :: int
  st_sandbox_execution_enabled :: bool

definition settings_ok :: "'b exec_settings_scheme \<Rightarrow> bool" where
  "settings_ok st \<longleftrightarrow>
     15 \<le> st_worker_lease_seconds st \<and>
     st_worker_lease_seconds st \<le> st_worker_lease_max_seconds st \<and>
     1 \<le> st_worker_max_attempts st \<and> st_worker_max_attempts st \<le> 20 \<and>
     1 \<le> st_worker_retry_base_seconds st \<and> st_worker_retry_base_seconds st \<le> 60 \<and>
     st_worker_retry_base_seconds st \<le> st_worker_retry_max_seconds st \<and>
     st_worker_retry_max_seconds st \<le> 3600 \<and>
     30 \<le> st_worker_cancel_convergence_seconds st \<and>
     st_worker_cancel_convergence_seconds st \<le> 3600 \<and>
     1 \<le> st_worker_registration_max_concurrency st \<and>
     st_worker_registration_max_concurrency st \<le> 16 \<and>
     15 \<le> st_worker_lost_after_seconds st \<and> st_worker_lost_after_seconds st \<le> 300"

subsection \<open>Rows\<close>

text \<open>Writing one row back, as the flush of a loaded object does.\<close>

definition put_run :: "run \<Rightarrow> 'a exec_db_scheme \<Rightarrow> 'a exec_db_scheme" where
  "put_run r s = s\<lparr>runs := upd_by rn_id (rn_id r) (\<lambda>_. r) (runs s)\<rparr>"

definition put_build :: "build \<Rightarrow> 'a exec_db_scheme \<Rightarrow> 'a exec_db_scheme" where
  "put_build b s = s\<lparr>builds := upd_by bd_id (bd_id b) (\<lambda>_. b) (builds s)\<rparr>"

definition put_lease :: "lease \<Rightarrow> 'a exec_db_scheme \<Rightarrow> 'a exec_db_scheme" where
  "put_lease l s = s\<lparr>leases := upd_by le_id (le_id l) (\<lambda>_. l) (leases s)\<rparr>"

definition run_event_for ::
  "txn \<Rightarrow> run \<Rightarrow> string \<Rightarrow> dict \<Rightarrow> 'a event_db_scheme \<Rightarrow> 'a event_db_scheme result" where
  "run_event_for tx r event_type payload =
     append_run_event tx (rn_organization_id r) (rn_project_id r) (rn_id r) event_type payload"

definition status_payload :: "run_status \<Rightarrow> run_status \<Rightarrow> dict" where
  "status_payload previous st =
     [(''previous_status'', JStr (run_status_str previous)), (''status'', JStr (run_status_str st))]"

end
