(* ===== verification/Exec_Recovery.thy ===== *)
theory Exec_Recovery
  imports Exec_State "HOL-Library.Option_ord" "HOL-Library.Product_Lexorder"
begin

section \<open>Recovery of the execution plane\<close>

text \<open>
  The part of \<open>services/execution_plane.py\<close> that takes work back from workers
  (\<open>_fence_cancelled_run_leases\<close>, \<open>_converge_cancelled_run\<close>, \<open>reap_overdue_cancellations\<close>,
  \<open>_reset_expired_source\<close>, \<open>reap_expired_leases\<close>) and \<open>services/execution_recovery_sweeper.py\<close>.
\<close>

subsection \<open>Cancellation\<close>

definition fenced_ids :: "txn \<Rightarrow> uuid \<Rightarrow> uuid option \<Rightarrow> lease list \<Rightarrow> uuid list" where
  "fenced_ids tx run_id preserve_lease_id t =
     map le_id (filter (\<lambda>l. le_run_id l = Some run_id \<and> le_status l = Le_ACTIVE \<and>
       \<not> tx_locked tx (le_id l) \<and> Some (le_id l) \<noteq> preserve_lease_id) t)"

definition cancel_lease_row :: "txn \<Rightarrow> lease \<Rightarrow> lease" where
  "cancel_lease_row tx l = l\<lparr>le_status := Le_CANCELLED, le_completed_at := Some (tx_now tx),
     le_failure_code := Some ''RUN_CANCELLED'',
     le_failure_summary := Some ''The Run cancellation was converged.'',
     le_updated_at := tx_now tx\<rparr>"

definition cancel_command_row :: "txn \<Rightarrow> run_command \<Rightarrow> run_command" where
  "cancel_command_row tx c = c\<lparr>rc_status := Ob_CANCELLED,
     rc_last_error_code := Some ''RUN_CANCELLATION_CONVERGED'', rc_updated_at := tx_now tx\<rparr>"

definition fence_cancelled_run_leases ::
  "txn \<Rightarrow> uuid \<Rightarrow> uuid option \<Rightarrow> uuid option \<Rightarrow> 'a exec_db_scheme \<Rightarrow> int \<times> 'a exec_db_scheme" where
  "fence_cancelled_run_leases tx run_id preserve_lease_id preserve_source_id s =
     (let cancelled_ids = fenced_ids tx run_id preserve_lease_id (leases s)
      in (int (length cancelled_ids),
          s\<lparr>leases := map (\<lambda>l. if le_id l \<in> set cancelled_ids then cancel_lease_row tx l else l) (leases s),
            secret_grants := map (\<lambda>g. if sg_lease_id g \<in> set cancelled_ids \<and> sg_status g = Gr_ISSUED
              then g\<lparr>sg_status := Gr_REVOKED\<rparr> else g) (secret_grants s),
            run_commands := map (\<lambda>c. if rc_run_id c = run_id \<and> rc_status c \<in> {Ob_PENDING, Ob_CLAIMED} \<and>
                Some (rc_id c) \<noteq> preserve_source_id
              then cancel_command_row tx c else c) (run_commands s)\<rparr>))"

definition converge_cancelled_run ::
  "txn \<Rightarrow> uuid \<Rightarrow> string \<Rightarrow> 'a exec_db_scheme \<Rightarrow> (bool \<times> 'a exec_db_scheme) result" where
  "converge_cancelled_run tx run_id reason s =
     (case fence_cancelled_run_leases tx run_id None None s of (fenced_lease_count, s1) \<Rightarrow>
      case find_by rn_id run_id (runs s1) of
        None \<Rightarrow> Inr (False, s1)
      | Some run \<Rightarrow>
          if rn_cancel_requested_at run = None then Inr (False, s1)
          else if rn_status run = Rn_ABORTED then Inr (True, s1)
          else if rn_status run \<noteq> Rn_ABORTING then Inr (False, s1)
          else
            let previous = rn_status run;
                run' = run\<lparr>rn_status := Rn_ABORTED,
                  rn_finished_at := Some (or_else (rn_finished_at run) (tx_now tx)),
                  rn_failure_code := None, rn_failure_summary := None, rn_updated_at := tx_now tx,
                  rn_version := rn_version run + 1\<rparr>
            in bind_result (run_event_for tx run' ''run.status'' (status_payload previous Rn_ABORTED)
                 (put_run run' s1)) (\<lambda>s2.
               bind_result (run_event_for tx run' ''run.completed''
                 [(''status'', JStr ''ABORTED''), (''reason'', JStr reason)] s2) (\<lambda>s3.
               Inr (True, append_audit_event tx (Some (rn_organization_id run')) (Some (rn_project_id run'))
                 ''system'' ''cancellation-reaper'' ''run.cancellation_converged'' ''run''
                 (Some (uuid_str (rn_id run')))
                 [(''previous_status'', JStr (run_status_str previous)), (''reason'', JStr reason),
                  (''fenced_lease_count'', JInt fenced_lease_count),
                  (''cancel_deadline_at'', jopt jtime (rn_cancel_deadline_at run'))] s3))))"

fun converge_all :: "txn \<Rightarrow> uuid list \<Rightarrow> 'a exec_db_scheme \<Rightarrow> (int \<times> 'a exec_db_scheme) result" where
  "converge_all tx [] s = Inr (0, s)"
| "converge_all tx (i # ids) s =
     bind_result (converge_cancelled_run tx i ''CANCEL_DEADLINE_EXCEEDED'' s) (\<lambda>(converged, s1).
     bind_result (converge_all tx ids s1) (\<lambda>(n, s2). Inr (n + of_bool converged, s2)))"

definition cancellation_overdue :: "instant \<Rightarrow> run \<Rightarrow> bool" where
  "cancellation_overdue now r \<longleftrightarrow> rn_status r = Rn_ABORTING \<and> rn_cancel_requested_at r \<noteq> None \<and>
     (case rn_cancel_deadline_at r of None \<Rightarrow> False | Some d \<Rightarrow> d \<le> now)"

definition overdue_batch :: "txn \<Rightarrow> int \<Rightarrow> 'a exec_db_scheme \<Rightarrow> uuid list" where
  "overdue_batch tx batch_size s =
     map rn_id (select_limit (\<lambda>r. (rn_cancel_deadline_at r, rn_id r))
       (\<lambda>r. cancellation_overdue (tx_now tx) r \<and> \<not> tx_locked tx (rn_id r))
       (nat batch_size) (runs s))"

definition reap_overdue_cancellations ::
  "txn \<Rightarrow> int \<Rightarrow> 'a exec_db_scheme \<Rightarrow> (int \<times> 'a exec_db_scheme) result" where
  "reap_overdue_cancellations tx batch_size s =
     (if \<not> (1 \<le> batch_size \<and> batch_size \<le> 500) then Inl ValueError
      else converge_all tx (overdue_batch tx batch_size s) s)"

subsection \<open>Expired leases\<close>

definition expiry_retry_at ::
  "'b exec_settings_scheme \<Rightarrow> txn \<Rightarrow> lease \<Rightarrow> bool \<Rightarrow> bool \<Rightarrow> instant option result" where
  "expiry_retry_at st tx l deadline_exceeded source_available =
     (if execution_retry_allowed (\<not> deadline_exceeded) Out_FAILED (le_attempt l)
           (st_worker_max_attempts st) source_available
      then bind_result (retry_available_at (tx_now tx) (le_attempt l)
             (st_worker_retry_base_seconds st) (st_worker_retry_max_seconds st)) (\<lambda>t. Inr (Some t))
      else Inr None)"

definition expiry_summary :: "bool \<Rightarrow> string \<Rightarrow> string \<Rightarrow> string" where
  "expiry_summary deadline_exceeded failure_code deadline_text =
     (if deadline_exceeded then deadline_text
      else if failure_code = ''WORKER_LOST'' then ''The execution worker was lost.''
      else ''The execution lease expired.'')"

definition reset_build_source_row ::
  "txn \<Rightarrow> instant option \<Rightarrow> string \<Rightarrow> build_outbox \<Rightarrow> build_outbox" where
  "reset_build_source_row tx next_attempt_at failure_code o1 =
     o1\<lparr>bo_status := if next_attempt_at \<noteq> None then Ob_PENDING else Ob_FAILED,
       bo_available_at := or_else next_attempt_at (tx_now tx),
       bo_last_error_code := Some failure_code, bo_updated_at := tx_now tx\<rparr>"

definition reset_build_row :: "txn \<Rightarrow> bool \<Rightarrow> bool \<Rightarrow> string \<Rightarrow> build \<Rightarrow> build" where
  "reset_build_row tx retry deadline_exceeded failure_code b =
     b\<lparr>bd_status := if retry then Bd_QUEUED else if deadline_exceeded then Bd_TIMED_OUT else Bd_FAILED,
       bd_error_code := if retry then None else Some failure_code,
       bd_error_message := if retry then None
         else Some (expiry_summary deadline_exceeded failure_code ''The Build execution deadline was exceeded.''),
       bd_completed_at := if retry then None else Some (tx_now tx),
       bd_updated_at := tx_now tx, bd_version := bd_version b + 1\<rparr>"

definition reset_expired_build ::
  "'b exec_settings_scheme \<Rightarrow> txn \<Rightarrow> lease \<Rightarrow> bool \<Rightarrow> string \<Rightarrow> 'a exec_db_scheme \<Rightarrow>
   (instant option \<times> 'a exec_db_scheme) result" where
  "reset_expired_build st tx l deadline_exceeded failure_code s =
     (let source = find_by bo_id (le_source_outbox_id l) (build_outbox s)
      in bind_result (expiry_retry_at st tx l deadline_exceeded (source \<noteq> None)) (\<lambda>next_attempt_at.
         Inr (next_attempt_at,
           s\<lparr>build_outbox := upd_by bo_id (le_source_outbox_id l)
                (reset_build_source_row tx next_attempt_at failure_code) (build_outbox s),
             builds := (case le_build_id l of None \<Rightarrow> builds s
               | Some i \<Rightarrow> upd_by bd_id i
                   (reset_build_row tx (next_attempt_at \<noteq> None) deadline_exceeded failure_code)
                   (builds s))\<rparr>)))"

definition reset_run_source_row ::
  "txn \<Rightarrow> instant option \<Rightarrow> string \<Rightarrow> run_command \<Rightarrow> run_command" where
  "reset_run_source_row tx next_attempt_at failure_code c =
     c\<lparr>rc_status := if next_attempt_at \<noteq> None then Ob_PENDING else Ob_FAILED,
       rc_available_at := or_else next_attempt_at (tx_now tx),
       rc_last_error_code := Some failure_code, rc_updated_at := tx_now tx\<rparr>"

definition reset_run_row ::
  "txn \<Rightarrow> work_kind \<Rightarrow> bool \<Rightarrow> bool \<Rightarrow> string \<Rightarrow> run \<Rightarrow> run" where
  "reset_run_row tx work_kind retry deadline_exceeded failure_code r =
     (let r1 =
        (if work_kind = Wk_RUN_START then
           r\<lparr>rn_status := if retry then Rn_QUEUED else if deadline_exceeded then Rn_TIMED_OUT else Rn_FAILED,
             rn_failure_code := if retry then None else Some failure_code,
             rn_failure_summary := if retry then None
               else Some (expiry_summary deadline_exceeded failure_code ''The Run execution deadline was exceeded.''),
             rn_finished_at := if retry then None else Some (tx_now tx)\<rparr>
         else if \<not> retry then
           r\<lparr>rn_status := Rn_FAILED,
             rn_failure_code := Some (if deadline_exceeded then ''CANCEL_DEADLINE_EXCEEDED''
               else ''CANCEL_LEASE_EXPIRED''),
             rn_failure_summary := Some (if deadline_exceeded then ''The cancellation deadline was exceeded.''
               else ''The cancellation lease expired.''),
             rn_finished_at := Some (tx_now tx)\<rparr>
         else r)
      in r1\<lparr>rn_updated_at := tx_now tx, rn_version := rn_version r1 + 1\<rparr>)"

definition find_run :: "uuid option \<Rightarrow> 'a exec_db_scheme \<Rightarrow> run option" where
  "find_run i s = (case i of None \<Rightarrow> None | Some j \<Rightarrow> find_by rn_id j (runs s))"

definition requeue_expired_run ::
  "'b exec_settings_scheme \<Rightarrow> txn \<Rightarrow> lease \<Rightarrow> bool \<Rightarrow> string \<Rightarrow> 'a exec_db_scheme \<Rightarrow>
   (instant option \<times> 'a exec_db_scheme) result" where
  "requeue_expired_run st tx l deadline_exceeded failure_code s =
     (let source = find_by rc_id (le_source_outbox_id l) (run_commands s)
      in bind_result (expiry_retry_at st tx l deadline_exceeded (source \<noteq> None)) (\<lambda>next_attempt_at.
         let s1 = s\<lparr>run_commands := upd_by rc_id (le_source_outbox_id l)
               (reset_run_source_row tx next_attempt_at failure_code) (run_commands s)\<rparr>
         in case find_run (le_run_id l) s1 of
              None \<Rightarrow> Inr (next_attempt_at, s1)
            | Some run \<Rightarrow>
                let run' = reset_run_row tx (le_work_kind l) (next_attempt_at \<noteq> None)
                      deadline_exceeded failure_code run;
                    s2 = put_run run' s1
                in if rn_status run' \<noteq> rn_status run
                   then bind_result (run_event_for tx run' ''run.status''
                          (status_payload (rn_status run) (rn_status run')) s2)
                          (\<lambda>s3. Inr (next_attempt_at, s3))
                   else Inr (next_attempt_at, s2)))"

definition reset_expired_source ::
  "'b exec_settings_scheme \<Rightarrow> txn \<Rightarrow> lease \<Rightarrow> bool \<Rightarrow> string \<Rightarrow> 'a exec_db_scheme \<Rightarrow>
   (instant option \<times> bool \<times> 'a exec_db_scheme) result" where
  "reset_expired_source st tx l deadline_exceeded failure_code s =
     (if le_work_kind l = Wk_BUILD
      then bind_result (reset_expired_build st tx l deadline_exceeded failure_code s)
             (\<lambda>(t, s1). Inr (t, False, s1))
      else
        bind_result
          (case find_run (le_run_id l) s of
             None \<Rightarrow> Inr (False, s)
           | Some run \<Rightarrow>
               if rn_cancel_requested_at run = None then Inr (False, s)
               else converge_cancelled_run tx (rn_id run)
                 (if le_work_kind l = Wk_RUN_START then ''RUN_START_LEASE_LOST'' else ''RUN_CANCEL_LEASE_LOST'') s)
          (\<lambda>(converged, s1).
            if converged then Inr (None, True, s1)
            else bind_result (requeue_expired_run st tx l deadline_exceeded failure_code s1)
                   (\<lambda>(t, s2). Inr (t, False, s2))))"

definition lease_overdue :: "instant \<Rightarrow> lease \<Rightarrow> bool" where
  "lease_overdue now l \<longleftrightarrow> le_status l = Le_ACTIVE \<and> (le_expires_at l \<le> now \<or> le_deadline_at l \<le> now)"

definition expiry_failure_code :: "txn \<Rightarrow> lease \<Rightarrow> string" where
  "expiry_failure_code tx l =
     (if le_deadline_at l \<le> tx_now tx then ''WORKLOAD_DEADLINE_EXCEEDED''
      else if le_failure_code l = Some ''WORKER_LOST'' then ''WORKER_LOST'' else ''LEASE_EXPIRED'')"

definition expire_lease_row :: "txn \<Rightarrow> bool \<Rightarrow> string \<Rightarrow> lease \<Rightarrow> lease" where
  "expire_lease_row tx deadline_exceeded failure_code l =
     l\<lparr>le_status := if deadline_exceeded then Le_FAILED else Le_EXPIRED,
       le_completed_at := Some (tx_now tx), le_failure_code := Some failure_code,
       le_failure_summary := Some
         (if deadline_exceeded then ''The workload execution deadline was exceeded.''
          else if failure_code = ''WORKER_LOST'' then ''The execution worker heartbeat was lost.''
          else ''The worker did not renew the lease.''),
       le_updated_at := tx_now tx\<rparr>"

definition expire_grants :: "uuid \<Rightarrow> secret_grant list \<Rightarrow> secret_grant list" where
  "expire_grants lease_id = map (\<lambda>g. if sg_lease_id g = lease_id \<and> sg_status g = Gr_ISSUED
     then g\<lparr>sg_status := Gr_EXPIRED\<rparr> else g)"

definition audit_converged_lease :: "txn \<Rightarrow> lease \<Rightarrow> 'a exec_db_scheme \<Rightarrow> 'a exec_db_scheme" where
  "audit_converged_lease tx l =
     append_audit_event tx (Some (le_organization_id l)) (Some (le_project_id l)) ''system''
       ''cancellation-reaper'' ''execution.lease.cancellation_converged'' ''execution_lease''
       (Some (uuid_str (le_id l)))
       [(''work_kind'', JStr (work_kind_str (le_work_kind l))), (''attempt'', JInt (le_attempt l)),
        (''worker_id'', juuid (le_worker_id l)), (''retry_scheduled'', JBool False)]"

definition audit_expired_lease ::
  "txn \<Rightarrow> lease \<Rightarrow> bool \<Rightarrow> string \<Rightarrow> instant option \<Rightarrow> 'a exec_db_scheme \<Rightarrow> 'a exec_db_scheme" where
  "audit_expired_lease tx l deadline_exceeded failure_code next_attempt_at =
     append_audit_event tx (Some (le_organization_id l)) (Some (le_project_id l)) ''system''
       (if failure_code = ''WORKER_LOST'' then ''worker-loss-reaper'' else ''lease-reaper'')
       (if deadline_exceeded then ''execution.lease.deadline_exceeded''
        else if failure_code = ''WORKER_LOST'' then ''execution.lease.worker_lost''
        else ''execution.lease.expired'')
       ''execution_lease'' (Some (uuid_str (le_id l)))
       [(''work_kind'', JStr (work_kind_str (le_work_kind l))), (''attempt'', JInt (le_attempt l)),
        (''worker_id'', juuid (le_worker_id l)), (''deadline_at'', jtime (le_deadline_at l)),
        (''deadline_exceeded'', JBool deadline_exceeded),
        (''worker_lost'', JBool (failure_code = ''WORKER_LOST'')),
        (''retry_scheduled'', JBool (next_attempt_at \<noteq> None)),
        (''next_attempt_at'', jopt jtime next_attempt_at)]"

text \<open>
  One round of the loop of \<open>reap_expired_leases\<close>. The row is looked up in the current state: an
  earlier round of the same transaction may have fenced it, and the loop works on the same object.
\<close>

definition reap_lease ::
  "'b exec_settings_scheme \<Rightarrow> txn \<Rightarrow> lease \<Rightarrow> 'a exec_db_scheme \<Rightarrow> 'a exec_db_scheme result" where
  "reap_lease st tx l s =
     (let deadline_exceeded = (le_deadline_at l \<le> tx_now tx);
          failure_code = expiry_failure_code tx l
      in bind_result (reset_expired_source st tx l deadline_exceeded failure_code s)
           (\<lambda>(next_attempt_at, cancellation_converged, s1).
             if cancellation_converged then Inr (audit_converged_lease tx l s1)
             else Inr (audit_expired_lease tx l deadline_exceeded failure_code next_attempt_at
               (s1\<lparr>secret_grants := expire_grants (le_id l) (secret_grants s1),
                  leases := upd_by le_id (le_id l)
                    (expire_lease_row tx deadline_exceeded failure_code) (leases s1)\<rparr>))))"

fun reap_leases ::
  "'b exec_settings_scheme \<Rightarrow> txn \<Rightarrow> uuid list \<Rightarrow> 'a exec_db_scheme \<Rightarrow> 'a exec_db_scheme result" where
  "reap_leases st tx [] s = Inr s"
| "reap_leases st tx (i # ids) s =
     bind_result (case find_by le_id i (leases s) of None \<Rightarrow> Inr s | Some l \<Rightarrow> reap_lease st tx l s)
       (reap_leases st tx ids)"

definition expired_batch :: "txn \<Rightarrow> int \<Rightarrow> 'a exec_db_scheme \<Rightarrow> uuid list" where
  "expired_batch tx batch_size s =
     map le_id (select_limit le_expires_at
       (\<lambda>l. lease_overdue (tx_now tx) l \<and> \<not> tx_locked tx (le_id l)) (nat batch_size) (leases s))"

definition reap_expired_leases ::
  "'b exec_settings_scheme \<Rightarrow> txn \<Rightarrow> int \<Rightarrow> bool \<Rightarrow> 'a exec_db_scheme \<Rightarrow> (int \<times> 'a exec_db_scheme) result" where
  "reap_expired_leases st tx batch_size reap_cancellations s =
     (if \<not> (1 \<le> batch_size \<and> batch_size \<le> 500) then Inl ValueError
      else
        let records = expired_batch tx batch_size s
        in bind_result (reap_leases st tx records s) (\<lambda>s1.
           bind_result (if reap_cancellations
             then bind_result (reap_overdue_cancellations tx batch_size s1) (\<lambda>(_, s2). Inr s2)
             else Inr s1) (\<lambda>s2. Inr (int (length records), s2))))"

subsection \<open>Lost workers\<close>

definition lease_live :: "instant \<Rightarrow> lease \<Rightarrow> bool" where
  "lease_live now l \<longleftrightarrow> le_status l = Le_ACTIVE \<and> now < le_expires_at l \<and> now < le_deadline_at l"

definition recovery_pending :: "worker \<Rightarrow> bool" where
  "recovery_pending w \<longleftrightarrow> (case wo_last_lost_at w of None \<Rightarrow> False
     | Some lost \<Rightarrow> (case wo_last_recovered_at w of None \<Rightarrow> True | Some t \<Rightarrow> t < lost))"

definition worker_lost :: "instant \<Rightarrow> int \<Rightarrow> lease list \<Rightarrow> worker \<Rightarrow> bool" where
  "worker_lost now lost_after_seconds t w \<longleftrightarrow>
     wo_status w = Ws_ACTIVE \<and> wo_revoked_at w = None \<and>
     (case wo_last_seen_at w of None \<Rightarrow> False | Some seen \<Rightarrow> seen \<le> now - seconds lost_after_seconds) \<and>
     \<not> recovery_pending w \<and>
     (\<exists>l \<in> set t. le_worker_id l = wo_id w \<and> lease_live now l)"

definition lose_lease_row :: "txn \<Rightarrow> lease \<Rightarrow> lease" where
  "lose_lease_row tx l = l\<lparr>le_expires_at := min (le_expires_at l) (tx_now tx),
     le_failure_code := Some ''WORKER_LOST'',
     le_failure_summary := Some ''The execution worker heartbeat was lost.'',
     le_updated_at := tx_now tx\<rparr>"

definition lose_worker :: "txn \<Rightarrow> int \<Rightarrow> uuid \<Rightarrow> 'a exec_db_scheme \<Rightarrow> int \<times> 'a exec_db_scheme" where
  "lose_worker tx lost_after_seconds i s =
     (let hit = (\<lambda>l. le_worker_id l = i \<and> lease_live (tx_now tx) l);
          worker_leases = countp hit (leases s)
      in (worker_leases,
          append_audit_event tx None None ''system'' ''worker-loss-detector'' ''worker.lost'' ''worker''
            (Some (uuid_str i))
            [(''leases_fenced'', JInt worker_leases), (''lost_after_seconds'', JInt lost_after_seconds)]
            (s\<lparr>workers := upd_by wo_id i (\<lambda>w. w\<lparr>wo_last_lost_at := Some (tx_now tx),
                  wo_sandbox_execution_enabled := False\<rparr>) (workers s),
               leases := map (\<lambda>l. if hit l then lose_lease_row tx l else l) (leases s)\<rparr>)))"

fun lose_workers :: "txn \<Rightarrow> int \<Rightarrow> uuid list \<Rightarrow> 'a exec_db_scheme \<Rightarrow> int \<times> 'a exec_db_scheme" where
  "lose_workers tx n [] s = (0, s)"
| "lose_workers tx n (i # ids) s =
     (case lose_worker tx n i s of (k, s1) \<Rightarrow>
      case lose_workers tx n ids s1 of (m, s2) \<Rightarrow> (k + m, s2))"

definition detect_lost_workers ::
  "txn \<Rightarrow> int \<Rightarrow> int \<Rightarrow> 'a exec_db_scheme \<Rightarrow> (int \<times> int \<times> 'a exec_db_scheme) result" where
  "detect_lost_workers tx lost_after_seconds batch_size s =
     (if \<not> (15 \<le> lost_after_seconds \<and> lost_after_seconds \<le> 300) then Inl ValueError
      else if \<not> (1 \<le> batch_size \<and> batch_size \<le> 500) then Inl ValueError
      else
        let rows = map wo_id (select_limit (\<lambda>w. (wo_last_seen_at w, wo_id w))
              (\<lambda>w. worker_lost (tx_now tx) lost_after_seconds (leases s) w \<and> \<not> tx_locked tx (wo_id w))
              (nat (max 1 (batch_size div 16))) (workers s))
        in case lose_workers tx lost_after_seconds rows s of
             (leases_fenced, s1) \<Rightarrow> Inr (int (length rows), leases_fenced, s1))"

subsection \<open>The sweep and its health\<close>

record sweep_result =
  sw_acquired :: bool
  sw_leases_reaped :: int
  sw_cancellations_converged :: int
  sw_workers_lost :: int
  sw_worker_leases_fenced :: int

definition sweep_not_acquired :: sweep_result where
  "sweep_not_acquired = \<lparr>sw_acquired = False, sw_leases_reaped = 0, sw_cancellations_converged = 0,
     sw_workers_lost = 0, sw_worker_leases_fenced = 0\<rparr>"

definition swept_state :: "txn \<Rightarrow> string \<Rightarrow> sweep_result \<Rightarrow> recovery_state \<Rightarrow> recovery_state" where
  "swept_state tx owner_id r rs =
     rs\<lparr>rs_status := ''HEALTHY'', rs_owner_id := take 200 owner_id,
       rs_last_started_at := Some (tx_now tx), rs_last_completed_at := Some (tx_now tx),
       rs_last_heartbeat_at := Some (tx_now tx), rs_last_leases_reaped := sw_leases_reaped r,
       rs_last_cancellations_converged := sw_cancellations_converged r,
       rs_last_workers_lost := sw_workers_lost r,
       rs_last_worker_leases_fenced := sw_worker_leases_fenced r,
       rs_total_sweeps := rs_total_sweeps rs + 1,
       rs_total_workers_lost := rs_total_workers_lost rs + sw_workers_lost r,
       rs_total_worker_leases_fenced := rs_total_worker_leases_fenced rs + sw_worker_leases_fenced r,
       rs_last_error_code := None, rs_last_error_summary := None, rs_updated_at := tx_now tx\<rparr>"

definition finish_sweep ::
  "txn \<Rightarrow> string \<Rightarrow> int \<Rightarrow> sweep_result \<Rightarrow> 'a exec_db_scheme \<Rightarrow> (sweep_result \<times> 'a exec_db_scheme) result" where
  "finish_sweep tx owner_id batch_size r s =
     (case recovery_state s of
        None \<Rightarrow> Inl RuntimeError
      | Some rs \<Rightarrow>
          let s1 = s\<lparr>recovery_state := Some (swept_state tx owner_id r rs)\<rparr>
          in Inr (r,
               if sw_leases_reaped r \<noteq> 0 \<or> sw_cancellations_converged r \<noteq> 0 \<or> sw_workers_lost r \<noteq> 0
               then append_audit_event tx None None ''system'' ''execution-recovery-sweeper''
                 ''execution.recovery.sweep_completed'' ''execution_recovery'' (Some ''singleton'')
                 [(''leases_reaped'', JInt (sw_leases_reaped r)),
                  (''cancellations_converged'', JInt (sw_cancellations_converged r)),
                  (''workers_lost'', JInt (sw_workers_lost r)),
                  (''worker_leases_fenced'', JInt (sw_worker_leases_fenced r)),
                  (''batch_size'', JInt batch_size)] s1
               else s1))"

text \<open>\<open>acquired\<close> is the answer of the advisory lock.\<close>

definition run_execution_recovery_sweep ::
  "'b exec_settings_scheme \<Rightarrow> txn \<Rightarrow> bool \<Rightarrow> string \<Rightarrow> int \<Rightarrow> 'a exec_db_scheme \<Rightarrow>
   (sweep_result \<times> 'a exec_db_scheme) result" where
  "run_execution_recovery_sweep st tx acquired owner_id batch_size s =
     (if \<not> (1 \<le> batch_size \<and> batch_size \<le> 500) then Inl ValueError
      else if \<not> acquired then Inr (sweep_not_acquired, s)
      else
        bind_result (detect_lost_workers tx (st_worker_lost_after_seconds st) batch_size s)
          (\<lambda>(workers_lost, leases_fenced, s1).
        bind_result (reap_expired_leases st tx batch_size False s1) (\<lambda>(leases_reaped, s2).
        bind_result (reap_overdue_cancellations tx batch_size s2) (\<lambda>(cancellations_converged, s3).
        finish_sweep tx owner_id batch_size
          \<lparr>sw_acquired = True, sw_leases_reaped = leases_reaped,
           sw_cancellations_converged = cancellations_converged, sw_workers_lost = workers_lost,
           sw_worker_leases_fenced = leases_fenced\<rparr> s3))))"

definition record_execution_recovery_failure ::
  "txn \<Rightarrow> instant \<Rightarrow> string \<Rightarrow> string \<Rightarrow> 'a exec_db_scheme \<Rightarrow> 'a exec_db_scheme" where
  "record_execution_recovery_failure tx failed_started_at owner_id error_code s =
     s\<lparr>recovery_state := map_option (\<lambda>rs.
        if (case rs_last_heartbeat_at rs of None \<Rightarrow> True | Some t \<Rightarrow> t \<le> failed_started_at)
        then rs\<lparr>rs_status := ''FAILED'', rs_owner_id := take 200 owner_id,
          rs_last_started_at := Some failed_started_at, rs_last_heartbeat_at := Some (tx_now tx),
          rs_total_failures := rs_total_failures rs + 1,
          rs_last_error_code := Some (take 80 error_code),
          rs_last_error_summary := Some ''The execution recovery sweep failed.'',
          rs_updated_at := tx_now tx\<rparr>
        else rs) (recovery_state s)\<rparr>"

definition execution_recovery_is_fresh :: "recovery_state \<Rightarrow> instant \<Rightarrow> int \<Rightarrow> bool" where
  "execution_recovery_is_fresh health now stale_after_seconds \<longleftrightarrow>
     rs_status health = ''HEALTHY'' \<and>
     (case rs_last_heartbeat_at health of None \<Rightarrow> False
      | Some t \<Rightarrow> now - seconds stale_after_seconds \<le> t)"

record admission_health =
  ah_active_leases :: int
  ah_saturated_projects :: int
  ah_saturated_workers :: int
  ah_recovery_pending_workers :: int

definition project_slot_kind :: "work_kind \<Rightarrow> bool" where
  "project_slot_kind k \<longleftrightarrow> k \<in> {Wk_BUILD, Wk_RUN_START}"

definition project_live_leases :: "instant \<Rightarrow> uuid \<Rightarrow> lease list \<Rightarrow> int" where
  "project_live_leases now i =
     countp (\<lambda>l. le_project_id l = i \<and> project_slot_kind (le_work_kind l) \<and> lease_live now l)"

definition worker_live_leases :: "instant \<Rightarrow> uuid \<Rightarrow> lease list \<Rightarrow> int" where
  "worker_live_leases now i = countp (\<lambda>l. le_worker_id l = i \<and> lease_live now l)"

definition read_execution_admission_health :: "txn \<Rightarrow> 'a exec_db_scheme \<Rightarrow> admission_health" where
  "read_execution_admission_health tx s =
     \<lparr>ah_active_leases = countp (lease_live (tx_now tx)) (leases s),
      ah_saturated_projects = countp (\<lambda>p. pj_status p = ''ACTIVE'' \<and> pj_deleted_at p = None \<and>
        pj_max_active_leases p \<le> project_live_leases (tx_now tx) (pj_id p) (leases s)) (projects s),
      ah_saturated_workers = countp (\<lambda>w. wo_status w = Ws_ACTIVE \<and> wo_revoked_at w = None \<and>
        wo_max_concurrency w \<le> worker_live_leases (tx_now tx) (wo_id w) (leases s)) (workers s),
      ah_recovery_pending_workers = countp recovery_pending (workers s)\<rparr>"

end
