(* ===== verification/Exec_Invariant.thy ===== *)
theory Exec_Invariant
  imports Exec_Recovery
begin

section \<open>Invariant of the execution plane\<close>

text \<open>
  The invariant that ties leases, outbox rows and secret grants together, and the relation
  \<open>recovers\<close>: what the recovery operations may do to a database. Every recovery operation is shown
  to stay inside \<open>recovers\<close>, and \<open>recovers\<close> keeps the invariant.
\<close>

subsection \<open>Work sources\<close>

text \<open>
  A source is a row of one of the two outboxes; its key says which one (\<open>True\<close> for
  \<open>build_dispatch_outbox\<close>) and the identifier.
\<close>

type_synonym source_key = "bool \<times> uuid"

definition source_key :: "lease \<Rightarrow> source_key" where
  "source_key l = (le_work_kind l = Wk_BUILD, le_source_outbox_id l)"

definition source_at :: "'a exec_db_scheme \<Rightarrow> source_key \<Rightarrow> (outbox_status \<times> int) option" where
  "source_at s k =
     (if fst k then map_option (\<lambda>b. (bo_status b, bo_attempts b)) (find_by bo_id (snd k) (build_outbox s))
      else map_option (\<lambda>c. (rc_status c, rc_attempts c)) (find_by rc_id (snd k) (run_commands s)))"

definition active_id :: "'a exec_db_scheme \<Rightarrow> uuid \<Rightarrow> bool" where
  "active_id s i \<longleftrightarrow> (\<exists>l \<in> set (leases s). le_id l = i \<and> le_status l = Le_ACTIVE)"

definition active_key :: "'a exec_db_scheme \<Rightarrow> source_key \<Rightarrow> bool" where
  "active_key s k \<longleftrightarrow> (\<exists>l \<in> set (leases s). source_key l = k \<and> le_status l = Le_ACTIVE)"

definition latest :: "'a exec_db_scheme \<Rightarrow> lease \<Rightarrow> bool" where
  "latest s l \<longleftrightarrow> map_option snd (source_at s (source_key l)) = Some (le_attempt l)"

subsection \<open>The invariant\<close>

definition lease_ok :: "'b exec_settings_scheme \<Rightarrow> lease \<Rightarrow> bool" where
  "lease_ok st l \<longleftrightarrow>
     le_claimed_at l < le_expires_at l \<and> le_expires_at l \<le> le_deadline_at l \<and>
     le_expires_at l \<le> le_claimed_at l + seconds (st_worker_lease_max_seconds st) \<and>
     1 \<le> le_attempt l \<and> le_attempt l \<le> st_worker_max_attempts st \<and>
     (le_work_kind l = Wk_BUILD \<longleftrightarrow> le_run_id l = None)"

definition tables_ok :: "'a exec_db_scheme \<Rightarrow> bool" where
  "tables_ok s \<longleftrightarrow>
     fresh_ids le_id (leases s) (next_id s) \<and> fresh_ids bd_id (builds s) (next_id s) \<and>
     fresh_ids bo_id (build_outbox s) (next_id s) \<and> fresh_ids rn_id (runs s) (next_id s) \<and>
     fresh_ids rc_id (run_commands s) (next_id s)"

definition lease_tied :: "'a exec_db_scheme \<Rightarrow> lease \<Rightarrow> bool" where
  "lease_tied s l \<longleftrightarrow> (case source_at s (source_key l) of
     None \<Rightarrow> False
   | Some (x, n) \<Rightarrow> le_attempt l \<le> n \<and>
       (le_status l = Le_ACTIVE \<longrightarrow> le_attempt l = n \<and> x \<noteq> Ob_PENDING))"

definition sources_ok :: "'b exec_settings_scheme \<Rightarrow> 'a exec_db_scheme \<Rightarrow> bool" where
  "sources_ok st s \<longleftrightarrow> (\<forall>k x n. source_at s k = Some (x, n) \<longrightarrow>
     0 \<le> n \<and> n \<le> st_worker_max_attempts st \<and> (x = Ob_PENDING \<longrightarrow> n < st_worker_max_attempts st))"

definition exec_inv :: "'b exec_settings_scheme \<Rightarrow> 'a exec_db_scheme \<Rightarrow> bool" where
  "exec_inv st s \<longleftrightarrow>
     tables_ok s \<and>
     (\<forall>l \<in> set (leases s). lease_ok st l \<and> lease_tied s l) \<and>
     distinct (map (\<lambda>l. (source_key l, le_attempt l)) (leases s)) \<and>
     sources_ok st s \<and>
     (\<forall>g \<in> set (secret_grants s). sg_status g = Gr_ISSUED \<longrightarrow> active_id s (sg_lease_id g)) \<and>
     events_numbered (run_events s)"

lemma exec_invD:
  assumes "exec_inv st s"
  shows "tables_ok s" and "l \<in> set (leases s) \<Longrightarrow> lease_ok st l"
    and "l \<in> set (leases s) \<Longrightarrow> lease_tied s l"
    and "distinct (map (\<lambda>l. (source_key l, le_attempt l)) (leases s))"
    and "sources_ok st s" and "events_numbered (run_events s)"
    and "g \<in> set (secret_grants s) \<Longrightarrow> sg_status g = Gr_ISSUED \<Longrightarrow> active_id s (sg_lease_id g)"
  using assms by (auto simp: exec_inv_def)

lemma active_latest:
  assumes "exec_inv st s" and "l \<in> set (leases s)" and "le_status l = Le_ACTIVE"
  shows "latest s l"
  using exec_invD(3) [OF assms(1,2)] assms(3)
  by (auto simp: lease_tied_def latest_def split: option.splits)

text \<open>A source has at most one active lease, and it is the one of the latest attempt.\<close>

lemma active_unique:
  assumes inv: "exec_inv st s" and l: "l \<in> set (leases s)" "latest s l"
    and l': "l' \<in> set (leases s)" "le_status l' = Le_ACTIVE" "source_key l' = source_key l"
  shows "l' = l"
proof -
  have "latest s l'" using active_latest [OF inv l'(1,2)] .
  with l(2) l'(3) have "le_attempt l' = le_attempt l" by (auto simp: latest_def)
  with l'(3) have "(source_key l', le_attempt l') = (source_key l, le_attempt l)" by simp
  from distinct_key_unique [OF exec_invD(4) [OF inv] l'(1) l(1)] this show ?thesis by simp
qed

lemma pending_not_active:
  assumes inv: "exec_inv st s" and k: "source_at s k = Some (Ob_PENDING, n)"
  shows "\<not> active_key s k"
  using exec_invD(3) [OF inv] k by (force simp: active_key_def lease_tied_def)

subsection \<open>What recovery may do\<close>

definition lease_le :: "'b exec_settings_scheme \<Rightarrow> lease \<Rightarrow> lease \<Rightarrow> bool" where
  "lease_le st l l' \<longleftrightarrow> le_id l' = le_id l \<and> source_key l' = source_key l \<and> le_attempt l' = le_attempt l \<and>
     le_lease_token_digest l' = le_lease_token_digest l \<and> le_worker_id l' = le_worker_id l \<and>
     le_project_id l' = le_project_id l \<and> le_work_kind l' = le_work_kind l \<and> le_run_id l' = le_run_id l \<and>
     le_deadline_at l' = le_deadline_at l \<and> le_claimed_at l' = le_claimed_at l \<and>
     (lease_ok st l \<longrightarrow> lease_ok st l') \<and>
     (le_status l' = Le_ACTIVE \<longrightarrow> le_status l = Le_ACTIVE)"

definition source_le ::
  "'b exec_settings_scheme \<Rightarrow> 'a exec_db_scheme \<Rightarrow> source_key \<Rightarrow> outbox_status \<times> int \<Rightarrow> outbox_status \<times> int \<Rightarrow> bool" where
  "source_le st s' k p p' \<longleftrightarrow> snd p' = snd p \<and>
     (fst p' = Ob_PENDING \<longrightarrow> fst p = Ob_PENDING \<or>
        snd p < st_worker_max_attempts st \<and> \<not> active_key s' k)"

definition same_keys :: "'a exec_db_scheme \<Rightarrow> 'a exec_db_scheme \<Rightarrow> bool" where
  "same_keys s s' \<longleftrightarrow> next_id s' = next_id s \<and>
     (recovery_state s' = None \<longleftrightarrow> recovery_state s = None) \<and> map bd_id (builds s') = map bd_id (builds s) \<and>
     map bo_id (build_outbox s') = map bo_id (build_outbox s) \<and>
     map rn_id (runs s') = map rn_id (runs s) \<and>
     map rc_id (run_commands s') = map rc_id (run_commands s)"

definition recovers :: "'b exec_settings_scheme \<Rightarrow> 'a exec_db_scheme \<Rightarrow> 'a exec_db_scheme \<Rightarrow> bool" where
  "recovers st s s' \<longleftrightarrow>
     same_keys s s' \<and>
     list_all2 (lease_le st) (leases s) (leases s') \<and>
     (\<forall>k. rel_option (source_le st s' k) (source_at s k) (source_at s' k)) \<and>
     (\<forall>g \<in> set (secret_grants s'). sg_status g = Gr_ISSUED \<longrightarrow>
        g \<in> set (secret_grants s) \<and> (active_id s (sg_lease_id g) \<longrightarrow> active_id s' (sg_lease_id g))) \<and>
     (events_numbered (run_events s) \<longrightarrow> events_numbered (run_events s'))"

lemma list_all2_in2:
  assumes "list_all2 P xs ys" and "y \<in> set ys"
  obtains x where "x \<in> set xs" and "P x y"
  using assms by (metis in_set_conv_nth list_all2_conv_all_nth)

lemma recoversD:
  assumes "recovers st s s'"
  shows "same_keys s s'" and "list_all2 (lease_le st) (leases s) (leases s')"
    and "rel_option (source_le st s' k) (source_at s k) (source_at s' k)"
  using assms unfolding recovers_def by blast+

lemma recovers_active_key:
  assumes "list_all2 (lease_le st) (leases s) (leases s')" and "active_key s' k"
  shows "active_key s k"
  using assms by (auto simp: active_key_def lease_le_def elim!: list_all2_in2)

lemma recovers_refl [simp]: "recovers st s s"
proof -
  have "list_all2 (lease_le st) (leases s) (leases s)"
    by (rule list_all2_refl) (simp add: lease_le_def)
  moreover have "rel_option (source_le st s k) (source_at s k) (source_at s k)" for k
    by (cases "source_at s k") (simp_all add: source_le_def)
  ultimately show ?thesis by (simp add: recovers_def same_keys_def)
qed

lemma lease_le_trans: "lease_le st a b \<Longrightarrow> lease_le st b c \<Longrightarrow> lease_le st a c"
  by (auto simp: lease_le_def)

lemma source_le_trans:
  assumes "source_le st s' k p q" and "source_le st s'' k q r"
    and "active_key s'' k \<Longrightarrow> active_key s' k"
  shows "source_le st s'' k p r"
  using assms by (auto simp: source_le_def)

lemma recovers_trans [trans]:
  assumes a: "recovers st s s'" and b: "recovers st s' s''"
  shows "recovers st s s''"
proof -
  have ll: "list_all2 (lease_le st) (leases s) (leases s'')"
    using a b list_all2_trans [of "lease_le st" "lease_le st" "lease_le st", OF lease_le_trans]
    by (auto simp: recovers_def)
  have src: "rel_option (source_le st s'' k) (source_at s k) (source_at s'' k)" for k
  proof -
    have "active_key s'' k \<Longrightarrow> active_key s' k"
      using b by (auto simp: recovers_def intro: recovers_active_key)
    moreover have "rel_option (source_le st s' k) (source_at s k) (source_at s' k)"
      "rel_option (source_le st s'' k) (source_at s' k) (source_at s'' k)"
      using a b by (simp_all add: recoversD(3))
    ultimately show ?thesis
      by (cases "source_at s k"; cases "source_at s' k"; cases "source_at s'' k")
        (auto intro: source_le_trans)
  qed
  show ?thesis
    using a b ll src unfolding recovers_def same_keys_def by fastforce
qed

lemma recovers_latest:
  assumes "recovers st s s'" and "latest s l"
    and "source_key l' = source_key l" and "le_attempt l' = le_attempt l"
  shows "latest s' l'"
proof -
  have "rel_option (source_le st s' (source_key l)) (source_at s (source_key l)) (source_at s' (source_key l))"
    using assms(1) by (rule recoversD(3))
  with assms(2-) show ?thesis
    by (cases "source_at s (source_key l)"; cases "source_at s' (source_key l)")
      (auto simp: latest_def source_le_def)
qed

lemma fresh_ids_same:
  "fresh_ids key t n \<Longrightarrow> map key t' = map key t \<Longrightarrow> fresh_ids key t' n"
  by (metis (no_types, lifting) fresh_ids_def image_iff image_set)

lemma list_all2_map_eq:
  assumes "list_all2 P xs ys" and "\<And>x y. P x y \<Longrightarrow> f y = f x"
  shows "map f ys = map f xs"
  using assms by (induction rule: list_all2_induct) auto

lemma recovers_tied:
  assumes inv: "exec_inv st s" and rec: "recovers st s s'" and l': "l' \<in> set (leases s')"
  shows "lease_ok st l' \<and> lease_tied s' l'"
proof -
  from rec have "list_all2 (lease_le st) (leases s) (leases s')" by (simp add: recovers_def)
  then obtain l where l: "l \<in> set (leases s)" "lease_le st l l'"
    using l' by (rule list_all2_in2)
  have ok: "lease_ok st l'" using exec_invD(2) [OF inv l(1)] l(2) by (simp add: lease_le_def)
  have rel: "rel_option (source_le st s' (source_key l)) (source_at s (source_key l)) (source_at s' (source_key l))"
    using rec by (rule recoversD(3))
  have act: "le_status l' = Le_ACTIVE \<Longrightarrow> active_key s' (source_key l)"
    using l' l(2) by (auto simp: active_key_def lease_le_def)
  show ?thesis
    using ok rel act exec_invD(3) [OF inv l(1)] l(2)
    by (cases "source_at s (source_key l)"; cases "source_at s' (source_key l)")
      (auto simp: lease_tied_def lease_le_def source_le_def)
qed

lemma sources_okD:
  assumes "sources_ok st s" and "source_at s k = Some (x, n)"
  shows "0 \<le> n" and "n \<le> st_worker_max_attempts st"
    and "x = Ob_PENDING \<Longrightarrow> n < st_worker_max_attempts st"
  using assms unfolding sources_ok_def by blast+

lemma recovers_sources:
  assumes "sources_ok st s" and "recovers st s s'"
  shows "sources_ok st s'"
  unfolding sources_ok_def
proof (intro allI impI)
  fix k x n assume k: "source_at s' k = Some (x, n)"
  have "rel_option (source_le st s' k) (source_at s k) (source_at s' k)"
    using assms(2) by (rule recoversD(3))
  with k obtain y m where y: "source_at s k = Some (y, m)" and "source_le st s' k (y, m) (x, n)"
    by (cases "source_at s k") auto
  with sources_okD [OF assms(1) y] show "0 \<le> n \<and> n \<le> st_worker_max_attempts st \<and>
      (x = Ob_PENDING \<longrightarrow> n < st_worker_max_attempts st)"
    by (auto simp: source_le_def)
qed

lemma recovers_inv:
  assumes inv: "exec_inv st s" and rec: "recovers st s s'"
  shows "exec_inv st s'"
proof -
  have ll: "list_all2 (lease_le st) (leases s) (leases s')" using rec by (simp add: recovers_def)
  have ids: "map le_id (leases s') = map le_id (leases s)"
    "map (\<lambda>l. (source_key l, le_attempt l)) (leases s') = map (\<lambda>l. (source_key l, le_attempt l)) (leases s)"
    by (rule list_all2_map_eq [OF ll], simp add: lease_le_def)+
  have "tables_ok s'"
    using exec_invD(1) [OF inv] rec ids(1)
    by (auto simp: tables_ok_def recovers_def same_keys_def intro: fresh_ids_same)
  moreover have "\<forall>l \<in> set (leases s'). lease_ok st l \<and> lease_tied s' l"
    using recovers_tied [OF inv rec] by blast
  moreover have "distinct (map (\<lambda>l. (source_key l, le_attempt l)) (leases s'))"
    using exec_invD(4) [OF inv] ids(2) by simp
  moreover have "sources_ok st s'" using recovers_sources [OF exec_invD(5) [OF inv] rec] .
  moreover have "\<forall>g \<in> set (secret_grants s'). sg_status g = Gr_ISSUED \<longrightarrow> active_id s' (sg_lease_id g)"
    using rec exec_invD(7) [OF inv] by (auto simp: recovers_def)
  moreover have "events_numbered (run_events s')"
    using rec exec_invD(6) [OF inv] by (simp add: recovers_def)
  ultimately show ?thesis by (simp add: exec_inv_def)
qed

subsection \<open>The recovery operations\<close>

lemma source_at_cong:
  "build_outbox s' = build_outbox s \<Longrightarrow> run_commands s' = run_commands s \<Longrightarrow> source_at s' = source_at s"
  by (simp add: source_at_def fun_eq_iff)

lemma recovers_frameI:
  assumes "leases s' = leases s" "build_outbox s' = build_outbox s" "run_commands s' = run_commands s"
    "secret_grants s' = secret_grants s" "map rn_id (runs s') = map rn_id (runs s)"
    "map bd_id (builds s') = map bd_id (builds s)" "next_id s' = next_id s"
    "recovery_state s' = None \<longleftrightarrow> recovery_state s = None"
    "events_numbered (run_events s) \<Longrightarrow> events_numbered (run_events s')"
  shows "recovers st s s'"
proof -
  have "source_at s' = source_at s" by (rule source_at_cong) (fact assms)+
  moreover have "list_all2 (lease_le st) (leases s) (leases s)"
    by (rule list_all2_refl) (simp add: lease_le_def)
  moreover have "rel_option (source_le st s' k) (source_at s k) (source_at s k)" for k
    by (cases "source_at s k") (simp_all add: source_le_def)
  ultimately show ?thesis
    using assms by (simp add: recovers_def same_keys_def active_id_def)
qed

lemma recovers_event:
  assumes "run_event_for tx r et p s = Inr s'"
  shows "recovers st s s'"
proof -
  from assms have run: "append_run_event tx (rn_organization_id r) (rn_project_id r) (rn_id r) et p s = Inr s'"
    by (simp add: run_event_for_def)
  obtain e where e: "s' = s\<lparr>run_events := run_events s @ [e]\<rparr>"
    using run by (rule append_run_event_cases)
  have "events_numbered (run_events s) \<Longrightarrow> events_numbered (run_events s')"
    using events_numbered_append [OF _ run] by blast
  then show ?thesis
    by (intro recovers_frameI) (simp_all add: e)
qed

lemma recovers_audit [simp]: "recovers st s (append_audit_event tx a b c d e f g h s)"
  by (rule recovers_frameI) (simp_all add: append_audit_event_def)

lemma recovers_put_run: "recovers st s (put_run r s)"
  by (rule recovers_frameI) (simp_all add: put_run_def upd_by_def)

lemma fence_sel:
  assumes "fence_cancelled_run_leases tx i pl ps s = (n, s')"
  shows "leases s' = map (\<lambda>l. if le_id l \<in> set (fenced_ids tx i pl (leases s)) then cancel_lease_row tx l else l) (leases s)"
    and "runs s' = runs s" and "builds s' = builds s" and "build_outbox s' = build_outbox s"
    and "next_id s' = next_id s" and "run_events s' = run_events s"
    and "audit_log s' = audit_log s"
    and "run_commands s' = map (\<lambda>c. if rc_run_id c = i \<and> rc_status c \<in> {Ob_PENDING, Ob_CLAIMED} \<and>
           Some (rc_id c) \<noteq> ps then cancel_command_row tx c else c) (run_commands s)"
    and "secret_grants s' = map (\<lambda>g. if sg_lease_id g \<in> set (fenced_ids tx i pl (leases s)) \<and> sg_status g = Gr_ISSUED
           then g\<lparr>sg_status := Gr_REVOKED\<rparr> else g) (secret_grants s)"
    and "recovery_state s' = recovery_state s"
  using assms by (auto simp: fence_cancelled_run_leases_def Let_def)

lemma cancel_lease_row_sel [simp]:
  "le_id (cancel_lease_row tx l) = le_id l" "le_status (cancel_lease_row tx l) = Le_CANCELLED"
  "source_key (cancel_lease_row tx l) = source_key l" "le_attempt (cancel_lease_row tx l) = le_attempt l"
  "le_deadline_at (cancel_lease_row tx l) = le_deadline_at l" "le_claimed_at (cancel_lease_row tx l) = le_claimed_at l"
  "lease_ok st (cancel_lease_row tx l) = lease_ok st l"
  "le_lease_token_digest (cancel_lease_row tx l) = le_lease_token_digest l"
  "le_worker_id (cancel_lease_row tx l) = le_worker_id l" "le_project_id (cancel_lease_row tx l) = le_project_id l"
  "le_work_kind (cancel_lease_row tx l) = le_work_kind l" "le_run_id (cancel_lease_row tx l) = le_run_id l"
  by (simp_all add: cancel_lease_row_def source_key_def lease_ok_def)

lemma cancel_command_row_sel [simp]:
  "rc_id (cancel_command_row tx c) = rc_id c" "rc_status (cancel_command_row tx c) = Ob_CANCELLED"
  "rc_attempts (cancel_command_row tx c) = rc_attempts c" "rc_run_id (cancel_command_row tx c) = rc_run_id c"
  by (simp_all add: cancel_command_row_def)

lemma recovers_fence:
  assumes run: "fence_cancelled_run_leases tx i pl ps s = (n, s')"
  shows "recovers st s s'"
proof -
  note sel = fence_sel [OF run]
  have ll: "list_all2 (lease_le st) (leases s) (leases s')"
    by (auto simp: sel(1) list.rel_map lease_le_def intro: list_all2_refl)
  have src: "rel_option (source_le st s' k) (source_at s k) (source_at s' k)" for k
  proof (cases "fst k")
    case True
    then show ?thesis
      by (cases "find_by bo_id (snd k) (build_outbox s)") (simp_all add: source_at_def sel(4) source_le_def)
  next
    case False
    then show ?thesis
      by (cases "find_by rc_id (snd k) (run_commands s)")
        (auto simp: source_at_def sel(8) source_le_def find_by_map)
  qed
  have keep: "active_id s j \<Longrightarrow> j \<notin> set (fenced_ids tx i pl (leases s)) \<Longrightarrow> active_id s' j" for j
    by (auto simp: active_id_def sel(1))
  show ?thesis
    unfolding recovers_def
    using ll src keep by (auto simp: same_keys_def sel(2-10))
qed

text \<open>The ways \<open>converge_cancelled_run\<close> returns.\<close>

definition converged_run :: "txn \<Rightarrow> run \<Rightarrow> run" where
  "converged_run tx run = run\<lparr>rn_status := Rn_ABORTED,
     rn_finished_at := Some (or_else (rn_finished_at run) (tx_now tx)),
     rn_failure_code := None, rn_failure_summary := None, rn_updated_at := tx_now tx,
     rn_version := rn_version run + 1\<rparr>"

lemma converge_cancelled_run_cases:
  assumes "converge_cancelled_run tx i reason s = Inr (ok, s')"
  obtains (untouched) n where "fence_cancelled_run_leases tx i None None s = (n, s')"
      and "ok \<longleftrightarrow> (\<exists>r. find_by rn_id i (runs s) = Some r \<and> rn_cancel_requested_at r \<noteq> None \<and> rn_status r = Rn_ABORTED)"
      and "\<And>r. find_by rn_id i (runs s) = Some r \<Longrightarrow> rn_cancel_requested_at r \<noteq> None \<Longrightarrow> rn_status r \<noteq> Rn_ABORTING"
  | (aborted) n s1 r s2 s3 details where "fence_cancelled_run_leases tx i None None s = (n, s1)" and "ok"
      and "find_by rn_id i (runs s) = Some r" and "rn_cancel_requested_at r \<noteq> None" and "rn_status r = Rn_ABORTING"
      and "run_event_for tx (converged_run tx r) ''run.status'' (status_payload Rn_ABORTING Rn_ABORTED)
             (put_run (converged_run tx r) s1) = Inr s2"
      and "run_event_for tx (converged_run tx r) ''run.completed''
             [(''status'', JStr ''ABORTED''), (''reason'', JStr reason)] s2 = Inr s3"
      and "s' = append_audit_event tx (Some (rn_organization_id r)) (Some (rn_project_id r)) ''system''
             ''cancellation-reaper'' ''run.cancellation_converged'' ''run'' (Some (uuid_str (rn_id r))) details s3"
proof -
  obtain n s1 where f: "fence_cancelled_run_leases tx i None None s = (n, s1)" by fastforce
  note runs = fence_sel(2) [OF f]
  show ?thesis
  proof (cases "find_by rn_id i (runs s)")
    case None
    with assms f runs untouched [of n] show ?thesis by (simp add: converge_cancelled_run_def)
  next
    case (Some r)
    show ?thesis
    proof (cases "rn_cancel_requested_at r \<noteq> None \<and> rn_status r = Rn_ABORTING")
      case False
      with assms f runs Some untouched [of n] show ?thesis
        by (auto simp: converge_cancelled_run_def split: if_splits)
    next
      case True
      with assms f runs Some show ?thesis
        by (auto simp: converge_cancelled_run_def bind_result_Inr_iff Let_def converged_run_def [symmetric]
            intro!: aborted [OF f]) (auto simp: converged_run_def)
    qed
  qed
qed

lemma recovers_converge:
  assumes "converge_cancelled_run tx i reason s = Inr (ok, s')"
  shows "recovers st s s'"
  using assms
proof (cases rule: converge_cancelled_run_cases)
  case (untouched n)
  show ?thesis using recovers_fence [OF untouched(1)] .
next
  case (aborted n s1 r s2 s3 d)
  have "recovers st s s1" using recovers_fence [OF aborted(1)] .
  also have "recovers st s1 (put_run (converged_run tx r) s1)" by (rule recovers_put_run)
  also have "recovers st \<dots> s2" using recovers_event [OF aborted(6)] .
  also have "recovers st s2 s3" using recovers_event [OF aborted(7)] .
  also have "recovers st s3 s'" by (simp add: aborted(8))
  finally show ?thesis .
qed

lemma recovers_converge_all:
  "converge_all tx ids s = Inr (n, s') \<Longrightarrow> recovers st s s'"
proof (induction ids arbitrary: s n)
  case (Cons i ids)
  then show ?case
    by (fastforce simp: bind_result_Inr_iff dest: recovers_converge intro: recovers_trans)
qed simp

lemma recovers_overdue:
  "reap_overdue_cancellations tx b s = Inr (n, s') \<Longrightarrow> recovers st s s'"
  by (auto simp: reap_overdue_cancellations_def intro: recovers_converge_all split: if_splits)

text \<open>Giving a source back while its lease is closed.\<close>

lemma expiry_retry_atD:
  assumes "expiry_retry_at st tx l de avail = Inr (Some t)"
  shows "1 \<le> le_attempt l" and "le_attempt l < st_worker_max_attempts st" and "avail" and "\<not> de"
    and "retry_available_at (tx_now tx) (le_attempt l) (st_worker_retry_base_seconds st)
           (st_worker_retry_max_seconds st) = Inr t"
  using assms
  by (auto simp: expiry_retry_at_def bind_result_Inr_iff execution_retry_allowed_def split: if_splits)

definition given_back ::
  "'b exec_settings_scheme \<Rightarrow> lease \<Rightarrow> source_key \<Rightarrow> outbox_status \<times> int \<Rightarrow> outbox_status \<times> int \<Rightarrow> bool" where
  "given_back st l k p p' \<longleftrightarrow> snd p' = snd p \<and>
     (fst p' = Ob_PENDING \<longrightarrow> fst p = Ob_PENDING \<or>
        k = source_key l \<and> le_attempt l < st_worker_max_attempts st)"

definition closes :: "(lease \<Rightarrow> lease) \<Rightarrow> bool" where
  "closes f \<longleftrightarrow> (\<forall>l. le_id (f l) = le_id l \<and> source_key (f l) = source_key l \<and>
     le_lease_token_digest (f l) = le_lease_token_digest l \<and> le_worker_id (f l) = le_worker_id l \<and>
     le_project_id (f l) = le_project_id l \<and>
     le_attempt (f l) = le_attempt l \<and> le_deadline_at (f l) = le_deadline_at l \<and>
     le_claimed_at (f l) = le_claimed_at l \<and> le_expires_at (f l) = le_expires_at l \<and>
     le_work_kind (f l) = le_work_kind l \<and> le_run_id (f l) = le_run_id l \<and> le_status (f l) \<noteq> Le_ACTIVE)"

lemma recovers_give_back:
  assumes inv: "exec_inv st s" and l: "l \<in> set (leases s)" "latest s l" and f: "closes f"
    and ls: "leases s' = upd_by le_id (le_id l) f (leases s)"
    and gr: "\<And>g. g \<in> set (secret_grants s') \<Longrightarrow> sg_status g = Gr_ISSUED \<Longrightarrow>
      g \<in> set (secret_grants s) \<and> sg_lease_id g \<noteq> le_id l"
    and keys: "same_keys s s'"
    and src: "\<And>k. rel_option (given_back st l k) (source_at s k) (source_at s' k)"
    and ev: "events_numbered (run_events s) \<Longrightarrow> events_numbered (run_events s')"
  shows "recovers st s s'"
proof -
  have ll: "list_all2 (lease_le st) (leases s) (leases s')"
    using f by (auto simp: ls upd_by_def list.rel_map lease_le_def lease_ok_def closes_def intro!: list_all2_refl)
  have free: "\<not> active_key s' (source_key l)"
  proof
    assume "active_key s' (source_key l)"
    then obtain a where a: "a \<in> set (leases s)" "le_id a \<noteq> le_id l" "le_status a = Le_ACTIVE"
        "source_key a = source_key l"
      using f by (auto simp: active_key_def ls set_upd_by closes_def split: if_splits)
    from active_unique [OF inv l a(1,3,4)] a(2) show False by simp
  qed
  have "rel_option (source_le st s' k) (source_at s k) (source_at s' k)" for k
  proof (cases "source_at s k"; cases "source_at s' k")
    fix p p' assume p: "source_at s k = Some p" "source_at s' k = Some p'"
    with src [of k] have g: "given_back st l k p p'" by simp
    have "k = source_key l \<Longrightarrow> snd p = le_attempt l" using l(2) p by (auto simp: latest_def)
    with g free have "source_le st s' k p p'" by (auto simp: given_back_def source_le_def)
    with p show ?thesis by simp
  qed (use src [of k] in auto)
  moreover have "active_id s j \<Longrightarrow> j \<noteq> le_id l \<Longrightarrow> active_id s' j" for j
    by (force simp: active_id_def ls set_upd_by)
  ultimately show ?thesis
    unfolding recovers_def using ll gr keys ev by simp
qed

lemma closes_expire: "closes (expire_lease_row tx de fc)"
  by (simp add: closes_def expire_lease_row_def source_key_def lease_ok_def)

definition gives_back :: "'b exec_settings_scheme \<Rightarrow> lease \<Rightarrow> 'a exec_db_scheme \<Rightarrow> 'a exec_db_scheme \<Rightarrow> bool" where
  "gives_back st l s s' \<longleftrightarrow> leases s' = leases s \<and> secret_grants s' = secret_grants s \<and> same_keys s s' \<and>
     (\<forall>k. rel_option (given_back st l k) (source_at s k) (source_at s' k)) \<and>
     (events_numbered (run_events s) \<longrightarrow> events_numbered (run_events s'))"

lemma given_back_refl: "rel_option (given_back st l k) p p"
  by (cases p) (simp_all add: given_back_def)

lemma gives_back_build:
  assumes run: "reset_expired_build st tx l de fc s = Inr (t, s')" and k: "le_work_kind l = Wk_BUILD"
  shows "gives_back st l s s'"
proof -
  let ?row = "reset_build_source_row tx t fc"
  from run have t: "\<exists>a. expiry_retry_at st tx l de a = Inr t"
    and bo: "build_outbox s' = upd_by bo_id (le_source_outbox_id l) ?row (build_outbox s)"
    and bd: "map bd_id (builds s') = map bd_id (builds s)"
    and same: "leases s' = leases s" "secret_grants s' = secret_grants s" "runs s' = runs s"
      "run_commands s' = run_commands s" "next_id s' = next_id s" "run_events s' = run_events s"
      "recovery_state s' = recovery_state s"
    by (auto simp: reset_expired_build_def Let_def bind_result_Inr_iff upd_by_def reset_build_row_def
        split: option.splits)
  from t have retry: "t \<noteq> None \<Longrightarrow> le_attempt l < st_worker_max_attempts st"
    by (auto dest: expiry_retry_atD)
  have row: "bo_id (?row b) = bo_id b" "bo_attempts (?row b) = bo_attempts b"
      "bo_status (?row b) = (if t \<noteq> None then Ob_PENDING else Ob_FAILED)" for b
    by (simp_all add: reset_build_source_row_def)
  have "rel_option (given_back st l k) (source_at s k) (source_at s' k)" for k
  proof (cases "fst k")
    case True
    then show ?thesis
      using retry k
      by (cases k; cases "find_by bo_id (snd k) (build_outbox s)")
        (auto simp: source_at_def bo find_by_upd_by row given_back_def source_key_def)
  qed (simp add: source_at_def same given_back_refl)
  then show ?thesis
    using bd same by (simp add: gives_back_def same_keys_def bo map_upd_by row)
qed

lemma gives_back_run:
  assumes run: "requeue_expired_run st tx l de fc s = Inr (t, s')" and k: "le_work_kind l \<noteq> Wk_BUILD"
  shows "gives_back st l s s'"
proof -
  let ?row = "reset_run_source_row tx t fc"
  define s1 where "s1 = s\<lparr>run_commands := upd_by rc_id (le_source_outbox_id l) ?row (run_commands s)\<rparr>"
  from run have t: "\<exists>a. expiry_retry_at st tx l de a = Inr t"
    by (auto simp: requeue_expired_run_def Let_def bind_result_Inr_iff split: option.splits if_splits)
  from run have s': "s' = s1 \<or> (\<exists>r. s' = put_run r s1 \<or>
      (\<exists>et p. run_event_for tx r et p (put_run r s1) = Inr s'))"
    by (auto simp: requeue_expired_run_def Let_def bind_result_Inr_iff s1_def
        split: option.splits if_splits)
  have rec: "recovers st s1 s'"
    using s' by (auto intro: recovers_put_run recovers_trans [OF recovers_put_run] recovers_event)
  have same: "leases s' = leases s1" "secret_grants s' = secret_grants s1" "run_commands s' = run_commands s1"
      "build_outbox s' = build_outbox s1"
    using s' by (auto simp: put_run_def run_event_for_def elim!: append_run_event_cases)
  have row: "rc_id (?row b) = rc_id b" "rc_attempts (?row b) = rc_attempts b"
      "rc_status (?row b) = (if t \<noteq> None then Ob_PENDING else Ob_FAILED)" for b
    by (simp_all add: reset_run_source_row_def)
  from t have retry: "t \<noteq> None \<Longrightarrow> le_attempt l < st_worker_max_attempts st"
    by (auto dest: expiry_retry_atD)
  have "rel_option (given_back st l k) (source_at s k) (source_at s' k)" for k
  proof (cases "fst k")
    case False
    then show ?thesis
      using retry k
      by (cases k; cases "find_by rc_id (snd k) (run_commands s)")
        (auto simp: source_at_def same s1_def find_by_upd_by row given_back_def source_key_def)
  qed (simp add: source_at_def same s1_def given_back_refl)
  moreover have "same_keys s s'"
    using recoversD(1) [OF rec] by (simp add: same_keys_def s1_def map_upd_by row)
  moreover have "events_numbered (run_events s) \<longrightarrow> events_numbered (run_events s')"
    using rec by (simp add: recovers_def s1_def)
  ultimately show ?thesis by (simp add: gives_back_def same s1_def)
qed

lemma converge_expiry:
  assumes "converge_cancelled_run tx i reason s = Inr (ok, s')"
  shows "map le_expires_at (leases s') = map le_expires_at (leases s)"
  using assms
proof (cases rule: converge_cancelled_run_cases)
  case (untouched n)
  show ?thesis by (simp add: fence_sel(1) [OF untouched(1)] cancel_lease_row_def)
next
  case (aborted n s1 r s2 s3 d)
  have "leases s' = leases s1"
    using aborted(6,7,8)
    by (auto simp: run_event_for_def append_audit_event_def put_run_def elim!: append_run_event_cases)
  then show ?thesis by (simp add: fence_sel(1) [OF aborted(1)] cancel_lease_row_def)
qed

lemma reap_lease_cases:
  assumes "reap_lease st tx l s = Inr s'"
  obtains (converged) r reason s1 where "le_work_kind l \<noteq> Wk_BUILD" and "find_run (le_run_id l) s = Some r"
      and "rn_cancel_requested_at r \<noteq> None" and "converge_cancelled_run tx (rn_id r) reason s = Inr (True, s1)"
      and "s' = audit_converged_lease tx l s1"
  | (given) s0 s1 t de fc where "recovers st s s0" and "gives_back st l s0 s1"
      and "map le_expires_at (leases s0) = map le_expires_at (leases s)"
      and "s' = audit_expired_lease tx l de fc t
        (s1\<lparr>secret_grants := expire_grants (le_id l) (secret_grants s1),
           leases := upd_by le_id (le_id l) (expire_lease_row tx de fc) (leases s1)\<rparr>)"
proof (cases "le_work_kind l = Wk_BUILD")
  case True
  with assms show ?thesis
    by (auto simp: reap_lease_def Let_def reset_expired_source_def bind_result_Inr_iff
        intro: given [OF recovers_refl gives_back_build refl])
next
  case False
  let ?de = "le_deadline_at l \<le> tx_now tx" and ?fc = "expiry_failure_code tx l"
  define c where "c = (case find_run (le_run_id l) s of
             None \<Rightarrow> Inr (False, s)
           | Some run \<Rightarrow>
               if rn_cancel_requested_at run = None then Inr (False, s)
               else converge_cancelled_run tx (rn_id run)
                 (if le_work_kind l = Wk_RUN_START then ''RUN_START_LEASE_LOST'' else ''RUN_CANCEL_LEASE_LOST'') s)"
  from False assms obtain ok s0 where c: "c = Inr (ok, s0)"
    and rest: "if ok then s' = audit_converged_lease tx l s0
      else \<exists>t s1. requeue_expired_run st tx l ?de ?fc s0 = Inr (t, s1) \<and>
        s' = audit_expired_lease tx l ?de ?fc t
        (s1\<lparr>secret_grants := expire_grants (le_id l) (secret_grants s1),
           leases := upd_by le_id (le_id l) (expire_lease_row tx ?de ?fc) (leases s1)\<rparr>)"
    by (auto simp: reap_lease_def Let_def reset_expired_source_def bind_result_Inr_iff c_def [symmetric]
        split: if_splits)
  have rec: "recovers st s s0" and exp: "map le_expires_at (leases s0) = map le_expires_at (leases s)"
    using c by (auto simp: c_def intro: recovers_converge converge_expiry split: option.splits if_splits)
  show ?thesis
  proof (cases ok)
    case True
    with c obtain r where "find_run (le_run_id l) s = Some r" "rn_cancel_requested_at r \<noteq> None"
      "\<exists>reason. converge_cancelled_run tx (rn_id r) reason s = Inr (True, s0)"
      by (auto simp: c_def split: option.splits if_splits)
    with False rest True show ?thesis by (auto intro: converged)
  next
    case ok: False
    with rest obtain t s1 where "requeue_expired_run st tx l ?de ?fc s0 = Inr (t, s1)"
      and "s' = audit_expired_lease tx l ?de ?fc t
        (s1\<lparr>secret_grants := expire_grants (le_id l) (secret_grants s1),
           leases := upd_by le_id (le_id l) (expire_lease_row tx ?de ?fc) (leases s1)\<rparr>)"
      by auto
    then show ?thesis using given [OF rec gives_back_run [OF _ False] exp] by blast
  qed
qed

lemma reap_lease_expiry:
  assumes "reap_lease st tx l s = Inr s'"
  shows "map le_expires_at (leases s') = map le_expires_at (leases s)"
  using assms
proof (cases rule: reap_lease_cases)
  case (converged r reason s1)
  then show ?thesis
    using converge_expiry [OF converged(4)] by (simp add: audit_converged_lease_def append_audit_event_def)
next
  case (given s0 s1 t de fc)
  have "leases s' = upd_by le_id (le_id l) (expire_lease_row tx de fc) (leases s0)"
    using given(2) by (simp add: given(4) gives_back_def audit_expired_lease_def append_audit_event_def)
  moreover have "le_expires_at (expire_lease_row tx de fc a) = le_expires_at a" for a
    by (simp add: expire_lease_row_def)
  ultimately show ?thesis using given(3) by (simp add: upd_by_def comp_def if_distrib cong: if_cong)
qed

lemma reap_leases_expiry:
  "reap_leases st tx ids s = Inr s' \<Longrightarrow> map le_expires_at (leases s') = map le_expires_at (leases s)"
proof (induction ids arbitrary: s)
  case (Cons i ids)
  then show ?case
    by (fastforce simp: bind_result_Inr_iff dest: reap_lease_expiry split: option.splits)
qed simp

lemma list_all2_in1:
  assumes "list_all2 P xs ys" and "x \<in> set xs"
  obtains y where "y \<in> set ys" and "P x y"
  using assms by (metis in_set_conv_nth list_all2_conv_all_nth)

lemma recovers_reap_lease:
  assumes inv: "exec_inv st s" and l: "l \<in> set (leases s)" "latest s l"
    and run: "reap_lease st tx l s = Inr s'"
  shows "recovers st s s'"
  using run
proof (cases rule: reap_lease_cases)
  case (converged r reason s1)
  have "recovers st s s1" using recovers_converge [OF converged(4)] .
  also have "recovers st s1 s'" by (simp add: converged(5) audit_converged_lease_def)
  finally show ?thesis .
next
  case (given s0 s1 t de fc)
  define s2 where "s2 = s1\<lparr>secret_grants := expire_grants (le_id l) (secret_grants s1),
           leases := upd_by le_id (le_id l) (expire_lease_row tx de fc) (leases s1)\<rparr>"
  obtain l0 where l0: "l0 \<in> set (leases s0)" "lease_le st l l0"
    using recoversD(2) [OF given(1)] l(1) by (rule list_all2_in1)
  note gb = given(2) [unfolded gives_back_def]
  have "recovers st s0 s2"
  proof (rule recovers_give_back)
    show "exec_inv st s0" using recovers_inv [OF inv given(1)] .
    show "l0 \<in> set (leases s0)" by fact
    show "latest s0 l0" using recovers_latest [OF given(1) l(2)] l0(2) by (simp add: lease_le_def)
    show "closes (expire_lease_row tx de fc)" by (rule closes_expire)
    show "leases s2 = upd_by le_id (le_id l0) (expire_lease_row tx de fc) (leases s0)"
      using gb l0(2) by (simp add: s2_def lease_le_def)
    show "g \<in> set (secret_grants s0) \<and> sg_lease_id g \<noteq> le_id l0"
      if "g \<in> set (secret_grants s2)" "sg_status g = Gr_ISSUED" for g
      using that gb l0(2) by (auto simp: s2_def expire_grants_def lease_le_def split: if_splits)
    show "same_keys s0 s2" using gb by (simp add: s2_def same_keys_def)
    show "rel_option (given_back st l0 k) (source_at s0 k) (source_at s2 k)" for k
    proof -
      have "source_at s2 k = source_at s1 k" by (simp add: s2_def source_at_def)
      moreover have "given_back st l0 k = given_back st l k"
        using l0(2) by (simp add: given_back_def lease_le_def fun_eq_iff)
      ultimately show ?thesis using gb by metis
    qed
    show "events_numbered (run_events s0) \<Longrightarrow> events_numbered (run_events s2)"
      using gb by (simp add: s2_def)
  qed
  with given(1) have "recovers st s s2" by (rule recovers_trans)
  also have "recovers st s2 s'" by (simp add: given(4) s2_def [symmetric] audit_expired_lease_def)
  finally show ?thesis .
qed

definition latest_id :: "'a exec_db_scheme \<Rightarrow> uuid \<Rightarrow> bool" where
  "latest_id s i \<longleftrightarrow> (\<forall>l \<in> set (leases s). le_id l = i \<longrightarrow> latest s l)"

lemma recovers_latest_id:
  assumes "recovers st s s'" and "latest_id s i"
  shows "latest_id s' i"
  unfolding latest_id_def
proof (intro ballI impI)
  fix l' assume "l' \<in> set (leases s')" "le_id l' = i"
  with recoversD(2) [OF assms(1)] obtain l where "l \<in> set (leases s)" "lease_le st l l'" "le_id l = i"
    by (metis list_all2_in2 lease_le_def)
  with assms(2) show "latest s' l'"
    by (auto simp: latest_id_def lease_le_def intro: recovers_latest [OF assms(1)])
qed

lemma recovers_reap_leases:
  "exec_inv st s \<Longrightarrow> \<forall>i \<in> set ids. latest_id s i \<Longrightarrow> reap_leases st tx ids s = Inr s' \<Longrightarrow> recovers st s s'"
proof (induction ids arbitrary: s)
  case (Cons i ids)
  from Cons.prems(3) obtain s1 where one:
      "(case find_by le_id i (leases s) of None \<Rightarrow> Inr s | Some l \<Rightarrow> reap_lease st tx l s) = Inr s1"
    and rest: "reap_leases st tx ids s1 = Inr s'"
    by (auto simp: bind_result_Inr_iff)
  have rec: "recovers st s s1"
    using one Cons.prems(1,2)
    by (auto simp: latest_id_def split: option.splits dest!: find_by_SomeD intro: recovers_reap_lease)
  have "recovers st s1 s'"
    using recovers_inv [OF Cons.prems(1) rec] Cons.prems(2) recovers_latest_id [OF rec]
    by (intro Cons.IH [OF _ _ rest]) auto
  with rec show ?case by (rule recovers_trans)
qed simp

lemma expired_batch_latest:
  assumes "exec_inv st s" and "i \<in> set (expired_batch tx b s)"
  shows "latest_id s i"
proof -
  from assms(2) obtain l where l: "l \<in> set (leases s)" "le_id l = i" "le_status l = Le_ACTIVE"
    by (auto simp: expired_batch_def lease_overdue_def dest!: select_limit_mem)
  have d: "distinct (map le_id (leases s))"
    using exec_invD(1) [OF assms(1)] by (simp add: tables_ok_def fresh_ids_def)
  have "l' = l" if "l' \<in> set (leases s)" "le_id l' = i" for l'
    by (rule distinct_key_unique [OF d that(1) l(1)]) (simp add: that(2) l(2))
  with active_latest [OF assms(1) l(1,3)] show ?thesis by (auto simp: latest_id_def)
qed

lemma recovers_reap_expired:
  assumes "exec_inv st s" and "reap_expired_leases st tx b rc s = Inr (n, s')"
  shows "recovers st s s'"
proof -
  from assms(2) obtain s1 where a: "reap_leases st tx (expired_batch tx b s) s = Inr s1"
    and b: "s' = s1 \<or> (\<exists>m. reap_overdue_cancellations tx b s1 = Inr (m, s'))"
    by (auto simp: reap_expired_leases_def Let_def bind_result_Inr_iff split: if_splits)
  have "recovers st s s1"
    using recovers_reap_leases [OF assms(1) _ a] expired_batch_latest [OF assms(1)] by blast
  moreover have "recovers st s1 s'" using b by (auto intro: recovers_overdue)
  ultimately show ?thesis by (rule recovers_trans)
qed

text \<open>
  Declaring a worker lost moves the expiry of its leases to the present: that keeps the lease
  window non-empty when the leases were claimed earlier than now.
\<close>

definition claimed_before :: "txn \<Rightarrow> 'a exec_db_scheme \<Rightarrow> bool" where
  "claimed_before tx s \<longleftrightarrow> (\<forall>l \<in> set (leases s). le_claimed_at l < tx_now tx)"

lemma lease_le_lose:
  "le_claimed_at l < tx_now tx \<Longrightarrow> lease_le st l (lose_lease_row tx l)"
  by (auto simp: lease_le_def lose_lease_row_def source_key_def lease_ok_def)

lemma recovers_lose_worker:
  assumes "claimed_before tx s" and "lose_worker tx k i s = (n, s')"
  shows "recovers st s s'" and "claimed_before tx s'"
proof -
  let ?f = "\<lambda>l. if le_worker_id l = i \<and> lease_live (tx_now tx) l then lose_lease_row tx l else l"
  from assms(2) have s': "leases s' = map ?f (leases s)" "run_commands s' = run_commands s"
      "build_outbox s' = build_outbox s" "secret_grants s' = secret_grants s" "runs s' = runs s"
      "builds s' = builds s" "next_id s' = next_id s" "run_events s' = run_events s"
      "recovery_state s' = recovery_state s"
    by (auto simp: lose_worker_def Let_def append_audit_event_def)
  have f: "lease_le st l (?f l)" if "l \<in> set (leases s)" for l
    using assms(1) that lease_le_lose [of l tx st] by (auto simp: claimed_before_def lease_le_def)
  have ll: "list_all2 (lease_le st) (leases s) (leases s')"
    unfolding s' list.rel_map by (rule list.rel_refl_strong) (rule f)
  have row: "le_id (?f l) = le_id l" "le_status (?f l) = le_status l" "le_claimed_at (?f l) = le_claimed_at l" for l
    by (simp_all add: lose_lease_row_def)
  have act: "active_id s' j = active_id s j" for j
    unfolding active_id_def s'(1) set_map bex_simps(7) row ..
  have "rel_option (source_le st s' k) (source_at s k) (source_at s' k)" for k
    unfolding source_at_cong [OF s'(3,2)] by (cases "source_at s k") (simp_all add: source_le_def)
  with ll show "recovers st s s'" by (simp add: recovers_def same_keys_def s' act)
  show "claimed_before tx s'"
    using assms(1) unfolding claimed_before_def s'(1) set_map ball_simps(9) row .
qed

lemma recovers_lose_workers:
  "claimed_before tx s \<Longrightarrow> lose_workers tx k ids s = (n, s') \<Longrightarrow> recovers st s s'"
proof (induction ids arbitrary: s n)
  case (Cons i ids)
  obtain m s1 where one: "lose_worker tx k i s = (m, s1)" by fastforce
  with Cons.prems(2) obtain p where "lose_workers tx k ids s1 = (p, s')" by (auto split: prod.splits)
  with Cons.IH recovers_lose_worker [OF Cons.prems(1) one] show ?case
    by (blast intro: recovers_trans)
qed simp

lemma recovers_detect:
  assumes "claimed_before tx s" and "detect_lost_workers tx k b s = Inr (n, m, s')"
  shows "recovers st s s'"
  using assms(2) recovers_lose_workers [OF assms(1)]
  by (auto simp: detect_lost_workers_def Let_def split: if_splits prod.splits)

lemma recovers_finish_sweep:
  "finish_sweep tx ow b r s = Inr (r', s') \<Longrightarrow> recovers st s s'"
  by (auto simp: finish_sweep_def Let_def append_audit_event_def intro!: recovers_frameI
      split: option.splits if_splits)

lemma recovers_sweep:
  assumes inv: "exec_inv st s" and clock: "claimed_before tx s"
    and run: "run_execution_recovery_sweep st tx acq ow b s = Inr (r, s')"
  shows "recovers st s s'"
proof (cases acq)
  case True
  with run obtain n m s1 p s2 q s3 where a: "detect_lost_workers tx (st_worker_lost_after_seconds st) b s = Inr (n, m, s1)"
    and b: "reap_expired_leases st tx b False s1 = Inr (p, s2)"
    and c: "reap_overdue_cancellations tx b s2 = Inr (q, s3)"
    and d: "recovers st s3 s'"
    by (auto simp: run_execution_recovery_sweep_def bind_result_Inr_iff
        dest!: recovers_finish_sweep [where st = st] split: if_splits)
  have "recovers st s s1" using recovers_detect [OF clock a] .
  moreover from this have "recovers st s1 s2" using recovers_reap_expired [OF recovers_inv [OF inv] b] by simp
  moreover have "recovers st s2 s3" using recovers_overdue [OF c] .
  ultimately show ?thesis using d by (meson recovers_trans)
next
  case False
  with run show ?thesis by (auto simp: run_execution_recovery_sweep_def split: if_splits)
qed

end
