(* ===== verification/Egress_Policy.thy ===== *)
theory Egress_Policy
  imports Py_Text Run_Events
begin

section \<open>Egress policies\<close>

text \<open>
  \<open>apps/api/app/egress_policy_protocol.py\<close>: the hostnames and methods a project may reach.
  The argument \<open>idna\<close> is Python's \<open>idna\<close> codec on a text that is not ASCII (an ASCII text passes it
  unchanged, once its labels have admissible lengths). \<open>EgressPolicyProtocolError\<close> is a
  \<open>ValueError\<close>.
\<close>

subsection \<open>Hostnames\<close>

definition allowed_methods :: "string list" where
  "allowed_methods = [''GET'', ''HEAD'']"

definition forbidden_suffixes :: "string list" where
  "forbidden_suffixes = [''.example'', ''.internal'', ''.invalid'', ''.local'', ''.localhost'', ''.test'']"

definition is_ascii :: "string \<Rightarrow> bool" where
  "is_ascii s \<longleftrightarrow> list_all (\<lambda>c. code_point c < 128) s"

definition ends_with :: "string \<Rightarrow> string \<Rightarrow> bool" where
  "ends_with p s \<longleftrightarrow> length p \<le> length s \<and> drop (length s - length p) s = p"

definition is_digit :: "char \<Rightarrow> bool" where
  "is_digit c \<longleftrightarrow> 48 \<le> code_point c \<and> code_point c \<le> 57"

definition is_alnum :: "char \<Rightarrow> bool" where
  "is_alnum c \<longleftrightarrow> is_digit c \<or> (65 \<le> code_point c \<and> code_point c \<le> 90) \<or>
     (97 \<le> code_point c \<and> code_point c \<le> 122)"

definition ipv4_octet :: "string \<Rightarrow> bool" where
  "ipv4_octet w \<longleftrightarrow> w \<noteq> [] \<and> list_all is_digit w \<and> length w \<le> 3 \<and>
     (w = ''0'' \<or> hd w \<noteq> CHR ''0'') \<and>
     (case digits_val 10 0 False w of None \<Rightarrow> False | Some n \<Rightarrow> n \<le> 255)"

definition ip_literal :: "string \<Rightarrow> bool" where
  \<comment> \<open>\<open>ip_address(s)\<close> returns; a text with a colon, an IPv6 address or not, is refused below in
    the same way\<close>
  "ip_literal s \<longleftrightarrow> (let ws = split_on (CHR ''.'') s in length ws = 4 \<and> list_all ipv4_octet ws)"

definition idna_encode :: "(string \<Rightarrow> string option) \<Rightarrow> string \<Rightarrow> string option" where
  "idna_encode idna s =
     (if \<not> is_ascii s then idna s
      else (let ws = split_on (CHR ''.'') s
            in if list_all (\<lambda>w. 0 < length w \<and> length w < 64) (butlast ws) \<and> length (last ws) < 64
               then Some s else None))"

definition label_ok :: "string \<Rightarrow> bool" where
  "label_ok w \<longleftrightarrow> w \<noteq> [] \<and> length w \<le> 63 \<and> hd w \<noteq> CHR ''-'' \<and> last w \<noteq> CHR ''-'' \<and>
     list_all (\<lambda>c. is_alnum c \<or> c = CHR ''-'') w"

definition hostname_ok :: "string \<Rightarrow> bool" where
  "hostname_ok h \<longleftrightarrow> (let ws = split_on (CHR ''.'') h in 2 \<le> length ws \<and> list_all label_ok ws) \<and>
     h \<noteq> ''localhost'' \<and> \<not> (\<exists>p \<in> set forbidden_suffixes. ends_with p h)"

definition normalize_hostname :: "(string \<Rightarrow> string option) \<Rightarrow> string \<Rightarrow> string result" where
  "normalize_hostname idna value =
     (let candidate = casefold (rstrip_by (\<lambda>c. c = CHR ''.'') (strip value))
      in if candidate = [] \<or> 253 < length candidate \<or> is_infix ''://'' candidate \<or>
            CHR ''/'' \<in> set candidate \<or> CHR ''@'' \<in> set candidate \<or> CHR ''*'' \<in> set candidate
         then Inl ValueError
         else if ip_literal (strip_by (\<lambda>c. c \<in> {CHR ''['', CHR '']''}) candidate) then Inl ValueError
         else case idna_encode idna candidate of
                None \<Rightarrow> Inl ValueError
              | Some ascii_host \<Rightarrow> if hostname_ok ascii_host then Inr ascii_host else Inl ValueError)"

subsection \<open>Policies\<close>

record validated_egress_policy =
  vp_allowed_hosts :: "string list"
  vp_allowed_methods :: "string list"
  vp_max_requests :: int
  vp_max_response_bytes :: int
  vp_max_total_bytes :: int
  vp_max_redirects :: int
  vp_connect_timeout_seconds :: int
  vp_request_timeout_seconds :: int
  vp_policy_digest :: string

definition upper_char :: "char \<Rightarrow> string" where
  "upper_char c = (let n = code_point c in
     if (97 \<le> n \<and> n \<le> 122) \<or> (224 \<le> n \<and> n \<le> 254 \<and> n \<noteq> 247) then [char_of (n - 32)]
     else if n = 223 then ''SS'' else [c])"

definition upper :: "string \<Rightarrow> string" where
  "upper s = concat (map upper_char s)"

fun normalize_all :: "(string \<Rightarrow> string option) \<Rightarrow> string list \<Rightarrow> string list result" where
  "normalize_all idna [] = Inr []"
| "normalize_all idna (h # hs) =
     bind_result (normalize_hostname idna h) (\<lambda>n. bind_result (normalize_all idna hs) (\<lambda>ns. Inr (n # ns)))"

definition jstrs :: "string list \<Rightarrow> json" where
  "jstrs xs = JList (map JStr xs)"

definition canonical_egress_policy ::
  "string list \<Rightarrow> string list \<Rightarrow> int \<Rightarrow> int \<Rightarrow> int \<Rightarrow> int \<Rightarrow> int \<Rightarrow> int \<Rightarrow> json" where
  "canonical_egress_policy hosts methods max_requests max_response_bytes max_total_bytes max_redirects
     connect_timeout_seconds request_timeout_seconds =
     JDict [(''allowed_hosts'', jstrs hosts), (''allowed_methods'', jstrs methods),
       (''connect_timeout_seconds'', JInt connect_timeout_seconds), (''max_redirects'', JInt max_redirects),
       (''max_requests'', JInt max_requests), (''max_response_bytes'', JInt max_response_bytes),
       (''max_total_bytes'', JInt max_total_bytes),
       (''request_timeout_seconds'', JInt request_timeout_seconds),
       (''schema_version'', JStr ''rdc.egress-policy/v1'')]"

definition validate_egress_policy ::
  "(string \<Rightarrow> string option) \<Rightarrow> (string \<Rightarrow> string) \<Rightarrow> string list \<Rightarrow> string list \<Rightarrow>
   int \<Rightarrow> int \<Rightarrow> int \<Rightarrow> int \<Rightarrow> int \<Rightarrow> int \<Rightarrow> validated_egress_policy result" where
  "validate_egress_policy idna sha256 allowed_hosts methods0 max_requests max_response_bytes
     max_total_bytes max_redirects connect_timeout_seconds request_timeout_seconds =
     bind_result (normalize_all idna allowed_hosts) (\<lambda>normalized.
     let hosts = sorted_set normalized;
         methods = sorted_set (map upper methods0)
     in if hosts = [] \<or> length hosts \<noteq> length allowed_hosts then Inl ValueError
        else if methods = [] \<or> length methods \<noteq> length methods0 \<or> \<not> set methods \<subseteq> set allowed_methods
          then Inl ValueError
        else if max_total_bytes < max_response_bytes then Inl ValueError
        else Inr \<lparr>vp_allowed_hosts = hosts, vp_allowed_methods = methods, vp_max_requests = max_requests,
          vp_max_response_bytes = max_response_bytes, vp_max_total_bytes = max_total_bytes,
          vp_max_redirects = max_redirects, vp_connect_timeout_seconds = connect_timeout_seconds,
          vp_request_timeout_seconds = request_timeout_seconds,
          vp_policy_digest = canonical_fingerprint sha256
            (canonical_egress_policy hosts methods max_requests max_response_bytes max_total_bytes
              max_redirects connect_timeout_seconds request_timeout_seconds)\<rparr>)"

subsection \<open>Normalised hostnames\<close>

lemma split_on_nonempty [simp]: "split_on x s \<noteq> []"
  by (induction s) (auto split: list.splits)

lemma split_on_chars: "c \<in> set s \<Longrightarrow> c = x \<or> (\<exists>w \<in> set (split_on x s). c \<in> set w)"
proof (induction s)
  case (Cons a s)
  show ?case
  proof (cases "a = x")
    case False
    obtain w ws where "split_on x s = w # ws" by (cases "split_on x s") auto
    with Cons False show ?thesis by auto
  qed (use Cons in auto)
qed simp

lemma split_on_last: "s \<noteq> [] \<Longrightarrow> last s = x \<Longrightarrow> last (split_on x s) = [] \<and> 2 \<le> length (split_on x s)"
proof (induction s)
  case (Cons a s)
  show ?case
  proof (cases "s = []")
    case False
    then have IH: "last (split_on x s) = []" "2 \<le> length (split_on x s)" using Cons by simp_all
    obtain w ws where w: "split_on x s = w # ws" by (cases "split_on x s") auto
    with IH(2) have "ws \<noteq> []" by auto
    with IH w show ?thesis by auto
  qed (use Cons.prems in simp)
qed simp

lemma hostname_chars:
  assumes "hostname_ok h" and "c \<in> set h"
  shows "is_alnum c \<or> c = CHR ''-'' \<or> c = CHR ''.''"
  using assms split_on_chars [OF assms(2), of "CHR ''.''"]
  by (auto simp: hostname_ok_def Let_def list_all_iff label_ok_def)

lemma hostname_last: "hostname_ok h \<Longrightarrow> h \<noteq> [] \<and> last h \<noteq> CHR ''.''"
proof -
  assume ok: "hostname_ok h"
  then have ne: "[] \<notin> set (split_on (CHR ''.'') h)"
    by (auto simp: hostname_ok_def Let_def list_all_iff label_ok_def)
  then have "h \<noteq> []" by auto
  moreover have "last h \<noteq> CHR ''.''"
    using split_on_last [OF \<open>h \<noteq> []\<close>, of "CHR ''.''"] ne last_in_set [OF split_on_nonempty, of "CHR ''.''" h]
    by metis
  ultimately show ?thesis by simp
qed

lemma casefold_char_ascii:
  assumes "code_point c < 128"
  obtains d where "casefold_char c = [d]" and "casefold_char d = [d]" and "code_point d < 128"
proof (cases "65 \<le> code_point c \<and> code_point c \<le> 90")
  case True
  show ?thesis
    by (rule that [of "char_of (code_point c + 32)"])
      (use True assms in \<open>auto simp: casefold_char_def code_point_def Let_def\<close>)
next
  case False
  show ?thesis
    by (rule that [of c]) (use False assms in \<open>auto simp: casefold_char_def code_point_def Let_def\<close>)
qed

lemma casefold_ascii:
  "is_ascii s \<Longrightarrow> is_ascii (casefold s) \<and> casefold (casefold s) = casefold s"
proof (induction s)
  case (Cons c s)
  then have c: "code_point c < 128" and IH: "is_ascii (casefold s)" "casefold (casefold s) = casefold s"
    by (auto simp: is_ascii_def)
  from c obtain d where "casefold_char c = [d]" "casefold_char d = [d]" "code_point d < 128"
    by (rule casefold_char_ascii)
  with IH show ?case by (simp add: casefold_def is_ascii_def)
qed (simp add: casefold_def is_ascii_def)

lemma is_ascii_strip:
  "is_ascii s \<Longrightarrow> is_ascii (strip_by p s)" "is_ascii s \<Longrightarrow> is_ascii (rstrip_by p s)"
  by (auto simp: is_ascii_def list_all_iff strip_by_def rstrip_by_def dest!: set_dropWhileD)

lemma rstrip_last: "s \<noteq> [] \<Longrightarrow> \<not> p (last s) \<Longrightarrow> rstrip_by p s = s"
  by (cases s rule: rev_cases) (auto simp: rstrip_by_def)

lemma dropWhile_absent: "\<forall>c \<in> set s. \<not> p c \<Longrightarrow> dropWhile p s = s"
  by (cases s) auto

lemma strip_absent: "\<forall>c \<in> set s. \<not> p c \<Longrightarrow> strip_by p s = s"
  using dropWhile_absent [of s p] dropWhile_absent [of "rev s" p] by (simp add: strip_by_def)

lemma normalized_fixpoint:
  assumes "hostname_ok h" and "casefold h = h"
  shows "strip h = h" and "rstrip_by (\<lambda>c. c = CHR ''.'') h = h"
    and "strip_by (\<lambda>c. c \<in> {CHR ''['', CHR '']''}) h = h"
proof -
  have no: "\<not> is_space c" "c \<notin> {CHR ''['', CHR '']''}" if "c \<in> set h" for c
    using hostname_chars [OF assms(1) that]
    by (auto simp: is_alnum_def is_digit_def is_space_def code_point_def)
  show "strip h = h" "strip_by (\<lambda>c. c \<in> {CHR ''['', CHR '']''}) h = h"
    using no by (auto intro: strip_absent)
  show "rstrip_by (\<lambda>c. c = CHR ''.'') h = h"
    using hostname_last [OF assms(1)] by (intro rstrip_last) auto
qed

lemma normalize_hostname_ascii:
  assumes run: "normalize_hostname idna v = Inr h" and ascii: "is_ascii v"
  shows "h = casefold (rstrip_by (\<lambda>c. c = CHR ''.'') (strip v))" and "hostname_ok h"
    and "casefold h = h" and "normalize_hostname idna h = Inr h" and "\<not> ip_literal h" and "is_ascii h"
proof -
  define c where "c = casefold (rstrip_by (\<lambda>c. c = CHR ''.'') (strip v))"
  have ca: "is_ascii c" "casefold c = c"
    using casefold_ascii [OF is_ascii_strip(2) [OF is_ascii_strip(1) [OF ascii]]] by (simp_all add: c_def)
  from run ca(1) have h: "h = c" "hostname_ok c" "idna_encode idna c = Some c"
    by (auto simp: normalize_hostname_def c_def [symmetric] Let_def idna_encode_def split: if_splits option.splits)
  note fp = normalized_fixpoint [OF h(2) ca(2)]
  show "h = casefold (rstrip_by (\<lambda>c. c = CHR ''.'') (strip v))" using h(1) by (simp add: c_def)
  show "hostname_ok h" "casefold h = h" "is_ascii h" using h ca by simp_all
  show "\<not> ip_literal h"
    using run h(1) fp(3) by (auto simp: normalize_hostname_def c_def [symmetric] Let_def split: if_splits)
  show "normalize_hostname idna h = Inr h"
    using run unfolding normalize_hostname_def c_def [symmetric] Let_def h(1) fp(1,2) ca(2)
    by simp
qed

lemma normalize_all_ascii:
  assumes "normalize_all idna hs = Inr ns" and "list_all is_ascii hs"
  shows "length ns = length hs" and "h \<in> set ns \<Longrightarrow> hostname_ok h \<and> \<not> ip_literal h \<and>
    normalize_hostname idna h = Inr h"
proof -
  have "length ns = length hs \<and> (\<forall>h \<in> set ns. hostname_ok h \<and> \<not> ip_literal h \<and> normalize_hostname idna h = Inr h)"
    using assms
  proof (induction hs arbitrary: ns)
    case (Cons v hs)
    then obtain h rest where v: "normalize_hostname idna v = Inr h" and r: "normalize_all idna hs = Inr rest"
      and ns: "ns = h # rest" by (auto simp: bind_result_Inr_iff)
    from Cons.IH [OF r] Cons.prems(2) normalize_hostname_ascii [OF v] show ?case by (simp add: ns)
  qed simp
  then show "length ns = length hs" "h \<in> set ns \<Longrightarrow> hostname_ok h \<and> \<not> ip_literal h \<and>
    normalize_hostname idna h = Inr h" by blast+
qed

lemma normalize_all_fixpoints:
  "\<forall>h \<in> set hs. normalize_hostname idna h = Inr h \<Longrightarrow> normalize_all idna hs = Inr hs"
  by (induction hs) auto

lemma sorted_set_props [simp]:
  "sorted (sorted_set xs)" "distinct (sorted_set xs)" "set (sorted_set xs) = set xs"
  "sorted_set (sorted_set xs) = sorted_set xs"
  by (simp_all add: sorted_set_def sorted_sort_id distinct_remdups_id)

lemma upper_methods: "set ms \<subseteq> set allowed_methods \<Longrightarrow> map upper ms = ms"
  by (induction ms) (auto simp: allowed_methods_def upper_def upper_char_def code_point_def)

lemma validate_egress_policy_fixed:
  assumes "validate_egress_policy idna sha256 hs ms a b c d e f = Inr p" and "list_all is_ascii hs"
  shows "validate_egress_policy idna sha256 (vp_allowed_hosts p) (vp_allowed_methods p) a b c d e f = Inr p"
    and "vp_allowed_hosts p = sorted_set (vp_allowed_hosts p)" "vp_allowed_hosts p \<noteq> []"
    and "vp_allowed_methods p = sorted_set (vp_allowed_methods p)" "vp_allowed_methods p \<noteq> []"
    and "length (vp_allowed_hosts p) = length hs"
    and "list_all (\<lambda>h. hostname_ok h \<and> \<not> ip_literal h) (vp_allowed_hosts p)"
proof -
  from assms(1) obtain ns where ns: "normalize_all idna hs = Inr ns"
    and p: "vp_allowed_hosts p = sorted_set ns" "vp_allowed_methods p = sorted_set (map upper ms)"
      "length (sorted_set ns) = length hs" "set (sorted_set (map upper ms)) \<subseteq> set allowed_methods"
      "sorted_set ns \<noteq> []" "sorted_set (map upper ms) \<noteq> []"
    by (auto simp: validate_egress_policy_def bind_result_Inr_iff Let_def split: if_splits)
  note na = normalize_all_ascii [OF ns assms(2)]
  have again: "normalize_all idna (sorted_set ns) = Inr (sorted_set ns)"
    using na(2) by (intro normalize_all_fixpoints) simp
  have um: "map upper (sorted_set (map upper ms)) = sorted_set (map upper ms)"
    using p(4) by (rule upper_methods)
  show "validate_egress_policy idna sha256 (vp_allowed_hosts p) (vp_allowed_methods p) a b c d e f = Inr p"
    using assms(1) ns again
    by (auto simp: validate_egress_policy_def Let_def p(1,2) um split: if_splits)
  show "vp_allowed_hosts p = sorted_set (vp_allowed_hosts p)" "vp_allowed_hosts p \<noteq> []"
    "vp_allowed_methods p = sorted_set (vp_allowed_methods p)" "vp_allowed_methods p \<noteq> []"
    "length (vp_allowed_hosts p) = length hs"
    using p by simp_all
  show "list_all (\<lambda>h. hostname_ok h \<and> \<not> ip_literal h) (vp_allowed_hosts p)"
    using p(1) na(2) by (simp add: list_all_iff)
qed

subsection \<open>Properties\<close>



text \<open>
  C26: the check for IP addresses looks at the text before the \<open>idna\<close> codec has run. The codec maps
  compatibility characters to ASCII, so an address written with superscript digits is accepted and
  comes out as an IP address.
\<close>

definition superscript_address :: string where
  \<comment> \<open>123.123.1.1 in superscript digits (code points 185, 178, 179)\<close>
  "superscript_address = map char_of [185, 178, 179 :: nat] @ ''.'' @ map char_of [185, 178, 179 :: nat] @
     ''.'' @ [char_of (185 :: nat)] @ ''.'' @ [char_of (185 :: nat)]"

theorem normalize_hostname_accepts_ip_address:
  assumes "idna superscript_address = Some ''123.123.1.1''"
  shows "normalize_hostname idna superscript_address = Inr ''123.123.1.1'' \<and> ip_literal ''123.123.1.1''"
proof -
  have c: "casefold (rstrip_by (\<lambda>c. c = CHR ''.'') (strip superscript_address)) = superscript_address"
    "\<not> ip_literal (strip_by (\<lambda>c. c \<in> {CHR ''['', CHR '']''}) superscript_address)"
    "\<not> is_ascii superscript_address" "hostname_ok ''123.123.1.1''" "ip_literal ''123.123.1.1''"
    "\<not> (superscript_address = [] \<or> 253 < length superscript_address \<or> is_infix ''://'' superscript_address \<or>
       CHR ''/'' \<in> set superscript_address \<or> CHR ''@'' \<in> set superscript_address \<or> CHR ''*'' \<in> set superscript_address)"
    by code_simp+
  with assms show ?thesis
    by (simp add: normalize_hostname_def Let_def idna_encode_def)
qed

theorem normalize_hostname_accepts_ip_address_witness:
  "normalize_hostname (\<lambda>s. if s = superscript_address then Some ''123.123.1.1'' else None) superscript_address =
     Inr ''123.123.1.1''"
  using normalize_hostname_accepts_ip_address
    [of "\<lambda>s. if s = superscript_address then Some ''123.123.1.1'' else None"] by simp

end
