(* ===== verification/Worker_Capabilities.thy ===== *)
theory Worker_Capabilities
  imports Egress_Policy Exec_State
begin

section \<open>Capability receipts of a claimed run\<close>

text \<open>
  The receipts a claim hands to the worker and every later worker call recomputes and compares:
  \<open>_dataset_append_capability\<close> (\<open>services/execution_plane.py\<close>), \<open>key_value_store_capability\<close>
  (\<open>services/worker_key_value_store.py\<close>) with \<open>kv_worker_protocol.py\<close>, and
  \<open>request_queue_capability\<close> (\<open>services/worker_request_queue.py\<close>). A receipt is computed from the
  settings, the worker and the claim payload only; \<open>None\<close> refuses. The payloads of a \<open>RUN_START\<close>
  always carry \<open>agent_version_id\<close> (\<open>_run_claim_payload\<close>), so \<open>payload["agent_version_id"]\<close> is read
  here as \<open>payload.get\<close> reads it.
\<close>

subsection \<open>Settings of the sandbox\<close>

record canary_settings = exec_settings +
  st_sandbox_required_profile :: string
  st_sandbox_max_memory_mb :: int
  st_sandbox_max_cpu_millis :: int
  st_sandbox_max_pids :: int
  st_sandbox_max_ephemeral_disk_mb :: int
  st_sandbox_max_output_bytes :: int
  st_sandbox_artifact_max_bytes :: int
  st_activation_mode :: string
  st_canary_agent_version_id :: string
  st_canary_worker_name :: string
  st_canary_max_memory_mb :: int
  st_canary_max_cpu_millis :: int
  st_canary_max_pids :: int
  st_canary_max_ephemeral_disk_mb :: int
  st_canary_max_build_seconds :: int
  st_canary_max_run_seconds :: int
  st_canary_web_egress_enabled :: bool
  st_canary_web_egress_allowed_hosts :: "string list"
  st_canary_web_egress_max_requests :: int
  st_canary_web_egress_max_response_bytes :: int
  st_canary_web_egress_max_total_bytes :: int
  st_canary_web_egress_max_redirects :: int
  st_canary_web_egress_connect_timeout_seconds :: int
  st_canary_web_egress_request_timeout_seconds :: int
  st_canary_browser_enabled :: bool
  st_canary_browser_live_navigation_enabled :: bool
  st_canary_dataset_writes_enabled :: bool
  st_canary_key_value_store_enabled :: bool
  st_canary_request_queue_enabled :: bool
  st_canary_request_queue_http_enabled :: bool
  st_canary_request_queue_browser_enabled :: bool
  st_canary_request_queue_dataset_enabled :: bool
  st_canary_request_queue_key_value_store_enabled :: bool
  st_canary_browser_max_pages :: int
  st_canary_browser_max_actions :: int
  st_canary_browser_navigation_timeout_seconds :: int
  st_canary_browser_max_dom_bytes :: int
  st_canary_browser_max_screenshot_bytes :: int

definition canary_worker :: "canary_settings \<Rightarrow> string" where
  "canary_worker st = strip (st_canary_worker_name st)"

definition canary_version :: "canary_settings \<Rightarrow> string" where
  "canary_version st = strip (st_canary_agent_version_id st)"

subsection \<open>Reading the payload\<close>

definition manifest_capabilities :: "dict \<Rightarrow> dict option" where
  "manifest_capabilities payload = do {
     manifest \<leftarrow> as_dict (dget payload ''manifest'');
     as_dict (dget manifest ''capabilities'') }"

definition refuse_unless :: "bool \<Rightarrow> unit option" where
  "refuse_unless ok = (if ok then Some () else None)"

lemma refuse_unless_Some [simp]: "refuse_unless ok = Some u \<longleftrightarrow> ok"
  by (simp add: refuse_unless_def)

definition differs :: "json \<Rightarrow> dict \<Rightarrow> bool" where
  \<comment> \<open>\<open>value != {...}\<close>\<close>
  "differs v d \<longleftrightarrow> \<not> py_eq v (JDict d)"

subsection \<open>Datasets\<close>

definition dataset_append_capability ::
  "canary_settings \<Rightarrow> worker \<Rightarrow> dict \<Rightarrow> bool \<Rightarrow> bool \<Rightarrow> dict option" where
  "dataset_append_capability st worker payload dataset_write_enabled request_queue_dataset_enabled = do {
     refuse_unless (dataset_write_enabled \<and> st_canary_dataset_writes_enabled st \<and>
       get_str payload ''work_kind'' = ''RUN_START'' \<and> wo_name worker = canary_worker st \<and>
       ''DATASET_APPEND'' \<in> set (wo_capabilities worker) \<and>
       get_str payload ''agent_version_id'' = canary_version st);
     capabilities \<leftarrow> manifest_capabilities payload;
     request_queue \<leftarrow> as_bool (dget capabilities ''requestQueue'');
     refuse_unless (dget capabilities ''dataset'' = JBool True \<and>
       dget capabilities ''keyValueStore'' = JBool False \<and>
       request_queue = request_queue_dataset_enabled \<and>
       (dget capabilities ''browser'' = JBool False \<or> request_queue_dataset_enabled) \<and>
       (request_queue_dataset_enabled \<longrightarrow> st_canary_request_queue_dataset_enabled st));
     run_id \<leftarrow> as_str (dget payload ''run_id'');
     refuse_unless (run_id \<noteq> []);
     let capability =
       [(''schema_version'', JStr (if request_queue_dataset_enabled
           then ''rdc.dataset-worker-capability/v2'' else ''rdc.dataset-worker-capability/v1'')),
        (''append_schema_version'', JStr ''rdc.dataset-append/v1''),
        (''run_id'', JStr run_id), (''agent_version_id'', JStr (get_str payload ''agent_version_id'')),
        (''worker_name'', JStr (wo_name worker)), (''dataset_name'', JStr ''default''),
        (''max_items_per_append'', JInt 100), (''max_item_bytes'', JInt 65536),
        (''max_batch_bytes'', JInt 262144), (''max_dataset_items'', JInt 100000),
        (''max_dataset_bytes'', JInt 268435456), (''enabled'', JBool True)];
     if request_queue_dataset_enabled then do {
       input_reference \<leftarrow> as_dict (dget payload ''input_reference'');
       binding \<leftarrow> as_dict (dget input_reference ''request_queue'');
       refuse_unless (dget binding ''schema_version'' = JStr ''rdc.run-queue/v1'' \<and>
         is_str (dget binding ''queue_id''));
       Some (dupdate capability [(''queue_id'', dget binding ''queue_id''),
         (''completion_order'', JStr ''dataset-before-queue-handled'')]) }
     else Some capability }"

subsection \<open>Key-value stores\<close>

definition logical_key_char :: "char \<Rightarrow> bool" where
  "logical_key_char c \<longleftrightarrow> is_alnum c \<or> c \<in> {CHR ''.'', CHR ''_'', CHR '':'', CHR ''-''}"

definition logical_key :: "string \<Rightarrow> bool" where
  \<comment> \<open>the pattern of one to 256 characters\<close>
  "logical_key k \<longleftrightarrow> k \<noteq> [] \<and> length k \<le> 256 \<and> is_alnum (hd k) \<and> list_all logical_key_char (tl k)"

record validated_kv_read =
  kr_request :: dict
  kr_request_digest :: string
  kr_keys :: "string list"

definition validate_kv_read_request :: "(string \<Rightarrow> string) \<Rightarrow> json \<Rightarrow> validated_kv_read option" where
  "validate_kv_read_request sha256 value = do {
     d \<leftarrow> as_dict value;
     refuse_unless (dkeys d = {''schema_version'', ''keys''});
     refuse_unless (py_eq (dget d ''schema_version'') (JStr ''rdc.kv-worker-read/v1''));
     raw_keys \<leftarrow> (case dget d ''keys'' of JList xs \<Rightarrow> Some xs | _ \<Rightarrow> None);
     refuse_unless (1 \<le> length raw_keys \<and> length raw_keys \<le> 16);
     refuse_unless (list_all (\<lambda>v. case v of JStr k \<Rightarrow> logical_key k | _ \<Rightarrow> False) raw_keys);
     let keys = map py_str raw_keys;
     refuse_unless (distinct keys);
     let normalized = [(''schema_version'', JStr ''rdc.kv-worker-read/v1''), (''keys'', jstrs keys)];
     let encoded = json_dumps (JDict normalized);
     refuse_unless (utf8_length encoded \<le> 4096);
     Some \<lparr>kr_request = normalized, kr_request_digest = sha256 encoded, kr_keys = keys\<rparr> }"

definition kv_read_digest :: "(string \<Rightarrow> string) \<Rightarrow> json \<Rightarrow> json option" where
  \<comment> \<open>the digest of the read request the input names, \<open>None\<close> as a value when it names none\<close>
  "kv_read_digest sha256 read_request =
     (if read_request = JNull then Some JNull
      else map_option (\<lambda>v. JStr (kr_request_digest v)) (validate_kv_read_request sha256 read_request))"

definition kv_composition_receipt ::
  "(string \<Rightarrow> string) \<Rightarrow> json \<Rightarrow> string \<Rightarrow> json \<Rightarrow> json \<Rightarrow> dict" where
  "kv_composition_receipt sha256 queue_id agent_version_id queue_receipt read_request_digest =
     [(''schema_version'', JStr ''rdc.request-queue-key-value-store-receipt/v1''),
      (''queue_id'', queue_id), (''agent_version_id'', JStr agent_version_id),
      (''queue_binding_receipt_digest'', JStr (canonical_fingerprint sha256 queue_receipt)),
      (''store_name'', JStr ''default''), (''read_request_digest'', read_request_digest),
      (''mutation_idempotency_scope'', JStr ''queue-request-index''), (''dispatch_enabled'', JBool True),
      (''completion_order'', JStr ''kv-before-queue-handled''), (''agent_container_network'', JStr ''none''),
      (''direct_database_access'', JBool False), (''direct_object_storage_access'', JBool False)]"

definition key_value_store_capability ::
  "canary_settings \<Rightarrow> (string \<Rightarrow> string) \<Rightarrow> worker \<Rightarrow> dict \<Rightarrow> bool \<Rightarrow> bool \<Rightarrow> dict option" where
  "key_value_store_capability st sha256 worker payload key_value_store_enabled queue_kv_enabled = do {
     refuse_unless (key_value_store_enabled \<and> st_canary_key_value_store_enabled st \<and>
       get_str payload ''work_kind'' = ''RUN_START'' \<and> wo_name worker = canary_worker st \<and>
       ''KV_ACCESS'' \<in> set (wo_capabilities worker) \<and>
       get_str payload ''agent_version_id'' = canary_version st);
     capabilities \<leftarrow> manifest_capabilities payload;
     request_queue \<leftarrow> as_bool (dget capabilities ''requestQueue'');
     browser \<leftarrow> as_bool (dget capabilities ''browser'');
     refuse_unless (dget capabilities ''keyValueStore'' = JBool True \<and>
       dget capabilities ''dataset'' = JBool False \<and> request_queue = queue_kv_enabled \<and>
       (browser \<longrightarrow> queue_kv_enabled) \<and>
       (queue_kv_enabled \<longrightarrow> st_canary_request_queue_enabled st) \<and>
       (queue_kv_enabled \<longrightarrow> st_canary_request_queue_key_value_store_enabled st));
     run_id \<leftarrow> as_str (dget payload ''run_id'');
     refuse_unless (run_id \<noteq> []);
     input_reference \<leftarrow> as_dict (dget payload ''input_reference'');
     input_value \<leftarrow> as_dict (dget input_reference ''value'');
     refuse_unless (''_rdc_kv'' \<notin> dkeys input_value);
     read_request_digest \<leftarrow> kv_read_digest sha256 (dget input_value ''_rdc_kv_read'');
     let capability =
       [(''schema_version'', JStr (if queue_kv_enabled then ''rdc.kv-worker-capability/v2''
           else ''rdc.kv-worker-capability/v1'')),
        (''write_schema_version'', JStr ''rdc.kv-write/v1''),
        (''read_schema_version'', JStr ''rdc.kv-worker-read/v1''),
        (''output_schema_version'', JStr ''rdc.kv-worker-output/v1''),
        (''run_id'', JStr run_id), (''agent_version_id'', JStr (get_str payload ''agent_version_id'')),
        (''worker_name'', JStr (wo_name worker)), (''store_name'', JStr ''default''),
        (''read_request_digest'', read_request_digest), (''max_read_keys'', JInt 16),
        (''max_read_total_bytes'', JInt 262144), (''max_mutations'', JInt 4),
        (''max_value_bytes'', JInt 1048576), (''post_run_mutations_only'', JBool True),
        (''direct_database_access'', JBool False), (''direct_object_storage_access'', JBool False),
        (''enabled'', JBool True)];
     if queue_kv_enabled then do {
       binding \<leftarrow> as_dict (dget input_reference ''request_queue'');
       refuse_unless (dget binding ''schema_version'' = JStr ''rdc.run-queue/v1'' \<and>
         is_str (dget binding ''queue_id''));
       refuse_unless (is_dict (dget input_reference ''queue_binding_receipt''));
       refuse_unless (\<not> differs (dget input_reference ''request_queue_key_value_store_receipt'')
         (kv_composition_receipt sha256 (dget binding ''queue_id'')
           (get_str payload ''agent_version_id'') (dget input_reference ''queue_binding_receipt'')
           read_request_digest));
       Some (dupdate capability [(''queue_id'', dget binding ''queue_id''),
         (''mutation_idempotency_scope'', JStr ''queue-request-index''),
         (''completion_order'', JStr ''kv-before-queue-handled'')]) }
     else Some capability }"

subsection \<open>Request queues\<close>

text \<open>
  The keyword arguments of \<open>request_queue_capability\<close>. \<open>network not in {...}\<close> raises for a list or
  an object in the source; the manifest schema admits strings only, and the model refuses.
\<close>

record queue_args =
  qa_request_queue_enabled :: bool
  qa_http_enabled :: bool
  qa_egress_policy_digest :: "string option"
  qa_browser_enabled :: bool
  qa_browser_policy_digest :: "string option"
  qa_browser_egress_policy_digest :: "string option"
  qa_dataset_enabled :: bool
  qa_key_value_store_enabled :: bool
  qa_project_binding_digest :: "string option"

definition policy_matches :: "(string \<Rightarrow> string) \<Rightarrow> json \<Rightarrow> json \<Rightarrow> string option \<Rightarrow> bool" where
  \<comment> \<open>a stored policy is an object, its stored digest is the expected one and is the policy's\<close>
  "policy_matches sha256 policy digest expected \<longleftrightarrow> is_dict policy \<and>
     (case as_str digest of None \<Rightarrow> False
      | Some d \<Rightarrow> expected = Some d \<and> canonical_fingerprint sha256 policy = d)"

definition receipt_tail :: dict where
  "receipt_tail = [(''dispatch_enabled'', JBool True), (''agent_container_network'', JStr ''none''),
     (''direct_database_access'', JBool False), (''direct_object_storage_access'', JBool False)]"

definition browser_binding_receipt ::
  "canary_settings \<Rightarrow> (string \<Rightarrow> string) \<Rightarrow> queue_args \<Rightarrow> dict \<Rightarrow> dict \<Rightarrow> dict option" where
  \<comment> \<open>the branch \<open>if browser_acquisition\<close>; \<open>head\<close> is what every receipt starts with\<close>
  "browser_binding_receipt st sha256 a input_reference head = do {
     refuse_unless (\<not> qa_http_enabled a \<and> qa_egress_policy_digest a = None \<and> qa_browser_enabled a \<and>
       st_canary_request_queue_browser_enabled st \<and> st_canary_browser_enabled st \<and>
       st_canary_browser_live_navigation_enabled st \<and> st_canary_web_egress_enabled st \<and>
       policy_matches sha256 (dget input_reference ''request_queue_browser_policy'')
         (dget input_reference ''request_queue_browser_policy_digest'') (qa_browser_policy_digest a) \<and>
       policy_matches sha256 (dget input_reference ''request_queue_browser_egress_policy'')
         (dget input_reference ''request_queue_browser_egress_policy_digest'')
         (qa_browser_egress_policy_digest a));
     Some ((''schema_version'', JStr ''rdc.request-queue-binding-receipt/v3'') # head @
       [(''acquisition_mode'', JStr ''controlled-browser''),
        (''browser_policy_digest'', dget input_reference ''request_queue_browser_policy_digest''),
        (''browser_egress_policy_digest'',
          dget input_reference ''request_queue_browser_egress_policy_digest'')] @ receipt_tail) }"

definition http_binding_receipt ::
  "canary_settings \<Rightarrow> (string \<Rightarrow> string) \<Rightarrow> queue_args \<Rightarrow> dict \<Rightarrow> dict \<Rightarrow> dict option" where
  \<comment> \<open>the branch \<open>elif http_acquisition\<close>\<close>
  "http_binding_receipt st sha256 a input_reference head = do {
     refuse_unless (\<not> qa_browser_enabled a \<and> qa_browser_policy_digest a = None \<and>
       qa_browser_egress_policy_digest a = None \<and> qa_http_enabled a \<and>
       st_canary_request_queue_http_enabled st \<and> st_canary_web_egress_enabled st \<and>
       policy_matches sha256 (dget input_reference ''request_queue_egress_policy'')
         (dget input_reference ''request_queue_egress_policy_digest'') (qa_egress_policy_digest a));
     Some ((''schema_version'', JStr ''rdc.request-queue-binding-receipt/v2'') # head @
       [(''acquisition_mode'', JStr ''brokered-http''),
        (''egress_policy_digest'', dget input_reference ''request_queue_egress_policy_digest'')] @
       receipt_tail) }"

definition offline_binding_receipt :: "queue_args \<Rightarrow> dict \<Rightarrow> dict option" where
  \<comment> \<open>the last branch: no acquisition\<close>
  "offline_binding_receipt a head = do {
     refuse_unless (\<not> qa_http_enabled a \<and> qa_egress_policy_digest a = None \<and>
       \<not> qa_browser_enabled a \<and> qa_browser_policy_digest a = None \<and>
       qa_browser_egress_policy_digest a = None);
     Some ((''schema_version'', JStr ''rdc.request-queue-binding-receipt/v1'') # head @
       [(''direct_database_access'', JBool False), (''direct_object_storage_access'', JBool False)]) }"

definition queue_dataset_composed ::
  "canary_settings \<Rightarrow> (string \<Rightarrow> string) \<Rightarrow> queue_args \<Rightarrow> dict \<Rightarrow> string \<Rightarrow> string \<Rightarrow> bool \<Rightarrow> bool" where
  \<comment> \<open>the composition receipt of a queue with a dataset, required exactly when the manifest has both\<close>
  "queue_dataset_composed st sha256 a input_reference queue_id agent_version_id dataset =
     (if dataset then qa_dataset_enabled a \<and> st_canary_request_queue_dataset_enabled st \<and>
        st_canary_dataset_writes_enabled st \<and>
        \<not> differs (dget input_reference ''request_queue_dataset_receipt'')
          [(''schema_version'', JStr ''rdc.request-queue-dataset-receipt/v1''),
           (''queue_id'', JStr queue_id), (''agent_version_id'', JStr agent_version_id),
           (''queue_binding_receipt_digest'',
             JStr (canonical_fingerprint sha256 (dget input_reference ''queue_binding_receipt''))),
           (''dataset_name'', JStr ''default''), (''dispatch_enabled'', JBool True),
           (''completion_order'', JStr ''dataset-before-queue-handled''),
           (''agent_container_network'', JStr ''none''), (''direct_database_access'', JBool False),
           (''direct_object_storage_access'', JBool False)]
      else \<not> qa_dataset_enabled a \<and> dget input_reference ''request_queue_dataset_receipt'' = JNull)"

definition queue_kv_composed ::
  "canary_settings \<Rightarrow> (string \<Rightarrow> string) \<Rightarrow> queue_args \<Rightarrow> dict \<Rightarrow> string \<Rightarrow> string \<Rightarrow> bool \<Rightarrow> bool" where
  "queue_kv_composed st sha256 a input_reference queue_id agent_version_id key_value_store =
     (if key_value_store then
        (let read_request = (case as_dict (dget input_reference ''value'') of None \<Rightarrow> JNull
           | Some input_value \<Rightarrow> dget input_value ''_rdc_kv_read'')
         in case kv_read_digest sha256 read_request of None \<Rightarrow> False
            | Some read_request_digest \<Rightarrow> qa_key_value_store_enabled a \<and>
                st_canary_request_queue_key_value_store_enabled st \<and>
                st_canary_key_value_store_enabled st \<and>
                \<not> differs (dget input_reference ''request_queue_key_value_store_receipt'')
                  (kv_composition_receipt sha256 (JStr queue_id) agent_version_id
                    (dget input_reference ''queue_binding_receipt'') read_request_digest))
      else \<not> qa_key_value_store_enabled a \<and>
        dget input_reference ''request_queue_key_value_store_receipt'' = JNull)"

definition queue_capability_version :: "queue_args \<Rightarrow> bool \<Rightarrow> bool \<Rightarrow> bool \<Rightarrow> bool \<Rightarrow> string" where
  "queue_capability_version a key_value_store dataset browser_acquisition http_acquisition =
     (if qa_project_binding_digest a \<noteq> None then ''rdc.request-queue-worker-capability/v6''
      else if key_value_store then ''rdc.request-queue-worker-capability/v5''
      else if dataset then ''rdc.request-queue-worker-capability/v4''
      else if browser_acquisition then ''rdc.request-queue-worker-capability/v3''
      else if http_acquisition then ''rdc.request-queue-worker-capability/v2''
      else ''rdc.request-queue-worker-capability/v1'')"

definition queue_capability_extras :: "queue_args \<Rightarrow> bool \<Rightarrow> bool \<Rightarrow> bool \<Rightarrow> bool \<Rightarrow> dict" where
  "queue_capability_extras a key_value_store dataset browser_acquisition http_acquisition =
     (case qa_project_binding_digest a of None \<Rightarrow> []
      | Some d \<Rightarrow> [(''project_egress_policy_binding_digest'', JStr d)]) @
     (if browser_acquisition then
        [(''acquisition_mode'', JStr ''controlled-browser''),
         (''browser_policy_digest'', jopt JStr (qa_browser_policy_digest a)),
         (''browser_egress_policy_digest'', jopt JStr (qa_browser_egress_policy_digest a)),
         (''agent_container_network'', JStr ''none'')]
      else if http_acquisition then
        [(''acquisition_mode'', JStr ''brokered-http''),
         (''egress_policy_digest'', jopt JStr (qa_egress_policy_digest a)),
         (''agent_container_network'', JStr ''none'')]
      else []) @
     (if dataset then
        [(''dataset_write_enabled'', JBool True), (''dataset_name'', JStr ''default''),
         (''completion_order'', JStr ''dataset-before-queue-handled'')] else []) @
     (if key_value_store then
        [(''key_value_store_enabled'', JBool True), (''store_name'', JStr ''default''),
         (''mutation_idempotency_scope'', JStr ''queue-request-index''),
         (''completion_order'', JStr ''kv-before-queue-handled'')] else [])"

definition project_receipt_matches :: "queue_args \<Rightarrow> json \<Rightarrow> bool \<Rightarrow> bool" where
  "project_receipt_matches a project_receipt acquires =
     (case qa_project_binding_digest a of
        Some d \<Rightarrow> (case as_dict project_receipt of None \<Rightarrow> False
          | Some r \<Rightarrow> dget r ''binding_digest'' = JStr d) \<and> acquires
      | None \<Rightarrow> project_receipt = JNull)"

definition request_queue_capability ::
  "canary_settings \<Rightarrow> (string \<Rightarrow> string) \<Rightarrow> worker \<Rightarrow> dict \<Rightarrow> queue_args \<Rightarrow> dict option" where
  "request_queue_capability st sha256 worker payload a = do {
     let agent_version_id = get_str payload ''agent_version_id'';
     refuse_unless (qa_request_queue_enabled a \<and> st_canary_request_queue_enabled st \<and>
       get_str payload ''work_kind'' = ''RUN_START'' \<and> wo_name worker = canary_worker st \<and>
       ''REQUEST_QUEUE_ACCESS'' \<in> set (wo_capabilities worker) \<and>
       agent_version_id = canary_version st);
     manifest \<leftarrow> as_dict (dget payload ''manifest'');
     input_reference \<leftarrow> as_dict (dget payload ''input_reference'');
     capabilities \<leftarrow> as_dict (dget manifest ''capabilities'');
     let network = dget capabilities ''network'';
     browser \<leftarrow> as_bool (dget capabilities ''browser'');
     dataset \<leftarrow> as_bool (dget capabilities ''dataset'');
     key_value_store \<leftarrow> as_bool (dget capabilities ''keyValueStore'');
     let browser_acquisition = (network = JStr ''web-egress'' \<and> browser);
     let http_acquisition = (network = JStr ''web-egress'' \<and> \<not> browser);
     refuse_unless (dget capabilities ''requestQueue'' = JBool True \<and>
       (network = JStr ''none'' \<or> network = JStr ''web-egress'') \<and>
       (browser \<longrightarrow> browser_acquisition) \<and>
       key_value_store = qa_key_value_store_enabled a \<and> \<not> (dataset \<and> key_value_store));
     binding \<leftarrow> as_dict (dget input_reference ''request_queue'');
     refuse_unless (dkeys binding = {''schema_version'', ''queue_id''} \<and>
       dget binding ''schema_version'' = JStr ''rdc.run-queue/v1'' \<and>
       is_dict (dget input_reference ''queue_binding_receipt''));
     refuse_unless (project_receipt_matches a (dget input_reference ''project_egress_policy_receipt'')
       (browser_acquisition \<or> http_acquisition));
     uuid \<leftarrow> uuid_of_text (py_str (dget binding ''queue_id''));
     let queue_id = uuid_str uuid;
     let head = [(''binding_digest'', JStr (canonical_fingerprint sha256 (JDict
         [(''schema_version'', JStr ''rdc.run-queue/v1''), (''queue_id'', JStr queue_id)]))),
       (''queue_id'', JStr queue_id), (''agent_version_id'', JStr agent_version_id)];
     expected_receipt \<leftarrow>
       (if browser_acquisition then browser_binding_receipt st sha256 a input_reference head
        else if http_acquisition then http_binding_receipt st sha256 a input_reference head
        else offline_binding_receipt a head);
     refuse_unless (\<not> differs (dget input_reference ''queue_binding_receipt'') expected_receipt);
     refuse_unless (queue_dataset_composed st sha256 a input_reference queue_id agent_version_id dataset);
     refuse_unless
       (queue_kv_composed st sha256 a input_reference queue_id agent_version_id key_value_store);
     Some (dupdate
       [(''schema_version'', JStr (queue_capability_version a key_value_store dataset
           browser_acquisition http_acquisition)),
        (''queue_id'', JStr queue_id), (''run_id'', JStr (get_str payload ''run_id'')),
        (''agent_version_id'', JStr agent_version_id), (''worker_name'', JStr (wo_name worker)),
        (''max_claims_per_run'', JInt 1), (''claim_completion_required'', JBool True),
        (''direct_database_access'', JBool False), (''direct_object_storage_access'', JBool False),
        (''enabled'', JBool True)]
       (queue_capability_extras a key_value_store dataset browser_acquisition http_acquisition)) }"

end
