(* ===== verification/Sandbox_Policy.thy ===== *)
theory Sandbox_Policy
  imports Worker_Capabilities
begin

section \<open>The sandbox policy and the canary activation\<close>

text \<open>
  What a claim decides about the sandbox (\<open>services/execution_plane.py\<close>, with the policy payloads of
  \<open>services/runs.py\<close> and the schemas of \<open>execution_schemas.py\<close>): whether a worker's attestation is
  acceptable, which limits the workload gets (\<open>_sandbox_claim_policy\<close>), and whether execution is
  activated at all (\<open>_canary_activation\<close>). \<open>ValueError\<close> also stands for \<open>TypeError\<close>, which \<open>int\<close>
  raises on a value that is no number, and for pydantic's \<open>ValidationError\<close>, a subclass of it. Stored
  JSON has no infinities, so \<open>int\<close> never raises \<open>OverflowError\<close>.
\<close>

subsection \<open>Attestations\<close>

record sandbox_attestation =
  at_schema_version :: string
  at_apparmor_profile :: string
  at_max_memory_mb :: int
  at_max_cpu_millis :: int
  at_max_pids :: int
  at_max_ephemeral_disk_mb :: int
  at_max_build_seconds :: int
  at_max_run_seconds :: int

definition attestation_payload :: "sandbox_attestation \<Rightarrow> dict" where
  \<comment> \<open>\<open>model_dump(mode="json")\<close>: the other fields admit one value each\<close>
  "attestation_payload a =
     [(''schema_version'', JStr (at_schema_version a)), (''runtime'', JStr ''containerd-rootless''),
      (''builder'', JStr ''buildkit-rootless''), (''rootless'', JBool True),
      (''no_host_docker_socket'', JBool True), (''no_new_privileges'', JBool True),
      (''read_only_rootfs'', JBool True), (''drop_all_capabilities'', JBool True),
      (''seccomp_profile'', JStr ''rdc-default''), (''apparmor_profile'', JStr (at_apparmor_profile a)),
      (''network_policy'', JStr ''deny-all''), (''max_memory_mb'', JInt (at_max_memory_mb a)),
      (''max_cpu_millis'', JInt (at_max_cpu_millis a)), (''max_pids'', JInt (at_max_pids a)),
      (''max_ephemeral_disk_mb'', JInt (at_max_ephemeral_disk_mb a)),
      (''max_build_seconds'', JInt (at_max_build_seconds a)),
      (''max_run_seconds'', JInt (at_max_run_seconds a))]"

definition sandbox_digest :: "(string \<Rightarrow> string) \<Rightarrow> sandbox_attestation \<Rightarrow> string" where
  "sandbox_digest sha256 a = canonical_fingerprint sha256 (JDict (attestation_payload a))"

definition sandbox_attestation_allowed :: "canary_settings \<Rightarrow> sandbox_attestation \<Rightarrow> bool" where
  "sandbox_attestation_allowed st a \<longleftrightarrow>
     at_schema_version a = st_sandbox_required_profile st \<and>
     at_max_memory_mb a \<le> st_sandbox_max_memory_mb st \<and>
     at_max_cpu_millis a \<le> st_sandbox_max_cpu_millis st \<and> at_max_pids a \<le> st_sandbox_max_pids st \<and>
     at_max_ephemeral_disk_mb a \<le> st_sandbox_max_ephemeral_disk_mb st \<and>
     at_max_build_seconds a \<le> st_sandbox_max_build_seconds st \<and>
     at_max_run_seconds a \<le> st_sandbox_max_run_seconds st"

definition apply_sandbox_attestation ::
  "canary_settings \<Rightarrow> (string \<Rightarrow> string) \<Rightarrow> instant \<Rightarrow> sandbox_attestation option \<Rightarrow> worker \<Rightarrow> worker" where
  "apply_sandbox_attestation st sha256 now attestation worker =
     (case attestation of None \<Rightarrow> worker
      | Some a \<Rightarrow> worker\<lparr>wo_sandbox_profile := Some (at_schema_version a),
          wo_sandbox_attestation_digest := Some (sandbox_digest sha256 a),
          wo_sandbox_attested_at := Some now,
          wo_sandbox_execution_enabled := st_sandbox_execution_enabled st \<and>
            st_activation_mode st = ''canary'' \<and> wo_name worker = canary_worker st \<and>
            wo_max_concurrency worker = 1 \<and> sandbox_attestation_allowed st a,
          wo_metadata_json := dupdate (wo_metadata_json worker)
            [(''sandbox'', JDict (attestation_payload a))]\<rparr>)"

subsection \<open>Policy payloads\<close>

definition runtime_policy ::
  "string list \<Rightarrow> string list \<Rightarrow> int \<Rightarrow> int \<Rightarrow> int \<Rightarrow> int \<Rightarrow> int \<Rightarrow> int \<Rightarrow> dict" where
  \<comment> \<open>the literal the three runtime policies share\<close>
  "runtime_policy methods hosts max_requests max_response_bytes max_total_bytes max_redirects
     connect_timeout_seconds request_timeout_seconds =
     [(''schema_version'', JStr ''rdc.egress/v1''), (''mode'', JStr ''brokered''),
      (''allowed_schemes'', jstrs [''https'']), (''allowed_methods'', jstrs methods),
      (''allowed_hosts'', jstrs hosts), (''deny_ip_literals'', JBool True),
      (''require_global_dns'', JBool True), (''revalidate_redirects'', JBool True),
      (''container_network'', JStr ''none''), (''max_requests'', JInt max_requests),
      (''max_response_bytes'', JInt max_response_bytes), (''max_total_bytes'', JInt max_total_bytes),
      (''max_redirects'', JInt max_redirects),
      (''connect_timeout_seconds'', JInt connect_timeout_seconds),
      (''request_timeout_seconds'', JInt request_timeout_seconds)]"

definition egress_policy_payload :: "canary_settings \<Rightarrow> dict" where
  "egress_policy_payload st = runtime_policy [''GET'', ''HEAD''] (st_canary_web_egress_allowed_hosts st)
     (st_canary_web_egress_max_requests st) (st_canary_web_egress_max_response_bytes st)
     (st_canary_web_egress_max_total_bytes st) (st_canary_web_egress_max_redirects st)
     (st_canary_web_egress_connect_timeout_seconds st) (st_canary_web_egress_request_timeout_seconds st)"

definition web_egress_policy_payload :: "canary_settings \<Rightarrow> dict" where
  \<comment> \<open>\<open>runs.py\<close> has its own copy of the literal\<close>
  "web_egress_policy_payload st = runtime_policy [''GET'', ''HEAD''] (st_canary_web_egress_allowed_hosts st)
     (st_canary_web_egress_max_requests st) (st_canary_web_egress_max_response_bytes st)
     (st_canary_web_egress_max_total_bytes st) (st_canary_web_egress_max_redirects st)
     (st_canary_web_egress_connect_timeout_seconds st) (st_canary_web_egress_request_timeout_seconds st)"

definition revision_runtime_egress_policy_payload :: "validated_egress_policy \<Rightarrow> dict" where
  "revision_runtime_egress_policy_payload p =
     runtime_policy (vp_allowed_methods p) (vp_allowed_hosts p) (vp_max_requests p)
       (vp_max_response_bytes p) (vp_max_total_bytes p) (vp_max_redirects p)
       (vp_connect_timeout_seconds p) (vp_request_timeout_seconds p)"

definition revision_within_canary_ceiling :: "canary_settings \<Rightarrow> validated_egress_policy \<Rightarrow> bool" where
  "revision_within_canary_ceiling st p \<longleftrightarrow>
     set (vp_allowed_hosts p) \<subseteq> (\<lambda>h. casefold (rstrip_by (\<lambda>c. c = CHR ''.'') (strip h))) `
       set (st_canary_web_egress_allowed_hosts st) \<and>
     set (vp_allowed_methods p) \<subseteq> {''GET'', ''HEAD''} \<and>
     vp_max_requests p \<le> st_canary_web_egress_max_requests st \<and>
     vp_max_response_bytes p \<le> st_canary_web_egress_max_response_bytes st \<and>
     vp_max_total_bytes p \<le> st_canary_web_egress_max_total_bytes st \<and>
     vp_max_redirects p \<le> st_canary_web_egress_max_redirects st \<and>
     vp_connect_timeout_seconds p \<le> st_canary_web_egress_connect_timeout_seconds st \<and>
     vp_request_timeout_seconds p \<le> st_canary_web_egress_request_timeout_seconds st"

definition browser_policy_payload :: "canary_settings \<Rightarrow> dict" where
  "browser_policy_payload st =
     [(''schema_version'', JStr ''rdc.browser-policy/v1''), (''enabled'', JBool (st_canary_browser_enabled st)),
      (''allowed_hosts'', jstrs (sort (st_canary_web_egress_allowed_hosts st))),
      (''max_pages'', JInt (st_canary_browser_max_pages st)),
      (''max_actions'', JInt (st_canary_browser_max_actions st)),
      (''navigation_timeout_seconds'', JInt (st_canary_browser_navigation_timeout_seconds st)),
      (''max_dom_bytes'', JInt (st_canary_browser_max_dom_bytes st)),
      (''max_screenshot_bytes'', JInt (st_canary_browser_max_screenshot_bytes st)),
      (''agent_container_network'', JStr ''none''), (''project_secrets_available'', JBool False),
      (''persistent_profile'', JBool False), (''downloads_enabled'', JBool False),
      (''uploads_enabled'', JBool False), (''remote_cdp_enabled'', JBool False)]"

definition browser_egress_policy_payload :: "dict \<Rightarrow> dict" where
  \<comment> \<open>for a policy that is not empty; the callers pass the effective one\<close>
  "browser_egress_policy_payload effective =
     [(''schema_version'', JStr ''rdc.browser-egress-policy/v1''), (''mode'', JStr ''gateway-live-canary''),
      (''allowed_schemes'', jstrs [''https'']), (''allowed_methods'', dget effective ''allowed_methods''),
      (''allowed_resource_types'',
        jstrs [''document'', ''fetch'', ''font'', ''image'', ''script'', ''stylesheet'', ''xhr'']),
      (''allowed_hosts'', dget effective ''allowed_hosts''), (''deny_ip_literals'', JBool True),
      (''require_global_dns'', JBool True), (''pin_validated_address'', JBool True),
      (''revalidate_redirects'', JBool True), (''revalidate_subresources'', JBool True),
      (''strip_request_headers'', jstrs [''authorization'', ''cookie'', ''proxy-authorization'']),
      (''strip_response_headers'', jstrs [''set-cookie'']), (''service_workers_enabled'', JBool False),
      (''websockets_enabled'', JBool False), (''webrtc_enabled'', JBool False),
      (''proxy_override_enabled'', JBool False), (''persistent_cookies_enabled'', JBool False),
      (''max_requests'', dget effective ''max_requests''),
      (''max_resource_bytes'', dget effective ''max_response_bytes''),
      (''max_total_bytes'', dget effective ''max_total_bytes''),
      (''max_redirects'', dget effective ''max_redirects''),
      (''connect_timeout_seconds'', dget effective ''connect_timeout_seconds''),
      (''request_timeout_seconds'', dget effective ''request_timeout_seconds''),
      (''transport_wired'', JBool True), (''browser_network'', JStr ''none'')]"

subsection \<open>The policy bound to a run\<close>

definition as_strs :: "json \<Rightarrow> string list option" where
  \<comment> \<open>a list of strings\<close>
  "as_strs v = (case v of JList xs \<Rightarrow> if list_all is_str xs then Some (map py_str xs) else None | _ \<Rightarrow> None)"

definition as_int :: "json \<Rightarrow> int option" where
  \<comment> \<open>\<open>type(v) is int\<close>\<close>
  "as_int v = (case v of JInt n \<Rightarrow> Some n | _ \<Rightarrow> None)"

definition int_between :: "json \<Rightarrow> int \<Rightarrow> int \<Rightarrow> bool" where
  "int_between v lo hi = (case as_int v of None \<Rightarrow> False | Some n \<Rightarrow> lo \<le> n \<and> n \<le> hi)"

definition receipt_fields :: "string set" where
  "receipt_fields = {''schema_version'', ''policy_id'', ''revision_id'', ''revision_number'',
     ''policy_digest'', ''runtime_policy_digest'', ''credential_configured'', ''binding_digest''}"

definition receipt_ok :: "(string \<Rightarrow> string) \<Rightarrow> dict \<Rightarrow> bool" where
  "receipt_ok sha256 receipt \<longleftrightarrow> dkeys receipt = receipt_fields \<and>
     dget receipt ''schema_version'' = JStr ''rdc.run-egress-policy-receipt/v1'' \<and>
     is_bool (dget receipt ''credential_configured'') \<and>
     (case as_int (dget receipt ''revision_number'') of None \<Rightarrow> False | Some n \<Rightarrow> 1 \<le> n) \<and>
     uuid_of_text (py_str (dget receipt ''policy_id'')) \<noteq> None \<and>
     uuid_of_text (py_str (dget receipt ''revision_id'')) \<noteq> None \<and>
     dget receipt ''binding_digest'' = JStr (canonical_fingerprint sha256
       (JDict (filter (\<lambda>kv. fst kv \<noteq> ''binding_digest'') receipt)))"

definition required_runtime :: dict where
  "required_runtime =
     [(''schema_version'', JStr ''rdc.egress/v1''), (''mode'', JStr ''brokered''),
      (''allowed_schemes'', jstrs [''https'']), (''deny_ip_literals'', JBool True),
      (''require_global_dns'', JBool True), (''revalidate_redirects'', JBool True),
      (''container_network'', JStr ''none'')]"

definition numeric_bounds :: "canary_settings \<Rightarrow> (string \<times> int \<times> int) list" where
  \<comment> \<open>each minimum with the ceiling's maximum\<close>
  "numeric_bounds st =
     [(''max_requests'', 1, st_canary_web_egress_max_requests st),
      (''max_response_bytes'', 65536, st_canary_web_egress_max_response_bytes st),
      (''max_total_bytes'', 65536, st_canary_web_egress_max_total_bytes st),
      (''max_redirects'', 0, st_canary_web_egress_max_redirects st),
      (''connect_timeout_seconds'', 1, st_canary_web_egress_connect_timeout_seconds st),
      (''request_timeout_seconds'', 1, st_canary_web_egress_request_timeout_seconds st)]"

definition int_field :: "dict \<Rightarrow> string \<Rightarrow> int" where
  \<comment> \<open>\<open>cast(int, stored[k])\<close> of a field already checked to be an integer\<close>
  "int_field d k = (case as_int (dget d k) of None \<Rightarrow> 0 | Some n \<Rightarrow> n)"

definition runtime_envelope_ok :: "canary_settings \<Rightarrow> dict \<Rightarrow> string list \<Rightarrow> string list \<Rightarrow> bool" where
  "runtime_envelope_ok st stored hosts methods \<longleftrightarrow>
     list_all (\<lambda>(k, v). py_eq (dget stored k) v) required_runtime \<and>
     hosts \<noteq> [] \<and> hosts = sorted_set hosts \<and> methods \<noteq> [] \<and> methods = sorted_set methods \<and>
     set methods \<subseteq> {''GET'', ''HEAD''} \<and>
     set hosts \<subseteq> set (st_canary_web_egress_allowed_hosts st) \<and>
     list_all (\<lambda>(k, lo, hi). int_between (dget stored k) lo hi) (numeric_bounds st)"

definition bound_egress_policy ::
  "canary_settings \<Rightarrow> (string \<Rightarrow> string option) \<Rightarrow> (string \<Rightarrow> string) \<Rightarrow> dict \<Rightarrow>
   (dict \<times> string) option result" where
  "bound_egress_policy st idna sha256 input_reference =
     (let stored0 = dget input_reference ''project_egress_policy'';
          receipt0 = dget input_reference ''project_egress_policy_receipt''
      in if stored0 = JNull \<and> receipt0 = JNull then Inr None
      else case (as_dict stored0, as_dict receipt0) of
        (Some stored, Some receipt) \<Rightarrow>
          (case (as_strs (dget stored ''allowed_hosts''), as_strs (dget stored ''allowed_methods'')) of
             (Some hosts, Some methods) \<Rightarrow>
               if receipt_ok sha256 receipt \<and> runtime_envelope_ok st stored hosts methods \<and>
                 dget receipt ''runtime_policy_digest'' = JStr (canonical_fingerprint sha256 (JDict stored))
               then (case validate_egress_policy idna sha256 hosts methods
                   (int_field stored ''max_requests'') (int_field stored ''max_response_bytes'')
                   (int_field stored ''max_total_bytes'') (int_field stored ''max_redirects'')
                   (int_field stored ''connect_timeout_seconds'')
                   (int_field stored ''request_timeout_seconds'') of
                   Inl _ \<Rightarrow> Inl ValueError
                 | Inr p \<Rightarrow>
                     if vp_allowed_hosts p = hosts \<and> vp_allowed_methods p = methods \<and>
                       dget receipt ''policy_digest'' = JStr (vp_policy_digest p)
                     then Inr (Some (stored, py_str (dget receipt ''binding_digest'')))
                     else Inl ValueError)
               else Inl ValueError
           | _ \<Rightarrow> Inl ValueError)
      | _ \<Rightarrow> Inl ValueError)"

definition browser_navigation_canary_receipt_allowed ::
  "canary_settings \<Rightarrow> (string \<Rightarrow> string) \<Rightarrow> dict \<Rightarrow> dict \<Rightarrow> bool" where
  "browser_navigation_canary_receipt_allowed st sha256 input_reference runtime_egress_policy \<longleftrightarrow>
     (let browser_policy = browser_policy_payload st;
          browser_digest = canonical_fingerprint sha256 (JDict browser_policy);
          egress_policy = browser_egress_policy_payload runtime_egress_policy;
          egress_digest = canonical_fingerprint sha256 (JDict egress_policy)
      in st_canary_browser_live_navigation_enabled st \<and>
        is_dict (dget input_reference ''browser_navigation'') \<and>
        \<not> differs (dget input_reference ''browser_policy'') browser_policy \<and>
        dget input_reference ''browser_policy_digest'' = JStr browser_digest \<and>
        \<not> differs (dget input_reference ''browser_egress_policy'') egress_policy \<and>
        dget input_reference ''browser_egress_policy_digest'' = JStr egress_digest \<and>
        \<not> differs (dget input_reference ''browser_navigation_receipt'')
          [(''schema_version'', JStr ''rdc.browser-navigation-receipt/v1''),
           (''request_schema_version'', JStr ''rdc.browser/v2''),
           (''request_digest'',
             JStr (canonical_fingerprint sha256 (dget input_reference ''browser_navigation''))),
           (''browser_policy_digest'', JStr browser_digest),
           (''browser_egress_policy_digest'', JStr egress_digest),
           (''execution_enabled'', JBool True), (''dispatch_enabled'', JBool True),
           (''browser_network'', JStr ''none''), (''browser_egress_gateway_required'', JBool True)])"

subsection \<open>The gate both decisions share\<close>

text \<open>
  \<open>_sandbox_claim_policy\<close> and \<open>_canary_activation\<close> start with the same statements, from reading the
  capabilities to the key-value receipt; \<open>runtime_gate\<close> translates them once. Its result is the local
  variables the rest of either function uses.
\<close>

record runtime =
  rt_network :: string
  rt_browser :: bool
  rt_dataset :: bool
  rt_kv :: bool
  rt_queue :: bool
  rt_queue_dataset :: bool
  rt_queue_kv :: bool
  rt_queue_browser :: bool
  rt_queue_http :: bool
  rt_effective_egress_policy :: dict
  rt_egress_policy_digest :: "string option"
  rt_project_binding_digest :: "string option"
  rt_browser_policy_digest :: "string option"

definition input_reference_of :: "dict \<Rightarrow> dict" where
  "input_reference_of payload =
     (case as_dict (dget payload ''input_reference'') of None \<Rightarrow> [] | Some d \<Rightarrow> d)"

definition requested_runtime ::
  "canary_settings \<Rightarrow> (string \<Rightarrow> string option) \<Rightarrow> (string \<Rightarrow> string) \<Rightarrow> dict \<Rightarrow> dict \<Rightarrow> runtime option" where
  "requested_runtime st idna sha256 payload capabilities = do {
     let network = get_str capabilities ''network'';
     refuse_unless (network = ''none'' \<or> network = ''web-egress'');
     refuse_unless (network = ''web-egress'' \<longrightarrow> st_canary_web_egress_enabled st);
     browser \<leftarrow> as_bool (dget capabilities ''browser'');
     dataset \<leftarrow> as_bool (dget capabilities ''dataset'');
     key_value_store \<leftarrow> as_bool (dget capabilities ''keyValueStore'');
     request_queue \<leftarrow> as_bool (dget capabilities ''requestQueue'');
     let run_start = (get_str payload ''work_kind'' = ''RUN_START'');
     let kv = (key_value_store \<and> run_start);
     let queue = (request_queue \<and> run_start);
     bound \<leftarrow> (case bound_egress_policy st idna sha256 (input_reference_of payload) of
       Inl _ \<Rightarrow> None | Inr b \<Rightarrow> Some b);
     refuse_unless (bound \<noteq> None \<longrightarrow> network = ''web-egress'');
     let effective = (case bound of None \<Rightarrow> egress_policy_payload st | Some (stored, _) \<Rightarrow> stored);
     Some \<lparr>rt_network = network, rt_browser = browser, rt_dataset = dataset, rt_kv = kv, rt_queue = queue,
       rt_queue_dataset = (queue \<and> dataset), rt_queue_kv = (queue \<and> kv),
       rt_queue_browser = (queue \<and> network = ''web-egress'' \<and> browser),
       rt_queue_http = (queue \<and> network = ''web-egress'' \<and> \<not> browser),
       rt_effective_egress_policy = effective,
       rt_egress_policy_digest = (if network = ''web-egress''
         then Some (canonical_fingerprint sha256 (JDict effective)) else None),
       rt_project_binding_digest = map_option snd bound,
       rt_browser_policy_digest = (if browser
         then Some (canonical_fingerprint sha256 (JDict (browser_policy_payload st))) else None)\<rparr> }"

definition runtime_queue_args :: "(string \<Rightarrow> string) \<Rightarrow> runtime \<Rightarrow> queue_args" where
  "runtime_queue_args sha256 r =
     \<lparr>qa_request_queue_enabled = True, qa_http_enabled = rt_queue_http r,
      qa_egress_policy_digest = (if rt_queue_http r then rt_egress_policy_digest r else None),
      qa_browser_enabled = rt_queue_browser r, qa_browser_policy_digest = rt_browser_policy_digest r,
      qa_browser_egress_policy_digest = (if rt_queue_browser r
        then Some (canonical_fingerprint sha256
          (JDict (browser_egress_policy_payload (rt_effective_egress_policy r)))) else None),
      qa_dataset_enabled = rt_queue_dataset r, qa_key_value_store_enabled = rt_queue_kv r,
      qa_project_binding_digest = rt_project_binding_digest r\<rparr>"

definition queue_runtime_allowed ::
  "canary_settings \<Rightarrow> (string \<Rightarrow> string) \<Rightarrow> worker \<Rightarrow> dict \<Rightarrow> runtime \<Rightarrow> bool" where
  "queue_runtime_allowed st sha256 worker payload r \<longleftrightarrow>
     st_canary_request_queue_enabled st \<and>
     (rt_queue_kv r \<longrightarrow> st_canary_key_value_store_enabled st \<and>
       st_canary_request_queue_key_value_store_enabled st) \<and>
     (rt_queue_dataset r \<longrightarrow> st_canary_dataset_writes_enabled st \<and>
       st_canary_request_queue_dataset_enabled st) \<and>
     (rt_queue_http r \<longrightarrow> st_canary_request_queue_http_enabled st) \<and>
     (rt_queue_browser r \<longrightarrow> st_canary_request_queue_browser_enabled st) \<and>
     request_queue_capability st sha256 worker payload (runtime_queue_args sha256 r) \<noteq> None"

definition runtime_gate ::
  "canary_settings \<Rightarrow> (string \<Rightarrow> string option) \<Rightarrow> (string \<Rightarrow> string) \<Rightarrow> worker \<Rightarrow> dict \<Rightarrow> dict \<Rightarrow>
   runtime option" where
  "runtime_gate st idna sha256 worker payload capabilities = do {
     r \<leftarrow> requested_runtime st idna sha256 payload capabilities;
     let run_start = (get_str payload ''work_kind'' = ''RUN_START'');
     refuse_unless (\<not> (run_start \<and> rt_dataset r \<and> rt_kv r));
     refuse_unless (\<not> (run_start \<and> rt_browser r \<and> rt_kv r \<and> \<not> rt_queue_kv r));
     refuse_unless (rt_queue r \<longrightarrow> queue_runtime_allowed st sha256 worker payload r);
     refuse_unless (rt_dataset r \<longrightarrow> run_start \<and> (rt_browser r \<longrightarrow> rt_queue_dataset r) \<and>
       st_canary_dataset_writes_enabled st \<and> ''DATASET_APPEND'' \<in> set (wo_capabilities worker));
     refuse_unless (rt_kv r \<longrightarrow>
       key_value_store_capability st sha256 worker payload True (rt_queue_kv r) \<noteq> None);
     Some r }"

subsection \<open>Limits of a claim\<close>

definition claim_browser_allowed ::
  "canary_settings \<Rightarrow> (string \<Rightarrow> string) \<Rightarrow> dict \<Rightarrow> runtime \<Rightarrow> bool" where
  "claim_browser_allowed st sha256 payload r \<longleftrightarrow>
     get_str payload ''work_kind'' = ''RUN_START'' \<and> rt_network r = ''web-egress'' \<and>
     st_canary_browser_enabled st \<and>
     (case as_dict (dget payload ''input_reference'') of None \<Rightarrow> False
      | Some input_reference \<Rightarrow>
          if rt_queue_browser r then True
          else if ''browser_navigation'' \<in> dkeys input_reference then
            browser_navigation_canary_receipt_allowed st sha256 input_reference
              (rt_effective_egress_policy r)
          else is_dict (dget input_reference ''browser'') \<and>
            is_dict (dget input_reference ''browser_policy'') \<and>
            is_str (dget input_reference ''browser_policy_digest''))"

definition int_or :: "dict \<Rightarrow> string \<Rightarrow> int \<Rightarrow> int result" where
  \<comment> \<open>\<open>int(d.get(k, default))\<close>\<close>
  "int_or d k fallback = (case map_of d k of None \<Rightarrow> Inr fallback
     | Some v \<Rightarrow> (case py_int v of None \<Rightarrow> Inl ValueError | Some n \<Rightarrow> Inr n))"

definition claim_policy_dict ::
  "canary_settings \<Rightarrow> string \<Rightarrow> string \<Rightarrow> int \<Rightarrow> int \<Rightarrow> int \<Rightarrow> int \<Rightarrow> int \<Rightarrow> dict" where
  "claim_policy_dict st digest network memory_mb cpu_millis pids disk_mb timeout =
     [(''schema_version'', JStr (st_sandbox_required_profile st)), (''attestation_digest'', JStr digest),
      (''runtime'', JStr ''containerd-rootless''), (''builder'', JStr ''buildkit-rootless''),
      (''network_policy'', JStr ''deny-all''), (''brokered_web_egress'', JBool (network = ''web-egress'')),
      (''rootless'', JBool True), (''no_host_docker_socket'', JBool True),
      (''no_new_privileges'', JBool True), (''read_only_rootfs'', JBool True),
      (''drop_all_capabilities'', JBool True), (''seccomp_profile'', JStr ''rdc-default''),
      (''memory_mb'', JInt memory_mb), (''cpu_millis'', JInt cpu_millis), (''pids'', JInt pids),
      (''ephemeral_disk_mb'', JInt disk_mb), (''timeout_seconds'', JInt timeout),
      (''max_output_bytes'', JInt (st_sandbox_max_output_bytes st))]"

definition sandbox_claim_policy ::
  "canary_settings \<Rightarrow> (string \<Rightarrow> string option) \<Rightarrow> (string \<Rightarrow> string) \<Rightarrow> worker \<Rightarrow> dict \<Rightarrow>
   dict option result" where
  "sandbox_claim_policy st idna sha256 worker payload =
     (case (wo_sandbox_attestation_digest worker, do {
         refuse_unless (st_sandbox_execution_enabled st \<and> wo_sandbox_execution_enabled worker);
         manifest \<leftarrow> as_dict (dget payload ''manifest'');
         capabilities \<leftarrow> as_dict (dget manifest ''capabilities'');
         resources \<leftarrow> as_dict (dget manifest ''resources'');
         r \<leftarrow> runtime_gate st idna sha256 worker payload capabilities;
         refuse_unless (rt_browser r \<longrightarrow> claim_browser_allowed st sha256 payload r);
         Some (resources, r) }) of
        (Some digest, Some (resources, r)) \<Rightarrow>
          bind_result (int_or resources ''memoryMb'' (st_sandbox_max_memory_mb st)) (\<lambda>memory_mb.
          bind_result (int_or resources ''cpuUnits'' (st_sandbox_max_cpu_millis st)) (\<lambda>cpu_millis.
          bind_result (int_or resources ''maxProcesses'' (st_sandbox_max_pids st)) (\<lambda>pids.
          bind_result (int_or resources ''ephemeralDiskMb'' (st_sandbox_max_ephemeral_disk_mb st)) (\<lambda>disk_mb.
          bind_result (int_or resources ''timeoutSeconds'' (st_sandbox_max_run_seconds st)) (\<lambda>timeout.
            if memory_mb > st_sandbox_max_memory_mb st \<or> cpu_millis > st_sandbox_max_cpu_millis st \<or>
              pids > st_sandbox_max_pids st \<or> disk_mb > st_sandbox_max_ephemeral_disk_mb st then Inr None
            else if get_str payload ''work_kind'' = ''RUN_START'' \<and> dget payload ''artifact'' = JNull
              then Inr None
            else Inr (Some (claim_policy_dict st digest (rt_network r) memory_mb cpu_millis pids disk_mb
              (min timeout (if get_str payload ''work_kind'' = ''BUILD''
                then st_sandbox_max_build_seconds st else st_sandbox_max_run_seconds st)))))))))
      | _ \<Rightarrow> Inr None)"

subsection \<open>Activation\<close>

record sandbox_activation =
  ac_agent_version_id :: uuid
  ac_worker_name :: string
  ac_attestation_digest :: string
  ac_sandbox_policy_digest :: string
  ac_constraints_digest :: string
  ac_capability_profile :: string
  ac_egress_policy_digest :: "string option"
  ac_project_binding_digest :: "string option"
  ac_browser_policy_digest :: "string option"
  ac_dataset_write_enabled :: bool
  ac_key_value_store_enabled :: bool
  ac_request_queue_enabled :: bool
  ac_request_queue_http_enabled :: bool
  ac_request_queue_browser_enabled :: bool
  ac_request_queue_dataset_enabled :: bool
  ac_request_queue_kv_enabled :: bool

definition lower_hex :: "char \<Rightarrow> bool" where
  "lower_hex c \<longleftrightarrow> is_digit c \<or> (97 \<le> code_point c \<and> code_point c \<le> 102)"

definition digest_text :: "string \<Rightarrow> bool" where
  "digest_text s \<longleftrightarrow> length s = 64 \<and> list_all lower_hex s"

definition worker_name_char :: "char \<Rightarrow> bool" where
  "worker_name_char c \<longleftrightarrow> is_digit c \<or> (97 \<le> code_point c \<and> code_point c \<le> 122)"

definition worker_name_text :: "string \<Rightarrow> bool" where
  \<comment> \<open>three to 160 characters of the pattern\<close>
  "worker_name_text s \<longleftrightarrow> 3 \<le> length s \<and> length s \<le> 160 \<and> worker_name_char (hd s) \<and>
     list_all (\<lambda>c. worker_name_char c \<or> c \<in> {CHR ''.'', CHR ''_'', CHR ''-''}) (tl s)"

definition validate_capability_receipt :: "sandbox_activation \<Rightarrow> bool" where
  "validate_capability_receipt a \<longleftrightarrow>
     (ac_capability_profile a = ''brokered-web-egress'' \<longrightarrow>
       ac_egress_policy_digest a \<noteq> None \<and> ac_browser_policy_digest a = None) \<and>
     (ac_capability_profile a = ''controlled-browser'' \<longrightarrow>
       ac_egress_policy_digest a \<noteq> None \<and> ac_browser_policy_digest a \<noteq> None) \<and>
     (ac_capability_profile a = ''offline-minimal'' \<longrightarrow> ac_egress_policy_digest a = None \<and>
       ac_browser_policy_digest a = None \<and> ac_project_binding_digest a = None) \<and>
     (ac_project_binding_digest a \<noteq> None \<longrightarrow> ac_egress_policy_digest a \<noteq> None) \<and>
     (ac_request_queue_http_enabled a \<longrightarrow> ac_request_queue_enabled a \<and>
       ac_capability_profile a = ''brokered-web-egress'' \<and> ac_egress_policy_digest a \<noteq> None) \<and>
     (ac_request_queue_browser_enabled a \<longrightarrow> ac_request_queue_enabled a \<and>
       ac_capability_profile a = ''controlled-browser'' \<and> ac_egress_policy_digest a \<noteq> None \<and>
       ac_browser_policy_digest a \<noteq> None) \<and>
     \<not> (ac_request_queue_http_enabled a \<and> ac_request_queue_browser_enabled a) \<and>
     (ac_request_queue_dataset_enabled a \<longrightarrow> ac_request_queue_enabled a \<and> ac_dataset_write_enabled a) \<and>
     (ac_request_queue_enabled a \<and> ac_dataset_write_enabled a \<longrightarrow> ac_request_queue_dataset_enabled a) \<and>
     (ac_request_queue_kv_enabled a \<longrightarrow> ac_request_queue_enabled a \<and> ac_key_value_store_enabled a) \<and>
     (ac_request_queue_enabled a \<and> ac_key_value_store_enabled a \<longrightarrow> ac_request_queue_kv_enabled a)"

definition activation_fields_ok :: "sandbox_activation \<Rightarrow> bool" where
  \<comment> \<open>the field constraints of \<open>SandboxActivation\<close>\<close>
  "activation_fields_ok a \<longleftrightarrow> worker_name_text (ac_worker_name a) \<and>
     digest_text (ac_attestation_digest a) \<and> digest_text (ac_sandbox_policy_digest a) \<and>
     digest_text (ac_constraints_digest a) \<and>
     ac_capability_profile a \<in> {''offline-minimal'', ''brokered-web-egress'', ''controlled-browser''} \<and>
     pred_option digest_text (ac_egress_policy_digest a) \<and>
     pred_option digest_text (ac_project_binding_digest a) \<and>
     pred_option digest_text (ac_browser_policy_digest a)"

definition canary_constraints :: "canary_settings \<Rightarrow> runtime \<Rightarrow> dict" where
  "canary_constraints st r =
     [(''memory_mb'', JInt (st_canary_max_memory_mb st)), (''cpu_millis'', JInt (st_canary_max_cpu_millis st)),
      (''pids'', JInt (st_canary_max_pids st)),
      (''ephemeral_disk_mb'', JInt (st_canary_max_ephemeral_disk_mb st)),
      (''build_timeout_seconds'', JInt (st_canary_max_build_seconds st)),
      (''run_timeout_seconds'', JInt (st_canary_max_run_seconds st)),
      (''network'', JStr (if rt_network r = ''web-egress'' then ''brokered-web-egress'' else ''none'')),
      (''browser'', JBool (rt_browser r)), (''dataset'', JBool (rt_dataset r)),
      (''key_value_store'', JBool (rt_kv r)), (''request_queue'', JBool (rt_queue r)),
      (''request_queue_http'', JBool (rt_queue_http r)),
      (''request_queue_browser'', JBool (rt_queue_browser r)),
      (''request_queue_dataset'', JBool (rt_queue_dataset r)),
      (''request_queue_key_value_store'', JBool (rt_queue_kv r)),
      (''secrets'', JBool False), (''max_concurrency'', JInt 1)]"

definition activation_browser_digest ::
  "canary_settings \<Rightarrow> (string \<Rightarrow> string) \<Rightarrow> dict \<Rightarrow> runtime \<Rightarrow> string option option" where
  \<comment> \<open>the block \<open>if browser\<close>; the outer \<open>None\<close> refuses, the inner one is a run without browser\<close>
  "activation_browser_digest st sha256 payload r =
     (if \<not> rt_browser r then Some None
      else do {
        refuse_unless (get_str payload ''work_kind'' = ''RUN_START'' \<and> rt_network r = ''web-egress'' \<and>
          st_canary_browser_enabled st);
        input_reference \<leftarrow> as_dict (dget payload ''input_reference'');
        let current = canonical_fingerprint sha256 (JDict (browser_policy_payload st));
        if rt_queue_browser r then Some (rt_browser_policy_digest r)
        else if ''browser_navigation'' \<in> dkeys input_reference then do {
          refuse_unless (browser_navigation_canary_receipt_allowed st sha256 input_reference
            (rt_effective_egress_policy r));
          Some (Some current) }
        else do {
          refuse_unless (is_dict (dget input_reference ''browser'') \<and>
            is_dict (dget input_reference ''browser_policy'') \<and>
            canonical_fingerprint sha256 (dget input_reference ''browser_policy'') = current \<and>
            dget input_reference ''browser_policy_digest'' = JStr current);
          Some (Some current) } })"

definition within_canary_resources :: "canary_settings \<Rightarrow> dict \<Rightarrow> string \<Rightarrow> bool" where
  \<comment> \<open>the five \<open>int(resources[...])\<close> and the ceilings\<close>
  "within_canary_resources st resources work_kind \<longleftrightarrow>
     list_all (\<lambda>(k, ceiling). case Option.bind (map_of resources k) py_int of None \<Rightarrow> False
       | Some n \<Rightarrow> n \<le> ceiling)
     [(''memoryMb'', st_canary_max_memory_mb st), (''cpuUnits'', st_canary_max_cpu_millis st),
      (''maxProcesses'', st_canary_max_pids st), (''ephemeralDiskMb'', st_canary_max_ephemeral_disk_mb st),
      (''timeoutSeconds'', if work_kind = ''BUILD'' then st_canary_max_build_seconds st
         else st_canary_max_run_seconds st)]"

definition activation_of ::
  "canary_settings \<Rightarrow> (string \<Rightarrow> string) \<Rightarrow> dict \<Rightarrow> runtime \<Rightarrow> string option \<Rightarrow> uuid \<Rightarrow> sandbox_activation" where
  "activation_of st sha256 sandbox_policy r browser_digest version_id =
     \<lparr>ac_agent_version_id = version_id, ac_worker_name = canary_worker st,
      ac_attestation_digest = py_str (dget sandbox_policy ''attestation_digest''),
      ac_sandbox_policy_digest = canonical_fingerprint sha256 (JDict sandbox_policy),
      ac_constraints_digest = canonical_fingerprint sha256 (JDict (canary_constraints st r)),
      ac_capability_profile = (if rt_browser r then ''controlled-browser''
        else if rt_network r = ''web-egress'' then ''brokered-web-egress'' else ''offline-minimal''),
      ac_egress_policy_digest = rt_egress_policy_digest r,
      ac_project_binding_digest = rt_project_binding_digest r,
      ac_browser_policy_digest = browser_digest, ac_dataset_write_enabled = rt_dataset r,
      ac_key_value_store_enabled = rt_kv r, ac_request_queue_enabled = rt_queue r,
      ac_request_queue_http_enabled = rt_queue_http r,
      ac_request_queue_browser_enabled = rt_queue_browser r,
      ac_request_queue_dataset_enabled = rt_queue_dataset r, ac_request_queue_kv_enabled = rt_queue_kv r\<rparr>"

definition activation_request ::
  "canary_settings \<Rightarrow> (string \<Rightarrow> string option) \<Rightarrow> (string \<Rightarrow> string) \<Rightarrow> worker \<Rightarrow> dict \<Rightarrow>
   (runtime \<times> string option) option" where
  \<comment> \<open>every guard of \<open>_canary_activation\<close>\<close>
  "activation_request st idna sha256 worker payload = do {
     refuse_unless (st_sandbox_execution_enabled st \<and> st_activation_mode st = ''canary'' \<and>
       canary_version st \<noteq> [] \<and> canary_worker st \<noteq> [] \<and> wo_name worker = canary_worker st \<and>
       wo_max_concurrency worker = 1 \<and> get_str payload ''agent_version_id'' = canary_version st \<and>
       get_str payload ''work_kind'' \<in> {''BUILD'', ''RUN_START'', ''RUN_CANCEL''});
     manifest \<leftarrow> as_dict (dget payload ''manifest'');
     refuse_unless (map_of manifest ''secrets'' \<in> {None, Some (JList [])});
     capabilities \<leftarrow> as_dict (dget manifest ''capabilities'');
     resources \<leftarrow> as_dict (dget manifest ''resources'');
     r \<leftarrow> runtime_gate st idna sha256 worker payload capabilities;
     browser_digest \<leftarrow> activation_browser_digest st sha256 payload r;
     refuse_unless (within_canary_resources st resources (get_str payload ''work_kind''));
     Some (r, browser_digest) }"

definition canary_activation ::
  "canary_settings \<Rightarrow> (string \<Rightarrow> string option) \<Rightarrow> (string \<Rightarrow> string) \<Rightarrow> worker \<Rightarrow> dict \<Rightarrow> dict option \<Rightarrow>
   sandbox_activation option result" where
  "canary_activation st idna sha256 worker payload sandbox_policy =
     (case sandbox_policy of None \<Rightarrow> Inr None
      | Some policy \<Rightarrow> (case activation_request st idna sha256 worker payload of
          None \<Rightarrow> Inr None
        | Some (r, browser_digest) \<Rightarrow> (case uuid_of_text (canary_version st) of
            None \<Rightarrow> Inl ValueError
          | Some version_id \<Rightarrow>
              (let a = activation_of st sha256 policy r browser_digest version_id
               in if activation_fields_ok a \<and> validate_capability_receipt a then Inr (Some a)
                  else Inl ValueError))))"

definition activation_payload :: "sandbox_activation option \<Rightarrow> json" where
  "activation_payload activation = (case activation of None \<Rightarrow> JNull
     | Some a \<Rightarrow> JDict
        [(''mode'', JStr ''canary''), (''agent_version_id'', juuid (ac_agent_version_id a)),
         (''worker_name'', JStr (ac_worker_name a)), (''attestation_digest'', JStr (ac_attestation_digest a)),
         (''sandbox_policy_digest'', JStr (ac_sandbox_policy_digest a)),
         (''constraints_digest'', JStr (ac_constraints_digest a)), (''no_secrets'', JBool True),
         (''capability_profile'', JStr (ac_capability_profile a)),
         (''egress_policy_digest'', jopt JStr (ac_egress_policy_digest a)),
         (''project_egress_policy_binding_digest'', jopt JStr (ac_project_binding_digest a)),
         (''browser_policy_digest'', jopt JStr (ac_browser_policy_digest a)),
         (''dataset_write_enabled'', JBool (ac_dataset_write_enabled a)),
         (''key_value_store_enabled'', JBool (ac_key_value_store_enabled a)),
         (''request_queue_enabled'', JBool (ac_request_queue_enabled a)),
         (''request_queue_http_enabled'', JBool (ac_request_queue_http_enabled a)),
         (''request_queue_browser_enabled'', JBool (ac_request_queue_browser_enabled a)),
         (''request_queue_dataset_enabled'', JBool (ac_request_queue_dataset_enabled a)),
         (''request_queue_key_value_store_enabled'', JBool (ac_request_queue_kv_enabled a)),
         (''max_concurrency'', JInt 1)])"

end
