(* ===== verification/Calendar.thy ===== *)
theory Calendar
  imports Py_Text
begin

section \<open>Timestamps as text and back\<close>

text \<open>
  The proleptic Gregorian calendar inside \<open>isoformat\<close> and \<open>fromisoformat\<close>: the conversion between
  days and dates is exact in both directions, so a timestamp a service writes into a JSON payload
  is read back unchanged.
\<close>

subsection \<open>Years of the 400-year cycle\<close>

definition year_start :: "int \<Rightarrow> int" where
  "year_start y = 365 * y + y div 4 - y div 100"

definition less_leaps :: "int \<Rightarrow> int" where
  "less_leaps n = n - n div 1460 + n div 36524 - n div 146096"

lemma less_leaps_mono:
  assumes "0 \<le> m" and "m \<le> n"
  shows "less_leaps m \<le> less_leaps n"
proof -
  let ?f = "\<lambda>n::nat. less_leaps (int n)"
  have step: "?f n \<le> ?f (Suc n)" for n
  proof -
    have "Suc n mod 146096 = 0 \<Longrightarrow> Suc n mod 36524 = 0"
      using dvd_trans [of 36524 146096 "Suc n"] by (simp add: mod_eq_0_iff_dvd del: One_nat_def)
    then have "int (Suc n) - int (Suc n div 1460) + int (Suc n div 36524) - int (Suc n div 146096) \<ge>
        int n - int (n div 1460) + int (n div 36524) - int (n div 146096)"
      by (simp add: div_Suc)
    then show ?thesis by (simp only: less_leaps_def of_nat_div of_nat_numeral)
  qed
  have "?f (nat m) \<le> ?f (nat n)"
    by (rule lift_Suc_mono_le [of ?f, OF step]) (simp add: assms(2) nat_mono)
  with assms show ?thesis by simp
qed

lemma year_start_check:
  "\<forall>y \<in> set [0..399]. 365 * y \<le> less_leaps (year_start y) \<and>
     less_leaps (year_start (y + 1) - 1) < 365 * y + 365 \<and>
     0 \<le> year_start y \<and> year_start (y + 1) \<le> year_start y + 366"
  by code_simp

lemma year_start_ex:
  "0 \<le> n \<Longrightarrow> n < year_start (int k) \<Longrightarrow> \<exists>y. 0 \<le> y \<and> y < int k \<and> year_start y \<le> n \<and> n < year_start (y + 1)"
proof (induction k)
  case 0
  then show ?case by (simp add: year_start_def)
next
  case (Suc k)
  show ?case
  proof (cases "n < year_start (int k)")
    case True
    with Suc.IH Suc.prems(1) obtain y where "0 \<le> y" "y < int k" "year_start y \<le> n" "n < year_start (y + 1)"
      by blast
    then show ?thesis by (intro exI [of _ y]) simp
  next
    case False
    with Suc.prems show ?thesis by (intro exI [of _ "int k"]) (simp add: add.commute)
  qed
qed

lemma int_div_step:
  fixes y :: int
  assumes "0 < k"
  shows "(y + 1) div k = (if (y + 1) mod k = 0 then y div k + 1 else y div k)"
proof -
  define q r where "q = y div k" and "r = y mod k"
  have y: "y = k * q + r" and r: "0 \<le> r" "r < k" using assms by (simp_all add: q_def r_def)
  show ?thesis
  proof (cases "r = k - 1")
    case True
    with y have "y + 1 = (q + 1) * k" by (simp add: algebra_simps)
    then have "(y + 1) div k = q + 1" "(y + 1) mod k = 0" using assms by simp_all
    then show ?thesis by (simp add: q_def)
  next
    case False
    have "y + 1 = k * q + (r + 1)" using y by simp
    then have "(y + 1) div k = q" "(y + 1) mod k = r + 1"
      using r False by (auto intro: int_div_pos_eq int_mod_pos_eq)
    with r show ?thesis by (simp add: q_def)
  qed
qed

lemma year_of_days:
  assumes "0 \<le> n" and "n < 146097"
  shows "0 \<le> less_leaps n div 365" and "less_leaps n div 365 < 400"
    and "year_start (less_leaps n div 365) \<le> n" and "n \<le> year_start (less_leaps n div 365) + 365"
    and "n = year_start (less_leaps n div 365) + 365 \<Longrightarrow> (less_leaps n div 365 + 1) mod 4 = 0 \<and>
      ((less_leaps n div 365 + 1) mod 100 \<noteq> 0 \<or> less_leaps n div 365 = 399)"
proof -
  define y0 where "y0 = less_leaps n div 365"
  have "0 \<le> y0 \<and> y0 < 400 \<and> year_start y0 \<le> n \<and> n \<le> year_start y0 + 365 \<and>
    (n = year_start y0 + 365 \<longrightarrow> (y0 + 1) mod 4 = 0 \<and> ((y0 + 1) mod 100 \<noteq> 0 \<or> y0 = 399))"
  proof (cases "n = 146096")
    case True
    then show ?thesis by (simp add: y0_def less_leaps_def year_start_def)
  next
    case False
    have "year_start (int 400) = 146096" by (simp add: year_start_def)
    with False assms year_start_ex [of n 400] obtain y where y: "0 \<le> y" "y < 400" "year_start y \<le> n" "n < year_start (y + 1)"
      by auto
    have c: "365 * y \<le> less_leaps (year_start y)" "less_leaps (year_start (y + 1) - 1) < 365 * y + 365"
      "0 \<le> year_start y" "year_start (y + 1) \<le> year_start y + 366"
      using year_start_check y(1,2) by auto
    have "less_leaps (year_start y) \<le> less_leaps n" using c(3) y(3) by (rule less_leaps_mono)
    moreover have "less_leaps n \<le> less_leaps (year_start (y + 1) - 1)"
      using assms(1) y(4) by (intro less_leaps_mono) simp_all
    ultimately have "365 * y \<le> less_leaps n" "less_leaps n < 365 * y + 365" using c by linarith+
    then have "y0 = y" unfolding y0_def by (intro int_div_pos_eq [of _ _ _ "less_leaps n - 365 * y"]) simp_all
    moreover have "year_start (y + 1) = year_start y + 365 + of_bool ((y + 1) mod 4 = 0) - of_bool ((y + 1) mod 100 = 0)"
      unfolding year_start_def using int_div_step [of 4 y] int_div_step [of 100 y] by simp
    ultimately show ?thesis using y c(4) by auto
  qed
  then show "0 \<le> less_leaps n div 365" "less_leaps n div 365 < 400"
    "year_start (less_leaps n div 365) \<le> n" "n \<le> year_start (less_leaps n div 365) + 365"
    "n = year_start (less_leaps n div 365) + 365 \<Longrightarrow> (less_leaps n div 365 + 1) mod 4 = 0 \<and>
      ((less_leaps n div 365 + 1) mod 100 \<noteq> 0 \<or> less_leaps n div 365 = 399)"
    by (simp_all add: y0_def)
qed

subsection \<open>Dates\<close>

lemma month_of_day:
  fixes doy :: int
  assumes "0 \<le> doy" and "doy \<le> 365"
  defines "mp \<equiv> (5 * doy + 2) div 153"
  defines "d \<equiv> doy - (153 * mp + 2) div 5 + 1"
  shows "0 \<le> mp" "mp \<le> 11" "1 \<le> d" "d \<le> 31" "mp \<in> {1, 3, 6, 8} \<Longrightarrow> d \<le> 30"
    "mp = 11 \<Longrightarrow> d \<le> 29" "mp = 11 \<Longrightarrow> d = 29 \<Longrightarrow> doy = 365"
proof -
  show mp: "0 \<le> mp" "mp \<le> 11" using assms(1,2) unfolding mp_def by linarith+
  have q: "153 * mp \<le> 5 * doy + 2" "5 * doy + 2 < 153 * mp + 153" unfolding mp_def by linarith+
  have r: "5 * ((153 * mp + 2) div 5) \<le> 153 * mp + 2" "153 * mp + 2 < 5 * ((153 * mp + 2) div 5) + 5"
    by linarith+
  show "1 \<le> d" "d \<le> 31" using q r unfolding d_def by linarith+
  show "d \<le> 30" if "mp \<in> {1, 3, 6, 8}" using that q unfolding d_def by auto
  show "d \<le> 29" if "mp = 11" using that assms(2) unfolding d_def by simp
  show "doy = 365" if "mp = 11" "d = 29" using that unfolding d_def by simp
qed

lemma civil_date:
  assumes "civil_from_days z = (y, m, d)"
  shows "days_from_civil y m d = z" and "1 \<le> m" and "m \<le> 12" and "1 \<le> d" and "d \<le> days_in_month y m"
proof -
  define w where "w = z + 719468"
  define era where "era = w div 146097"
  define doe where "doe = w mod 146097"
  define yoe where "yoe = less_leaps doe div 365"
  define doy where "doy = doe - year_start yoe"
  define mp where "mp = (5 * doy + 2) div 153"
  have doe: "0 \<le> doe" "doe < 146097" by (simp_all add: doe_def)
  note yo = year_of_days [OF doe, folded yoe_def]
  have doy: "0 \<le> doy" "doy \<le> 365" using yo(3,4) by (simp_all add: doy_def)
  note mo = month_of_day [OF doy, folded mp_def]
  define m1 where "m1 = (if mp < 10 then mp + 3 else mp - 9)"
  have "civil_from_days z =
      (yoe + era * 400 + (if m1 \<le> 2 then 1 else 0), m1, doy - (153 * mp + 2) div 5 + 1)"
    unfolding civil_from_days_def Let_def m1_def mp_def doy_def yoe_def doe_def era_def w_def
      less_leaps_def year_start_def by (rule refl)
  then have "y = yoe + era * 400 + (if m1 \<le> 2 then 1 else 0)" "m = m1" "d = doy - (153 * mp + 2) div 5 + 1"
    using assms by auto
  then have eq: "d = doy - (153 * mp + 2) div 5 + 1" "m = (if mp < 10 then mp + 3 else mp - 9)"
    "y = yoe + era * 400 + (if m \<le> 2 then 1 else 0)"
    by (auto simp only: m1_def)
  show "1 \<le> m" "m \<le> 12" using mo(1,2) by (auto simp: eq(2))
  show "1 \<le> d" using mo(3) by (simp add: eq(1))
  have mp: "(if 2 < m then m - 3 else m + 9) = mp" using mo(1,2) by (auto simp: eq(2))
  have y1: "(if m \<le> 2 then y - 1 else y) = yoe + era * 400" by (simp add: eq(3))
  have "(yoe + era * 400) div 400 = era" "(yoe + era * 400) mod 400 = yoe" using yo(1,2) by simp_all
  then have "days_from_civil y m d = era * 146097 + (year_start yoe + doy) - 719468"
    unfolding days_from_civil_def Let_def mp y1 by (simp add: eq(1) year_start_def)
  also have "\<dots> = z" by (simp add: doy_def doe_def era_def w_def)
  finally show "days_from_civil y m d = z" .
  have leap: "doy = 365 \<Longrightarrow> (y mod 4 = 0 \<and> (y mod 100 \<noteq> 0 \<or> y mod 400 = 0))" if "m = 2"
  proof -
    assume "doy = 365"
    then have l: "(yoe + 1) mod 4 = 0" "(yoe + 1) mod 100 \<noteq> 0 \<or> yoe = 399"
      using yo(5) by (auto simp: doy_def)
    have y: "y = (yoe + 1) + 400 * era" using that by (simp add: eq(3))
    have "y mod 4 = (yoe + 1) mod 4" unfolding y
      using mod_mult_self1 [of "yoe + 1" "100 * era" 4] by (simp add: algebra_simps)
    moreover have "y mod 100 = (yoe + 1) mod 100" unfolding y
      using mod_mult_self1 [of "yoe + 1" "4 * era" 100] by (simp add: algebra_simps)
    moreover have "yoe = 399 \<Longrightarrow> y mod 400 = 0" unfolding y by simp
    ultimately show ?thesis using l by auto
  qed
  show "d \<le> days_in_month y m"
  proof (cases "m = 2")
    case True
    then have "mp = 11" using mo(1) by (auto simp: eq(2) split: if_splits)
    then have d: "d \<le> 29" "d = 29 \<Longrightarrow> doy = 365" using mo(6,7) unfolding eq(1) by blast+
    define l where "l \<longleftrightarrow> y mod 4 = 0 \<and> (y mod 100 \<noteq> 0 \<or> y mod 400 = 0)"
    have "days_in_month y m = (if l then 29 else 28)" by (simp add: days_in_month_def True l_def)
    moreover have "doy = 365 \<Longrightarrow> l" using leap [OF True] by (simp only: l_def)
    ultimately show ?thesis using d by (cases l; cases "d = 29") auto
  next
    case False
    have "m \<in> {4, 6, 9, 11} \<Longrightarrow> mp \<in> {1, 3, 6, 8}" using mo(2) by (auto simp: eq(2) split: if_splits)
    moreover have "d \<le> 31" "mp \<in> {1, 3, 6, 8} \<Longrightarrow> d \<le> 30" using mo(4,5) unfolding eq(1) by blast+
    ultimately show ?thesis using False by (simp add: days_in_month_def)
  qed
qed

subsection \<open>The round trip\<close>

definition representable :: "instant \<Rightarrow> bool" where
  \<comment> \<open>the years 1 to 9999 of \<open>datetime\<close>\<close>
  "representable t \<longleftrightarrow> (case civil_from_days (t div 86400000000) of (y, m, d) \<Rightarrow> 1 \<le> y \<and> y \<le> 9999)"

lemma expect_Cons [simp]: "expect c (c # r) = Some r"
  by (simp add: expect_def)

lemma field_padI: "0 \<le> n \<Longrightarrow> n < 10 ^ w \<Longrightarrow> s = pad w n @ r \<Longrightarrow> field w s = Some (n, r)"
  using field_pad by simp

lemma read_date_pad:
  assumes "civil_from_days z = (y, m, d)" and "1 \<le> y" and "y \<le> 9999"
  shows "read_date (pad 4 y @ ''-'' @ pad 2 m @ ''-'' @ pad 2 d @ r) = Some (z, r)"
proof -
  note c = civil_date [OF assms(1)]
  have "d \<le> 31" using c(5) by (auto simp: days_in_month_def split: if_splits)
  with assms c show ?thesis by (simp add: read_date_def field_pad)
qed

lemma read_clock_pad:
  assumes "0 \<le> x" and "x < 86400"
  shows "read_clock (pad 2 (x div 3600) @ '':'' @ pad 2 (x div 60 mod 60) @ '':'' @ pad 2 (x mod 60) @ r) = Some (x, r)"
proof -
  have "x div 60 = x div 3600 * 60 + x div 60 mod 60"
    using zdiv_zmult2_eq [of 60 x 60] by simp
  then have "(x div 3600 * 60 + x div 60 mod 60) * 60 + x mod 60 = x" by simp
  moreover have "0 \<le> x div 3600" "x div 3600 < 24" using assms by auto
  ultimately show ?thesis by (simp add: read_clock_def field_pad)
qed

lemma fromisoformat_isoformat:
  assumes "representable t"
  shows "fromisoformat (isoformat t) = Some (t, True)"
proof -
  obtain y m d where c: "civil_from_days (t div 86400000000) = (y, m, d)" by (cases "civil_from_days (t div 86400000000)")
  with assms have y: "1 \<le> y" "y \<le> 9999" by (simp_all add: representable_def)
  define us where "us = t mod 86400000000"
  define x where "x = us div 1000000"
  define f where "f = us mod 1000000"
  have us: "0 \<le> us" "us < 86400000000" by (simp_all add: us_def)
  then have x: "0 \<le> x" "x < 86400" and f: "0 \<le> f" "f < 1000000" by (auto simp: x_def f_def)
  have t: "t = (t div 86400000000 * 86400 + x) * 1000000 + f"
    using div_mult_mod_eq [of us 1000000] div_mult_mod_eq [of t 86400000000]
    by (simp add: x_def f_def us_def)
  have off: "read_offset ''+00:00'' = Some (Some 0)"
    by (simp add: read_offset_def field_def digit_val_def code_point_def expect_def)
  have "fromisoformat (isoformat t) = Some ((t div 86400000000 * 86400 + x) * 1000000 + f, True)"
    using read_date_pad [OF c y] read_clock_pad [OF x] off f
    by (simp add: fromisoformat_def isoformat_def Let_def c us_def [symmetric] x_def [symmetric]
        f_def [symmetric] read_fraction_def field_pad) (simp add: expect_def)
  then show ?thesis using t by simp
qed

subsection \<open>Identifiers\<close>

lemma uuid_hex_digit: "c \<in> set (uuid_hex u) \<Longrightarrow> digit_val 16 c \<noteq> None"
  using digits_in_digits [of 16] by (auto simp: uuid_hex_def)

lemma set_uuid_str: "set (uuid_str u) \<subseteq> set (uuid_hex u) \<union> {CHR ''-''}"
  by (auto simp: uuid_str_def Let_def dest!: in_set_takeD in_set_dropD)

lemma remove_sub_absent: "c \<notin> set s \<Longrightarrow> remove_sub (c # p) s = s"
  by (induction s) auto

lemma remove_sub_single: "remove_sub [c] s = filter (\<lambda>x. x \<noteq> c) s"
  by (induction s) auto

lemma strip_by_absent: "\<forall>c \<in> set s. \<not> p c \<Longrightarrow> strip_by p s = s"
proof -
  have d: "\<forall>c \<in> set t. \<not> p c \<Longrightarrow> dropWhile p t = t" for t
    by (cases t) auto
  show "\<forall>c \<in> set s. \<not> p c \<Longrightarrow> strip_by p s = s"
    using d [of s] d [of "rev s"] by (simp add: strip_by_def)
qed

lemma uuid_str_hex: "filter (\<lambda>x. x \<noteq> CHR ''-'') (uuid_str u) = uuid_hex u"
proof -
  have d: "c \<noteq> CHR ''-''" if "c \<in> set (uuid_hex u)" for c
    using uuid_hex_digit [OF that] by (auto simp: digit_val_def code_point_def)
  have "filter (\<lambda>x. x \<noteq> CHR ''-'') (take n (drop k (uuid_hex u))) = take n (drop k (uuid_hex u))" for n k
    using d by (auto simp: filter_id_conv dest!: in_set_takeD in_set_dropD)
  from this [of 8 0] this [of 4 8] this [of 4 12] this [of 4 16] this [of 12 20]
  have "filter (\<lambda>x. x \<noteq> CHR ''-'') (uuid_str u) =
    take 8 (uuid_hex u) @ take 4 (drop 8 (uuid_hex u)) @ take 4 (drop 12 (uuid_hex u)) @
    take 4 (drop 16 (uuid_hex u)) @ drop 20 (uuid_hex u)"
    by (simp add: uuid_str_def Let_def uuid_hex_def)
  also have "\<dots> = uuid_hex u"
    using append_take_drop_id [of 8 "uuid_hex u"] append_take_drop_id [of 4 "drop 8 (uuid_hex u)"]
      append_take_drop_id [of 4 "drop 12 (uuid_hex u)"] append_take_drop_id [of 4 "drop 16 (uuid_hex u)"]
    by (simp del: append_take_drop_id)
  finally show ?thesis .
qed

lemma int_of_text_hex:
  assumes "length h = Suc n" and "\<forall>c \<in> set h. digit_val 16 c \<noteq> None"
  shows "int_of_text 16 h = map_option int (digits_val 16 0 True h)"
proof -
  have no: "\<not> is_space c" "c \<noteq> CHR ''-''" "c \<noteq> CHR ''+''" "c \<noteq> CHR ''x''" "c \<noteq> CHR ''X''"
    if "c \<in> set h" for c
    using assms(2) that by (auto simp: digit_val_def code_point_def is_space_def Let_def split: if_splits)
  obtain c r where h: "h = c # r" using assms(1) by (cases h) auto
  have st: "strip h = h" using no by (intro strip_by_absent) auto
  have x: "\<not> (take 2 h = ''0x'' \<or> take 2 h = ''0X'')"
    using no by (cases r) (auto simp: h numeral_2_eq_2)
  have "digits_val 16 0 False h = digits_val 16 0 True h"
    using assms(2) by (auto simp: h split: option.splits)
  with x have "unsigned_val 16 h = digits_val 16 0 True h" by (simp add: unsigned_val_def)
  moreover have "c \<noteq> CHR ''-''" "c \<noteq> CHR ''+''" using no by (auto simp: h)
  ultimately show ?thesis
    unfolding int_of_text_def st Let_def by (simp add: h)
qed

lemma uuid_of_text_uuid_str:
  assumes "u < 2 ^ 128"
  shows "uuid_of_text (uuid_str u) = Some u"
proof -
  have no: "CHR ''u'' \<notin> set (uuid_str u)" "\<forall>c \<in> set (uuid_str u). c \<notin> {CHR ''{'', CHR ''}''}"
    using set_uuid_str [of u] uuid_hex_digit [of _ u] by (force simp: digit_val_def code_point_def)+
  have h: "remove_sub ''-'' (strip_by (\<lambda>c. c \<in> {CHR ''{'', CHR ''}''})
            (remove_sub ''uuid:'' (remove_sub ''urn:'' (uuid_str u)))) = uuid_hex u"
    using no by (simp add: remove_sub_absent strip_by_absent remove_sub_single uuid_str_hex)
  have "digits_val 16 0 True (uuid_hex u) = Some (u mod 16 ^ 32)"
    unfolding uuid_hex_def by (rule digits_val_digits_in) simp_all
  moreover have "u mod 16 ^ 32 = u" using assms by simp
  ultimately have "int_of_text 16 (uuid_hex u) = Some (int u)"
    using int_of_text_hex [of "uuid_hex u" 31] uuid_hex_digit by (simp add: uuid_hex_def)
  moreover have "int u < 2 ^ 128" using assms by (metis of_nat_less_numeral_power_cancel_iff)
  ultimately show ?thesis
    unfolding uuid_of_text_def h by (simp add: uuid_hex_def [of u])
qed

end
