(* ===== verification/Sandbox_Safety.thy ===== *)
theory Sandbox_Safety
  imports Sandbox_Policy Calendar
begin

section \<open>Safety of activation\<close>

text \<open>
  What the decisions of \<open>Sandbox_Policy\<close> guarantee: activation is fail-closed, and it never raises on
  the payloads and workers the control plane builds. One elimination lemma per decision carries the
  proofs.
\<close>

lemma as_strs_Some: "as_strs v = Some xs \<Longrightarrow> v = jstrs xs"
proof -
  assume "as_strs v = Some xs"
  then obtain ys where v: "v = JList ys" "list_all is_str ys" "xs = map py_str ys"
    by (auto simp: as_strs_def split: json.splits if_splits)
  have "map (\<lambda>y. JStr (py_str y)) ys = ys"
    using v(2) by (auto simp: list_all_iff is_str_def py_str_def split: json.splits intro!: map_idI)
  then show ?thesis using v by (simp add: jstrs_def comp_def)
qed

lemma as_dict_Some: "as_dict v = Some d \<longleftrightarrow> v = JDict d"
  by (auto simp: as_dict_def split: json.splits)

lemma bound_egress_policy_cases:
  assumes "bound_egress_policy st idna sha256 ref = Inr (Some (stored, d))"
  obtains receipt hosts methods p where
    "dget ref ''project_egress_policy'' = JDict stored" "receipt_ok sha256 receipt"
    "dget stored ''allowed_hosts'' = jstrs hosts" "dget stored ''allowed_methods'' = jstrs methods"
    "runtime_envelope_ok st stored hosts methods"
    "validate_egress_policy idna sha256 hosts methods
       (int_field stored ''max_requests'') (int_field stored ''max_response_bytes'')
       (int_field stored ''max_total_bytes'') (int_field stored ''max_redirects'')
       (int_field stored ''connect_timeout_seconds'') (int_field stored ''request_timeout_seconds'') = Inr p"
    "vp_allowed_hosts p = hosts" "d = py_str (dget receipt ''binding_digest'')"
proof -
  from assms obtain receipt hosts methods where 1:
    "as_dict (dget ref ''project_egress_policy'') = Some stored"
    "as_strs (dget stored ''allowed_hosts'') = Some hosts"
    "as_strs (dget stored ''allowed_methods'') = Some methods"
    "receipt_ok sha256 receipt" "runtime_envelope_ok st stored hosts methods"
    and 2: "\<exists>p. validate_egress_policy idna sha256 hosts methods
       (int_field stored ''max_requests'') (int_field stored ''max_response_bytes'')
       (int_field stored ''max_total_bytes'') (int_field stored ''max_redirects'')
       (int_field stored ''connect_timeout_seconds'') (int_field stored ''request_timeout_seconds'') = Inr p \<and>
       vp_allowed_hosts p = hosts \<and> d = py_str (dget receipt ''binding_digest'')"
    unfolding bound_egress_policy_def Let_def
    by (simp split: if_split_asm option.split_asm sum.split_asm)
  from 2 obtain p where "validate_egress_policy idna sha256 hosts methods
       (int_field stored ''max_requests'') (int_field stored ''max_response_bytes'')
       (int_field stored ''max_total_bytes'') (int_field stored ''max_redirects'')
       (int_field stored ''connect_timeout_seconds'') (int_field stored ''request_timeout_seconds'') = Inr p"
    "vp_allowed_hosts p = hosts" "d = py_str (dget receipt ''binding_digest'')" by blast
  with 1 show thesis using that [of receipt hosts methods p] as_strs_Some as_dict_Some by simp
qed

lemma requested_runtime_cases:
  assumes "requested_runtime st idna sha256 payload caps = Some r"
  obtains bound where
    "bound_egress_policy st idna sha256 (input_reference_of payload) = Inr bound"
    "bound \<noteq> None \<longrightarrow> rt_network r = ''web-egress''"
    "rt_effective_egress_policy r = (case bound of None \<Rightarrow> egress_policy_payload st | Some (stored, _) \<Rightarrow> stored)"
    "rt_project_binding_digest r = map_option snd bound"
    "rt_network r = ''none'' \<or> rt_network r = ''web-egress''"
    "rt_network r = ''web-egress'' \<longrightarrow> st_canary_web_egress_enabled st"
    "rt_egress_policy_digest r = (if rt_network r = ''web-egress''
      then Some (canonical_fingerprint sha256 (JDict (rt_effective_egress_policy r))) else None)"
    "rt_queue_dataset r = (rt_queue r \<and> rt_dataset r)" "rt_queue_kv r = (rt_queue r \<and> rt_kv r)"
    "rt_queue_browser r = (rt_queue r \<and> rt_network r = ''web-egress'' \<and> rt_browser r)"
    "rt_queue_http r = (rt_queue r \<and> rt_network r = ''web-egress'' \<and> \<not> rt_browser r)"
    "rt_browser_policy_digest r = (if rt_browser r
      then Some (canonical_fingerprint sha256 (JDict (browser_policy_payload st))) else None)"
    "rt_kv r \<longrightarrow> get_str payload ''work_kind'' = ''RUN_START''"
proof -
  from assms obtain bound where
    b: "bound_egress_policy st idna sha256 (input_reference_of payload) = Inr bound"
    by (auto simp: requested_runtime_def Let_def bind_eq_Some_conv split: sum.split_asm)
  note r = assms [unfolded requested_runtime_def Let_def bind_eq_Some_conv refuse_unless_Some, simplified b, simplified]
  show thesis
    apply (rule that [OF b])
    using r by (elim exE conjE; hypsubst; simp)+
qed


lemma runtime_gate_cases:
  assumes "runtime_gate st idna sha256 worker payload caps = Some r"
  shows "requested_runtime st idna sha256 payload caps = Some r"
    and "\<not> (rt_dataset r \<and> rt_kv r)"
    and "rt_dataset r \<longrightarrow> st_canary_dataset_writes_enabled st"
    and "rt_queue r \<longrightarrow> st_canary_request_queue_enabled st"
    and "rt_kv r \<longrightarrow> st_canary_key_value_store_enabled st"
proof -
  have kv: "st_canary_key_value_store_enabled st"
    if "key_value_store_capability st sha256 worker payload b c \<noteq> None" for b c
    using that by (rule contrapos_np) (simp add: key_value_store_capability_def refuse_unless_def)
  note g = assms [unfolded runtime_gate_def Let_def bind_eq_Some_conv refuse_unless_Some, simplified]
  show req: "requested_runtime st idna sha256 payload caps = Some r" using g by blast
  have "rt_kv r \<longrightarrow> get_str payload ''work_kind'' = ''RUN_START''"
    using req by (rule requested_runtime_cases) blast
  then show "\<not> (rt_dataset r \<and> rt_kv r)" using g by blast
  show "rt_dataset r \<longrightarrow> st_canary_dataset_writes_enabled st" using g by blast
  show "rt_queue r \<longrightarrow> st_canary_request_queue_enabled st"
    using g by (auto simp: queue_runtime_allowed_def)
  show "rt_kv r \<longrightarrow> st_canary_key_value_store_enabled st" using g kv by blast
qed

lemma activation_request_cases:
  assumes "activation_request st idna sha256 worker payload = Some (r, b)"
  obtains manifest caps resources where
    "dget payload ''manifest'' = JDict manifest" "map_of manifest ''secrets'' \<in> {None, Some (JList [])}"
    "dget manifest ''resources'' = JDict resources"
    "within_canary_resources st resources (get_str payload ''work_kind'')"
    "runtime_gate st idna sha256 worker payload caps = Some r"
    "activation_browser_digest st sha256 payload r = Some b"
    "st_sandbox_execution_enabled st" "st_activation_mode st = ''canary''"
    "wo_name worker = canary_worker st" "wo_max_concurrency worker = 1"
    "get_str payload ''agent_version_id'' = canary_version st"
  using assms
  by (auto simp: activation_request_def Let_def bind_eq_Some_conv as_dict_Some)

lemma activation_browser_digest_cases:
  assumes "activation_browser_digest st sha256 payload r = Some b"
    and "rt_browser_policy_digest r = (if rt_browser r
      then Some (canonical_fingerprint sha256 (JDict (browser_policy_payload st))) else None)"
  shows "b = rt_browser_policy_digest r \<and> (rt_browser r \<longrightarrow> st_canary_browser_enabled st \<and> rt_network r = ''web-egress'')"
  using assms by (auto simp: activation_browser_digest_def Let_def bind_eq_Some_conv split: if_split_asm)

lemma activation_receipt_valid:
  assumes "activation_request st idna sha256 worker payload = Some (r, b)"
  shows "validate_capability_receipt (activation_of st sha256 policy r b v)"
proof -
  from assms obtain caps where g: "runtime_gate st idna sha256 worker payload caps = Some r"
    and b: "activation_browser_digest st sha256 payload r = Some b"
    by (rule activation_request_cases) blast
  from runtime_gate_cases(1) [OF g] show ?thesis
  proof (rule requested_runtime_cases, goal_cases)
    case (1 bound)
    note f = this
    from activation_browser_digest_cases [OF b f(12)] have
      "b = rt_browser_policy_digest r" "rt_browser r \<longrightarrow> rt_network r = ''web-egress''" by auto
    with f(2,4-12) show ?thesis
      by (cases bound) (simp_all add: validate_capability_receipt_def activation_of_def)
  qed
qed


definition resource_within :: "dict \<Rightarrow> string \<Rightarrow> int \<Rightarrow> bool" where
  "resource_within resources k ceiling \<longleftrightarrow> (\<exists>v n. map_of resources k = Some v \<and> py_int v = Some n \<and> n \<le> ceiling)"

lemma within_canary_resources_iff:
  "within_canary_resources st resources wk \<longleftrightarrow>
     resource_within resources ''memoryMb'' (st_canary_max_memory_mb st) \<and>
     resource_within resources ''cpuUnits'' (st_canary_max_cpu_millis st) \<and>
     resource_within resources ''maxProcesses'' (st_canary_max_pids st) \<and>
     resource_within resources ''ephemeralDiskMb'' (st_canary_max_ephemeral_disk_mb st) \<and>
     resource_within resources ''timeoutSeconds'' (if wk = ''BUILD''
       then st_canary_max_build_seconds st else st_canary_max_run_seconds st)"
proof -
  have "(case Option.bind (map_of resources k) py_int of None \<Rightarrow> False | Some n \<Rightarrow> n \<le> c) \<longleftrightarrow>
    resource_within resources k c" for k c
    by (auto simp: resource_within_def bind_eq_Some_conv split: option.split)
  then show ?thesis by (simp add: within_canary_resources_def)
qed


text \<open>
  C9: Activating a claim never raises. With SHA-256 producing 64 hexadecimal digits, for a worker whose
  name passed registration and whose attestation was recorded, and for the payload of a real agent
  version, the activation that the claim policy leads to is refused or granted; the receipts it builds
  always satisfy \<open>SandboxActivation\<close>'s own validator.
\<close>

theorem canary_activation_total:
  assumes "\<And>s. digest_text (sha256 s)" and "worker_name_text (wo_name worker)"
    and "wo_sandbox_attestation_digest worker = Some (sandbox_digest sha256 att)"
    and "get_str payload ''agent_version_id'' = uuid_str u" and "u < 2 ^ 128"
    and "sandbox_claim_policy st idna sha256 worker payload = Inr policy"
  shows "\<exists>x. canary_activation st idna sha256 worker payload policy = Inr x"
proof (cases "policy = None \<or> activation_request st idna sha256 worker payload = None")
  case True
  then show ?thesis by (auto simp: canary_activation_def split: option.split)
next
  case False
  then obtain p r b where p: "policy = Some p" and req: "activation_request st idna sha256 worker payload = Some (r, b)"
    by auto
  from assms(6) p have att: "py_str (dget p ''attestation_digest'') = sandbox_digest sha256 att"
    by (auto simp: sandbox_claim_policy_def bind_result_Inr_iff assms(3) claim_policy_dict_def dget_def py_str_def
        split: option.split_asm if_split_asm)
  from req obtain caps where g: "runtime_gate st idna sha256 worker payload caps = Some r"
    and b: "activation_browser_digest st sha256 payload r = Some b"
    and w: "wo_name worker = canary_worker st" and v: "get_str payload ''agent_version_id'' = canary_version st"
    by (rule activation_request_cases) blast
  have fp: "digest_text (canonical_fingerprint sha256 x)" for x by (simp add: canonical_fingerprint_def assms(1))
  have "activation_fields_ok (activation_of st sha256 p r b u)"
    using runtime_gate_cases(1) [OF g]
  proof (rule requested_runtime_cases, goal_cases)
    case (1 bound)
    note q = this
    have "pred_option digest_text (rt_project_binding_digest r)"
    proof (cases bound)
      case (Some sd)
      obtain stored d where "sd = (stored, d)" by (cases sd)
      with Some q(1) have "\<exists>receipt. receipt_ok sha256 receipt \<and> d = py_str (dget receipt ''binding_digest'')"
        using bound_egress_policy_cases [of st idna sha256 "input_reference_of payload" stored d] by metis
      then have "digest_text d" using fp by (auto simp: receipt_ok_def py_str_def)
      with q(4) Some \<open>sd = (stored, d)\<close> show ?thesis by simp
    qed (use q(4) in simp)
    moreover have "b = rt_browser_policy_digest r" using activation_browser_digest_cases [OF b q(12)] by simp
    ultimately show ?thesis
      using q(7,12) w assms(2) att fp
      by (simp add: activation_fields_ok_def activation_of_def sandbox_digest_def)
  qed
  moreover have "uuid_of_text (canary_version st) = Some u"
    using v assms(4,5) uuid_of_text_uuid_str [of u] by simp
  ultimately show ?thesis
    using p req activation_receipt_valid [OF req] by (simp add: canary_activation_def Let_def)
qed


subsection \<open>A sample claim\<close>

definition ex_canary :: canary_settings where
  "ex_canary =
     \<lparr>st_worker_lease_seconds = 60, st_worker_lease_max_seconds = 300, st_worker_max_attempts = 5,
      st_worker_retry_base_seconds = 5, st_worker_retry_max_seconds = 300,
      st_worker_cancel_convergence_seconds = 300, st_worker_registration_max_concurrency = 16,
      st_worker_lost_after_seconds = 45, st_sandbox_max_build_seconds = 900,
      st_sandbox_max_run_seconds = 600, st_sandbox_execution_enabled = True,
      st_sandbox_required_profile = ''rdc.sandbox/v1'', st_sandbox_max_memory_mb = 4096,
      st_sandbox_max_cpu_millis = 4000, st_sandbox_max_pids = 512,
      st_sandbox_max_ephemeral_disk_mb = 8192, st_sandbox_max_output_bytes = 16777216,
      st_sandbox_artifact_max_bytes = 8589934592, st_activation_mode = ''canary'',
      st_canary_agent_version_id = uuid_str 7, st_canary_worker_name = ''canary-1'',
      st_canary_max_memory_mb = 256, st_canary_max_cpu_millis = 500, st_canary_max_pids = 64,
      st_canary_max_ephemeral_disk_mb = 256, st_canary_max_build_seconds = 300,
      st_canary_max_run_seconds = 120, st_canary_web_egress_enabled = True,
      st_canary_web_egress_allowed_hosts = [''a.com'', ''b.org''],
      st_canary_web_egress_max_requests = 8, st_canary_web_egress_max_response_bytes = 1048576,
      st_canary_web_egress_max_total_bytes = 4194304, st_canary_web_egress_max_redirects = 3,
      st_canary_web_egress_connect_timeout_seconds = 5,
      st_canary_web_egress_request_timeout_seconds = 15, st_canary_browser_enabled = False,
      st_canary_browser_live_navigation_enabled = False, st_canary_dataset_writes_enabled = True,
      st_canary_key_value_store_enabled = False, st_canary_request_queue_enabled = False,
      st_canary_request_queue_http_enabled = False, st_canary_request_queue_browser_enabled = False,
      st_canary_request_queue_dataset_enabled = False,
      st_canary_request_queue_key_value_store_enabled = False, st_canary_browser_max_pages = 1,
      st_canary_browser_max_actions = 8, st_canary_browser_navigation_timeout_seconds = 15,
      st_canary_browser_max_dom_bytes = 2097152, st_canary_browser_max_screenshot_bytes = 2097152\<rparr>"

definition ex_sha :: "string \<Rightarrow> string" where
  "ex_sha s = replicate 64 (CHR ''0'')"

definition ex_attestation :: sandbox_attestation where
  "ex_attestation = \<lparr>at_schema_version = ''rdc.sandbox/v1'', at_apparmor_profile = ''rdc'',
     at_max_memory_mb = 256, at_max_cpu_millis = 500, at_max_pids = 64, at_max_ephemeral_disk_mb = 256,
     at_max_build_seconds = 300, at_max_run_seconds = 120\<rparr>"

definition ex_canary_worker :: worker where
  "ex_canary_worker = apply_sandbox_attestation ex_canary ex_sha 0 (Some ex_attestation)
     \<lparr>wo_id = 1, wo_name = ''canary-1'', wo_public_prefix = ''rdcw'', wo_last_four = ''abcd'',
      wo_token_digest = [], wo_capabilities = [''RUN'', ''DATASET_APPEND''], wo_max_concurrency = 1,
      wo_status = Ws_ACTIVE, wo_protocol_version = ''rdc.worker/v1'', wo_software_version = ''1'',
      wo_metadata_json = [], wo_sandbox_profile = None, wo_sandbox_attestation_digest = None,
      wo_sandbox_execution_enabled = False, wo_sandbox_attested_at = None, wo_registered_at = 0,
      wo_last_seen_at = None, wo_last_lost_at = None, wo_last_recovered_at = None,
      wo_last_cleanup_at = None, wo_cleanup_generation = 0, wo_expires_at = None, wo_revoked_at = None\<rparr>"

definition ex_payload :: dict where
  "ex_payload =
     [(''work_kind'', JStr ''RUN_START''), (''agent_version_id'', JStr (uuid_str 7)),
      (''run_id'', JStr (uuid_str 9)), (''artifact'', JDict []), (''input_reference'', JDict []),
      (''manifest'', JDict
        [(''capabilities'', JDict [(''network'', JStr ''web-egress''), (''browser'', JBool False),
            (''dataset'', JBool True), (''keyValueStore'', JBool False), (''requestQueue'', JBool False)]),
         (''resources'', JDict [(''memoryMb'', JInt 256), (''cpuUnits'', JInt 500),
            (''maxProcesses'', JInt 64), (''ephemeralDiskMb'', JInt 256), (''timeoutSeconds'', JInt 120)])])]"

lemmas ex_canary_defs = ex_canary_def ex_canary_worker_def ex_payload_def ex_attestation_def
  apply_sandbox_attestation_def sandbox_attestation_allowed_def canary_worker_def canary_version_def

lemma strip_uuid_7 [simp]: "strip (uuid_str 7) = uuid_str 7" "strip ''canary-1'' = ''canary-1''" "uuid_str 7 \<noteq> []"
  by code_simp+

lemma ex_gate: "activation_request ex_canary idna ex_sha ex_canary_worker ex_payload \<noteq> None"
  by (simp add: activation_request_def runtime_gate_def requested_runtime_def ex_canary_defs dget_def
    get_str_def py_str_def as_dict_def as_bool_def input_reference_of_def bound_egress_policy_def Let_def
    refuse_unless_def activation_browser_digest_def within_canary_resources_def)


lemma ex_claim_policy: "\<exists>p. sandbox_claim_policy ex_canary idna ex_sha ex_canary_worker ex_payload = Inr (Some p)"
  by (simp add: sandbox_claim_policy_def runtime_gate_def requested_runtime_def ex_canary_defs dget_def
    get_str_def py_str_def as_dict_def as_bool_def input_reference_of_def bound_egress_policy_def Let_def
    refuse_unless_def int_or_def)

lemma ex_digest: "digest_text (ex_sha s)"
  by (simp add: ex_sha_def digest_text_def list_all_iff) code_simp

lemma ex_worker_name: "worker_name_text (wo_name ex_canary_worker)"
proof -
  have "worker_name_text ''canary-1''" by code_simp
  then show ?thesis by (simp add: ex_canary_worker_def apply_sandbox_attestation_def)
qed

theorem canary_activation_total_witness:
  "\<exists>p x. sandbox_claim_policy ex_canary (\<lambda>_. None) ex_sha ex_canary_worker ex_payload = Inr (Some p) \<and>
     canary_activation ex_canary (\<lambda>_. None) ex_sha ex_canary_worker ex_payload (Some p) = Inr x"
proof -
  obtain p where p: "sandbox_claim_policy ex_canary (\<lambda>_. None) ex_sha ex_canary_worker ex_payload = Inr (Some p)"
    using ex_claim_policy by blast
  have "wo_sandbox_attestation_digest ex_canary_worker = Some (sandbox_digest ex_sha ex_attestation)"
    by (simp add: ex_canary_worker_def apply_sandbox_attestation_def)
  moreover have "get_str ex_payload ''agent_version_id'' = uuid_str 7"
    by (simp add: ex_payload_def get_str_def py_str_def)
  ultimately show ?thesis
    using canary_activation_total [OF ex_digest ex_worker_name _ _ _ p] p by fastforce
qed


end
