(* ===== verification/Egress_Service.thy ===== *)
theory Egress_Service
  imports Egress_Policy
begin

section \<open>Egress policies of a project\<close>

text \<open>
  \<open>services/egress_policies.py\<close> on the tables \<open>control.egress_policies\<close>, \<open>egress_policy_revisions\<close>,
  \<open>security.project_secrets\<close> and \<open>idempotency_records\<close>: creating a policy with its first revision,
  adding a revision, activating and disabling. Revisions are immutable; the policy row carries the
  selected revision and an optimistic version. The advisory lock on the idempotency key serialises
  the transactions of one key, which are atomic here anyway.

  The routes load the policy before they call the service. The service's \<open>SELECT ... FOR UPDATE\<close> does
  not ask for \<open>populate_existing\<close>, so it returns that object with the columns it was loaded with, and
  the flush writes the columns that differ from the loaded ones. \<open>held\<close> is the copy the session holds
  before the call, if any; \<open>flush_policy\<close> is the flush.
\<close>

subsection \<open>Tables\<close>

datatype egress_status = Ep_DRAFT | Ep_ACTIVE | Ep_DISABLED

fun egress_status_str :: "egress_status \<Rightarrow> string" where
  "egress_status_str Ep_DRAFT = ''DRAFT''"
| "egress_status_str Ep_ACTIVE = ''ACTIVE''"
| "egress_status_str Ep_DISABLED = ''DISABLED''"

record egress_policy =
  ep_id :: uuid
  ep_organization_id :: uuid
  ep_project_id :: uuid
  ep_name :: string
  ep_status :: egress_status
  ep_active_revision_id :: "uuid option"
  ep_activated_at :: "instant option"
  ep_disabled_at :: "instant option"
  ep_created_by_user_id :: uuid
  ep_created_at :: instant
  ep_updated_at :: instant
  ep_version :: int

record egress_revision =
  er_id :: uuid
  er_organization_id :: uuid
  er_project_id :: uuid
  er_policy_id :: uuid
  er_revision_number :: int
  er_allowed_hosts :: "string list"
  er_allowed_methods :: "string list"
  er_max_requests :: int
  er_max_response_bytes :: int
  er_max_total_bytes :: int
  er_max_redirects :: int
  er_connect_timeout_seconds :: int
  er_request_timeout_seconds :: int
  er_credential_secret_id :: "uuid option"
  er_policy_digest :: string
  er_created_by_user_id :: uuid
  er_created_at :: instant

text \<open>The columns of \<open>security.project_secrets\<close> the service reads, and \<open>models.py: IdempotencyRecord\<close>.\<close>

record secret_ref =
  sr_id :: uuid
  sr_organization_id :: uuid
  sr_project_id :: uuid

record egress_idempotency =
  ei_organization_id :: uuid
  ei_principal_id :: string
  ei_endpoint :: string
  ei_key_digest :: string
  ei_request_fingerprint :: string
  ei_resource_type :: string
  ei_resource_id :: string
  ei_response_status :: int
  ei_response_snapshot :: "dict option"
  ei_created_at :: instant
  ei_expires_at :: instant

record egress_db = session +
  egress_policies :: "egress_policy list"
  egress_revisions :: "egress_revision list"
  secret_refs :: "secret_ref list"
  egress_idempotency :: "egress_idempotency list"

subsection \<open>Requests and responses\<close>

record egress_spec =
  es_allowed_hosts :: "string list"
  es_allowed_methods :: "string list"
  es_max_requests :: int
  es_max_response_bytes :: int
  es_max_total_bytes :: int
  es_max_redirects :: int
  es_connect_timeout_seconds :: int
  es_request_timeout_seconds :: int
  es_credential_secret_id :: "uuid option"

definition egress_spec_ok :: "egress_spec \<Rightarrow> bool" where
  \<comment> \<open>the field constraints of \<open>EgressPolicySpec\<close>\<close>
  "egress_spec_ok p \<longleftrightarrow>
     1 \<le> length (es_allowed_hosts p) \<and> length (es_allowed_hosts p) \<le> 64 \<and>
     1 \<le> length (es_allowed_methods p) \<and> length (es_allowed_methods p) \<le> 2 \<and>
     set (es_allowed_methods p) \<subseteq> {''GET'', ''HEAD''} \<and>
     1 \<le> es_max_requests p \<and> es_max_requests p \<le> 64 \<and>
     65536 \<le> es_max_response_bytes p \<and> es_max_response_bytes p \<le> 8388608 \<and>
     65536 \<le> es_max_total_bytes p \<and> es_max_total_bytes p \<le> 33554432 \<and>
     0 \<le> es_max_redirects p \<and> es_max_redirects p \<le> 5 \<and>
     1 \<le> es_connect_timeout_seconds p \<and> es_connect_timeout_seconds p \<le> 10 \<and>
     1 \<le> es_request_timeout_seconds p \<and> es_request_timeout_seconds p \<le> 30"

definition jutc :: "instant \<Rightarrow> json" where
  \<comment> \<open>pydantic's JSON image of a UTC instant: ISO format with \<open>Z\<close> for the offset\<close>
  "jutc t = JStr (take (length (isoformat t) - 6) (isoformat t) @ ''Z'')"

definition policy_summary :: "egress_policy \<Rightarrow> dict" where
  "policy_summary p =
     [(''id'', juuid (ep_id p)), (''organization_id'', juuid (ep_organization_id p)),
      (''project_id'', juuid (ep_project_id p)), (''name'', JStr (ep_name p)),
      (''status'', JStr (egress_status_str (ep_status p))),
      (''active_revision_id'', jopt juuid (ep_active_revision_id p)),
      (''activated_at'', jopt jutc (ep_activated_at p)), (''disabled_at'', jopt jutc (ep_disabled_at p)),
      (''created_by_user_id'', juuid (ep_created_by_user_id p)), (''created_at'', jutc (ep_created_at p)),
      (''updated_at'', jutc (ep_updated_at p)), (''version'', JInt (ep_version p))]"

definition revision_summary :: "egress_revision \<Rightarrow> dict" where
  "revision_summary v =
     [(''id'', juuid (er_id v)), (''policy_id'', juuid (er_policy_id v)),
      (''revision_number'', JInt (er_revision_number v)), (''allowed_hosts'', jstrs (er_allowed_hosts v)),
      (''allowed_methods'', jstrs (er_allowed_methods v)), (''max_requests'', JInt (er_max_requests v)),
      (''max_response_bytes'', JInt (er_max_response_bytes v)),
      (''max_total_bytes'', JInt (er_max_total_bytes v)), (''max_redirects'', JInt (er_max_redirects v)),
      (''connect_timeout_seconds'', JInt (er_connect_timeout_seconds v)),
      (''request_timeout_seconds'', JInt (er_request_timeout_seconds v)),
      (''credential_configured'', JBool (er_credential_secret_id v \<noteq> None)),
      (''policy_digest'', JStr (er_policy_digest v)),
      (''created_by_user_id'', juuid (er_created_by_user_id v)), (''created_at'', jutc (er_created_at v))]"

definition validated_spec ::
  "(string \<Rightarrow> string option) \<Rightarrow> (string \<Rightarrow> string) \<Rightarrow> egress_spec \<Rightarrow> validated_egress_policy result" where
  "validated_spec idna sha256 p =
     (case validate_egress_policy idna sha256 (es_allowed_hosts p) (es_allowed_methods p)
        (es_max_requests p) (es_max_response_bytes p) (es_max_total_bytes p) (es_max_redirects p)
        (es_connect_timeout_seconds p) (es_request_timeout_seconds p) of
        Inl _ \<Rightarrow> Inl (ApiError 422 ''EGRESS_POLICY_INVALID'') | Inr v \<Rightarrow> Inr v)"

definition validate_credential ::
  "uuid option \<Rightarrow> uuid \<Rightarrow> uuid \<Rightarrow> 'a egress_db_scheme \<Rightarrow> unit result" where
  "validate_credential credential organization_id project_id s =
     (case credential of None \<Rightarrow> Inr ()
      | Some i \<Rightarrow> guard (\<exists>r \<in> set (secret_refs s). sr_id r = i \<and> sr_organization_id r = organization_id \<and>
          sr_project_id r = project_id) (ApiError 404 ''RESOURCE_NOT_FOUND''))"

definition new_revision ::
  "instant \<Rightarrow> uuid \<Rightarrow> egress_policy \<Rightarrow> int \<Rightarrow> uuid \<Rightarrow> validated_egress_policy \<Rightarrow> uuid option \<Rightarrow> egress_revision" where
  "new_revision now i p revision_number user_id v credential =
     \<lparr>er_id = i, er_organization_id = ep_organization_id p, er_project_id = ep_project_id p,
      er_policy_id = ep_id p, er_revision_number = revision_number,
      er_allowed_hosts = vp_allowed_hosts v, er_allowed_methods = vp_allowed_methods v,
      er_max_requests = vp_max_requests v, er_max_response_bytes = vp_max_response_bytes v,
      er_max_total_bytes = vp_max_total_bytes v, er_max_redirects = vp_max_redirects v,
      er_connect_timeout_seconds = vp_connect_timeout_seconds v,
      er_request_timeout_seconds = vp_request_timeout_seconds v, er_credential_secret_id = credential,
      er_policy_digest = vp_policy_digest v, er_created_by_user_id = user_id, er_created_at = now\<rparr>"

definition validate_revision ::
  "(string \<Rightarrow> string option) \<Rightarrow> (string \<Rightarrow> string) \<Rightarrow> egress_revision \<Rightarrow> validated_egress_policy result" where
  "validate_revision idna sha256 v = validate_egress_policy idna sha256 (er_allowed_hosts v)
     (er_allowed_methods v) (er_max_requests v) (er_max_response_bytes v) (er_max_total_bytes v)
     (er_max_redirects v) (er_connect_timeout_seconds v) (er_request_timeout_seconds v)"

subsection \<open>Operations\<close>

record project_ref =
  pf_id :: uuid
  pf_organization_id :: uuid

record create_egress_args =
  ca_project :: project_ref
  ca_user_id :: uuid
  ca_actor_type :: string
  ca_actor_id :: string
  ca_idempotency_key :: string
  ca_name :: string
  ca_spec :: egress_spec

definition egress_endpoint :: string where
  "egress_endpoint = ''POST:/api/v1/projects/{project_id}/egress-policies''"

definition egress_fingerprint :: "(string \<Rightarrow> string) \<Rightarrow> create_egress_args \<Rightarrow> validated_egress_policy \<Rightarrow> string" where
  "egress_fingerprint sha256 a v = canonical_fingerprint sha256 (JDict
     [(''project_id'', juuid (pf_id (ca_project a))), (''name'', JStr (ca_name a)),
      (''policy_digest'', JStr (vp_policy_digest v)),
      (''credential_secret_id'', jopt juuid (es_credential_secret_id (ca_spec a)))])"

definition new_policy :: "instant \<Rightarrow> uuid \<Rightarrow> create_egress_args \<Rightarrow> egress_policy" where
  "new_policy now i a =
     \<lparr>ep_id = i, ep_organization_id = pf_organization_id (ca_project a), ep_project_id = pf_id (ca_project a),
      ep_name = ca_name a, ep_status = Ep_DRAFT, ep_active_revision_id = None, ep_activated_at = None,
      ep_disabled_at = None, ep_created_by_user_id = ca_user_id a, ep_created_at = now,
      ep_updated_at = now, ep_version = 1\<rparr>"

definition egress_snapshot :: "egress_policy \<Rightarrow> egress_revision \<Rightarrow> bool \<Rightarrow> dict" where
  "egress_snapshot p v replayed =
     [(''policy'', JDict (policy_summary p)), (''revision'', JDict (revision_summary v)),
      (''replayed'', JBool replayed)]"

definition insert_egress_policy ::
  "(string \<Rightarrow> string) \<Rightarrow> txn \<Rightarrow> create_egress_args \<Rightarrow> validated_egress_policy \<Rightarrow> 'a egress_db_scheme \<Rightarrow>
   dict \<times> 'a egress_db_scheme" where
  \<comment> \<open>the writes of \<open>create_egress_policy\<close>\<close>
  "insert_egress_policy sha256 tx a v s =
     (let p = new_policy (tx_now tx) (next_id s) a;
          r = new_revision (tx_now tx) (next_id s + 1) p 1 (ca_user_id a) v
                (es_credential_secret_id (ca_spec a));
          snapshot = egress_snapshot p r False
      in (snapshot,
        append_audit_event tx (Some (ep_organization_id p)) (Some (ep_project_id p)) (ca_actor_type a)
          (ca_actor_id a) ''egress_policy.created'' ''egress_policy'' (Some (uuid_str (ep_id p)))
          [(''policy_digest'', JStr (er_policy_digest r)),
           (''credential_configured'', JBool (er_credential_secret_id r \<noteq> None))]
          (s\<lparr>egress_policies := egress_policies s @ [p], egress_revisions := egress_revisions s @ [r],
             next_id := next_id s + 2,
             egress_idempotency := egress_idempotency s @
               [\<lparr>ei_organization_id = ep_organization_id p, ei_principal_id = uuid_str (ca_user_id a),
                 ei_endpoint = egress_endpoint, ei_key_digest = sha256 (ca_idempotency_key a),
                 ei_request_fingerprint = egress_fingerprint sha256 a v,
                 ei_resource_type = ''egress_policy'', ei_resource_id = uuid_str (ep_id p),
                 ei_response_status = 201, ei_response_snapshot = Some snapshot,
                 ei_created_at = tx_now tx, ei_expires_at = tx_now tx + seconds (24 * 3600)\<rparr>]\<rparr>)))"

definition create_egress_policy ::
  "(string \<Rightarrow> string option) \<Rightarrow> (string \<Rightarrow> string) \<Rightarrow> txn \<Rightarrow> create_egress_args \<Rightarrow> 'a egress_db_scheme \<Rightarrow>
   (dict \<times> 'a egress_db_scheme) result" where
  "create_egress_policy idna sha256 tx a s =
     (let org = pf_organization_id (ca_project a); proj = pf_id (ca_project a) in
      if \<not> (8 \<le> length (ca_idempotency_key a) \<and> length (ca_idempotency_key a) \<le> 200)
      then Inl (ApiError 400 ''INVALID_REQUEST'')
      else bind_result (validated_spec idna sha256 (ca_spec a)) (\<lambda>v.
        bind_result (validate_credential (es_credential_secret_id (ca_spec a)) org proj s) (\<lambda>_.
        case List.find (\<lambda>r. ei_organization_id r = org \<and> ei_principal_id r = uuid_str (ca_user_id a) \<and>
            ei_endpoint r = egress_endpoint \<and> ei_key_digest r = sha256 (ca_idempotency_key a))
            (egress_idempotency s) of
          Some existing \<Rightarrow>
            if ei_request_fingerprint existing \<noteq> egress_fingerprint sha256 a v
            then Inl (ApiError 409 ''IDEMPOTENCY_CONFLICT'')
            else (case ei_response_snapshot existing of
                None \<Rightarrow> Inl (ApiError 409 ''RESOURCE_CONFLICT'')
              | Some snapshot \<Rightarrow> Inr (dset ''replayed'' (JBool True) snapshot, s))
        | None \<Rightarrow>
            if \<exists>p \<in> set (egress_policies s). ep_project_id p = proj \<and> ep_name p = ca_name a
            then Inl (ApiError 409 ''EGRESS_POLICY_ALREADY_EXISTS'')
            else Inr (insert_egress_policy sha256 tx a v s))))"

definition locked_policy ::
  "egress_policy option \<Rightarrow> uuid \<Rightarrow> int \<Rightarrow> 'a egress_db_scheme \<Rightarrow> egress_policy result" where
  \<comment> \<open>\<open>SELECT ... FOR UPDATE\<close> with the check of the optimistic version\<close>
  "locked_policy held policy_id expected_version s =
     (case find_by ep_id policy_id (egress_policies s) of
        None \<Rightarrow> Inl (ApiError 404 ''RESOURCE_NOT_FOUND'')
      | Some row \<Rightarrow> (let p = or_else held row in
          if ep_version p \<noteq> expected_version then Inl (ApiError 409 ''VERSION_CONFLICT'') else Inr p))"

definition column :: "'c \<Rightarrow> 'c \<Rightarrow> 'c \<Rightarrow> 'c" where
  "column loaded current stored = (if current = loaded then stored else current)"

definition flush_policy :: "egress_policy \<Rightarrow> egress_policy \<Rightarrow> egress_policy \<Rightarrow> egress_policy" where
  "flush_policy loaded p row = row\<lparr>
     ep_status := column (ep_status loaded) (ep_status p) (ep_status row),
     ep_active_revision_id :=
       column (ep_active_revision_id loaded) (ep_active_revision_id p) (ep_active_revision_id row),
     ep_activated_at := column (ep_activated_at loaded) (ep_activated_at p) (ep_activated_at row),
     ep_disabled_at := column (ep_disabled_at loaded) (ep_disabled_at p) (ep_disabled_at row),
     ep_version := column (ep_version loaded) (ep_version p) (ep_version row),
     ep_updated_at := column (ep_updated_at loaded) (ep_updated_at p) (ep_updated_at row)\<rparr>"

definition policy_revisions :: "uuid \<Rightarrow> 'a egress_db_scheme \<Rightarrow> egress_revision list" where
  "policy_revisions policy_id s = filter (\<lambda>v. er_policy_id v = policy_id) (egress_revisions s)"

definition put_policy :: "egress_policy \<Rightarrow> egress_policy \<Rightarrow> 'a egress_db_scheme \<Rightarrow> 'a egress_db_scheme" where
  "put_policy loaded p s =
     s\<lparr>egress_policies := upd_by ep_id (ep_id loaded) (flush_policy loaded p) (egress_policies s)\<rparr>"

definition create_egress_policy_revision ::
  "(string \<Rightarrow> string option) \<Rightarrow> (string \<Rightarrow> string) \<Rightarrow> txn \<Rightarrow> egress_policy option \<Rightarrow> uuid \<Rightarrow> uuid \<Rightarrow> string \<Rightarrow> string \<Rightarrow> int \<Rightarrow> egress_spec \<Rightarrow>
   'a egress_db_scheme \<Rightarrow> (egress_revision \<times> 'a egress_db_scheme) result" where
  "create_egress_policy_revision idna sha256 tx held policy_id user_id actor_type actor_id expected_version spec s =
     bind_result (validated_spec idna sha256 spec) (\<lambda>v.
     bind_result (locked_policy held policy_id expected_version s) (\<lambda>p.
     bind_result (validate_credential (es_credential_secret_id spec) (ep_organization_id p) (ep_project_id p) s) (\<lambda>_.
     let latest = max_sequence (map er_revision_number (policy_revisions (ep_id p) s));
         r = new_revision (tx_now tx) (next_id s) p (latest + 1) user_id v (es_credential_secret_id spec)
     in Inr (r,
       append_audit_event tx (Some (ep_organization_id p)) (Some (ep_project_id p)) actor_type actor_id
         ''egress_policy.revision_created'' ''egress_policy_revision'' (Some (uuid_str (er_id r)))
         [(''policy_id'', juuid (ep_id p)), (''revision_number'', JInt (er_revision_number r)),
          (''policy_digest'', JStr (er_policy_digest r)),
          (''credential_configured'', JBool (er_credential_secret_id r \<noteq> None))]
         ((put_policy p (p\<lparr>ep_version := ep_version p + 1, ep_updated_at := tx_now tx\<rparr>) s)
            \<lparr>egress_revisions := egress_revisions s @ [r], next_id := next_id s + 1\<rparr>)))))"

definition activate_egress_policy ::
  "txn \<Rightarrow> egress_policy option \<Rightarrow> uuid \<Rightarrow> uuid \<Rightarrow> int \<Rightarrow> string \<Rightarrow> string \<Rightarrow> 'a egress_db_scheme \<Rightarrow>
   (egress_policy \<times> 'a egress_db_scheme) result" where
  "activate_egress_policy tx held policy_id revision_id expected_version actor_type actor_id s =
     bind_result (locked_policy held policy_id expected_version s) (\<lambda>p.
     case List.find (\<lambda>v. er_id v = revision_id \<and> er_policy_id v = ep_id p \<and>
         er_organization_id v = ep_organization_id p \<and> er_project_id v = ep_project_id p) (egress_revisions s) of
       None \<Rightarrow> Inl (ApiError 404 ''RESOURCE_NOT_FOUND'')
     | Some v \<Rightarrow>
         let p' = p\<lparr>ep_active_revision_id := Some (er_id v), ep_status := Ep_ACTIVE,
                    ep_activated_at := Some (tx_now tx), ep_disabled_at := None,
                    ep_version := ep_version p + 1, ep_updated_at := tx_now tx\<rparr>
         in Inr (p',
           append_audit_event tx (Some (ep_organization_id p)) (Some (ep_project_id p)) actor_type actor_id
             ''egress_policy.activated'' ''egress_policy'' (Some (uuid_str (ep_id p)))
             [(''revision_id'', juuid (er_id v)), (''policy_digest'', JStr (er_policy_digest v))]
             (put_policy p p' s)))"

definition disable_egress_policy ::
  "txn \<Rightarrow> egress_policy option \<Rightarrow> uuid \<Rightarrow> int \<Rightarrow> string \<Rightarrow> string \<Rightarrow> 'a egress_db_scheme \<Rightarrow>
   (egress_policy \<times> 'a egress_db_scheme) result" where
  "disable_egress_policy tx held policy_id expected_version actor_type actor_id s =
     bind_result (locked_policy held policy_id expected_version s) (\<lambda>p.
     let p' = p\<lparr>ep_status := Ep_DISABLED, ep_disabled_at := Some (tx_now tx),
                ep_version := ep_version p + 1, ep_updated_at := tx_now tx\<rparr>
     in Inr (p',
       append_audit_event tx (Some (ep_organization_id p)) (Some (ep_project_id p)) actor_type actor_id
         ''egress_policy.disabled'' ''egress_policy'' (Some (uuid_str (ep_id p)))
         [(''active_revision_id'', jopt juuid (ep_active_revision_id p'))]
         (put_policy p p' s)))"

end
