(* ===== verification/Egress_Reach.thy ===== *)
theory Egress_Reach
  imports Egress_Service
begin

section \<open>Reachable states of the egress policies\<close>

text \<open>
  Transactions of the service in any order, each with an optional copy of the policy that some earlier
  state held, preserve \<open>egress_inv\<close>: revisions are numbered from one without gaps, keep the digest of
  their own content and validate to themselves, and the revision an active policy selects exists and
  is its own. The copies cost only the optimistic version check.
\<close>

subsection \<open>The invariant\<close>

definition revision_valid :: "(string \<Rightarrow> string option) \<Rightarrow> (string \<Rightarrow> string) \<Rightarrow> egress_revision \<Rightarrow> bool" where
  "revision_valid idna sha256 v \<longleftrightarrow>
     (case validate_revision idna sha256 v of Inl _ \<Rightarrow> False
      | Inr p \<Rightarrow> vp_allowed_hosts p = er_allowed_hosts v \<and> vp_allowed_methods p = er_allowed_methods v \<and>
          vp_policy_digest p = er_policy_digest v) \<and>
     er_allowed_hosts v = sorted_set (er_allowed_hosts v) \<and> er_allowed_hosts v \<noteq> [] \<and>
     er_allowed_methods v = sorted_set (er_allowed_methods v) \<and> er_allowed_methods v \<noteq> [] \<and>
     1 \<le> er_max_requests v \<and> 65536 \<le> er_max_response_bytes v \<and> 65536 \<le> er_max_total_bytes v \<and>
     0 \<le> er_max_redirects v \<and> 1 \<le> er_connect_timeout_seconds v \<and> 1 \<le> er_request_timeout_seconds v \<and>
     1 \<le> er_revision_number v"

definition own_revision :: "egress_policy \<Rightarrow> egress_revision \<Rightarrow> bool" where
  "own_revision p v \<longleftrightarrow> er_policy_id v = ep_id p \<and> er_organization_id v = ep_organization_id p \<and>
     er_project_id v = ep_project_id p"

definition selects_own :: "egress_revision list \<Rightarrow> egress_policy \<Rightarrow> bool" where
  "selects_own vs p \<longleftrightarrow> (case ep_active_revision_id p of None \<Rightarrow> True
     | Some i \<Rightarrow> (\<exists>v \<in> set vs. er_id v = i \<and> own_revision p v))"

definition policy_ok :: "egress_revision list \<Rightarrow> egress_policy \<Rightarrow> bool" where
  "policy_ok vs p \<longleftrightarrow> selects_own vs p \<and> (ep_status p = Ep_ACTIVE \<longrightarrow> ep_active_revision_id p \<noteq> None)"

definition egress_inv :: "(string \<Rightarrow> string option) \<Rightarrow> (string \<Rightarrow> string) \<Rightarrow> 'a egress_db_scheme \<Rightarrow> bool" where
  "egress_inv idna sha256 s \<longleftrightarrow>
     fresh_ids ep_id (egress_policies s) (next_id s) \<and> fresh_ids er_id (egress_revisions s) (next_id s) \<and>
     distinct (map (\<lambda>p. (ep_project_id p, ep_name p)) (egress_policies s)) \<and>
     (\<forall>i. numbered (map er_revision_number (policy_revisions i s))) \<and>
     (\<forall>v \<in> set (egress_revisions s). revision_valid idna sha256 v \<and>
       (\<exists>p \<in> set (egress_policies s). own_revision p v)) \<and>
     (\<forall>p \<in> set (egress_policies s). policy_ok (egress_revisions s) p)"

definition copy_ok :: "'a egress_db_scheme \<Rightarrow> egress_policy \<Rightarrow> bool" where
  \<comment> \<open>what a copy of an earlier state still knows of the present one\<close>
  "copy_ok s h \<longleftrightarrow> policy_ok (egress_revisions s) h \<and>
     (\<exists>p \<in> set (egress_policies s). ep_id p = ep_id h \<and> ep_organization_id p = ep_organization_id h \<and>
       ep_project_id p = ep_project_id h \<and> (ep_active_revision_id h \<noteq> None \<longrightarrow> ep_active_revision_id p \<noteq> None))"

lemmas egress_inv_defs = egress_inv_def policy_ok_def own_revision_def

subsection \<open>Steps\<close>

definition held_from :: "egress_policy set \<Rightarrow> uuid \<Rightarrow> egress_policy option \<Rightarrow> bool" where
  "held_from H i held \<longleftrightarrow> (case held of None \<Rightarrow> True | Some h \<Rightarrow> h \<in> H \<and> ep_id h = i)"

inductive egress_step ::
  "(string \<Rightarrow> string option) \<Rightarrow> (string \<Rightarrow> string) \<Rightarrow> egress_policy set \<times> egress_db \<Rightarrow>
   egress_policy set \<times> egress_db \<Rightarrow> bool"
  for idna sha256 where
  create: "create_egress_policy idna sha256 tx a s = Inr (r, s') \<Longrightarrow> egress_spec_ok (ca_spec a) \<Longrightarrow>
    list_all is_ascii (es_allowed_hosts (ca_spec a)) \<Longrightarrow>
    egress_step idna sha256 (H, s) (H \<union> set (egress_policies s'), s')"
| revise: "create_egress_policy_revision idna sha256 tx held i u at ai n spec s = Inr (v, s') \<Longrightarrow>
    held_from H i held \<Longrightarrow> egress_spec_ok spec \<Longrightarrow> list_all is_ascii (es_allowed_hosts spec) \<Longrightarrow>
    egress_step idna sha256 (H, s) (H \<union> set (egress_policies s'), s')"
| activate: "activate_egress_policy tx held i j n at ai s = Inr (p, s') \<Longrightarrow> held_from H i held \<Longrightarrow>
    egress_step idna sha256 (H, s) (H \<union> set (egress_policies s'), s')"
| disable: "disable_egress_policy tx held i n at ai s = Inr (p, s') \<Longrightarrow> held_from H i held \<Longrightarrow>
    egress_step idna sha256 (H, s) (H \<union> set (egress_policies s'), s')"

inductive egress_reachable ::
  "(string \<Rightarrow> string option) \<Rightarrow> (string \<Rightarrow> string) \<Rightarrow> egress_policy set \<times> egress_db \<Rightarrow> bool"
  for idna sha256 where
  start: "egress_policies s = [] \<Longrightarrow> egress_revisions s = [] \<Longrightarrow> egress_reachable idna sha256 ({}, s)"
| step: "egress_reachable idna sha256 c \<Longrightarrow> egress_step idna sha256 c c' \<Longrightarrow> egress_reachable idna sha256 c'"

subsection \<open>A flush keeps the invariant\<close>

lemma selects_own_mono: "selects_own vs p \<Longrightarrow> set vs \<subseteq> set ws \<Longrightarrow> selects_own ws p"
  by (auto simp: selects_own_def split: option.splits)

lemma flush_policy_simps [simp]:
  "ep_id (flush_policy h p r) = ep_id r" "ep_name (flush_policy h p r) = ep_name r"
  "ep_organization_id (flush_policy h p r) = ep_organization_id r"
  "ep_project_id (flush_policy h p r) = ep_project_id r"
  by (simp_all add: flush_policy_def)

lemma flush_policy_self [simp]:
  "ep_id p = ep_id r \<Longrightarrow> ep_organization_id p = ep_organization_id r \<Longrightarrow> ep_project_id p = ep_project_id r \<Longrightarrow>
   ep_name p = ep_name r \<Longrightarrow> ep_created_by_user_id p = ep_created_by_user_id r \<Longrightarrow>
   ep_created_at p = ep_created_at r \<Longrightarrow> flush_policy r p r = p"
  by (cases r; cases p) (simp add: flush_policy_def column_def)

definition permitted :: "egress_revision list \<Rightarrow> egress_policy \<Rightarrow> egress_policy \<Rightarrow> bool" where
  \<comment> \<open>what a service may do to the loaded object: the selection is kept or set to an own revision\<close>
  "permitted vs h p \<longleftrightarrow> ep_id p = ep_id h \<and> ep_organization_id p = ep_organization_id h \<and>
     ep_project_id p = ep_project_id h \<and> selects_own vs p \<and>
     (ep_active_revision_id p = ep_active_revision_id h \<or> ep_active_revision_id p \<noteq> None) \<and>
     (ep_status p = Ep_ACTIVE \<longrightarrow> ep_active_revision_id p \<noteq> None)"

lemma flush_policy_ok:
  assumes "policy_ok vs r" and "permitted vs h p" and "ep_id h = ep_id r"
    and "ep_organization_id h = ep_organization_id r" "ep_project_id h = ep_project_id r"
    and "ep_active_revision_id h \<noteq> None \<longrightarrow> ep_active_revision_id r \<noteq> None"
  shows "policy_ok vs (flush_policy h p r)"
    and "ep_active_revision_id r \<noteq> None \<longrightarrow> ep_active_revision_id (flush_policy h p r) \<noteq> None"
  using assms
  by (auto simp: policy_ok_def permitted_def selects_own_def own_revision_def flush_policy_def column_def
      split: option.splits if_splits)

lemma egress_audit_frame [simp]:
  "egress_inv idna sha256 (append_audit_event tx o' p at ai ac rt rid d s) = egress_inv idna sha256 s"
  "copy_ok (append_audit_event tx o' p at ai ac rt rid d s) h = copy_ok s h"
  "egress_policies (append_audit_event tx o' p at ai ac rt rid d s) = egress_policies s"
  "egress_revisions (append_audit_event tx o' p at ai ac rt rid d s) = egress_revisions s"
  "next_id (append_audit_event tx o' p at ai ac rt rid d s) = next_id s"
  by (simp_all add: append_audit_event_def egress_inv_def copy_ok_def policy_revisions_def)

lemma egress_inv_ids:
  assumes "egress_inv idna sha256 s"
  shows "fresh_ids ep_id (egress_policies s) (next_id s)" "fresh_ids er_id (egress_revisions s) (next_id s)"
  using assms by (simp_all add: egress_inv_def)

lemma copy_of_row: "egress_inv idna sha256 s \<Longrightarrow> p \<in> set (egress_policies s) \<Longrightarrow> copy_ok s p"
  by (auto simp: egress_inv_def copy_ok_def)

lemma put_policy_frame:
  "egress_revisions (put_policy h p s) = egress_revisions s" "next_id (put_policy h p s) = next_id s"
  "policy_revisions i (put_policy h p s) = policy_revisions i s"
  "map ep_id (egress_policies (put_policy h p s)) = map ep_id (egress_policies s)"
  "map (\<lambda>p. (ep_project_id p, ep_name p)) (egress_policies (put_policy h p s)) =
    map (\<lambda>p. (ep_project_id p, ep_name p)) (egress_policies s)"
  by (simp_all add: put_policy_def policy_revisions_def map_upd_by)

lemma egress_row_of_copy:
  assumes "egress_inv idna sha256 s" and "copy_ok s h" and "r \<in> set (egress_policies s)" and "ep_id r = ep_id h"
  shows "ep_organization_id r = ep_organization_id h" "ep_project_id r = ep_project_id h"
    "ep_active_revision_id h \<noteq> None \<longrightarrow> ep_active_revision_id r \<noteq> None"
proof -
  from assms(2) obtain q where q: "q \<in> set (egress_policies s)" "ep_id q = ep_id h"
    "ep_organization_id q = ep_organization_id h" "ep_project_id q = ep_project_id h"
    "ep_active_revision_id h \<noteq> None \<longrightarrow> ep_active_revision_id q \<noteq> None"
    unfolding copy_ok_def by blast
  have "distinct (map ep_id (egress_policies s))" using assms(1) by (simp add: egress_inv_def fresh_ids_def)
  from distinct_key_unique [OF this assms(3) q(1)] assms(4) q(2) have "r = q" by simp
  with q show "ep_organization_id r = ep_organization_id h" "ep_project_id r = ep_project_id h"
    "ep_active_revision_id h \<noteq> None \<longrightarrow> ep_active_revision_id r \<noteq> None" by simp_all
qed

lemma egress_inv_put:
  assumes inv: "egress_inv idna sha256 s" and h: "copy_ok s h" and p: "permitted (egress_revisions s) h p"
  shows "egress_inv idna sha256 (put_policy h p s)" and "copy_ok s k \<Longrightarrow> copy_ok (put_policy h p s) k"
proof -
  have flushed: "policy_ok (egress_revisions s) (flush_policy h p r) \<and>
      (ep_active_revision_id r \<noteq> None \<longrightarrow> ep_active_revision_id (flush_policy h p r) \<noteq> None)"
    if "r \<in> set (egress_policies s)" "ep_id r = ep_id h" for r
  proof -
    note row = egress_row_of_copy [OF inv h that]
    have "policy_ok (egress_revisions s) r" using inv that(1) by (simp add: egress_inv_def)
    from flush_policy_ok [OF this p] row that(2) show ?thesis by simp
  qed
  have own: "\<exists>r \<in> set (egress_policies (put_policy h p s)). own_revision r v"
    if "\<exists>r \<in> set (egress_policies s). own_revision r v" for v
  proof -
    from that obtain r where r: "r \<in> set (egress_policies s)" "own_revision r v" by blast
    let ?r = "if ep_id r = ep_id h then flush_policy h p r else r"
    have "?r \<in> set (egress_policies (put_policy h p s))"
      unfolding put_policy_def by (simp add: upd_by_def r(1))
    moreover have "own_revision ?r v" using r(2) by (simp add: own_revision_def)
    ultimately show ?thesis by blast
  qed
  have pol: "\<forall>r \<in> set (egress_policies (put_policy h p s)). policy_ok (egress_revisions s) r"
    unfolding put_policy_def using inv flushed
    by (simp, intro ball_upd_byI) (auto simp: egress_inv_def)
  have ids: "fresh_ids ep_id (egress_policies (put_policy h p s)) (next_id s)"
    using inv fresh_ids_cong [OF put_policy_frame(4) [of h p s]] by (simp add: egress_inv_def)
  show "egress_inv idna sha256 (put_policy h p s)"
    using inv own pol ids unfolding egress_inv_def put_policy_frame by blast
  assume k: "copy_ok s k"
  then obtain r where r: "r \<in> set (egress_policies s)" "ep_id r = ep_id k"
    "ep_organization_id r = ep_organization_id k" "ep_project_id r = ep_project_id k"
    "ep_active_revision_id k \<noteq> None \<longrightarrow> ep_active_revision_id r \<noteq> None"
    unfolding copy_ok_def by blast
  let ?r = "if ep_id r = ep_id h then flush_policy h p r else r"
  have "?r \<in> set (egress_policies (put_policy h p s))"
    unfolding put_policy_def by (simp add: upd_by_def r(1))
  moreover have "ep_active_revision_id k \<noteq> None \<longrightarrow> ep_active_revision_id ?r \<noteq> None"
    using flushed [OF r(1)] r(5) by auto
  moreover have "ep_id ?r = ep_id k" "ep_organization_id ?r = ep_organization_id k"
    "ep_project_id ?r = ep_project_id k" using r(2-4) by auto
  ultimately show "copy_ok (put_policy h p s) k"
    using k unfolding copy_ok_def put_policy_frame by blast
qed

lemma numbered_filter_snoc:
  assumes "\<forall>i. numbered (map er_revision_number (policy_revisions i s))"
    and "er_revision_number v = max_sequence (map er_revision_number (policy_revisions (er_policy_id v) s)) + 1"
  shows "numbered (map er_revision_number (policy_revisions i (s\<lparr>egress_revisions := egress_revisions s @ [v], next_id := n\<rparr>)))"
  using assms numbered_snoc [of "map er_revision_number (policy_revisions i s)"]
  by (auto simp: policy_revisions_def)

lemma policy_ok_snoc: "policy_ok vs p \<Longrightarrow> policy_ok (vs @ [v]) p"
  using selects_own_mono [of vs p "vs @ [v]"] by (auto simp: policy_ok_def)

lemma egress_inv_add_revision:
  assumes inv: "egress_inv idna sha256 s" and v: "er_id v = next_id s" "revision_valid idna sha256 v"
    and p: "p \<in> set (egress_policies s)" "own_revision p v"
    and n: "er_revision_number v = max_sequence (map er_revision_number (policy_revisions (er_policy_id v) s)) + 1"
  shows "egress_inv idna sha256 (s\<lparr>egress_revisions := egress_revisions s @ [v], next_id := next_id s + 1\<rparr>)"
    and "copy_ok s k \<Longrightarrow> copy_ok (s\<lparr>egress_revisions := egress_revisions s @ [v], next_id := next_id s + 1\<rparr>) k"
proof -
  have "\<forall>i. numbered (map er_revision_number (policy_revisions i s))" using inv by (simp add: egress_inv_def)
  note num = numbered_filter_snoc [OF this n, of _ "next_id s + 1"]
  note f = egress_inv_ids [OF inv]
  have "fresh_ids ep_id (egress_policies s) (next_id s + 1)" by (rule fresh_ids_mono [OF f(1)]) simp
  moreover have "fresh_ids er_id (egress_revisions s @ [v]) (next_id s + 1)"
    by (rule fresh_ids_snoc [OF f(2) v(1)]) simp
  moreover have "\<forall>q \<in> set (egress_policies s). policy_ok (egress_revisions s @ [v]) q"
    using inv by (simp add: egress_inv_def policy_ok_snoc)
  ultimately show "egress_inv idna sha256 (s\<lparr>egress_revisions := egress_revisions s @ [v], next_id := next_id s + 1\<rparr>)"
    using inv v(2) p num by (auto simp: egress_inv_def)
  show "copy_ok s k \<Longrightarrow> copy_ok (s\<lparr>egress_revisions := egress_revisions s @ [v], next_id := next_id s + 1\<rparr>) k"
    by (simp add: copy_ok_def policy_ok_snoc)
qed

lemma egress_inv_add_policy:
  assumes inv: "egress_inv idna sha256 s" and p: "ep_id p = next_id s" "ep_active_revision_id p = None"
    "ep_status p = Ep_DRAFT"
    and name: "\<not> (\<exists>q \<in> set (egress_policies s). ep_project_id q = ep_project_id p \<and> ep_name q = ep_name p)"
  shows "egress_inv idna sha256 (s\<lparr>egress_policies := egress_policies s @ [p], next_id := next_id s + 1\<rparr>)"
    and "copy_ok s k \<Longrightarrow> copy_ok (s\<lparr>egress_policies := egress_policies s @ [p], next_id := next_id s + 1\<rparr>) k"
proof -
  note f = egress_inv_ids [OF inv]
  have "fresh_ids er_id (egress_revisions s) (next_id s + 1)" by (rule fresh_ids_mono [OF f(2)]) simp
  moreover have "fresh_ids ep_id (egress_policies s @ [p]) (next_id s + 1)"
    by (rule fresh_ids_snoc [OF f(1) p(1)]) simp
  moreover have "policy_ok (egress_revisions s) p" using p by (simp add: policy_ok_def selects_own_def)
  ultimately show "egress_inv idna sha256 (s\<lparr>egress_policies := egress_policies s @ [p], next_id := next_id s + 1\<rparr>)"
    using inv name by (auto simp: egress_inv_def policy_revisions_def)
  show "copy_ok s k \<Longrightarrow> copy_ok (s\<lparr>egress_policies := egress_policies s @ [p], next_id := next_id s + 1\<rparr>) k"
    by (auto simp: copy_ok_def)
qed

subsection \<open>Every step keeps it\<close>

lemma validate_egress_policy_fields:
  assumes "validate_egress_policy idna sha256 hs ms a b c d e f = Inr p"
  shows "vp_max_requests p = a" "vp_max_response_bytes p = b" "vp_max_total_bytes p = c"
    "vp_max_redirects p = d" "vp_connect_timeout_seconds p = e" "vp_request_timeout_seconds p = f"
  using assms by (auto simp: validate_egress_policy_def bind_result_Inr_iff Let_def split: if_splits)

lemma new_revision_valid:
  assumes "validated_spec idna sha256 spec = Inr v" and "egress_spec_ok spec"
    and "list_all is_ascii (es_allowed_hosts spec)" and "1 \<le> n"
  shows "revision_valid idna sha256 (new_revision now i p n u v cred)"
proof -
  from assms(1) have v: "validate_egress_policy idna sha256 (es_allowed_hosts spec) (es_allowed_methods spec)
      (es_max_requests spec) (es_max_response_bytes spec) (es_max_total_bytes spec) (es_max_redirects spec)
      (es_connect_timeout_seconds spec) (es_request_timeout_seconds spec) = Inr v"
    by (auto simp: validated_spec_def split: sum.splits)
  note fx = validate_egress_policy_fixed [OF v assms(3)]
  have "validate_revision idna sha256 (new_revision now i p n u v cred) = Inr v"
    using fx(1) by (simp add: validate_revision_def new_revision_def validate_egress_policy_fields [OF v])
  then show ?thesis
    using fx(2-5) assms(2,4) validate_egress_policy_fields [OF v]
    by (simp add: revision_valid_def new_revision_def egress_spec_ok_def)
qed

lemma create_cases:
  assumes "create_egress_policy idna sha256 tx a s = Inr (r, s')"
  obtains (replay) "s' = s"
  | (new) v where "validated_spec idna sha256 (ca_spec a) = Inr v"
      "\<not> (\<exists>p \<in> set (egress_policies s). ep_project_id p = pf_id (ca_project a) \<and> ep_name p = ca_name a)"
      "(r, s') = insert_egress_policy sha256 tx a v s"
  using assms
  by (auto simp: create_egress_policy_def Let_def bind_result_Inr_iff split: if_splits option.splits)

lemma locked_policy_copy:
  assumes "locked_policy held i n s = Inr p" and "egress_inv idna sha256 s"
    and "held_from H i held" and "\<forall>h \<in> H. copy_ok s h"
  shows "copy_ok s p" "ep_id p = i" "ep_version p = n"
proof -
  from assms(1) obtain row where row: "find_by ep_id i (egress_policies s) = Some row"
    and p: "p = or_else held row" and n: "ep_version p = n"
    by (auto simp: locked_policy_def Let_def split: option.splits if_splits)
  from find_by_SomeD [OF row] have r: "row \<in> set (egress_policies s)" "ep_id row = i" by auto
  from copy_of_row [OF assms(2) r(1)] r(2) p assms(3,4) show "copy_ok s p" "ep_id p = i"
    by (auto simp: held_from_def split: option.splits)
  show "ep_version p = n" by (rule n)
qed

lemma permitted_same:
  assumes "copy_ok s h" and "ep_id p = ep_id h" "ep_organization_id p = ep_organization_id h"
    "ep_project_id p = ep_project_id h" "ep_active_revision_id p = ep_active_revision_id h"
    and "ep_status p = Ep_ACTIVE \<longrightarrow> ep_status h = Ep_ACTIVE"
  shows "permitted (egress_revisions s) h p"
proof -
  have "own_revision p = own_revision h" using assms(2-4) by (simp add: own_revision_def fun_eq_iff)
  then have "selects_own (egress_revisions s) p = selects_own (egress_revisions s) h"
    by (simp only: selects_own_def assms(5))
  with assms show ?thesis by (auto simp: permitted_def copy_ok_def policy_ok_def)
qed

definition kept :: "(string \<Rightarrow> string option) \<Rightarrow> (string \<Rightarrow> string) \<Rightarrow> egress_db \<Rightarrow> egress_db \<Rightarrow> bool" where
  "kept idna sha256 s s' \<longleftrightarrow> egress_inv idna sha256 s' \<and> (\<forall>k. copy_ok s k \<longrightarrow> copy_ok s' k)"

lemma kept_cong:
  assumes "egress_policies s' = egress_policies t" "egress_revisions s' = egress_revisions t" "next_id s' = next_id t"
    and "kept idna sha256 s t"
  shows "kept idna sha256 s s'"
  using assms by (simp add: kept_def egress_inv_def copy_ok_def policy_revisions_def)

lemma create_kept:
  assumes "create_egress_policy idna sha256 tx a s = Inr (r, s')" and "egress_spec_ok (ca_spec a)"
    and "list_all is_ascii (es_allowed_hosts (ca_spec a))" and inv: "egress_inv idna sha256 s"
  shows "kept idna sha256 s s'"
  using assms(1)
proof (cases rule: create_cases)
  case replay
  then show ?thesis using inv by (simp add: kept_def)
next
  case (new v)
  let ?p = "new_policy (tx_now tx) (next_id s) a"
  let ?s1 = "s\<lparr>egress_policies := egress_policies s @ [?p], next_id := next_id s + 1\<rparr>"
  let ?v = "new_revision (tx_now tx) (next_id s + 1) ?p 1 (ca_user_id a) v (es_credential_secret_id (ca_spec a))"
  let ?s2 = "?s1\<lparr>egress_revisions := egress_revisions ?s1 @ [?v], next_id := next_id ?s1 + 1\<rparr>"
  have p: "ep_id ?p = next_id s" "ep_active_revision_id ?p = None" "ep_status ?p = Ep_DRAFT"
    "\<not> (\<exists>q \<in> set (egress_policies s). ep_project_id q = ep_project_id ?p \<and> ep_name q = ep_name ?p)"
    using new(2) by (simp_all add: new_policy_def)
  note one = egress_inv_add_policy [OF inv p]
  have v: "er_id ?v = next_id ?s1" "own_revision ?p ?v" "?p \<in> set (egress_policies ?s1)"
    by (simp_all add: new_revision_def own_revision_def)
  have "policy_revisions (next_id s) s = []"
    using inv by (fastforce simp: policy_revisions_def egress_inv_def fresh_ids_def own_revision_def filter_empty_conv)
  then have n: "er_revision_number ?v =
      max_sequence (map er_revision_number (policy_revisions (er_policy_id ?v) ?s1)) + 1"
    by (simp add: new_revision_def new_policy_def policy_revisions_def max_sequence_def)
  note two = egress_inv_add_revision [OF one(1) v(1) new_revision_valid [OF new(1) assms(2,3)] v(3,2) n]
  have "kept idna sha256 s ?s2" unfolding kept_def using two one(2) by simp
  then show ?thesis
    by (rule kept_cong [rotated 3])
      (use new(3) in \<open>simp_all add: insert_egress_policy_def Let_def append_audit_event_def\<close>)
qed

lemma put_kept:
  assumes "egress_inv idna sha256 s" and "copy_ok s h" and "permitted (egress_revisions s) h p"
  shows "kept idna sha256 s (put_policy h p s)"
  using egress_inv_put [OF assms] by (simp add: kept_def)

lemma revise_kept:
  assumes "create_egress_policy_revision idna sha256 tx held i u at ai n spec s = Inr (v, s')"
    and "held_from H i held" and "egress_spec_ok spec" "list_all is_ascii (es_allowed_hosts spec)"
    and inv: "egress_inv idna sha256 s" and "\<forall>h \<in> H. copy_ok s h"
  shows "kept idna sha256 s s'"
proof -
  from assms(1) obtain w h where w: "validated_spec idna sha256 spec = Inr w"
    and h: "locked_policy held i n s = Inr h"
    and v: "v = new_revision (tx_now tx) (next_id s) h
      (max_sequence (map er_revision_number (policy_revisions (ep_id h) s)) + 1) u w (es_credential_secret_id spec)"
    and s': "egress_policies s' = egress_policies (put_policy h (h\<lparr>ep_version := ep_version h + 1, ep_updated_at := tx_now tx\<rparr>) s)"
      "egress_revisions s' = egress_revisions s @ [v]" "next_id s' = next_id s + 1"
    by (auto simp: create_egress_policy_revision_def bind_result_Inr_iff Let_def)
  let ?p = "h\<lparr>ep_version := ep_version h + 1, ep_updated_at := tx_now tx\<rparr>"
  let ?s1 = "put_policy h ?p s"
  note c = locked_policy_copy [OF h inv assms(2,6)]
  have "permitted (egress_revisions s) h ?p" by (rule permitted_same [OF c(1)]) simp_all
  note one = egress_inv_put [OF inv c(1) this]
  from one(2) [OF c(1)] obtain p where p: "p \<in> set (egress_policies ?s1)" "ep_id p = ep_id h"
    "ep_organization_id p = ep_organization_id h" "ep_project_id p = ep_project_id h"
    unfolding copy_ok_def by blast
  have num: "\<forall>j. numbered (map er_revision_number (policy_revisions j s))" using inv by (simp add: egress_inv_def)
  have "1 \<le> max_sequence (map er_revision_number (policy_revisions (ep_id h) s)) + 1"
    using max_sequence_numbered [OF num [rule_format, of "ep_id h"]] by simp
  from new_revision_valid [OF w assms(3,4) this] have valid: "revision_valid idna sha256 v" by (simp add: v)
  have two: "egress_inv idna sha256 (?s1\<lparr>egress_revisions := egress_revisions ?s1 @ [v], next_id := next_id ?s1 + 1\<rparr>)"
    "\<And>k. copy_ok ?s1 k \<Longrightarrow> copy_ok (?s1\<lparr>egress_revisions := egress_revisions ?s1 @ [v], next_id := next_id ?s1 + 1\<rparr>) k"
    using egress_inv_add_revision [OF one(1) _ valid p(1)] p(2-4)
    by (simp_all add: v new_revision_def own_revision_def put_policy_frame)
  have "kept idna sha256 s (?s1\<lparr>egress_revisions := egress_revisions ?s1 @ [v], next_id := next_id ?s1 + 1\<rparr>)"
    unfolding kept_def using two one(2) by blast
  then show ?thesis by (rule kept_cong [rotated 3]) (simp_all add: s' put_policy_frame)
qed

lemma activate_kept:
  assumes "activate_egress_policy tx held i j n at ai s = Inr (p, s')" and "held_from H i held"
    and inv: "egress_inv idna sha256 s" and "\<forall>h \<in> H. copy_ok s h"
  shows "kept idna sha256 s s'"
proof -
  from assms(1) obtain h v where h: "locked_policy held i n s = Inr h"
    and fd: "List.find (\<lambda>v. er_id v = j \<and> er_policy_id v = ep_id h \<and>
         er_organization_id v = ep_organization_id h \<and> er_project_id v = ep_project_id h) (egress_revisions s) = Some v"
    and p: "p = h\<lparr>ep_active_revision_id := Some (er_id v), ep_status := Ep_ACTIVE,
       ep_activated_at := Some (tx_now tx), ep_disabled_at := None,
       ep_version := ep_version h + 1, ep_updated_at := tx_now tx\<rparr>"
    and s': "egress_policies s' = egress_policies (put_policy h p s)" "egress_revisions s' = egress_revisions s"
      "next_id s' = next_id s"
    by (auto simp: activate_egress_policy_def bind_result_Inr_iff Let_def put_policy_frame split: option.split_asm)
  from find_SomeD [OF fd] have v: "v \<in> set (egress_revisions s)" "own_revision h v"
    by (simp_all add: own_revision_def)
  note c = locked_policy_copy [OF h inv assms(2,4)]
  have "permitted (egress_revisions s) h p"
    using v by (auto simp: permitted_def selects_own_def own_revision_def p)
  from put_kept [OF inv c(1) this] show ?thesis
    by (rule kept_cong [rotated 3]) (simp_all add: s' put_policy_frame)
qed

lemma disable_kept:
  assumes "disable_egress_policy tx held i n at ai s = Inr (p, s')" and "held_from H i held"
    and inv: "egress_inv idna sha256 s" and "\<forall>h \<in> H. copy_ok s h"
  shows "kept idna sha256 s s'"
proof -
  from assms(1) obtain h where h: "locked_policy held i n s = Inr h"
    and p: "p = h\<lparr>ep_status := Ep_DISABLED, ep_disabled_at := Some (tx_now tx),
       ep_version := ep_version h + 1, ep_updated_at := tx_now tx\<rparr>"
    and s': "egress_policies s' = egress_policies (put_policy h p s)" "egress_revisions s' = egress_revisions s"
      "next_id s' = next_id s"
    by (auto simp: disable_egress_policy_def bind_result_Inr_iff Let_def put_policy_frame)
  note c = locked_policy_copy [OF h inv assms(2,4)]
  have "permitted (egress_revisions s) h p" by (rule permitted_same [OF c(1)]) (simp_all add: p)
  from put_kept [OF inv c(1) this] show ?thesis
    by (rule kept_cong [rotated 3]) (simp_all add: s' put_policy_frame)
qed

lemma reachable_inv:
  "egress_reachable idna sha256 c \<Longrightarrow> egress_inv idna sha256 (snd c) \<and> (\<forall>h \<in> fst c. copy_ok (snd c) h)"
proof (induction rule: egress_reachable.induct)
  case (start s)
  then show ?case by (simp add: egress_inv_def fresh_ids_def policy_revisions_def)
next
  case (step c c')
  have union: "egress_inv idna sha256 s' \<and> (\<forall>h \<in> H \<union> set (egress_policies s'). copy_ok s' h)"
    if "kept idna sha256 s s'" "\<forall>h \<in> H. copy_ok s h" for s s' H
    using that copy_of_row [of idna sha256 s'] by (auto simp: kept_def)
  from step(2) step.IH show ?case
    by (cases rule: egress_step.cases)
      (auto intro!: union [simplified] intro: create_kept revise_kept activate_kept disable_kept)
qed

subsection \<open>Properties\<close>


text \<open>
  C11: The optimistic version of an egress policy does not protect it. A request that loaded the policy
  before a concurrent transaction disabled it passes the version check after that commit and answers
  that the policy is active; a session that had not loaded the policy gets the conflict. The two changes
  end under one version number, and the stored status is the one the flush leaves: disabled when the
  loaded policy was active already, active otherwise.
\<close>

theorem activate_egress_policy_stale_version:
  assumes "find_by ep_id i (egress_policies s) = Some p"
    and "disable_egress_policy tx1 None i (ep_version p) at ai s = Inr (q, s1)"
    and "v \<in> set (egress_revisions s)" "own_revision p v" "distinct (map er_id (egress_revisions s))"
  shows "activate_egress_policy tx2 None i (er_id v) (ep_version p) at2 ai2 s1 =
      Inl (ApiError 409 ''VERSION_CONFLICT'') \<and>
    (\<exists>r s2. activate_egress_policy tx2 (Some p) i (er_id v) (ep_version p) at2 ai2 s1 = Inr (r, s2) \<and>
      ep_status r = Ep_ACTIVE \<and> ep_version r = ep_version q \<and>
      map_option ep_version (find_by ep_id i (egress_policies s2)) = Some (ep_version q) \<and>
      map_option ep_status (find_by ep_id i (egress_policies s2)) =
        Some (if ep_status p = Ep_ACTIVE then Ep_DISABLED else Ep_ACTIVE))"
proof -
  have i: "ep_id p = i" using find_by_SomeD [OF assms(1)] by simp
  let ?q = "p\<lparr>ep_status := Ep_DISABLED, ep_disabled_at := Some (tx_now tx1), ep_version := ep_version p + 1,
    ep_updated_at := tx_now tx1\<rparr>"
  have q: "q = ?q" and s1: "s1 = append_audit_event tx1 (Some (ep_organization_id p)) (Some (ep_project_id p)) at ai
      ''egress_policy.disabled'' ''egress_policy'' (Some (uuid_str (ep_id p)))
      [(''active_revision_id'', jopt juuid (ep_active_revision_id ?q))] (put_policy p ?q s)"
    using assms(1,2) by (auto simp: disable_egress_policy_def locked_policy_def bind_result_Inr_iff Let_def)
  have row: "find_by ep_id i (egress_policies s1) = Some ?q"
    using assms(1) by (simp add: s1 put_policy_def i find_by_upd_by)
  have vs: "egress_revisions s1 = egress_revisions s" by (simp add: s1 put_policy_frame)
  let ?P = "\<lambda>w. er_id w = er_id v \<and> er_policy_id w = ep_id p \<and> er_organization_id w = ep_organization_id p \<and>
    er_project_id w = ep_project_id p"
  have "List.find ?P (egress_revisions s) = Some w \<Longrightarrow> w = v" for w
    using distinct_key_unique [OF assms(5) _ assms(3)] by (auto dest!: find_SomeD)
  moreover have "List.find ?P (egress_revisions s) \<noteq> None"
    using assms(3,4) by (auto simp: find_None_iff own_revision_def)
  ultimately have fd: "List.find ?P (egress_revisions s) = Some v" by auto
  have "locked_policy None i (ep_version p) s1 = Inl (ApiError 409 ''VERSION_CONFLICT'')"
    by (simp add: locked_policy_def row Let_def)
  moreover have "locked_policy (Some p) i (ep_version p) s1 = Inr p" by (simp add: locked_policy_def row Let_def)
  ultimately show ?thesis
    by (simp add: activate_egress_policy_def vs fd [unfolded i] Let_def q put_policy_def i find_by_upd_by row
        flush_policy_def column_def)
qed

subsection \<open>A sample project\<close>

definition ex_spec :: egress_spec where
  "ex_spec = \<lparr>es_allowed_hosts = [''a.com''], es_allowed_methods = [''GET''], es_max_requests = 8,
     es_max_response_bytes = 65536, es_max_total_bytes = 65536, es_max_redirects = 0,
     es_connect_timeout_seconds = 5, es_request_timeout_seconds = 15, es_credential_secret_id = None\<rparr>"

definition ex_create :: create_egress_args where
  "ex_create = \<lparr>ca_project = \<lparr>pf_id = 3, pf_organization_id = 2\<rparr>, ca_user_id = 1, ca_actor_type = ''user'',
     ca_actor_id = ''1'', ca_idempotency_key = ''key-00000001'', ca_name = ''web'', ca_spec = ex_spec\<rparr>"

definition ex_egress_start :: egress_db where
  "ex_egress_start = \<lparr>audit_log = [], next_id = 10, egress_policies = [], egress_revisions = [],
     secret_refs = [], egress_idempotency = []\<rparr>"

definition ex_etx :: "instant \<Rightarrow> txn" where
  "ex_etx t = \<lparr>tx_now = t, tx_request_id = ''r'', tx_locked = (\<lambda>_. False)\<rparr>"

definition ex_validated :: "(string \<Rightarrow> string) \<Rightarrow> validated_egress_policy" where
  "ex_validated sha256 = \<lparr>vp_allowed_hosts = [''a.com''], vp_allowed_methods = [''GET''], vp_max_requests = 8,
     vp_max_response_bytes = 65536, vp_max_total_bytes = 65536, vp_max_redirects = 0,
     vp_connect_timeout_seconds = 5, vp_request_timeout_seconds = 15,
     vp_policy_digest = canonical_fingerprint sha256
       (canonical_egress_policy [''a.com''] [''GET''] 8 65536 65536 0 5 15)\<rparr>"

lemma ex_validated_spec: "validated_spec (\<lambda>_. None) sha256 ex_spec = Inr (ex_validated sha256)"
proof -
  have "normalize_hostname (\<lambda>_. None) ''a.com'' = Inr ''a.com''" "sorted_set [''a.com''] = [''a.com'']"
    "sorted_set [upper ''GET''] = [''GET'']" by code_simp+
  then show ?thesis
    by (simp add: validated_spec_def validate_egress_policy_def ex_spec_def ex_validated_def allowed_methods_def Let_def)
qed

definition ex_created :: egress_db where
  "ex_created = snd (insert_egress_policy (\<lambda>s. s) (ex_etx 0) ex_create (ex_validated (\<lambda>s. s)) ex_egress_start)"

lemma ex_created_step:
  "create_egress_policy (\<lambda>_. None) (\<lambda>s. s) (ex_etx 0) ex_create ex_egress_start =
     Inr (fst (insert_egress_policy (\<lambda>s. s) (ex_etx 0) ex_create (ex_validated (\<lambda>s. s)) ex_egress_start), ex_created)"
  using ex_validated_spec
  by (simp add: create_egress_policy_def ex_create_def ex_egress_start_def validate_credential_def ex_spec_def
      ex_created_def Let_def)

lemma ex_created_reachable:
  "egress_reachable (\<lambda>_. None) (\<lambda>s. s) ({} \<union> set (egress_policies ex_created), ex_created)"
proof -
  have "egress_spec_ok (ca_spec ex_create)" "list_all is_ascii (es_allowed_hosts (ca_spec ex_create))"
    by (simp_all add: ex_create_def ex_spec_def egress_spec_ok_def) code_simp
  note st = egress_step.create [OF ex_created_step this, of "{}"]
  have "egress_reachable (\<lambda>_. None) (\<lambda>s. s) ({}, ex_egress_start)"
    by (rule egress_reachable.start) (simp_all add: ex_egress_start_def)
  from egress_reachable.step [OF this st] show ?thesis .
qed


theorem activate_egress_policy_stale_version_witness:
  "\<exists>p q s1 r s2. find_by ep_id 10 (egress_policies ex_created) = Some p \<and>
     disable_egress_policy (ex_etx 1) None 10 1 ''user'' ''1'' ex_created = Inr (q, s1) \<and>
     activate_egress_policy (ex_etx 2) (Some p) 10 11 1 ''user'' ''1'' s1 = Inr (r, s2) \<and>
     map_option ep_status (find_by ep_id 10 (egress_policies s2)) = Some Ep_ACTIVE"
proof -
  obtain p v where p: "egress_policies ex_created = [p]" "ep_id p = 10" "ep_version p = 1" "ep_status p = Ep_DRAFT"
    and v: "egress_revisions ex_created = [v]" "own_revision p v" "er_id v = 11"
    by (simp add: ex_created_def insert_egress_policy_def ex_egress_start_def Let_def new_policy_def
        new_revision_def own_revision_def)
  then obtain q s1 where d: "disable_egress_policy (ex_etx 1) None 10 1 ''user'' ''1'' ex_created = Inr (q, s1)"
    by (simp add: disable_egress_policy_def locked_policy_def Let_def)
  have f: "find_by ep_id 10 (egress_policies ex_created) = Some p" using p by simp
  show ?thesis
    using activate_egress_policy_stale_version [OF f d [folded p(3)], of v "ex_etx 2" "''user''" "''1''"] f d p v
    by fastforce
qed

end
