(* ===== verification/Run_Egress.thy ===== *)
theory Run_Egress
  imports Sandbox_Safety Egress_Reach
begin

section \<open>Binding an egress policy to a run\<close>

text \<open>
  \<open>_resolve_run_egress_policy\<close> of \<open>services/runs.py\<close> binds the active revision of a project's egress
  policy to a run: the runtime policy and a receipt with its digests, both stored in the run's input
  reference. The claim of the run checks them again (\<open>bound_egress_policy\<close>). The theory proves that the
  two sides agree, also after the JSONB column has reordered the keys.
\<close>

subsection \<open>Resolving\<close>

definition egress_receipt_body ::
  "(string \<Rightarrow> string) \<Rightarrow> uuid \<Rightarrow> egress_revision \<Rightarrow> dict \<Rightarrow> dict" where
  "egress_receipt_body sha256 policy_id revision runtime =
     [(''schema_version'', JStr ''rdc.run-egress-policy-receipt/v1''), (''policy_id'', juuid policy_id),
      (''revision_id'', juuid (er_id revision)), (''revision_number'', JInt (er_revision_number revision)),
      (''policy_digest'', JStr (er_policy_digest revision)),
      (''runtime_policy_digest'', JStr (canonical_fingerprint sha256 (JDict runtime))),
      (''credential_configured'', JBool (er_credential_secret_id revision \<noteq> None))]"

definition egress_receipt :: "(string \<Rightarrow> string) \<Rightarrow> uuid \<Rightarrow> egress_revision \<Rightarrow> dict \<Rightarrow> dict" where
  "egress_receipt sha256 policy_id revision runtime =
     (let body = egress_receipt_body sha256 policy_id revision runtime
      in body @ [(''binding_digest'', JStr (canonical_fingerprint sha256 (JDict body)))])"

definition resolve_run_egress_policy ::
  "canary_settings \<Rightarrow> (string \<Rightarrow> string option) \<Rightarrow> (string \<Rightarrow> string) \<Rightarrow> egress_policy list \<Rightarrow>
   egress_revision list \<Rightarrow> uuid \<Rightarrow> uuid \<Rightarrow> uuid \<Rightarrow> (dict \<times> dict) result" where
  "resolve_run_egress_policy st idna sha256 policies revisions policy_id organization_id project_id =
     (case find (\<lambda>p. ep_id p = policy_id \<and> ep_organization_id p = organization_id \<and>
         ep_project_id p = project_id \<and> ep_status p = Ep_ACTIVE \<and> ep_active_revision_id p \<noteq> None) policies of
        None \<Rightarrow> Inl (ApiError 404 ''RESOURCE_NOT_FOUND'')
      | Some policy \<Rightarrow>
          (case find (\<lambda>v. Some (er_id v) = ep_active_revision_id policy \<and> er_policy_id v = ep_id policy \<and>
              er_organization_id v = organization_id \<and> er_project_id v = project_id) revisions of
             None \<Rightarrow> Inl (ApiError 409 ''EGRESS_POLICY_ACTIVE_REVISION_INVALID'')
           | Some revision \<Rightarrow>
               (case validate_revision idna sha256 revision of
                  Inl _ \<Rightarrow> Inl (ApiError 409 ''EGRESS_POLICY_ACTIVE_REVISION_INVALID'')
                | Inr validated \<Rightarrow>
                    if vp_policy_digest validated \<noteq> er_policy_digest revision
                      then Inl (ApiError 409 ''EGRESS_POLICY_ACTIVE_REVISION_INVALID'')
                    else if \<not> revision_within_canary_ceiling st validated
                      then Inl (ApiError 409 ''EGRESS_POLICY_EXCEEDS_CANARY_CEILING'')
                    else let runtime = revision_runtime_egress_policy_payload validated
                      in Inr (runtime, egress_receipt sha256 (ep_id policy) revision runtime))))"

subsection \<open>What the settings guarantee\<close>

definition normalized_host :: "string \<Rightarrow> string" where
  "normalized_host h = casefold (rstrip_by (\<lambda>c. c = CHR ''.'') (strip h))"

definition canary_hosts_ok :: "canary_settings \<Rightarrow> bool" where
  \<comment> \<open>the validated settings hold normalised hosts\<close>
  "canary_hosts_ok st \<longleftrightarrow> list_all (\<lambda>h. normalized_host h = h) (st_canary_web_egress_allowed_hosts st)"

subsection \<open>Reordered dictionaries\<close>

lemma json_dumps_reorder:
  assumes "mset d = mset e" and "distinct (map fst d)"
  shows "json_dumps (JDict d) = json_dumps (JDict e)"
proof -
  let ?f = "map (\<lambda>(k, v). (k, json_dumps v))"
  have "map fst (?f d) = map fst d" by (induction d) auto
  then have "distinct (map fst (?f d))" by (simp only: assms(2))
  then have "inj_on fst (set (?f d))" by (simp only: distinct_map [of fst])
  then have "sort_key fst (?f d) = sort_key fst (?f e)"
    using assms(1) by (intro sort_key_inj_key_eq) (simp_all only: mset_map mset_sort sorted_sort_key)
  then show ?thesis by simp
qed

lemma map_of_reorder:
  assumes "mset d = mset e" and "distinct (map fst d)"
  shows "map_of d = map_of e"
proof -
  have "mset (map fst d) = mset (map fst e)" using assms(1) by (simp add: mset_map)
  then have "distinct (map fst e)" using assms(2) by (metis mset_eq_imp_distinct_iff)
  then show ?thesis using assms map_of_inject_set mset_eq_setD by metis
qed

lemma dget_reorder: "mset d = mset e \<Longrightarrow> distinct (map fst d) \<Longrightarrow> dget d k = dget e k"
  using map_of_reorder [of d e] by (simp add: dget_def)

lemma fingerprint_reorder:
  "mset d = mset e \<Longrightarrow> distinct (map fst d) \<Longrightarrow>
   canonical_fingerprint sha256 (JDict d) = canonical_fingerprint sha256 (JDict e)"
  using json_dumps_reorder [of d e] by (simp only: canonical_fingerprint_def)

lemma distinct_keys_reorder: "mset d = mset e \<Longrightarrow> distinct (map fst e) \<Longrightarrow> distinct (map fst d)"
  by (metis mset_eq_imp_distinct_iff mset_map)

lemma receipt_keys [simp]:
  "distinct (map fst (egress_receipt sha256 i v r))" "distinct (map fst (egress_receipt_body sha256 i v r))"
  "filter (\<lambda>kv. fst kv \<noteq> ''binding_digest'') (egress_receipt sha256 i v r) = egress_receipt_body sha256 i v r"
  by (simp_all add: egress_receipt_def egress_receipt_body_def Let_def)

lemma receipt_accepted:
  assumes "mset receipt = mset (egress_receipt sha256 i v r)" and "i < 2 ^ 128" "er_id v < 2 ^ 128"
    and "1 \<le> er_revision_number v"
  shows "receipt_ok sha256 receipt"
proof -
  have d: "distinct (map fst receipt)" using distinct_keys_reorder [OF assms(1)] by simp
  note get = dget_reorder [OF assms(1) d]
  have "mset (filter (\<lambda>kv. fst kv \<noteq> ''binding_digest'') receipt) = mset (egress_receipt_body sha256 i v r)"
    using assms(1) by (simp add: receipt_keys(3) [symmetric, of sha256 i v r] del: receipt_keys(3))
  from fingerprint_reorder [OF this]
  have fp: "canonical_fingerprint sha256 (JDict (filter (\<lambda>kv. fst kv \<noteq> ''binding_digest'') receipt)) =
    canonical_fingerprint sha256 (JDict (egress_receipt_body sha256 i v r))"
    using d by (simp add: distinct_map_filter)
  have "set receipt = set (egress_receipt sha256 i v r)" using assms(1) by (rule mset_eq_setD)
  then have k: "dkeys receipt = receipt_fields"
    by (auto simp: dkeys_def receipt_fields_def egress_receipt_def egress_receipt_body_def Let_def)
  show ?thesis
    unfolding receipt_ok_def get fp k
    using assms(2-4) uuid_of_text_uuid_str
    by (simp add: dget_def egress_receipt_def egress_receipt_body_def Let_def as_int_def is_bool_def py_str_def)
qed

lemma runtime_accepted:
  assumes "mset stored = mset (revision_runtime_egress_policy_payload p)"
    and "canary_hosts_ok st" and "revision_within_canary_ceiling st p"
    and "vp_allowed_hosts p = sorted_set (vp_allowed_hosts p)" "vp_allowed_hosts p \<noteq> []"
    and "vp_allowed_methods p = sorted_set (vp_allowed_methods p)" "vp_allowed_methods p \<noteq> []"
    and "1 \<le> vp_max_requests p" "65536 \<le> vp_max_response_bytes p" "65536 \<le> vp_max_total_bytes p"
    "0 \<le> vp_max_redirects p" "1 \<le> vp_connect_timeout_seconds p" "1 \<le> vp_request_timeout_seconds p"
  shows "runtime_envelope_ok st stored (vp_allowed_hosts p) (vp_allowed_methods p)"
proof -
  have "distinct (map fst stored)"
    using distinct_keys_reorder [OF assms(1)] by (simp add: revision_runtime_egress_policy_payload_def runtime_policy_def)
  note get = dget_reorder [OF assms(1) this]
  have "normalized_host ` set (st_canary_web_egress_allowed_hosts st) = set (st_canary_web_egress_allowed_hosts st)"
    using assms(2) by (force simp: canary_hosts_ok_def list_all_iff)
  then have "set (vp_allowed_hosts p) \<subseteq> set (st_canary_web_egress_allowed_hosts st)"
    using assms(3) unfolding revision_within_canary_ceiling_def normalized_host_def by simp
  then show ?thesis
    using assms(3-) unfolding runtime_envelope_ok_def get
    by (simp add: revision_within_canary_ceiling_def required_runtime_def numeric_bounds_def dget_def
        revision_runtime_egress_policy_payload_def runtime_policy_def int_between_def as_int_def jstrs_def num_eq_def)
qed

lemma as_strs_jstrs [simp]: "as_strs (jstrs xs) = Some xs"
  by (simp add: as_strs_def jstrs_def list_all_iff is_str_def py_str_def comp_def)

lemma bound_binding_accepted:
  assumes v: "revision_valid idna sha256 v" "validate_revision idna sha256 v = Inr p"
    and ids: "i < 2 ^ 128" "er_id v < 2 ^ 128" and st: "canary_hosts_ok st" "revision_within_canary_ceiling st p"
    and stored: "mset stored = mset (revision_runtime_egress_policy_payload p)"
    and receipt: "mset receipt = mset (egress_receipt sha256 i v (revision_runtime_egress_policy_payload p))"
    and ref: "dget ref ''project_egress_policy'' = JDict stored"
      "dget ref ''project_egress_policy_receipt'' = JDict receipt"
  shows "bound_egress_policy st idna sha256 ref = Inr (Some (stored, canonical_fingerprint sha256
    (JDict (egress_receipt_body sha256 i v (revision_runtime_egress_policy_payload p)))))"
proof -
  let ?r = "revision_runtime_egress_policy_payload p"
  from v have p: "vp_allowed_hosts p = er_allowed_hosts v" "vp_allowed_methods p = er_allowed_methods v"
    "vp_policy_digest p = er_policy_digest v" by (simp_all add: revision_valid_def)
  note fields = validate_egress_policy_fields [OF v(2) [unfolded validate_revision_def]]
  have ds: "distinct (map fst stored)" "distinct (map fst receipt)"
    using distinct_keys_reorder [OF stored] distinct_keys_reorder [OF receipt]
    by (simp_all add: revision_runtime_egress_policy_payload_def runtime_policy_def)
  note get = dget_reorder [OF stored ds(1)] and rget = dget_reorder [OF receipt ds(2)]
  have env: "runtime_envelope_ok st stored (vp_allowed_hosts p) (vp_allowed_methods p)"
    by (rule runtime_accepted [OF stored st]) (use v(1) in \<open>simp_all add: p fields revision_valid_def\<close>)
  have rok: "receipt_ok sha256 receipt"
    by (rule receipt_accepted [OF receipt ids]) (use v(1) in \<open>simp add: revision_valid_def\<close>)
  have hosts: "as_strs (dget stored ''allowed_hosts'') = Some (vp_allowed_hosts p)"
    "as_strs (dget stored ''allowed_methods'') = Some (vp_allowed_methods p)"
    unfolding get by (simp_all add: dget_def revision_runtime_egress_policy_payload_def runtime_policy_def)
  have ints: "int_field stored ''max_requests'' = vp_max_requests p"
    "int_field stored ''max_response_bytes'' = vp_max_response_bytes p"
    "int_field stored ''max_total_bytes'' = vp_max_total_bytes p"
    "int_field stored ''max_redirects'' = vp_max_redirects p"
    "int_field stored ''connect_timeout_seconds'' = vp_connect_timeout_seconds p"
    "int_field stored ''request_timeout_seconds'' = vp_request_timeout_seconds p"
    unfolding int_field_def get
    by (simp_all add: dget_def revision_runtime_egress_policy_payload_def runtime_policy_def as_int_def)
  have again: "validate_egress_policy idna sha256 (vp_allowed_hosts p) (vp_allowed_methods p) (vp_max_requests p)
      (vp_max_response_bytes p) (vp_max_total_bytes p) (vp_max_redirects p) (vp_connect_timeout_seconds p)
      (vp_request_timeout_seconds p) = Inr p"
    using v(2) by (simp add: validate_revision_def p fields)
  have digests: "dget receipt ''runtime_policy_digest'' = JStr (canonical_fingerprint sha256 (JDict stored))"
    "dget receipt ''policy_digest'' = JStr (vp_policy_digest p)"
    "dget receipt ''binding_digest'' = JStr (canonical_fingerprint sha256 (JDict (egress_receipt_body sha256 i v ?r)))"
    unfolding rget fingerprint_reorder [OF stored ds(1)]
    by (simp_all add: dget_def egress_receipt_def egress_receipt_body_def Let_def p(3))
  show ?thesis
    by (simp add: bound_egress_policy_def ref as_dict_def hosts ints env rok again digests py_str_def)
qed

lemma active_resolves:
  assumes inv: "egress_inv idna sha256 s" and p: "p \<in> set (egress_policies s)" "ep_status p = Ep_ACTIVE"
  obtains v w where "v \<in> set (egress_revisions s)" "revision_valid idna sha256 v" "validate_revision idna sha256 v = Inr w"
    "ep_active_revision_id p = Some (er_id v)"
    "resolve_run_egress_policy st idna sha256 (egress_policies s) (egress_revisions s) (ep_id p)
       (ep_organization_id p) (ep_project_id p) =
     (if revision_within_canary_ceiling st w
      then Inr (revision_runtime_egress_policy_payload w,
        egress_receipt sha256 (ep_id p) v (revision_runtime_egress_policy_payload w))
      else Inl (ApiError 409 ''EGRESS_POLICY_EXCEEDS_CANARY_CEILING''))"
proof -
  have "policy_ok (egress_revisions s) p" using inv p(1) by (simp add: egress_inv_def)
  then obtain v where v: "v \<in> set (egress_revisions s)" "ep_active_revision_id p = Some (er_id v)" "own_revision p v"
    using p(2) by (auto simp: policy_ok_def selects_own_def split: option.splits)
  have valid: "revision_valid idna sha256 v" using inv v(1) by (simp add: egress_inv_def)
  then obtain w where w: "validate_revision idna sha256 v = Inr w" "vp_policy_digest w = er_policy_digest v"
    by (auto simp: revision_valid_def split: sum.splits)
  note ids = egress_inv_ids [OF inv, THEN fresh_idsD(1)]
  have "List.find (\<lambda>q. ep_id q = ep_id p \<and> ep_organization_id q = ep_organization_id p \<and>
      ep_project_id q = ep_project_id p \<and> ep_status q = Ep_ACTIVE \<and> ep_active_revision_id q \<noteq> None)
      (egress_policies s) = Some p"
    by (rule find_unique [where key = ep_id, OF ids(1) p(1)]) (use p(2) v(2) in simp_all)
  moreover have "List.find (\<lambda>u. Some (er_id u) = ep_active_revision_id p \<and> er_policy_id u = ep_id p \<and>
      er_organization_id u = ep_organization_id p \<and> er_project_id u = ep_project_id p) (egress_revisions s) = Some v"
    by (rule find_unique [where key = er_id, OF ids(2) v(1)]) (use v(2,3) in \<open>auto simp: own_revision_def\<close>)
  ultimately have res: "resolve_run_egress_policy st idna sha256 (egress_policies s) (egress_revisions s) (ep_id p)
       (ep_organization_id p) (ep_project_id p) =
     (if revision_within_canary_ceiling st w
      then Inr (revision_runtime_egress_policy_payload w,
        egress_receipt sha256 (ep_id p) v (revision_runtime_egress_policy_payload w))
      else Inl (ApiError 409 ''EGRESS_POLICY_EXCEEDS_CANARY_CEILING''))"
    by (simp add: resolve_run_egress_policy_def w Let_def)
  show thesis by (rule that [OF v(1) valid w(1) v(2) res])
qed

subsection \<open>Properties\<close>


definition ex_egress_active :: egress_db where
  "ex_egress_active = (case activate_egress_policy (ex_etx 1) None 10 11 1 ''user'' ''1'' ex_created of
     Inr (p, s) \<Rightarrow> s | Inl _ \<Rightarrow> ex_created)"

lemmas ex_active_defs = ex_egress_active_def activate_egress_policy_def locked_policy_def ex_created_def
  insert_egress_policy_def ex_egress_start_def Let_def new_policy_def new_revision_def put_policy_def ex_create_def

lemma ex_active:
  "\<exists>p. activate_egress_policy (ex_etx 1) None 10 11 1 ''user'' ''1'' ex_created = Inr (p, ex_egress_active) \<and>
     p \<in> set (egress_policies ex_egress_active) \<and> ep_status p = Ep_ACTIVE \<and> ep_id p = 10 \<and>
     ep_organization_id p = 2 \<and> ep_project_id p = 3"
  "next_id ex_egress_active = 12"
  by (simp_all add: ex_active_defs)

lemma ex_resolves:
  "resolve_run_egress_policy ex_canary (\<lambda>_. None) (\<lambda>s. s) (egress_policies ex_egress_active)
     (egress_revisions ex_egress_active) 10 2 3 \<noteq> Inl (ApiError 409 ''EGRESS_POLICY_EXCEEDS_CANARY_CEILING'')"
proof -
  have "normalized_host ''a.com'' = ''a.com''" by code_simp
  then have c: "revision_within_canary_ceiling ex_canary (ex_validated (\<lambda>s. s))"
    by (simp add: revision_within_canary_ceiling_def ex_validated_def ex_canary_def normalized_host_def)
  obtain v where v: "egress_revisions ex_egress_active = [v]" and w: "validate_revision (\<lambda>_. None) (\<lambda>s. s) v =
      validate_egress_policy (\<lambda>_. None) (\<lambda>s. s) [''a.com''] [''GET''] 8 65536 65536 0 5 15"
    by (simp add: ex_active_defs validate_revision_def ex_validated_def)
  have "validate_revision (\<lambda>_. None) (\<lambda>s. s) v = Inr (ex_validated (\<lambda>s. s))"
    using ex_validated_spec [of "\<lambda>s. s"] unfolding w by (simp add: validated_spec_def ex_spec_def split: sum.splits)
  with c show ?thesis
    by (auto simp: resolve_run_egress_policy_def v Let_def split: option.splits)
qed


end
