(* ===== verification/Exec_Claim.thy ===== *)
theory Exec_Claim
  imports Exec_Invariant Run_Egress
begin

section \<open>Claiming work\<close>

text \<open>
  \<open>services/execution_plane.py: claim_work\<close> with everything it calls: the selection of a source under
  the project's slot limit, the check that a run's egress binding is still current, admission, the
  deadline, the lease row, the payload of the claim, and the sandbox decisions of \<open>Sandbox_Policy\<close>.
  The claim extends the execution database by the tables only it reads. The random lease token is an
  argument (its text and its digest).
\<close>

subsection \<open>Tables\<close>

text \<open>The columns of \<open>control.agent_versions\<close> and \<open>control.storage_objects\<close> a claim reads.\<close>

record agent_version =
  agv_id :: uuid
  agv_manifest :: dict

record artifact =
  ea_id :: uuid
  ea_organization_id :: uuid
  ea_project_id :: uuid
  ea_build_id :: "uuid option"
  ea_run_id :: "uuid option"
  ea_lease_id :: uuid
  ea_created_by_worker_id :: uuid
  ea_kind :: string
  ea_digest_algorithm :: string
  ea_digest :: string
  ea_object_key :: string
  ea_media_type :: string
  ea_size_bytes :: int
  ea_status :: string
  ea_scan_status :: string
  ea_provenance :: dict
  ea_created_at :: instant

record storage_object =
  so_id :: uuid
  so_organization_id :: uuid
  so_project_id :: uuid
  so_status :: string
  so_scan_status :: string
  so_deleted_at :: "instant option"
  so_sha256_digest :: "string option"
  so_size_bytes :: "int option"
  so_media_type :: string

record claim_db = exec_db +
  agent_versions :: "agent_version list"
  artifacts :: "artifact list"
  storage_objects :: "storage_object list"
  bound_policies :: "egress_policy list"
  bound_revisions :: "egress_revision list"

datatype work_source = Src_build build_outbox | Src_run run_command

subsection \<open>Selecting a source\<close>

definition project_admits :: "instant \<Rightarrow> uuid \<Rightarrow> 'a exec_db_scheme \<Rightarrow> bool" where
  \<comment> \<open>\<open>active_project_leases < project_limit\<close>; an inactive or deleted project has no limit row\<close>
  "project_admits now i s =
     (case List.find (\<lambda>p. pj_id p = i \<and> pj_status p = ''ACTIVE'' \<and> pj_deleted_at p = None) (projects s) of
        None \<Rightarrow> False
      | Some p \<Rightarrow> project_live_leases now i (leases s) < pj_max_active_leases p)"

definition select_source :: "txn \<Rightarrow> work_kind \<Rightarrow> 'a exec_db_scheme \<Rightarrow> work_source option" where
  "select_source tx kind s =
     (if kind = Wk_BUILD then
        map_option Src_build (first_by (\<lambda>b. (bo_available_at b, bo_id b))
          (\<lambda>b. bo_status b = Ob_PENDING \<and> bo_available_at b \<le> tx_now tx \<and>
             project_admits (tx_now tx) (bo_project_id b) s \<and> \<not> tx_locked tx (bo_id b)) (build_outbox s))
      else
        map_option Src_run (first_by (\<lambda>c. (rc_available_at c, rc_id c))
          (\<lambda>c. rc_status c = Ob_PENDING \<and>
             rc_command c = (if kind = Wk_RUN_START then Cm_START else Cm_CANCEL) \<and>
             rc_available_at c \<le> tx_now tx \<and>
             (kind = Wk_RUN_START \<longrightarrow> project_admits (tx_now tx) (rc_project_id c) s) \<and>
             \<not> tx_locked tx (rc_id c)) (run_commands s)))"

subsection \<open>Deadlines\<close>

definition deadline_invalid :: exn where
  "deadline_invalid = ApiError 409 ''WORK_ITEM_DEADLINE_INVALID''"

definition source_payload :: "work_source \<Rightarrow> dict" where
  "source_payload src = (case src of Src_build b \<Rightarrow> bo_payload b | Src_run c \<Rightarrow> rc_payload c)"

definition execution_timeout_seconds ::
  "'b exec_settings_scheme \<Rightarrow> dict \<Rightarrow> work_kind \<Rightarrow> int result" where
  "execution_timeout_seconds st payload kind =
     (let (raw, ceiling) = (case kind of
         Wk_BUILD \<Rightarrow> (case map_of payload ''timeout_seconds'' of
             None \<Rightarrow> JInt (st_sandbox_max_build_seconds st) | Some v \<Rightarrow> v, st_sandbox_max_build_seconds st)
       | Wk_RUN_START \<Rightarrow> (case as_dict (dget payload ''runtime'') of
             None \<Rightarrow> JNull | Some r \<Rightarrow> dget r ''timeout_seconds'', st_sandbox_max_run_seconds st)
       | Wk_RUN_CANCEL \<Rightarrow> (JInt (st_worker_lease_max_seconds st), st_worker_lease_max_seconds st))
      in case as_int raw of
           None \<Rightarrow> Inl deadline_invalid
         | Some n \<Rightarrow> if n < 1 then Inl deadline_invalid else Inr (min n ceiling))"

definition cancellation_deadline_from_source :: "dict \<Rightarrow> instant result" where
  "cancellation_deadline_from_source payload =
     (case as_str (dget payload ''cancel_deadline_at'') of
        None \<Rightarrow> Inl deadline_invalid
      | Some raw \<Rightarrow> (case fromisoformat raw of
          None \<Rightarrow> Inl deadline_invalid
        | Some (t, aware) \<Rightarrow> if aware then Inr t else Inl deadline_invalid))"

definition claim_deadline ::
  "'b exec_settings_scheme \<Rightarrow> txn \<Rightarrow> dict \<Rightarrow> work_kind \<Rightarrow> instant result" where
  \<comment> \<open>the statements from \<open>timeout_seconds\<close> to the check of the deadline\<close>
  "claim_deadline st tx payload kind =
     bind_result (execution_timeout_seconds st payload kind) (\<lambda>timeout.
     bind_result (execution_deadline_at (tx_now tx) timeout) (\<lambda>d0.
     bind_result (if kind = Wk_RUN_CANCEL
       then bind_result (cancellation_deadline_from_source payload) (\<lambda>c. Inr (min d0 c)) else Inr d0) (\<lambda>d.
     if d \<le> tx_now tx then Inl (ApiError 409 ''WORK_ITEM_DEADLINE_EXPIRED'') else Inr d)))"

definition claim_expiry :: "'b exec_settings_scheme \<Rightarrow> txn \<Rightarrow> instant \<Rightarrow> instant result" where
  "claim_expiry st tx deadline_at =
     clamp_lease_expiry (tx_now tx + seconds (st_worker_lease_seconds st)) (tx_now tx)
       (st_worker_lease_max_seconds st) deadline_at"

subsection \<open>Admission\<close>

definition lock_project_admission ::
  "txn \<Rightarrow> uuid \<Rightarrow> work_kind \<Rightarrow> 'a exec_db_scheme \<Rightarrow> (project \<times> int) result" where
  "lock_project_admission tx project_id kind s =
     (case find_by pj_id project_id (projects s) of
        None \<Rightarrow> Inl (ApiError 409 ''PROJECT_EXECUTION_DISABLED'')
      | Some p \<Rightarrow>
          if pj_status p \<noteq> ''ACTIVE'' \<or> pj_deleted_at p \<noteq> None
          then Inl (ApiError 409 ''PROJECT_EXECUTION_DISABLED'')
          else let active_count = project_live_leases (tx_now tx) (pj_id p) (leases s)
            in if project_slot_kind kind \<and> pj_max_active_leases p \<le> active_count
               then Inl (ApiError 409 ''PROJECT_CONCURRENCY_LIMIT'')
               else Inr (p, active_count))"

subsection \<open>Payloads\<close>

definition state_conflict :: exn where
  "state_conflict = ApiError 409 ''WORK_ITEM_STATE_CONFLICT''"

definition build_claim_payload :: "build_outbox \<Rightarrow> 'a claim_db_scheme \<Rightarrow> (dict \<times> build) result" where
  "build_claim_payload source s =
     (case find_by bd_id (bo_build_id source) (builds s) of
        None \<Rightarrow> Inl state_conflict
      | Some build \<Rightarrow>
          if bd_status build \<noteq> Bd_QUEUED then Inl state_conflict
          else (case find_by agv_id (bd_agent_version_id build) (agent_versions s) of
            None \<Rightarrow> Inl state_conflict
          | Some version \<Rightarrow>
              (case List.find (\<lambda>o1. Some (so_id o1) = bd_source_object_id build \<and>
                  so_organization_id o1 = bd_organization_id build \<and> so_project_id o1 = bd_project_id build \<and>
                  so_status o1 = ''AVAILABLE'' \<and> so_scan_status o1 = ''PASSED'' \<and> so_deleted_at o1 = None)
                  (storage_objects s) of
                None \<Rightarrow> Inl (ApiError 409 ''SOURCE_OBJECT_UNAVAILABLE'')
              | Some o1 \<Rightarrow> Inr (
                  [(''schema_version'', JStr ''1''), (''work_kind'', JStr ''BUILD''),
                   (''build_id'', juuid (bd_id build)), (''organization_id'', juuid (bd_organization_id build)),
                   (''project_id'', juuid (bd_project_id build)), (''agent_id'', juuid (bd_agent_id build)),
                   (''agent_version_id'', juuid (bd_agent_version_id build)),
                   (''manifest_digest'', JStr (bd_manifest_digest build)),
                   (''manifest'', JDict (agv_manifest version)),
                   (''source'', JDict [(''kind'', JStr ''object_storage''), (''object_id'', juuid (so_id o1)),
                      (''sha256_digest'', jopt JStr (so_sha256_digest o1)), (''size_bytes'', jopt JInt (so_size_bytes o1)),
                      (''media_type'', JStr (so_media_type o1)),
                      (''download_grant_path'', JStr ''/internal/v1/leases/{lease_id}/source-download''),
                      (''available'', JBool True)]),
                   (''execution_enabled'', JBool False)], build))))"

definition artifact_payload :: "artifact \<Rightarrow> dict" where
  "artifact_payload a =
     [(''id'', juuid (ea_id a)), (''digest'', JStr (ea_digest_algorithm a @ '':'' @ ea_digest a)),
      (''object_key'', JStr (ea_object_key a)), (''media_type'', JStr (ea_media_type a)),
      (''size_bytes'', JInt (ea_size_bytes a)), (''provenance'', JDict (ea_provenance a)),
      (''download_grant_path'', JStr ''/internal/v1/leases/{lease_id}/artifact-download'')]"

definition run_artifact :: "run \<Rightarrow> 'a claim_db_scheme \<Rightarrow> artifact option" where
  "run_artifact r s = List.find (\<lambda>a. ea_build_id a = Some (rn_build_id r) \<and> ea_kind a = ''CONTAINER_IMAGE'' \<and>
     ea_status a = ''AVAILABLE'' \<and> ea_scan_status a = ''PASSED'') (artifacts s)"

definition run_claim_payload :: "run_command \<Rightarrow> work_kind \<Rightarrow> 'a claim_db_scheme \<Rightarrow> (dict \<times> run) result" where
  "run_claim_payload source kind s =
     (case find_by rn_id (rc_run_id source) (runs s) of
        None \<Rightarrow> Inl state_conflict
      | Some run \<Rightarrow> (case find_by agv_id (rn_agent_version_id run) (agent_versions s) of
          None \<Rightarrow> Inl state_conflict
        | Some version \<Rightarrow> Inr (
            [(''schema_version'', JStr ''1''), (''work_kind'', JStr (work_kind_str kind)),
             (''run_id'', juuid (rn_id run)), (''organization_id'', juuid (rn_organization_id run)),
             (''project_id'', juuid (rn_project_id run)), (''agent_id'', juuid (rn_agent_id run)),
             (''agent_version_id'', juuid (rn_agent_version_id run)), (''build_id'', juuid (rn_build_id run)),
             (''manifest'', JDict (agv_manifest version)), (''input_reference'', JDict (rn_input_reference run)),
             (''runtime'', JDict (rn_runtime_configuration run)),
             (''cancel_requested_at'', jopt jtime (rn_cancel_requested_at run)),
             (''cancel_deadline_at'', jopt jtime (rn_cancel_deadline_at run)),
             (''artifact'', jopt (\<lambda>a. JDict (artifact_payload a)) (run_artifact run s)),
             (''execution_enabled'', JBool False)], run)))"

subsection \<open>The egress binding at admission\<close>

definition receipt_ids ::
  "canary_settings \<Rightarrow> (string \<Rightarrow> string option) \<Rightarrow> (string \<Rightarrow> string) \<Rightarrow> dict \<Rightarrow> (uuid \<times> uuid) option" where
  \<comment> \<open>the \<open>try\<close> block: the policy and the revision of an intact binding\<close>
  "receipt_ids st idna sha256 input_reference =
     (case (bound_egress_policy st idna sha256 input_reference,
            as_dict (dget input_reference ''project_egress_policy_receipt'')) of
        (Inr _, Some receipt) \<Rightarrow>
          (case (uuid_of_text (py_str (dget receipt ''policy_id'')),
                 uuid_of_text (py_str (dget receipt ''revision_id''))) of
             (Some policy_id, Some revision_id) \<Rightarrow> Some (policy_id, revision_id)
           | _ \<Rightarrow> None)
      | _ \<Rightarrow> None)"

definition binding_policy :: "uuid \<Rightarrow> run \<Rightarrow> 'a claim_db_scheme \<Rightarrow> egress_policy option" where
  "binding_policy policy_id r s = List.find (\<lambda>p. ep_id p = policy_id \<and>
     ep_organization_id p = rn_organization_id r \<and> ep_project_id p = rn_project_id r) (bound_policies s)"

definition binding_revision :: "uuid \<Rightarrow> uuid \<Rightarrow> run \<Rightarrow> 'a claim_db_scheme \<Rightarrow> egress_revision option" where
  "binding_revision policy_id revision_id r s = List.find (\<lambda>v. er_id v = revision_id \<and>
     er_policy_id v = policy_id \<and> er_organization_id v = rn_organization_id r \<and>
     er_project_id v = rn_project_id r) (bound_revisions s)"

definition binding_current ::
  "dict \<Rightarrow> uuid \<Rightarrow> egress_policy option \<Rightarrow> egress_revision option \<Rightarrow> bool" where
  "binding_current receipt revision_id policy revision =
     (case (policy, revision) of
        (Some p, Some v) \<Rightarrow> ep_status p = Ep_ACTIVE \<and> ep_active_revision_id p = Some revision_id \<and>
          py_eq (dget receipt ''revision_number'') (JInt (er_revision_number v)) \<and>
          py_eq (dget receipt ''policy_digest'') (JStr (er_policy_digest v)) \<and>
          py_eq (dget receipt ''credential_configured'') (JBool (er_credential_secret_id v \<noteq> None))
      | _ \<Rightarrow> False)"

definition binding_revoked :: string where
  "binding_revoked = ''EGRESS_POLICY_BINDING_REVOKED''"

definition revoke_source_row :: "txn \<Rightarrow> run_command \<Rightarrow> run_command" where
  "revoke_source_row tx c = c\<lparr>rc_status := Ob_FAILED, rc_attempts := rc_attempts c + 1,
     rc_claimed_at := Some (tx_now tx), rc_last_error_code := Some binding_revoked,
     rc_updated_at := tx_now tx\<rparr>"

definition revoke_run_row :: "txn \<Rightarrow> run \<Rightarrow> run" where
  "revoke_run_row tx r = r\<lparr>rn_status := Rn_FAILED, rn_failure_code := Some binding_revoked,
     rn_failure_summary := Some ''The bound egress policy is no longer active at execution admission.'',
     rn_finished_at := Some (tx_now tx), rn_updated_at := tx_now tx, rn_version := rn_version r + 1\<rparr>"

definition nonzero_uuid :: "uuid \<Rightarrow> json" where
  "nonzero_uuid u = (if u \<noteq> 0 then juuid u else JNull)"

definition revoked_details :: "bool \<Rightarrow> uuid \<Rightarrow> uuid \<Rightarrow> egress_policy option \<Rightarrow> dict" where
  "revoked_details valid policy_id revision_id policy =
     [(''policy_id'', nonzero_uuid policy_id), (''revision_id'', nonzero_uuid revision_id),
      (''binding_integrity_valid'', JBool valid),
      (''policy_active'', JBool (case policy of None \<Rightarrow> False | Some p \<Rightarrow> ep_status p = Ep_ACTIVE)),
      (''same_revision_selected'', JBool (case policy of None \<Rightarrow> False
         | Some p \<Rightarrow> ep_active_revision_id p = Some revision_id))]"

definition revoke_bound_run ::
  "txn \<Rightarrow> run_command \<Rightarrow> run \<Rightarrow> bool \<Rightarrow> uuid \<Rightarrow> uuid \<Rightarrow> egress_policy option \<Rightarrow>
   'a claim_db_scheme \<Rightarrow> 'a claim_db_scheme result" where
  \<comment> \<open>the statements after \<open>if current\<close>\<close>
  "revoke_bound_run tx source run valid policy_id revision_id policy s =
     (let run' = revoke_run_row tx run;
          s1 = put_run run' (s\<lparr>run_commands := upd_by rc_id (rc_id source) (revoke_source_row tx)
            (run_commands s)\<rparr>)
      in bind_result (run_event_for tx run' ''run.status'' (status_payload (rn_status run) Rn_FAILED) s1) (\<lambda>s2.
         bind_result (run_event_for tx run' ''run.failed''
           [(''failure_code'', JStr binding_revoked), (''retryable'', JBool False)] s2) (\<lambda>s3.
         Inr (append_audit_event tx (Some (rn_organization_id run)) (Some (rn_project_id run)) ''system''
           ''execution-admission'' ''run.egress_policy_binding_revoked'' ''run''
           (Some (uuid_str (rn_id run)))
           (revoked_details valid policy_id revision_id policy) s3))))"

definition bound_run_egress_policy_is_current ::
  "canary_settings \<Rightarrow> (string \<Rightarrow> string option) \<Rightarrow> (string \<Rightarrow> string) \<Rightarrow> txn \<Rightarrow> run_command \<Rightarrow>
   'a claim_db_scheme \<Rightarrow> (bool \<times> 'a claim_db_scheme) result" where
  "bound_run_egress_policy_is_current st idna sha256 tx source s =
     (case find_by rn_id (rc_run_id source) (runs s) of
        None \<Rightarrow> Inr (True, s)
      | Some run \<Rightarrow>
          let input_reference = rn_input_reference run;
              receipt = dget input_reference ''project_egress_policy_receipt''
          in if receipt = JNull \<and> dget input_reference ''project_egress_policy'' = JNull then Inr (True, s)
             else
               let ids = receipt_ids st idna sha256 input_reference;
                   (policy_id, revision_id) = or_else ids (0, 0);
                   policy = binding_policy policy_id run s;
                   revision = binding_revision policy_id revision_id run s
               in if ids \<noteq> None \<and>
                     binding_current (or_else (as_dict receipt) []) revision_id policy revision
                  then Inr (True, s)
                  else bind_result
                    (revoke_bound_run tx source run (ids \<noteq> None) policy_id revision_id policy s)
                    (\<lambda>s1. Inr (False, s1)))"

subsection \<open>The claim\<close>

record lease_claim =
  lc_id :: uuid
  lc_work_kind :: work_kind
  lc_organization_id :: uuid
  lc_project_id :: uuid
  lc_build_id :: "uuid option"
  lc_run_id :: "uuid option"
  lc_attempt :: int
  lc_claimed_at :: instant
  lc_expires_at :: instant
  lc_deadline_at :: instant
  lc_lease_token :: string
  lc_payload :: dict

definition claimed_lease ::
  "(string \<Rightarrow> string) \<Rightarrow> txn \<Rightarrow> worker \<Rightarrow> work_kind \<Rightarrow> work_source \<Rightarrow> string \<Rightarrow> instant \<Rightarrow> instant \<Rightarrow> uuid \<Rightarrow> lease" where
  \<comment> \<open>the row added first, with an empty payload; \<open>source.attempts\<close> is already counted up\<close>
  "claimed_lease sha256 tx w kind src token_digest expires_at deadline_at i =
     \<lparr>le_id = i, le_worker_id = wo_id w,
      le_organization_id = (case src of Src_build b \<Rightarrow> bo_organization_id b | Src_run c \<Rightarrow> rc_organization_id c),
      le_project_id = (case src of Src_build b \<Rightarrow> bo_project_id b | Src_run c \<Rightarrow> rc_project_id c),
      le_work_kind = kind,
      le_source_outbox_id = (case src of Src_build b \<Rightarrow> bo_id b | Src_run c \<Rightarrow> rc_id c),
      le_source_topic = (case src of Src_build b \<Rightarrow> bo_topic b | Src_run c \<Rightarrow> rc_topic c),
      le_build_id = (case src of Src_build b \<Rightarrow> Some (bo_build_id b) | Src_run c \<Rightarrow> None),
      le_run_id = (case src of Src_build b \<Rightarrow> None | Src_run c \<Rightarrow> Some (rc_run_id c)),
      le_lease_token_digest = token_digest, le_payload_digest = canonical_fingerprint sha256 (JDict []),
      le_payload_snapshot = [], le_status = Le_ACTIVE,
      le_attempt = (case src of Src_build b \<Rightarrow> bo_attempts b | Src_run c \<Rightarrow> rc_attempts c) + 1,
      le_claimed_at = tx_now tx, le_expires_at = expires_at, le_deadline_at = deadline_at,
      le_last_renewed_at = None, le_completed_at = None, le_failure_code = None,
      le_failure_summary = None, le_created_at = tx_now tx, le_updated_at = tx_now tx\<rparr>"

definition lease_constraints :: "lease \<Rightarrow> lease list \<Rightarrow> bool" where
  \<comment> \<open>the constraints and unique indexes of \<open>control.execution_leases\<close> for a new row\<close>
  "lease_constraints l t \<longleftrightarrow>
     1 \<le> le_attempt l \<and> le_attempt l \<le> 20 \<and> le_claimed_at l < le_expires_at l \<and>
     le_claimed_at l < le_deadline_at l \<and> le_expires_at l \<le> le_deadline_at l \<and>
     (if le_work_kind l = Wk_BUILD then le_build_id l \<noteq> None \<and> le_run_id l = None
      else le_build_id l = None \<and> le_run_id l \<noteq> None) \<and>
     list_all (\<lambda>x. le_lease_token_digest x \<noteq> le_lease_token_digest l \<and>
       \<not> (le_work_kind x = le_work_kind l \<and> le_source_outbox_id x = le_source_outbox_id l \<and>
          (le_attempt x = le_attempt l \<or> le_status x = Le_ACTIVE \<and> le_status l = Le_ACTIVE))) t"

definition add_lease :: "lease \<Rightarrow> 'a exec_db_scheme \<Rightarrow> 'a exec_db_scheme result" where
  "add_lease l s = (if lease_constraints l (leases s)
     then Inr (s\<lparr>leases := leases s @ [l], next_id := next_id s + 1\<rparr>) else Inl IntegrityError)"

definition claim_build_source_row :: "txn \<Rightarrow> build_outbox \<Rightarrow> build_outbox" where
  "claim_build_source_row tx b = b\<lparr>bo_status := Ob_CLAIMED, bo_attempts := bo_attempts b + 1,
     bo_claimed_at := Some (tx_now tx), bo_updated_at := tx_now tx\<rparr>"

definition claim_run_source_row :: "txn \<Rightarrow> run_command \<Rightarrow> run_command" where
  "claim_run_source_row tx c = c\<lparr>rc_status := Ob_CLAIMED, rc_attempts := rc_attempts c + 1,
     rc_claimed_at := Some (tx_now tx), rc_updated_at := tx_now tx\<rparr>"

definition mark_claimed :: "txn \<Rightarrow> work_source \<Rightarrow> 'a exec_db_scheme \<Rightarrow> 'a exec_db_scheme" where
  "mark_claimed tx src s = (case src of
     Src_build b \<Rightarrow> s\<lparr>build_outbox := upd_by bo_id (bo_id b) (claim_build_source_row tx) (build_outbox s)\<rparr>
   | Src_run c \<Rightarrow> s\<lparr>run_commands := upd_by rc_id (rc_id c) (claim_run_source_row tx) (run_commands s)\<rparr>)"

definition start_target ::
  "txn \<Rightarrow> work_kind \<Rightarrow> work_source \<Rightarrow> 'a claim_db_scheme \<Rightarrow> (dict \<times> 'a claim_db_scheme) result" where
  \<comment> \<open>the payload, and the build or the run set to \<open>STARTING\<close>\<close>
  "start_target tx kind src s = (case src of
     Src_build b \<Rightarrow>
       bind_result (build_claim_payload b s) (\<lambda>(payload, build).
         Inr (payload, put_build (build\<lparr>bd_status := Bd_STARTING,
           bd_started_at := Some (or_else (bd_started_at build) (tx_now tx)),
           bd_updated_at := tx_now tx, bd_version := bd_version build + 1\<rparr>) s))
   | Src_run c \<Rightarrow>
       bind_result (run_claim_payload c kind s) (\<lambda>(payload, run).
         if kind = Wk_RUN_START then
           if rn_status run \<noteq> Rn_QUEUED then Inl state_conflict
           else let run' = run\<lparr>rn_status := Rn_STARTING,
                  rn_started_at := Some (or_else (rn_started_at run) (tx_now tx)),
                  rn_updated_at := tx_now tx, rn_version := rn_version run + 1\<rparr>
             in bind_result (run_event_for tx run' ''run.status''
                  (status_payload (rn_status run) Rn_STARTING) (put_run run' s)) (\<lambda>s1. Inr (payload, s1))
         else if rn_status run \<noteq> Rn_ABORTING then Inl state_conflict
         else Inr (payload, s)))"

subsection \<open>The finished payload\<close>

definition activated :: "sandbox_activation option \<Rightarrow> (sandbox_activation \<Rightarrow> bool) \<Rightarrow> bool" where
  \<comment> \<open>\<open>activation is not None and activation.f\<close>\<close>
  "activated activation f = (case activation of None \<Rightarrow> False | Some a \<Rightarrow> f a)"

definition claim_queue_args :: "sandbox_activation option \<Rightarrow> dict \<Rightarrow> queue_args" where
  "claim_queue_args activation payload =
     \<lparr>qa_request_queue_enabled = activated activation ac_request_queue_enabled,
      qa_http_enabled = activated activation ac_request_queue_http_enabled,
      qa_egress_policy_digest = (if activated activation ac_request_queue_http_enabled
        then Option.bind activation ac_egress_policy_digest else None),
      qa_browser_enabled = activated activation ac_request_queue_browser_enabled,
      qa_browser_policy_digest = (if activated activation ac_request_queue_browser_enabled
        then Option.bind activation ac_browser_policy_digest else None),
      qa_browser_egress_policy_digest = (if activated activation ac_request_queue_browser_enabled
        then as_str (dget (input_reference_of payload) ''request_queue_browser_egress_policy_digest'')
        else None),
      qa_dataset_enabled = activated activation ac_request_queue_dataset_enabled,
      qa_key_value_store_enabled = activated activation ac_request_queue_kv_enabled,
      qa_project_binding_digest = Option.bind activation ac_project_binding_digest\<rparr>"

definition admission_fields :: "worker \<Rightarrow> int \<Rightarrow> project \<Rightarrow> int \<Rightarrow> work_kind \<Rightarrow> dict" where
  "admission_fields w active_worker_count p active_project_count kind =
     [(''worker_active_before_claim'', JInt active_worker_count),
      (''worker_max_concurrency'', JInt (wo_max_concurrency w)),
      (''project_active_before_claim'', JInt active_project_count),
      (''project_max_active_leases'', JInt (pj_max_active_leases p)),
      (''project_slot_consumed'', JBool (project_slot_kind kind))]"

definition jdict_opt :: "dict option \<Rightarrow> json" where
  "jdict_opt d = jopt JDict d"

definition with_capabilities ::
  "canary_settings \<Rightarrow> (string \<Rightarrow> string) \<Rightarrow> worker \<Rightarrow> sandbox_activation option \<Rightarrow> dict \<Rightarrow> dict" where
  \<comment> \<open>the three assignments of capability receipts, each computed from the payload so far\<close>
  "with_capabilities st sha256 w activation p0 =
     (let p1 = dset ''dataset_append_capability'' (jdict_opt (dataset_append_capability st w p0
            (activated activation ac_dataset_write_enabled)
            (activated activation ac_request_queue_dataset_enabled))) p0;
          p2 = dset ''key_value_store_capability'' (jdict_opt (key_value_store_capability st sha256 w p1
            (activated activation ac_key_value_store_enabled)
            (activated activation ac_request_queue_kv_enabled))) p1
      in dset ''request_queue_capability'' (jdict_opt (request_queue_capability st sha256 w p2
            (claim_queue_args activation p2))) p2)"

definition finish_payload ::
  "canary_settings \<Rightarrow> (string \<Rightarrow> string option) \<Rightarrow> (string \<Rightarrow> string) \<Rightarrow> worker \<Rightarrow> instant \<Rightarrow> dict \<Rightarrow> dict \<Rightarrow>
   (dict \<times> sandbox_activation option) result" where
  "finish_payload st idna sha256 w deadline_at admission payload =
     bind_result (sandbox_claim_policy st idna sha256 w payload) (\<lambda>sandbox_policy.
     bind_result (canary_activation st idna sha256 w payload sandbox_policy) (\<lambda>activation.
       let execution_enabled = (sandbox_policy \<noteq> None \<and> activation \<noteq> None);
           p1 = dset ''execution_enabled'' (JBool execution_enabled) payload;
           p2 = dset ''sandbox'' (if execution_enabled then jdict_opt sandbox_policy else JNull) p1;
           p3 = dset ''activation'' (activation_payload activation) p2;
           p4 = dset ''deadline_at'' (jtime deadline_at) p3;
           p5 = dset ''admission'' (JDict admission) p4
       in Inr (with_capabilities st sha256 w activation p5, activation)))"

definition audit_claim ::
  "txn \<Rightarrow> worker \<Rightarrow> lease \<Rightarrow> dict \<Rightarrow> sandbox_activation option \<Rightarrow> 'a exec_db_scheme \<Rightarrow> 'a exec_db_scheme" where
  \<comment> \<open>an activation is given only for a sandbox policy, so \<open>execution_enabled\<close> is its presence\<close>
  "audit_claim tx w l admission activation =
     append_audit_event tx (Some (le_organization_id l)) (Some (le_project_id l)) ''worker''
       (uuid_str (wo_id w)) ''execution.lease.claimed'' ''execution_lease'' (Some (uuid_str (le_id l)))
       ([(''work_kind'', JStr (work_kind_str (le_work_kind l))), (''attempt'', JInt (le_attempt l)),
         (''source_topic'', JStr (le_source_topic l)), (''deadline_at'', jtime (le_deadline_at l))] @
        admission @
        [(''execution_enabled'', JBool (activation \<noteq> None)),
         (''sandbox_attestation_digest'', jopt JStr (wo_sandbox_attestation_digest w)),
         (''activation_mode'', JStr (if activation \<noteq> None then ''canary'' else ''disabled'')),
         (''activation_agent_version_id'', jopt (\<lambda>a. juuid (ac_agent_version_id a)) activation)])"

definition lease_claim_of :: "lease \<Rightarrow> string \<Rightarrow> lease_claim" where
  "lease_claim_of l raw_token =
     \<lparr>lc_id = le_id l, lc_work_kind = le_work_kind l, lc_organization_id = le_organization_id l,
      lc_project_id = le_project_id l, lc_build_id = le_build_id l, lc_run_id = le_run_id l,
      lc_attempt = le_attempt l, lc_claimed_at = le_claimed_at l, lc_expires_at = le_expires_at l,
      lc_deadline_at = le_deadline_at l, lc_lease_token = raw_token, lc_payload = le_payload_snapshot l\<rparr>"

subsection \<open>\<open>claim_work\<close>\<close>

definition source_project :: "work_source \<Rightarrow> uuid" where
  "source_project src = (case src of Src_build b \<Rightarrow> bo_project_id b | Src_run c \<Rightarrow> rc_project_id c)"

definition admit_source ::
  "canary_settings \<Rightarrow> (string \<Rightarrow> string option) \<Rightarrow> (string \<Rightarrow> string) \<Rightarrow> string \<times> string \<Rightarrow> txn \<Rightarrow> worker \<Rightarrow>
   int \<Rightarrow> work_kind \<Rightarrow> work_source \<Rightarrow> 'a claim_db_scheme \<Rightarrow> (lease_claim option \<times> 'a claim_db_scheme) result" where
  \<comment> \<open>from \<open>_lock_project_admission\<close> to the return of the claim\<close>
  "admit_source st idna sha256 token tx w active_worker_count kind src s =
     bind_result (lock_project_admission tx (source_project src) kind s) (\<lambda>(project, active_project_count).
     bind_result (claim_deadline st tx (source_payload src) kind) (\<lambda>deadline_at.
     bind_result (claim_expiry st tx deadline_at) (\<lambda>expires_at.
       let l = claimed_lease sha256 tx w kind src (snd token) expires_at deadline_at (next_id s);
           admission = admission_fields w active_worker_count project active_project_count kind
       in bind_result (add_lease l (mark_claimed tx src s)) (\<lambda>s1.
          bind_result (start_target tx kind src s1) (\<lambda>(payload, s2).
          bind_result (finish_payload st idna sha256 w deadline_at admission payload) (\<lambda>(payload', activation).
            let l' = l\<lparr>le_payload_digest := canonical_fingerprint sha256 (JDict payload'),
                  le_payload_snapshot := payload'\<rparr>
            in Inr (Some (lease_claim_of l' (fst token)),
                 audit_claim tx w l' admission activation (put_lease l' s2))))))))"

definition claim_source ::
  "canary_settings \<Rightarrow> (string \<Rightarrow> string option) \<Rightarrow> (string \<Rightarrow> string) \<Rightarrow> string \<times> string \<Rightarrow> txn \<Rightarrow> worker \<Rightarrow>
   int \<Rightarrow> work_kind \<Rightarrow> work_source \<Rightarrow> 'a claim_db_scheme \<Rightarrow> (lease_claim option \<times> 'a claim_db_scheme) result" where
  "claim_source st idna sha256 token tx w active_worker_count kind src s =
     bind_result
       (case src of
          Src_run c \<Rightarrow> if kind = Wk_RUN_START
            then bound_run_egress_policy_is_current st idna sha256 tx c s else Inr (True, s)
        | Src_build b \<Rightarrow> Inr (True, s))
       (\<lambda>(current, s1).
          if current then admit_source st idna sha256 token tx w active_worker_count kind src s1
          else Inr (None, s1))"

fun claim_kinds ::
  "canary_settings \<Rightarrow> (string \<Rightarrow> string option) \<Rightarrow> (string \<Rightarrow> string) \<Rightarrow> string \<times> string \<Rightarrow> txn \<Rightarrow> worker \<Rightarrow>
   int \<Rightarrow> work_kind list \<Rightarrow> 'a claim_db_scheme \<Rightarrow> (lease_claim option \<times> 'a claim_db_scheme) result" where
  "claim_kinds st idna sha256 token tx w n [] s = Inr (None, s)"
| "claim_kinds st idna sha256 token tx w n (kind # kinds) s =
     (case select_source tx kind s of
        None \<Rightarrow> claim_kinds st idna sha256 token tx w n kinds s
      | Some src \<Rightarrow> claim_source st idna sha256 token tx w n kind src s)"

definition credential_invalid :: exn where
  "credential_invalid = ApiError 401 ''INTERNAL_CREDENTIAL_INVALID''"

definition claim_request_ok :: "work_kind list \<Rightarrow> bool" where
  \<comment> \<open>the validation of \<open>ClaimWorkRequest\<close>\<close>
  "claim_request_ok kinds \<longleftrightarrow> 1 \<le> length kinds \<and> length kinds \<le> 3 \<and> distinct kinds"

definition claim_admitted :: "txn \<Rightarrow> worker \<Rightarrow> work_kind list \<Rightarrow> 'a exec_db_scheme \<Rightarrow> int result" where
  \<comment> \<open>the checks of the locked worker, with its live leases\<close>
  "claim_admitted tx w kinds s =
     (if recovery_pending w then Inl (ApiError 409 ''WORKER_RECOVERY_REQUIRED'')
      else if wo_status w \<noteq> Ws_ACTIVE then Inl (ApiError 409 ''WORKER_DRAINING'')
      else if \<exists>k \<in> set kinds. work_kind_str k \<notin> set (wo_capabilities w)
        then Inl (ApiError 403 ''WORKER_CAPABILITY_DENIED'')
      else let n = worker_live_leases (tx_now tx) (wo_id w) (leases s)
        in if wo_max_concurrency w \<le> n then Inl (ApiError 409 ''WORKER_CONCURRENCY_LIMIT'') else Inr n)"

definition claim_work ::
  "canary_settings \<Rightarrow> (string \<Rightarrow> string option) \<Rightarrow> (string \<Rightarrow> string) \<Rightarrow> string \<times> string \<Rightarrow> txn \<Rightarrow> uuid \<Rightarrow>
   work_kind list \<Rightarrow> 'a claim_db_scheme \<Rightarrow> (lease_claim option \<times> 'a claim_db_scheme) result" where
  "claim_work st idna sha256 token tx worker_id kinds s =
     bind_result (reap_expired_leases st tx 100 True s) (\<lambda>(_, s1).
     case find_by wo_id worker_id (workers s1) of
       None \<Rightarrow> Inl credential_invalid
     | Some w \<Rightarrow> bind_result (claim_admitted tx w kinds s1) (\<lambda>n.
         claim_kinds st idna sha256 token tx w n kinds s1))"

end
