(* ===== verification/Exec_Sample.thy ===== *)
theory Exec_Sample
  imports Exec_Invariant
begin

section \<open>A sample database of the execution plane\<close>

text \<open>
  One project with a queued build, a running run and a worker that holds the lease of that run:
  the concrete input at which the theorems on the execution plane are applied.
\<close>

definition ex_settings :: exec_settings where
  "ex_settings = \<lparr>st_worker_lease_seconds = 60, st_worker_lease_max_seconds = 300,
     st_worker_max_attempts = 5, st_worker_retry_base_seconds = 2, st_worker_retry_max_seconds = 300,
     st_worker_cancel_convergence_seconds = 300, st_worker_registration_max_concurrency = 16,
     st_worker_lost_after_seconds = 45, st_sandbox_max_build_seconds = 900,
     st_sandbox_max_run_seconds = 3600, st_sandbox_execution_enabled = False\<rparr>"

definition ex_tx :: "int \<Rightarrow> txn" where
  "ex_tx t = \<lparr>tx_now = seconds t, tx_request_id = ''req'', tx_locked = (\<lambda>_. False)\<rparr>"

definition ex_worker :: worker where
  "ex_worker = \<lparr>wo_id = 1, wo_name = ''w'', wo_public_prefix = ''p'', wo_last_four = ''abcd'',
     wo_token_digest = ''d'', wo_capabilities = [''BUILD'', ''RUN_START'', ''RUN_CANCEL'', ''EVENT_INGEST''],
     wo_max_concurrency = 2, wo_status = Ws_ACTIVE, wo_protocol_version = ''1'',
     wo_software_version = ''1'', wo_metadata_json = [], wo_sandbox_profile = None,
     wo_sandbox_attestation_digest = None, wo_sandbox_execution_enabled = False,
     wo_sandbox_attested_at = None, wo_registered_at = 0, wo_last_seen_at = Some (seconds 990),
     wo_last_lost_at = None, wo_last_recovered_at = None, wo_last_cleanup_at = None,
     wo_cleanup_generation = 0, wo_expires_at = None, wo_revoked_at = None\<rparr>"

definition ex_project :: project where
  "ex_project = \<lparr>pj_id = 3, pj_organization_id = 2, pj_status = ''ACTIVE'', pj_deleted_at = None,
     pj_max_active_leases = 20\<rparr>"

definition ex_run :: run where
  "ex_run = \<lparr>rn_id = 10, rn_organization_id = 2, rn_project_id = 3, rn_agent_id = 4,
     rn_agent_version_id = 5, rn_build_id = 6, rn_status = Rn_RUNNING, rn_input_reference = [],
     rn_runtime_configuration = [], rn_memory_mb = 512, rn_cpu_millis = 500, rn_timeout_seconds = 600,
     rn_requested_by_user_id = 7, rn_queued_at = seconds 800, rn_started_at = Some (seconds 900),
     rn_finished_at = None, rn_cancel_requested_at = None, rn_cancel_deadline_at = None,
     rn_failure_code = None, rn_failure_summary = None, rn_version = 3, rn_created_at = seconds 800,
     rn_updated_at = seconds 900\<rparr>"

definition ex_start :: run_command where
  "ex_start = \<lparr>rc_id = 11, rc_organization_id = 2, rc_project_id = 3, rc_run_id = 10,
     rc_command = Cm_START, rc_topic = ''rdc.run.start.requested.v1'',
     rc_payload = [(''runtime'', JDict [(''timeout_seconds'', JInt 600)])],
     rc_status = Ob_CLAIMED, rc_attempts = 1, rc_available_at = seconds 800,
     rc_claimed_at = Some (seconds 900), rc_delivered_at = None, rc_last_error_code = None,
     rc_created_at = seconds 800, rc_updated_at = seconds 900\<rparr>"

definition ex_lease :: lease where
  "ex_lease = \<lparr>le_id = 12, le_worker_id = 1, le_organization_id = 2, le_project_id = 3,
     le_work_kind = Wk_RUN_START, le_source_outbox_id = 11,
     le_source_topic = ''rdc.run.start.requested.v1'', le_build_id = None, le_run_id = Some 10,
     le_lease_token_digest = ''t'', le_payload_digest = ''h'', le_payload_snapshot = [],
     le_status = Le_ACTIVE, le_attempt = 1, le_claimed_at = seconds 900, le_expires_at = seconds 960,
     le_deadline_at = seconds 1500, le_last_renewed_at = None, le_completed_at = None,
     le_failure_code = None, le_failure_summary = None, le_created_at = seconds 900,
     le_updated_at = seconds 900\<rparr>"

definition ex_build :: build where
  "ex_build = \<lparr>bd_id = 6, bd_organization_id = 2, bd_project_id = 3, bd_agent_id = 4,
     bd_agent_version_id = 5, bd_manifest_digest = ''m'', bd_source_object_id = None,
     bd_status = Bd_QUEUED, bd_requested_by_user_id = 7, bd_started_at = None, bd_completed_at = None,
     bd_artifact_digest = None, bd_error_code = None, bd_error_message = None, bd_version = 1,
     bd_created_at = seconds 700, bd_updated_at = seconds 700\<rparr>"

definition ex_dispatch :: build_outbox where
  "ex_dispatch = \<lparr>bo_id = 8, bo_organization_id = 2, bo_project_id = 3, bo_build_id = 6,
     bo_topic = ''rdc.build.requested.v1'', bo_payload = [], bo_status = Ob_PENDING, bo_attempts = 0,
     bo_available_at = seconds 700, bo_claimed_at = None, bo_delivered_at = None,
     bo_last_error_code = None, bo_created_at = seconds 700, bo_updated_at = seconds 700\<rparr>"

definition ex_recovery :: recovery_state where
  "ex_recovery = \<lparr>rs_status = ''HEALTHY'', rs_owner_id = ''o'', rs_last_started_at = None,
     rs_last_completed_at = None, rs_last_heartbeat_at = None, rs_last_leases_reaped = 0,
     rs_last_cancellations_converged = 0, rs_last_workers_lost = 0, rs_last_worker_leases_fenced = 0,
     rs_total_sweeps = 0, rs_total_failures = 0, rs_total_workers_lost = 0,
     rs_total_worker_leases_fenced = 0, rs_last_error_code = None, rs_last_error_summary = None,
     rs_updated_at = 0\<rparr>"

definition ex_db :: exec_db where
  "ex_db = \<lparr>audit_log = [], next_id = 100, run_events = [], leases = [ex_lease], builds = [ex_build],
     build_outbox = [ex_dispatch], runs = [ex_run], run_commands = [ex_start], projects = [ex_project],
     workers = [ex_worker], secret_grants = [], recovery_state = Some ex_recovery,
     run_idempotency = []\<rparr>"

lemmas ex_defs = ex_settings_def ex_tx_def ex_worker_def ex_project_def ex_run_def ex_start_def
  ex_lease_def ex_build_def ex_dispatch_def ex_recovery_def ex_db_def seconds_def

lemmas exec_inv_defs = exec_inv_def tables_ok_def fresh_ids_def lease_ok_def lease_tied_def
  sources_ok_def source_at_def source_key_def active_id_def events_numbered_def event_sequences_def

lemma ex_settings_ok: "settings_ok ex_settings"
  by (simp add: ex_settings_def settings_ok_def)

lemma ex_db_inv: "exec_inv ex_settings ex_db"
  by (auto simp: ex_defs exec_inv_defs split: if_splits)

end
