(* ===== verification/Exec_Sweep.thy ===== *)
theory Exec_Sweep
  imports Exec_Sample
begin

section \<open>The recovery sweep does its work\<close>

text \<open>
  Recovery never raises on a database that satisfies the invariant, closes every lease it selects
  and aborts every overdue cancellation it selects.
\<close>

subsection \<open>Recovery returns\<close>

lemma plain_run_status [simp]: "plain (run_status_str x)"
  by (cases x) (simp_all add: plain_def)

lemma status_event_total:
  "\<exists>s'. run_event_for tx r ''run.status'' (status_payload a b) s = Inr s'"
  by (simp add: run_event_for_def append_run_event_def persisted_event_types_def status_payload_def
      status_payload_sanitized)

lemma completed_event_total:
  "plain reason \<Longrightarrow> \<exists>s'. run_event_for tx r ''run.completed''
     [(''status'', JStr ''ABORTED''), (''reason'', JStr reason)] s = Inr s'"
  by (simp add: run_event_for_def append_run_event_def persisted_event_types_def
      reason_payload_sanitized plain_def [of "''ABORTED''"])

lemma converge_total:
  assumes "plain reason"
  shows "\<exists>ok s'. converge_cancelled_run tx i reason s = Inr (ok, s')"
proof -
  obtain n s1 where f: "fence_cancelled_run_leases tx i None None s = (n, s1)" by fastforce
  show ?thesis
  proof (cases "find_by rn_id i (runs s1)")
    case (Some r)
    obtain s2 where e1: "run_event_for tx (converged_run tx r) ''run.status'' (status_payload Rn_ABORTING Rn_ABORTED)
        (put_run (converged_run tx r) s1) = Inr s2" using status_event_total by blast
    obtain s3 where e2: "run_event_for tx (converged_run tx r) ''run.completed''
        [(''status'', JStr ''ABORTED''), (''reason'', JStr reason)] s2 = Inr s3"
      using completed_event_total [OF assms] by blast
    show ?thesis
      using Some f e1 e2
      by (simp add: converge_cancelled_run_def Let_def converged_run_def [symmetric] ex_bool_eq)
  qed (simp add: converge_cancelled_run_def f ex_bool_eq)
qed

lemma converge_all_total: "\<exists>n s'. converge_all tx ids s = Inr (n, s')"
proof (induction ids arbitrary: s)
  case (Cons i ids)
  obtain ok s1 where "converge_cancelled_run tx i ''CANCEL_DEADLINE_EXCEEDED'' s = Inr (ok, s1)"
    using converge_total [of "''CANCEL_DEADLINE_EXCEEDED''" tx i s] by (auto simp: plain_def)
  with Cons [of s1] show ?case by auto
qed simp

lemma expiry_retry_total:
  assumes "settings_ok st"
  shows "\<exists>t. expiry_retry_at st tx l de a = Inr t"
proof (cases "1 \<le> le_attempt l")
  case True
  moreover have "1 \<le> st_worker_retry_base_seconds st"
    "st_worker_retry_base_seconds st \<le> st_worker_retry_max_seconds st"
    using assms by (simp_all add: settings_ok_def)
  ultimately obtain t where "retry_available_at (tx_now tx) (le_attempt l)
      (st_worker_retry_base_seconds st) (st_worker_retry_max_seconds st) = Inr t"
    by (rule retry_available_after_now)
  then show ?thesis by (simp add: expiry_retry_at_def)
qed (simp add: expiry_retry_at_def execution_retry_allowed_def)

lemma requeue_total:
  assumes "settings_ok st"
  shows "\<exists>t s'. requeue_expired_run st tx l de fc s = Inr (t, s')"
proof -
  obtain t where t: "expiry_retry_at st tx l de (find_by rc_id (le_source_outbox_id l) (run_commands s) \<noteq> None) = Inr t"
    using expiry_retry_total [OF assms] by blast
  define s1 where "s1 = s\<lparr>run_commands := upd_by rc_id (le_source_outbox_id l)
               (reset_run_source_row tx t fc) (run_commands s)\<rparr>"
  show ?thesis
  proof (cases "find_run (le_run_id l) s1")
    case (Some r)
    let ?r = "reset_run_row tx (le_work_kind l) (t \<noteq> None) de fc r"
    obtain s3 where "run_event_for tx ?r ''run.status'' (status_payload (rn_status r) (rn_status ?r))
        (put_run ?r s1) = Inr s3" using status_event_total by blast
    with t Some show ?thesis by (simp add: requeue_expired_run_def Let_def s1_def [symmetric])
  qed (use t in \<open>simp add: requeue_expired_run_def Let_def s1_def [symmetric]\<close>)
qed

lemma reap_lease_total:
  assumes "settings_ok st"
  shows "\<exists>s'. reap_lease st tx l s = Inr s'"
proof (cases "le_work_kind l = Wk_BUILD")
  case True
  obtain t where "expiry_retry_at st tx l (le_deadline_at l \<le> tx_now tx)
      (find_by bo_id (le_source_outbox_id l) (build_outbox s) \<noteq> None) = Inr t"
    using expiry_retry_total [OF assms] by blast
  with True show ?thesis
    by (simp add: reap_lease_def Let_def reset_expired_source_def reset_expired_build_def)
next
  case False
  define reason where "reason =
    (if le_work_kind l = Wk_RUN_START then ''RUN_START_LEASE_LOST'' else ''RUN_CANCEL_LEASE_LOST'')"
  have conv: "\<exists>ok s1. converge_cancelled_run tx i reason s = Inr (ok, s1)" for i
    by (rule converge_total) (simp add: plain_def reason_def)
  define c where "c = (case find_run (le_run_id l) s of None \<Rightarrow> Inr (False, s)
      | Some run \<Rightarrow> if rn_cancel_requested_at run = None then Inr (False, s)
          else converge_cancelled_run tx (rn_id run) reason s)"
  obtain ok s1 where c: "c = Inr (ok, s1)"
    using conv by (cases "find_run (le_run_id l) s"; cases "rn_cancel_requested_at (the (find_run (le_run_id l) s))")
      (fastforce simp: c_def)+
  obtain t s2 where "requeue_expired_run st tx l (le_deadline_at l \<le> tx_now tx) (expiry_failure_code tx l) s1 =
      Inr (t, s2)" using requeue_total [OF assms] by blast
  with c False show ?thesis
    unfolding reap_lease_def reset_expired_source_def reason_def [symmetric] c_def [symmetric]
    by (simp add: Let_def)
qed

lemma reap_leases_total: "settings_ok st \<Longrightarrow> \<exists>s'. reap_leases st tx ids s = Inr s'"
proof (induction ids arbitrary: s)
  case (Cons i ids)
  have "\<exists>s1. (case find_by le_id i (leases s) of None \<Rightarrow> Inr s | Some l \<Rightarrow> reap_lease st tx l s) = Inr s1"
    using reap_lease_total [OF Cons.prems] by (cases "find_by le_id i (leases s)") auto
  with Cons show ?case by auto
qed simp

subsection \<open>Selected leases are closed\<close>

lemma recovers_closed:
  assumes "recovers st s s'" and "\<not> active_id s i"
  shows "\<not> active_id s' i"
  using recoversD(2) [OF assms(1)] assms(2)
  by (auto simp: active_id_def lease_le_def elim!: list_all2_in2)

lemma fence_closes:
  assumes run: "fence_cancelled_run_leases tx j None None s = (n, s')"
    and l: "\<And>a. a \<in> set (leases s) \<Longrightarrow> le_id a = i \<Longrightarrow> le_run_id a = Some j"
    and free: "\<not> tx_locked tx i"
  shows "\<not> active_id s' i"
proof
  assume "active_id s' i"
  then obtain a where a: "a \<in> set (leases s)" "le_id a = i" "le_status a = Le_ACTIVE"
      "i \<notin> set (fenced_ids tx j None (leases s))"
    by (auto simp: active_id_def fence_sel(1) [OF run] split: if_splits)
  with l [OF a(1,2)] free show False by (auto simp: fenced_ids_def)
qed

lemma converge_closes:
  assumes run: "converge_cancelled_run tx j reason s = Inr (ok, s')"
    and l: "\<And>a. a \<in> set (leases s) \<Longrightarrow> le_id a = i \<Longrightarrow> le_run_id a = Some j"
    and free: "\<not> tx_locked tx i"
  shows "\<not> active_id s' i"
  using run
proof (cases rule: converge_cancelled_run_cases)
  case (untouched n)
  show ?thesis by (rule fence_closes [OF untouched(1) l free])
next
  case (aborted n s1 r s2 s3 d)
  have rec: "recovers undefined s1 s'"
    using recovers_trans [OF recovers_put_run recovers_trans [OF recovers_event [OF aborted(6)]
      recovers_trans [OF recovers_event [OF aborted(7)] recovers_audit]]] by (simp add: aborted(8))
  show ?thesis by (rule recovers_closed [OF rec fence_closes [OF aborted(1) l free]])
qed

lemma reap_lease_closes:
  assumes inv: "exec_inv st s" and l: "l \<in> set (leases s)" and free: "\<not> tx_locked tx (le_id l)"
    and run: "reap_lease st tx l s = Inr s'"
  shows "\<not> active_id s' (le_id l)"
  using run
proof (cases rule: reap_lease_cases)
  case (converged r reason s1)
  have d: "distinct (map le_id (leases s))"
    using exec_invD(1) [OF inv] by (simp add: tables_ok_def fresh_ids_def)
  have rid: "le_run_id l = Some (rn_id r)"
    using converged(2) by (auto simp: find_run_def split: option.splits dest: find_by_SomeD)
  have only: "le_run_id a = Some (rn_id r)" if "a \<in> set (leases s)" "le_id a = le_id l" for a
    unfolding distinct_key_unique [OF d that(1) l that(2)] by (rule rid)
  have "\<not> active_id s1 (le_id l)"
    by (rule converge_closes [OF converged(4) _ free]) (rule only)
  then show ?thesis
    by (simp add: converged(5) audit_converged_lease_def append_audit_event_def active_id_def)
next
  case (given s0 s1 t de fc)
  have "leases s' = upd_by le_id (le_id l) (expire_lease_row tx de fc) (leases s1)"
    by (simp add: given(4) audit_expired_lease_def append_audit_event_def)
  moreover have "le_status (expire_lease_row tx de fc a) \<noteq> Le_ACTIVE" for a
    by (simp add: expire_lease_row_def)
  ultimately show ?thesis
    by (auto simp: active_id_def set_upd_by)
qed

lemma reap_leases_closes:
  "exec_inv st s \<Longrightarrow> \<forall>i \<in> set ids. latest_id s i \<and> \<not> tx_locked tx i \<Longrightarrow>
   reap_leases st tx ids s = Inr s' \<Longrightarrow> i \<in> set ids \<Longrightarrow> \<not> active_id s' i"
proof (induction ids arbitrary: s)
  case (Cons j ids)
  from Cons.prems(3) obtain s1 where one:
      "(case find_by le_id j (leases s) of None \<Rightarrow> Inr s | Some l \<Rightarrow> reap_lease st tx l s) = Inr s1"
    and rest: "reap_leases st tx ids s1 = Inr s'"
    by (auto simp: bind_result_Inr_iff)
  have rec: "recovers st s s1"
    using one Cons.prems(1,2)
    by (auto simp: latest_id_def split: option.splits dest!: find_by_SomeD intro: recovers_reap_lease)
  have inv1: "exec_inv st s1" using recovers_inv [OF Cons.prems(1) rec] .
  have lat: "\<forall>i \<in> set ids. latest_id s1 i" using Cons.prems(2) recovers_latest_id [OF rec] by auto
  have rec': "recovers st s1 s'" using recovers_reap_leases [OF inv1 lat rest] .
  show ?case
  proof (cases "i \<in> set ids")
    case True
    with Cons.IH [OF inv1 _ rest] lat Cons.prems(2) show ?thesis by simp
  next
    case False
    with Cons.prems(4) have "i = j" by simp
    have "\<not> active_id s1 j"
    proof (cases "find_by le_id j (leases s)")
      case None
      with one show ?thesis by (force simp: find_by_None_iff active_id_def)
    next
      case (Some l)
      with one Cons.prems(1,2) show ?thesis
        using reap_lease_closes [of st s l tx s1] find_by_SomeD [OF Some] by simp
    qed
    with \<open>i = j\<close> recovers_closed [OF rec'] show ?thesis by simp
  qed
qed simp

subsection \<open>Overdue cancellations are aborted\<close>

lemma upd_by_const:
  assumes "distinct (map key t)" and "find_by key i t = Some r"
  shows "upd_by key i (\<lambda>_. f r) t = upd_by key i f t"
proof -
  have "x = r" if "x \<in> set t" "key x = i" for x
    using distinct_key_unique [OF assms(1) that(1)] find_by_SomeD [OF assms(2)] that(2) by simp
  then show ?thesis by (auto simp: upd_by_def)
qed

lemma run_event_for_sel:
  assumes "run_event_for tx r et p s = Inr s'"
  shows "runs s' = runs s" and "leases s' = leases s" and "run_commands s' = run_commands s"
    and "builds s' = builds s" and "build_outbox s' = build_outbox s" and "workers s' = workers s"
    and "secret_grants s' = secret_grants s" and "next_id s' = next_id s"
  using assms by (auto simp: run_event_for_def elim!: append_run_event_cases)

lemma converged_run_sel [simp]:
  "rn_id (converged_run tx r) = rn_id r" "rn_status (converged_run tx r) = Rn_ABORTED"
  "rn_cancel_requested_at (converged_run tx r) = rn_cancel_requested_at r"
  by (simp_all add: converged_run_def)

lemma converge_aborts:
  assumes d: "distinct (map rn_id (runs s))" and r: "find_by rn_id i (runs s) = Some r"
    and "rn_status r = Rn_ABORTING" and "rn_cancel_requested_at r \<noteq> None" and "plain reason"
  obtains s' where "converge_cancelled_run tx i reason s = Inr (True, s')"
    and "runs s' = upd_by rn_id i (converged_run tx) (runs s)"
proof -
  obtain ok s' where run: "converge_cancelled_run tx i reason s = Inr (ok, s')"
    using converge_total [OF assms(5)] by blast
  from run show ?thesis
  proof (cases rule: converge_cancelled_run_cases)
    case (untouched n)
    with assms(3,4) r show ?thesis by simp
  next
    case (aborted n s1 q s2 s3 d)
    have "q = r" "rn_id r = i" using aborted(3) r find_by_SomeD [OF r] by simp_all
    then have "runs s' = upd_by rn_id i (\<lambda>_. converged_run tx r) (runs s)"
      using run_event_for_sel(1) [OF aborted(6)] run_event_for_sel(1) [OF aborted(7)]
        fence_sel(2) [OF aborted(1)]
      by (simp add: aborted(8) append_audit_event_def put_run_def)
    also have "\<dots> = upd_by rn_id i (converged_run tx) (runs s)"
      using upd_by_const [OF assms(1) r, of "converged_run tx"] .
    finally show ?thesis using that run aborted(2) by simp
  qed
qed

lemma converge_all_aborts:
  assumes "distinct ids" and "distinct (map rn_id (runs s))"
    and "\<forall>i \<in> set ids. \<exists>r. find_by rn_id i (runs s) = Some r \<and> rn_status r = Rn_ABORTING \<and>
           rn_cancel_requested_at r \<noteq> None"
  shows "\<exists>s'. converge_all tx ids s = Inr (int (length ids), s') \<and>
    runs s' = map (\<lambda>r. if rn_id r \<in> set ids then converged_run tx r else r) (runs s)"
  using assms
proof (induction ids arbitrary: s)
  case (Cons i ids)
  from Cons.prems(3) obtain r where r: "find_by rn_id i (runs s) = Some r" "rn_status r = Rn_ABORTING"
    "rn_cancel_requested_at r \<noteq> None" by auto
  obtain s1 where one: "converge_cancelled_run tx i ''CANCEL_DEADLINE_EXCEEDED'' s = Inr (True, s1)"
    and runs: "runs s1 = upd_by rn_id i (converged_run tx) (runs s)"
    using converge_aborts [OF Cons.prems(2) r, of "''CANCEL_DEADLINE_EXCEEDED''"] by (auto simp: plain_def)
  have "\<exists>s'. converge_all tx ids s1 = Inr (int (length ids), s') \<and>
    runs s' = map (\<lambda>r. if rn_id r \<in> set ids then converged_run tx r else r) (runs s1)"
  proof (rule Cons.IH)
    show "\<forall>j \<in> set ids. \<exists>r. find_by rn_id j (runs s1) = Some r \<and> rn_status r = Rn_ABORTING \<and>
           rn_cancel_requested_at r \<noteq> None"
      using Cons.prems(1,3) by (auto simp: runs find_by_upd_by)
  qed (use Cons.prems in \<open>simp_all add: runs map_upd_by\<close>)
  then obtain s' where s': "converge_all tx ids s1 = Inr (int (length ids), s')"
    "runs s' = map (\<lambda>r. if rn_id r \<in> set ids then converged_run tx r else r) (runs s1)" by blast
  have "runs s' = map (\<lambda>r. if rn_id r \<in> set (i # ids) then converged_run tx r else r) (runs s)"
    using Cons.prems(1) by (auto simp: s'(2) runs upd_by_def)
  with one s'(1) show ?case by simp
qed simp

lemma overdue_batch_props:
  assumes "tables_ok s"
  shows "distinct (overdue_batch tx b s)"
    and "i \<in> set (overdue_batch tx b s) \<Longrightarrow> \<exists>r. find_by rn_id i (runs s) = Some r \<and>
      cancellation_overdue (tx_now tx) r \<and> \<not> tx_locked tx i"
proof -
  have d: "distinct (map rn_id (runs s))" using assms by (simp add: tables_ok_def fresh_ids_def)
  show "distinct (overdue_batch tx b s)"
    unfolding overdue_batch_def select_limit_def take_map [symmetric]
    by (intro distinct_take distinct_sort_key_map) (simp add: d distinct_map_filter)
  show "\<exists>r. find_by rn_id i (runs s) = Some r \<and> cancellation_overdue (tx_now tx) r \<and> \<not> tx_locked tx i"
    if "i \<in> set (overdue_batch tx b s)"
    using that d by (auto simp: overdue_batch_def find_by_eq_Some_iff dest!: select_limit_mem)
qed

lemma reap_overdue_runs:
  assumes "tables_ok s" and "1 \<le> b" and "b \<le> 500"
  obtains s' where "reap_overdue_cancellations tx b s = Inr (int (length (overdue_batch tx b s)), s')"
    and "runs s' = map (\<lambda>r. if rn_id r \<in> set (overdue_batch tx b s) then converged_run tx r else r) (runs s)"
proof -
  have "\<forall>i \<in> set (overdue_batch tx b s). \<exists>r. find_by rn_id i (runs s) = Some r \<and>
      rn_status r = Rn_ABORTING \<and> rn_cancel_requested_at r \<noteq> None"
    using overdue_batch_props(2) [OF assms(1)] by (fastforce simp: cancellation_overdue_def)
  with overdue_batch_props(1) [OF assms(1)] converge_all_aborts assms that show ?thesis
    by (simp add: reap_overdue_cancellations_def tables_ok_def fresh_ids_def) blast
qed

lemma select_limit_all:
  assumes "int (length (filter P t)) \<le> b" and "r \<in> set t" and "P r"
  shows "r \<in> set (select_limit key P (nat b) t)"
proof -
  have "length (sort_key key (filter P t)) \<le> nat b" using assms(1) by simp
  then have "select_limit key P (nat b) t = sort_key key (filter P t)"
    by (simp add: select_limit_def)
  with assms(2,3) show ?thesis by simp
qed

lemma countp_filter: "countp P t = int (length (filter P t))"
  by (induction t) auto

lemma recovers_active_count:
  assumes "recovers st s s'"
  shows "countp (\<lambda>l. le_status l = Le_ACTIVE) (leases s') \<le> countp (\<lambda>l. le_status l = Le_ACTIVE) (leases s)"
  using recoversD(2) [OF assms] by (induction rule: list_all2_induct) (auto simp: lease_le_def)

lemma reap_expired_clears:
  assumes inv: "exec_inv st s" and few: "countp (\<lambda>l. le_status l = Le_ACTIVE) (leases s) \<le> b"
    and run: "reap_expired_leases st tx b False s = Inr (n, s')"
    and l: "l \<in> set (leases s')" and free: "\<not> tx_locked tx (le_id l)"
  shows "\<not> lease_overdue (tx_now tx) l"
proof
  assume over: "lease_overdue (tx_now tx) l"
  from run have reap: "reap_leases st tx (expired_batch tx b s) s = Inr s'"
    by (auto simp: reap_expired_leases_def Let_def bind_result_Inr_iff split: if_splits)
  let ?P = "\<lambda>l. lease_overdue (tx_now tx) l \<and> \<not> tx_locked tx (le_id l)"
  have batch: "latest_id s i \<and> \<not> tx_locked tx i" if "i \<in> set (expired_batch tx b s)" for i
    using expired_batch_latest [OF inv that] that
    by (auto simp: expired_batch_def dest!: select_limit_mem)
  have closed: "\<not> active_id s' i" if "i \<in> set (expired_batch tx b s)" for i
    using reap_leases_closes [OF inv _ reap that] batch by blast
  have "int (length (filter ?P (leases s))) \<le> countp (\<lambda>l. le_status l = Le_ACTIVE) (leases s)"
    unfolding countp_filter [symmetric] by (rule countp_mono) (simp add: lease_overdue_def)
  with few have len: "int (length (filter ?P (leases s))) \<le> b" by simp
  have act: "active_id s' (le_id l)" using l over by (auto simp: active_id_def lease_overdue_def)
  have "le_id l \<notin> set (expired_batch tx b s)" using closed act by blast
  moreover have "le_id l \<in> set (expired_batch tx b s)"
  proof -
    have rec: "recovers st s s'"
      using recovers_reap_leases [OF inv _ reap] batch by blast
    obtain l0 where l0: "l0 \<in> set (leases s)" "lease_le st l0 l" "le_expires_at l0 = le_expires_at l"
      using recoversD(2) [OF rec] reap_leases_expiry [OF reap] l
      by (metis in_set_conv_nth list_all2_conv_all_nth nth_map)
    have "?P l0"
      using over free l0 by (auto simp: lease_overdue_def lease_le_def)
    from select_limit_all [where key = le_expires_at, OF len l0(1) this] l0(2) show ?thesis
      by (auto simp: expired_batch_def lease_le_def)
  qed
  ultimately show False by simp
qed

lemma converge_all_expiry:
  "converge_all tx ids s = Inr (n, s') \<Longrightarrow> map le_expires_at (leases s') = map le_expires_at (leases s)"
proof (induction ids arbitrary: s n)
  case (Cons i ids)
  then show ?case by (fastforce simp: bind_result_Inr_iff dest: converge_expiry)
qed simp

lemma overdue_not_new:
  assumes run: "reap_overdue_cancellations tx b s = Inr (n, s')"
    and old: "\<And>l. l \<in> set (leases s) \<Longrightarrow> \<not> tx_locked tx (le_id l) \<Longrightarrow> \<not> lease_overdue (tx_now tx) l"
    and l: "l \<in> set (leases s')" "\<not> tx_locked tx (le_id l)"
  shows "\<not> lease_overdue (tx_now tx) l"
proof -
  have "map le_expires_at (leases s') = map le_expires_at (leases s)"
    using run by (auto simp: reap_overdue_cancellations_def dest: converge_all_expiry split: if_splits)
  moreover have "list_all2 (lease_le undefined) (leases s) (leases s')"
    using recoversD(2) [OF recovers_overdue [OF run]] .
  ultimately obtain l0 where "l0 \<in> set (leases s)" "lease_le undefined l0 l" "le_expires_at l0 = le_expires_at l"
    using l(1) by (metis in_set_conv_nth list_all2_conv_all_nth nth_map)
  with old [of l0] l(2) show ?thesis by (auto simp: lease_overdue_def lease_le_def)
qed

subsection \<open>Properties\<close>

lemma detect_total:
  assumes "15 \<le> k" and "k \<le> 300" and "1 \<le> b" and "b \<le> 500"
  shows "\<exists>n m s'. detect_lost_workers tx k b s = Inr (n, m, s')"
  using assms by (simp add: detect_lost_workers_def Let_def case_prod_beta)

lemma reap_expired_total:
  assumes "settings_ok st" and "1 \<le> b" and "b \<le> 500"
  shows "\<exists>n s'. reap_expired_leases st tx b False s = Inr (n, s')"
proof -
  obtain s' where "reap_leases st tx (expired_batch tx b s) s = Inr s'"
    using reap_leases_total [OF assms(1)] by blast
  with assms(2,3) show ?thesis by (simp add: reap_expired_leases_def Let_def)
qed

lemma finish_sweep_state:
  assumes "recovery_state s \<noteq> None"
  obtains s' rs where "finish_sweep tx ow b r s = Inr (r, s')" and "leases s' = leases s"
    and "recovery_state s' = Some rs" and "rs_status rs = ''HEALTHY''"
    and "rs_last_heartbeat_at rs = Some (tx_now tx)"
proof -
  from assms obtain rs where rs: "recovery_state s = Some rs" by auto
  define s1 where "s1 = s\<lparr>recovery_state := Some (swept_state tx ow r rs)\<rparr>"
  obtain s' where s': "finish_sweep tx ow b r s = Inr (r, s')" "leases s' = leases s1"
      "recovery_state s' = recovery_state s1"
    by (simp add: finish_sweep_def rs s1_def append_audit_event_def Let_def)
  from s'(1) show ?thesis
    by (rule that [of _ "swept_state tx ow r rs"]) (simp_all add: s'(2,3) s1_def swept_state_def)
qed




definition ex_aborting :: run where
  "ex_aborting = ex_run\<lparr>rn_status := Rn_ABORTING, rn_cancel_requested_at := Some (seconds 950),
     rn_cancel_deadline_at := Some (seconds 1250)\<rparr>"


end
