(* ===== verification/Exec_Admission.thy ===== *)
theory Exec_Admission
  imports Exec_Claim Exec_Sweep
begin

section \<open>A claim keeps the execution plane consistent\<close>

text \<open>
  \<open>claim_work\<close> keeps the invariant of \<open>Exec_Invariant\<close>, stays within the limits of the worker and of the
  project, hands out one lease per source and never trips over a constraint of the lease table.
\<close>

subsection \<open>Taking a pending source\<close>

definition same_rows :: "'a exec_db_scheme \<Rightarrow> 'a exec_db_scheme \<Rightarrow> bool" where
  "same_rows s s' \<longleftrightarrow> map bd_id (builds s') = map bd_id (builds s) \<and>
     map bo_id (build_outbox s') = map bo_id (build_outbox s) \<and> map rn_id (runs s') = map rn_id (runs s) \<and>
     map rc_id (run_commands s') = map rc_id (run_commands s) \<and> secret_grants s' = secret_grants s \<and>
     (events_numbered (run_events s) \<longrightarrow> events_numbered (run_events s'))"

lemma tied_taken:
  assumes inv: "exec_inv st s" and l: "l \<in> set (leases s)"
    and k: "source_at s k = Some (Ob_PENDING, n)" and src: "source_at s' = (source_at s)(k \<mapsto> (x, n + 1))"
  shows "lease_tied s' l"
proof (cases "source_key l = k")
  case True
  then have "le_status l \<noteq> Le_ACTIVE"
    using pending_not_active [OF inv k] l by (auto simp: active_key_def)
  with True exec_invD(3) [OF inv l] k show ?thesis by (simp add: lease_tied_def src)
next
  case False
  with exec_invD(3) [OF inv l] show ?thesis by (simp add: lease_tied_def src)
qed

lemma sources_taken:
  assumes inv: "exec_inv st s" and k: "source_at s k = Some (Ob_PENDING, n)" and "x \<noteq> Ob_PENDING"
    and src: "source_at s' = (source_at s)(k \<mapsto> (x, n + 1))"
  shows "sources_ok st s'"
  unfolding sources_ok_def
proof (intro allI impI)
  fix j y m assume j: "source_at s' j = Some (y, m)"
  show "0 \<le> m \<and> m \<le> st_worker_max_attempts st \<and> (y = Ob_PENDING \<longrightarrow> m < st_worker_max_attempts st)"
  proof (cases "j = k")
    case True
    with j src assms(3) sources_okD [OF exec_invD(5) [OF inv] k] show ?thesis by auto
  next
    case False
    with j src have "source_at s j = Some (y, m)" by simp
    from sources_okD [OF exec_invD(5) [OF inv] this] show ?thesis by simp
  qed
qed

lemma exec_inv_closed:
  assumes inv: "exec_inv st s" and k: "source_at s k = Some (Ob_PENDING, n)" and x: "x \<noteq> Ob_PENDING"
    and src: "source_at s' = (source_at s)(k \<mapsto> (x, n + 1))" and same: "same_rows s s'"
    and ls: "leases s' = leases s" and id: "next_id s' = next_id s"
  shows "exec_inv st s'"
proof -
  have "tables_ok s'"
    using exec_invD(1) [OF inv] same by (auto simp: tables_ok_def same_rows_def ls id intro: fresh_ids_same)
  moreover have "\<forall>l \<in> set (leases s'). lease_ok st l \<and> lease_tied s' l"
    using exec_invD(2) [OF inv] tied_taken [OF inv _ k src] by (simp add: ls)
  ultimately show ?thesis
    using exec_invD(4,6,7) [OF inv] sources_taken [OF inv k x src] same
    by (simp add: exec_inv_def same_rows_def ls active_id_def)
qed

lemma fresh_ids_grow: "fresh_ids key ys n \<Longrightarrow> map key xs = map key ys \<Longrightarrow> n \<le> m \<Longrightarrow> fresh_ids key xs m"
  using fresh_ids_mono fresh_ids_same by blast

lemma exec_inv_taken:
  assumes inv: "exec_inv st s" and k: "source_at s (source_key l) = Some (Ob_PENDING, n)"
    and src: "source_at s' = (source_at s)(source_key l \<mapsto> (Ob_CLAIMED, n + 1))" and same: "same_rows s s'"
    and ls: "leases s' = leases s @ [l]" and id: "next_id s' = next_id s + 1" "le_id l = next_id s"
    and l: "lease_ok st l" "le_attempt l = n + 1"
  shows "exec_inv st s'"
proof -
  have t: "tables_ok s" using inv by (rule exec_invD(1))
  have "fresh_ids le_id (leases s') (next_id s')"
    using t id by (auto simp: ls tables_ok_def intro: fresh_ids_snoc)
  then have "tables_ok s'"
    using t same id(1) by (auto simp: tables_ok_def same_rows_def intro: fresh_ids_grow)
  moreover have "lease_tied s' l" by (simp add: lease_tied_def src l)
  then have "\<forall>l \<in> set (leases s'). lease_ok st l \<and> lease_tied s' l"
    using exec_invD(2) [OF inv] tied_taken [OF inv _ k src] l(1) by (auto simp: ls)
  moreover have "le_attempt m \<le> n" if "m \<in> set (leases s)" "source_key m = source_key l" for m
    using exec_invD(3) [OF inv that(1)] that(2) k by (simp add: lease_tied_def)
  then have "distinct (map (\<lambda>l. (source_key l, le_attempt l)) (leases s'))"
    using exec_invD(4) [OF inv] l(2) by (fastforce simp: ls)
  moreover have "\<forall>g \<in> set (secret_grants s'). sg_status g = Gr_ISSUED \<longrightarrow> active_id s' (sg_lease_id g)"
    using exec_invD(7) [OF inv] same by (auto simp: same_rows_def active_id_def ls)
  ultimately show ?thesis
    using exec_invD(6) [OF inv] sources_taken [OF inv k _ src] same by (simp add: exec_inv_def same_rows_def)
qed

subsection \<open>The selected source\<close>

definition source_ref :: "work_source \<Rightarrow> source_key" where
  "source_ref src = (case src of Src_build b \<Rightarrow> (True, bo_id b) | Src_run c \<Rightarrow> (False, rc_id c))"

definition source_attempts :: "work_source \<Rightarrow> int" where
  "source_attempts src = (case src of Src_build b \<Rightarrow> bo_attempts b | Src_run c \<Rightarrow> rc_attempts c)"

definition kind_matches :: "work_kind \<Rightarrow> work_source \<Rightarrow> bool" where
  "kind_matches kind src \<longleftrightarrow> (kind = Wk_BUILD \<longleftrightarrow> (\<exists>b. src = Src_build b))"

lemma select_source_pending:
  assumes inv: "exec_inv st s" and sel: "select_source tx kind s = Some src"
  shows "source_at s (source_ref src) = Some (Ob_PENDING, source_attempts src)" and "kind_matches kind src"
    and "project_slot_kind kind \<Longrightarrow> project_admits (tx_now tx) (source_project src) s"
proof -
  have d: "distinct (map bo_id (build_outbox s))" "distinct (map rc_id (run_commands s))"
    using exec_invD(1) [OF inv] by (simp_all add: tables_ok_def fresh_ids_def)
  have "source_at s (source_ref src) = Some (Ob_PENDING, source_attempts src) \<and> kind_matches kind src \<and>
      (project_slot_kind kind \<longrightarrow> project_admits (tx_now tx) (source_project src) s)"
  proof (cases "kind = Wk_BUILD")
    case True
    with sel obtain b where b: "src = Src_build b"
      "first_by (\<lambda>b. (bo_available_at b, bo_id b)) (\<lambda>b. bo_status b = Ob_PENDING \<and>
         bo_available_at b \<le> tx_now tx \<and> project_admits (tx_now tx) (bo_project_id b) s \<and>
         \<not> tx_locked tx (bo_id b)) (build_outbox s) = Some b"
      by (auto simp: select_source_def)
    from first_by_SomeD [OF b(2)] find_by_eq_Some_iff [OF d(1), of "bo_id b" b] b(1) True show ?thesis
      by (simp add: source_at_def source_ref_def source_attempts_def kind_matches_def source_project_def)
  next
    case False
    with sel obtain c where c: "src = Src_run c"
      "first_by (\<lambda>c. (rc_available_at c, rc_id c)) (\<lambda>c. rc_status c = Ob_PENDING \<and>
         rc_command c = (if kind = Wk_RUN_START then Cm_START else Cm_CANCEL) \<and> rc_available_at c \<le> tx_now tx \<and>
         (kind = Wk_RUN_START \<longrightarrow> project_admits (tx_now tx) (rc_project_id c) s) \<and>
         \<not> tx_locked tx (rc_id c)) (run_commands s) = Some c"
      by (auto simp: select_source_def)
    from first_by_SomeD [OF c(2)] find_by_eq_Some_iff [OF d(2), of "rc_id c" c] c(1) False show ?thesis
      by (auto simp: source_at_def source_ref_def source_attempts_def kind_matches_def source_project_def
          project_slot_kind_def)
  qed
  then show "source_at s (source_ref src) = Some (Ob_PENDING, source_attempts src)" "kind_matches kind src"
    "project_slot_kind kind \<Longrightarrow> project_admits (tx_now tx) (source_project src) s" by auto
qed

lemma claimed_lease_sel [simp]:
  "le_id (claimed_lease sha256 tx w kind src d e dl i) = i"
  "le_worker_id (claimed_lease sha256 tx w kind src d e dl i) = wo_id w"
  "le_work_kind (claimed_lease sha256 tx w kind src d e dl i) = kind"
  "le_status (claimed_lease sha256 tx w kind src d e dl i) = Le_ACTIVE"
  "le_claimed_at (claimed_lease sha256 tx w kind src d e dl i) = tx_now tx"
  "le_expires_at (claimed_lease sha256 tx w kind src d e dl i) = e"
  "le_deadline_at (claimed_lease sha256 tx w kind src d e dl i) = dl"
  "le_lease_token_digest (claimed_lease sha256 tx w kind src d e dl i) = d"
  "le_attempt (claimed_lease sha256 tx w kind src d e dl i) = source_attempts src + 1"
  "le_project_id (claimed_lease sha256 tx w kind src d e dl i) = source_project src"
  by (simp_all add: claimed_lease_def source_attempts_def source_project_def)

lemma claimed_lease_key:
  "kind_matches kind src \<Longrightarrow> source_key (claimed_lease sha256 tx w kind src d e dl i) = source_ref src"
  by (cases src) (auto simp: source_key_def source_ref_def kind_matches_def claimed_lease_def)

lemma claimed_lease_target:
  "kind_matches kind src \<Longrightarrow> le_run_id (claimed_lease sha256 tx w kind src d e dl i) = None \<longleftrightarrow> kind = Wk_BUILD"
  "kind_matches kind src \<Longrightarrow> le_build_id (claimed_lease sha256 tx w kind src d e dl i) = None \<longleftrightarrow> kind \<noteq> Wk_BUILD"
  by (cases src; auto simp: kind_matches_def claimed_lease_def)+

lemma claim_window:
  assumes "settings_ok st" and "claim_deadline st tx p kind = Inr dl" and "claim_expiry st tx dl = Inr e"
  shows "tx_now tx < dl" and "tx_now tx < e" and "e \<le> dl"
    and "e \<le> tx_now tx + seconds (st_worker_lease_max_seconds st)"
proof -
  have s: "15 \<le> st_worker_lease_seconds st" "st_worker_lease_seconds st \<le> st_worker_lease_max_seconds st"
    using assms(1) by (simp_all add: settings_ok_def)
  then have p: "0 < seconds (st_worker_lease_seconds st)" "0 < seconds (st_worker_lease_max_seconds st)"
    by simp_all
  show dl: "tx_now tx < dl"
    using assms(2) by (auto simp: claim_deadline_def bind_result_Inr_iff split: if_splits)
  from assms(3) have "e = min (min (tx_now tx + seconds (st_worker_lease_seconds st))
      (tx_now tx + seconds (st_worker_lease_max_seconds st))) dl"
    by (auto simp: claim_expiry_def clamp_lease_expiry_def Let_def split: if_splits)
  with p dl show "tx_now tx < e" "e \<le> dl" "e \<le> tx_now tx + seconds (st_worker_lease_max_seconds st)"
    by simp_all
qed

lemma mark_claimed_source:
  assumes "source_at s (source_ref src) = Some (x, n)"
  shows "source_at (mark_claimed tx src s) = (source_at s)(source_ref src \<mapsto> (Ob_CLAIMED, n + 1))"
proof (cases src)
  case (Src_build b)
  have "find_by bo_id j (upd_by bo_id (bo_id b) (claim_build_source_row tx) t) =
      (if bo_id b = j then map_option (claim_build_source_row tx) (find_by bo_id j t) else find_by bo_id j t)" for j t
    by (rule find_by_upd_by) (simp add: claim_build_source_row_def)
  with assms Src_build show ?thesis
    by (auto simp: fun_eq_iff source_at_def mark_claimed_def source_ref_def claim_build_source_row_def)
next
  case (Src_run c)
  have "find_by rc_id j (upd_by rc_id (rc_id c) (claim_run_source_row tx) t) =
      (if rc_id c = j then map_option (claim_run_source_row tx) (find_by rc_id j t) else find_by rc_id j t)" for j t
    by (rule find_by_upd_by) (simp add: claim_run_source_row_def)
  with assms Src_run show ?thesis
    by (auto simp: fun_eq_iff source_at_def mark_claimed_def source_ref_def claim_run_source_row_def)
qed

lemma mark_claimed_sel [simp]:
  "leases (mark_claimed tx src s) = leases s" "next_id (mark_claimed tx src s) = next_id s"
  "workers (mark_claimed tx src s) = workers s" "projects (mark_claimed tx src s) = projects s"
  "runs (mark_claimed tx src s) = runs s" "builds (mark_claimed tx src s) = builds s"
  "secret_grants (mark_claimed tx src s) = secret_grants s" "run_events (mark_claimed tx src s) = run_events s"
  "map bo_id (build_outbox (mark_claimed tx src s)) = map bo_id (build_outbox s)"
  "map rc_id (run_commands (mark_claimed tx src s)) = map rc_id (run_commands s)"
  by (cases src; simp add: mark_claimed_def map_upd_by claim_build_source_row_def claim_run_source_row_def)+

subsection \<open>The steps of a claim\<close>

lemma exec_inv_add_lease:
  assumes inv: "exec_inv st s" and st: "settings_ok st" and sel: "select_source tx kind s = Some src"
    and dl: "claim_deadline st tx p kind = Inr dl" and e: "claim_expiry st tx dl = Inr e"
    and add: "add_lease (claimed_lease sha256 tx w kind src d e dl (next_id s)) (mark_claimed tx src s) = Inr s'"
  shows "exec_inv st s'"
proof -
  let ?l = "claimed_lease sha256 tx w kind src d e dl (next_id s)"
  note pend = select_source_pending [OF inv sel]
  note key = claimed_lease_key [OF pend(2), of sha256 tx w d e dl "next_id s"]
  note win = claim_window [OF st dl e]
  from add have s': "s' = (mark_claimed tx src s)\<lparr>leases := leases s @ [?l], next_id := next_id s + 1\<rparr>"
    by (auto simp: add_lease_def split: if_splits)
  have "0 \<le> source_attempts src" "source_attempts src < st_worker_max_attempts st"
    using sources_okD [OF exec_invD(5) [OF inv] pend(1)] by simp_all
  then have ok: "lease_ok st ?l"
    using win claimed_lease_target(1) [OF pend(2)] by (simp add: lease_ok_def)
  have src: "source_at s' = (source_at s)(source_key ?l \<mapsto> (Ob_CLAIMED, source_attempts src + 1))"
    unfolding key mark_claimed_source [OF pend(1), of tx, symmetric] by (rule source_at_cong) (simp_all add: s')
  have same: "same_rows s s'" by (simp add: same_rows_def s')
  have "source_at s (source_key ?l) = Some (Ob_PENDING, source_attempts src)"
    unfolding key by (rule pend(1))
  from exec_inv_taken [OF inv this src same _ _ _ ok] show ?thesis by (simp add: s')
qed

definition same_limits :: "'a exec_db_scheme \<Rightarrow> 'a exec_db_scheme \<Rightarrow> bool" where
  "same_limits s s' \<longleftrightarrow> leases s' = leases s \<and> workers s' = workers s \<and> projects s' = projects s"

lemma event_limits:
  assumes "run_event_for tx r et p s = Inr s'"
  shows "same_limits s s'"
  using assms by (auto simp: run_event_for_def same_limits_def elim!: append_run_event_cases)

lemma same_limits_trans: "same_limits a b \<Longrightarrow> same_limits b c \<Longrightarrow> same_limits a c"
  by (simp add: same_limits_def)

lemma recovers_put_build: "recovers st s (put_build b s)"
  by (rule recovers_frameI) (simp_all add: put_build_def upd_by_def)

lemma start_target_step:
  assumes "start_target tx kind src s = Inr (p, s')"
  shows "recovers st s s' \<and> same_limits s s'"
proof (cases src)
  case (Src_build b)
  with assms obtain b' where "s' = put_build b' s"
    by (auto simp: start_target_def bind_result_Inr_iff)
  then show ?thesis using recovers_put_build by (simp add: same_limits_def put_build_def)
next
  case (Src_run c)
  with assms obtain q r where r: "run_claim_payload c kind s = Inr (q, r)"
    by (auto simp: start_target_def bind_result_Inr_iff)
  show ?thesis
  proof (cases "kind = Wk_RUN_START")
    case True
    with assms Src_run r obtain r' where
      ev: "run_event_for tx r' ''run.status'' (status_payload (rn_status r) Rn_STARTING) (put_run r' s) = Inr s'"
      by (auto simp: start_target_def bind_result_Inr_iff Let_def split: if_splits)
    have "same_limits s (put_run r' s)" by (simp add: same_limits_def put_run_def)
    with event_limits [OF ev] recovers_trans [OF recovers_put_run recovers_event [OF ev]]
    show ?thesis by (auto intro: same_limits_trans)
  next
    case False
    with assms Src_run r show ?thesis
      by (auto simp: start_target_def same_limits_def split: if_splits)
  qed
qed

lemma put_payload:
  assumes "fresh_ids le_id t i" and "le_id l = i" and "le_id l' = i"
  shows "upd_by le_id i (\<lambda>_. l') (t @ [l]) = t @ [l']"
proof -
  have "\<forall>x \<in> set t. le_id x \<noteq> i" using assms(1) by (auto simp: fresh_ids_def)
  then have "upd_by le_id i (\<lambda>_. l') t = t" by (induction t) auto
  with assms(2) show ?thesis by (simp add: upd_by_def)
qed

lemma recovers_put_payload:
  assumes "leases s = t @ [l]" and "leases s' = t @ [l\<lparr>le_payload_digest := d, le_payload_snapshot := p\<rparr>]"
    and "s' = s\<lparr>leases := leases s'\<rparr>"
  shows "recovers st s s'"
proof -
  let ?l = "l\<lparr>le_payload_digest := d, le_payload_snapshot := p\<rparr>"
  have k: "lease_le st l ?l"
    by (simp add: lease_le_def source_key_def lease_ok_def)
  have "list_all2 (lease_le st) t t" by (rule list_all2_refl) (simp add: lease_le_def)
  with k have ll: "list_all2 (lease_le st) (leases s) (leases s')"
    by (simp add: assms(1,2) list_all2_append)
  have "build_outbox s' = build_outbox s" "run_commands s' = run_commands s"
    by (subst assms(3), simp)+
  then have src: "source_at s' = source_at s" by (rule source_at_cong)
  have act: "active_id s' i = active_id s i" for i by (auto simp: active_id_def assms(1,2))
  have "rel_option (source_le st s' k) (source_at s k) (source_at s k)" for k
    by (cases "source_at s k") (simp_all add: source_le_def)
  moreover have "same_keys s s'" "secret_grants s' = secret_grants s" "run_events s' = run_events s"
    by (subst assms(3), simp add: same_keys_def)+
  ultimately show ?thesis by (simp add: recovers_def ll src act)
qed

lemma admit_source_cases:
  assumes "admit_source st idna sha256 token tx w n kind src s = Inr (r, s')"
  obtains p k dl e l s1 s2 q a l'
  where "lock_project_admission tx (source_project src) kind s = Inr (p, k)"
    and "claim_deadline st tx (source_payload src) kind = Inr dl" and "claim_expiry st tx dl = Inr e"
    and "l = claimed_lease sha256 tx w kind src (snd token) e dl (next_id s)"
    and "add_lease l (mark_claimed tx src s) = Inr s1" and "start_target tx kind src s1 = Inr (q, s2)"
    and "l' = l\<lparr>le_payload_digest := canonical_fingerprint sha256 (JDict (le_payload_snapshot l')),
           le_payload_snapshot := le_payload_snapshot l'\<rparr>"
    and "r = Some (lease_claim_of l' (fst token))"
    and "s' = audit_claim tx w l' (admission_fields w n p k kind) a (put_lease l' s2)"
proof -
  from assms obtain p k dl e s1 q s2 q' a where *:
    "lock_project_admission tx (source_project src) kind s = Inr (p, k)"
    "claim_deadline st tx (source_payload src) kind = Inr dl" "claim_expiry st tx dl = Inr e"
    "add_lease (claimed_lease sha256 tx w kind src (snd token) e dl (next_id s)) (mark_claimed tx src s) = Inr s1"
    "start_target tx kind src s1 = Inr (q, s2)"
    "finish_payload st idna sha256 w dl (admission_fields w n p k kind) q = Inr (q', a)"
    and res: "(r, s') = (let l' = (claimed_lease sha256 tx w kind src (snd token) e dl (next_id s))
        \<lparr>le_payload_digest := canonical_fingerprint sha256 (JDict q'), le_payload_snapshot := q'\<rparr>
      in (Some (lease_claim_of l' (fst token)),
          audit_claim tx w l' (admission_fields w n p k kind) a (put_lease l' s2)))"
    by (auto simp: admit_source_def Let_def bind_result_Inr_iff)
  show thesis
    by (rule that [OF *(1,2,3) refl *(4,5), of "(claimed_lease sha256 tx w kind src (snd token) e dl (next_id s))
        \<lparr>le_payload_digest := canonical_fingerprint sha256 (JDict q'), le_payload_snapshot := q'\<rparr>" a])
      (use res in \<open>simp_all add: Let_def\<close>)
qed

text \<open>What a granted claim does to the database \<open>s\<close> it was admitted in.\<close>

definition grants :: "(string \<Rightarrow> string) \<Rightarrow> string \<times> string \<Rightarrow> txn \<Rightarrow> worker \<Rightarrow> work_kind \<Rightarrow> work_source \<Rightarrow>
    lease \<Rightarrow> 'a exec_db_scheme \<Rightarrow> 'a exec_db_scheme \<Rightarrow> bool" where
  "grants sha256 token tx w kind src l s s' \<longleftrightarrow>
     leases s' = leases s @ [l] \<and> workers s' = workers s \<and> projects s' = projects s \<and>
     source_key l = source_ref src \<and> le_id l = next_id s \<and> le_worker_id l = wo_id w \<and>
     le_work_kind l = kind \<and> le_status l = Le_ACTIVE \<and> le_project_id l = source_project src \<and>
     le_lease_token_digest l = snd token \<and>
     le_payload_digest l = canonical_fingerprint sha256 (JDict (le_payload_snapshot l)) \<and>
     le_claimed_at l = tx_now tx \<and> tx_now tx < le_expires_at l \<and> le_expires_at l \<le> le_deadline_at l \<and>
     (project_slot_kind kind \<longrightarrow> (\<exists>p. find_by pj_id (source_project src) (projects s) = Some p \<and>
        project_live_leases (tx_now tx) (source_project src) (leases s) < pj_max_active_leases p))"

lemma lock_project_admission_slot:
  assumes "lock_project_admission tx i kind s = Inr (p, k)" and "project_slot_kind kind"
  shows "find_by pj_id i (projects s) = Some p \<and> project_live_leases (tx_now tx) i (leases s) < pj_max_active_leases p"
  using assms find_by_SomeD [of pj_id i "projects s"]
  by (auto simp: lock_project_admission_def Let_def split: option.splits if_splits)

lemma admit_source_step:
  assumes inv: "exec_inv st s" and st: "settings_ok st" and sel: "select_source tx kind s = Some src"
    and adm: "admit_source st idna sha256 token tx w n kind src s = Inr (r, s')"
  obtains l where "exec_inv st s'" and "r = Some (lease_claim_of l (fst token))"
    and "grants sha256 token tx w kind src l s s'"
proof -
  from adm obtain p k dl e l s1 s2 q a l' where
    c: "lock_project_admission tx (source_project src) kind s = Inr (p, k)"
      "claim_deadline st tx (source_payload src) kind = Inr dl" "claim_expiry st tx dl = Inr e"
      "l = claimed_lease sha256 tx w kind src (snd token) e dl (next_id s)"
      "add_lease l (mark_claimed tx src s) = Inr s1" "start_target tx kind src s1 = Inr (q, s2)"
    and l': "l' = l\<lparr>le_payload_digest := canonical_fingerprint sha256 (JDict (le_payload_snapshot l')),
        le_payload_snapshot := le_payload_snapshot l'\<rparr>"
    and r: "r = Some (lease_claim_of l' (fst token))"
    and s': "s' = audit_claim tx w l' (admission_fields w n p k kind) a (put_lease l' s2)"
    by (rule admit_source_cases)
  note pend = select_source_pending [OF inv sel]
  have inv1: "exec_inv st s1" using exec_inv_add_lease [OF inv st sel c(2,3)] c(4,5) by simp
  have s1: "leases s1 = leases s @ [l]" "workers s1 = workers s" "projects s1 = projects s"
    using c(5) by (auto simp: add_lease_def split: if_splits)
  from start_target_step [OF c(6)] have rec: "recovers st s1 s2" and lim: "same_limits s1 s2" by auto
  have lsel: "le_id l' = next_id s" "le_id l = next_id s"
    by (subst l', simp add: c(4)) (simp add: c(4))
  have "leases (put_lease l' s2) = leases s @ [l']"
    using put_payload [of "leases s" "next_id s" l l'] exec_invD(1) [OF inv] lim s1(1) lsel
    by (simp add: put_lease_def same_limits_def tables_ok_def)
  then have ls': "leases (put_lease l' s2) = leases s @ [l']" .
  have "recovers st s2 (put_lease l' s2)"
    by (rule recovers_put_payload [where t = "leases s" and l = l and p = "le_payload_snapshot l'"
          and d = "canonical_fingerprint sha256 (JDict (le_payload_snapshot l'))"])
      (use lim s1(1) ls' l' in \<open>simp_all add: same_limits_def put_lease_def\<close>)
  with rec have "recovers st s1 s'" unfolding s' audit_claim_def
    by (blast intro: recovers_trans recovers_audit)
  then have inv': "exec_inv st s'" by (rule recovers_inv [OF inv1])
  have "leases s' = leases s @ [l']" "workers s' = workers s" "projects s' = projects s"
    using ls' lim s1 by (simp_all add: s' audit_claim_def append_audit_event_def put_lease_def same_limits_def)
  moreover have "source_key l' = source_ref src"
    using claimed_lease_key [OF pend(2)] by (subst l') (simp add: c(4) source_key_def)
  moreover have "le_worker_id l' = wo_id w \<and> le_work_kind l' = kind \<and> le_status l' = Le_ACTIVE \<and>
      le_project_id l' = source_project src \<and> le_lease_token_digest l' = snd token \<and>
      le_claimed_at l' = tx_now tx \<and> le_expires_at l' = e \<and> le_deadline_at l' = dl"
    by (subst (1 2 3 4 5 6 7 8) l') (simp add: c(4))
  moreover have "le_payload_digest l' = canonical_fingerprint sha256 (JDict (le_payload_snapshot l'))"
    by (subst l') simp
  ultimately have "grants sha256 token tx w kind src l' s s'"
    using lsel(1) claim_window [OF st c(2,3)] lock_project_admission_slot [OF c(1)] by (auto simp: grants_def)
  with that inv' r show thesis by blast
qed

subsection \<open>A revoked binding\<close>

lemma revoke_bound_run_step:
  assumes inv: "exec_inv st s" and c: "find_by rc_id (rc_id c) (run_commands s) = Some c" "rc_status c = Ob_PENDING"
    and rev: "revoke_bound_run tx c r valid pi ri po s = Inr s'"
  shows "exec_inv st s'" and "leases s' = leases s"
proof -
  let ?t = "s\<lparr>run_commands := upd_by rc_id (rc_id c) (revoke_source_row tx) (run_commands s)\<rparr>"
  from rev obtain s2 s3 where ev: "run_event_for tx (revoke_run_row tx r) ''run.status''
        (status_payload (rn_status r) Rn_FAILED) (put_run (revoke_run_row tx r) ?t) = Inr s2"
      "run_event_for tx (revoke_run_row tx r) ''run.failed''
        [(''failure_code'', JStr binding_revoked), (''retryable'', JBool False)] s2 = Inr s3"
    and aud: "s' = append_audit_event tx (Some (rn_organization_id r)) (Some (rn_project_id r)) ''system''
        ''execution-admission'' ''run.egress_policy_binding_revoked'' ''run'' (Some (uuid_str (rn_id r)))
        (revoked_details valid pi ri po) s3"
    by (auto simp: revoke_bound_run_def Let_def bind_result_Inr_iff)
  have s': "recovers st s3 s'" "leases s' = leases s3" by (simp add: aud) (simp add: aud append_audit_event_def)
  have f: "find_by rc_id j (upd_by rc_id (rc_id c) (revoke_source_row tx) t) =
      (if rc_id c = j then map_option (revoke_source_row tx) (find_by rc_id j t) else find_by rc_id j t)" for j t
    by (rule find_by_upd_by) (simp add: revoke_source_row_def)
  have k: "source_at s (False, rc_id c) = Some (Ob_PENDING, rc_attempts c)"
    using c by (simp add: source_at_def)
  have src: "source_at ?t = (source_at s)((False, rc_id c) \<mapsto> (Ob_FAILED, rc_attempts c + 1))"
    using c by (auto simp: fun_eq_iff source_at_def f revoke_source_row_def)
  have same: "same_rows s ?t" by (simp add: same_rows_def map_upd_by revoke_source_row_def)
  have "exec_inv st ?t" by (rule exec_inv_closed [OF inv k _ src same]) simp_all
  moreover have "recovers st ?t s'"
    using recovers_put_run recovers_event [OF ev(1)] recovers_event [OF ev(2)] s' by (blast intro: recovers_trans)
  ultimately show "exec_inv st s'" by (rule recovers_inv)
  show "leases s' = leases s"
    using s' event_limits [OF ev(1)] event_limits [OF ev(2)] by (simp add: same_limits_def put_run_def)
qed

lemma binding_check_cases:
  assumes "bound_run_egress_policy_is_current st idna sha256 tx c s = Inr (ok, s')"
  obtains "ok" and "s' = s"
  | r valid pi ri po where "\<not> ok" and "find_by rn_id (rc_run_id c) (runs s) = Some r"
    and "revoke_bound_run tx c r valid pi ri po s = Inr s'"
  using assms
  by (auto simp: bound_run_egress_policy_is_current_def Let_def bind_result_Inr_iff
      split: option.split_asm if_split_asm prod.split_asm)

lemma claim_source_step:
  assumes inv: "exec_inv st s" and st: "settings_ok st" and sel: "select_source tx kind s = Some src"
    and run: "claim_source st idna sha256 token tx w n kind src s = Inr (r, s')"
  obtains (granted) l where "exec_inv st s'" and "r = Some (lease_claim_of l (fst token))"
    and "grants sha256 token tx w kind src l s s'"
  | (revoked) "exec_inv st s'" and "r = None" and "leases s' = leases s"
proof -
  note pend = select_source_pending [OF inv sel]
  show thesis
  proof (cases "\<exists>c. src = Src_run c \<and> kind = Wk_RUN_START")
    case False
    with run have "admit_source st idna sha256 token tx w n kind src s = Inr (r, s')"
      by (cases src) (auto simp: claim_source_def)
    from admit_source_step [OF inv st sel this] granted show thesis by blast
  next
    case True
    then obtain c where c: "src = Src_run c" "kind = Wk_RUN_START" by blast
    with run obtain ok s1 where b: "bound_run_egress_policy_is_current st idna sha256 tx c s = Inr (ok, s1)"
      and rest: "(if ok then admit_source st idna sha256 token tx w n kind src s1 else Inr (None, s1)) = Inr (r, s')"
      by (auto simp: claim_source_def bind_result_Inr_iff)
    from b show thesis
    proof (cases rule: binding_check_cases)
      case 1
      with rest have "admit_source st idna sha256 token tx w n kind src s = Inr (r, s')" by simp
      from admit_source_step [OF inv st sel this] granted show thesis by blast
    next
      case (2 x valid pi ri po)
      have fc: "first_by (\<lambda>c. (rc_available_at c, rc_id c)) (\<lambda>c. rc_status c = Ob_PENDING \<and>
         rc_command c = Cm_START \<and> rc_available_at c \<le> tx_now tx \<and>
         project_admits (tx_now tx) (rc_project_id c) s \<and> \<not> tx_locked tx (rc_id c)) (run_commands s) = Some c"
        using sel c by (auto simp: select_source_def)
      have "distinct (map rc_id (run_commands s))"
        using exec_invD(1) [OF inv] by (simp add: tables_ok_def fresh_ids_def)
      then have "find_by rc_id (rc_id c) (run_commands s) = Some c" "rc_status c = Ob_PENDING"
        using first_by_SomeD [OF fc] by (simp_all add: find_by_eq_Some_iff)
      from revoke_bound_run_step [OF inv this 2(3)] 2(1) rest revoked show thesis by simp
    qed
  qed
qed

subsection \<open>The whole claim\<close>

lemma claim_kinds_cases:
  assumes "claim_kinds st idna sha256 token tx w n kinds s = Inr (r, s')"
  obtains "r = None" and "s' = s" and "\<forall>kind \<in> set kinds. select_source tx kind s = None"
  | kind src where "kind \<in> set kinds" and "select_source tx kind s = Some src"
    and "claim_source st idna sha256 token tx w n kind src s = Inr (r, s')"
  using assms
proof (induction kinds)
  case (Cons k ks)
  show ?case
  proof (cases "select_source tx k s")
    case None
    with Cons show ?thesis by fastforce
  next
    case (Some src)
    with Cons.prems show ?thesis by fastforce
  qed
qed simp

lemma claim_work_cases:
  assumes inv: "exec_inv st s" and st: "settings_ok st"
    and run: "claim_work st idna sha256 token tx wid kinds s = Inr (r, s')"
  obtains (granted) m s1 w kind src l where "reap_expired_leases st tx 100 True s = Inr (m, s1)"
    and "find_by wo_id wid (workers s1) = Some w"
    and "claim_admitted tx w kinds s1 = Inr (worker_live_leases (tx_now tx) wid (leases s1))"
    and "exec_inv st s1" and "exec_inv st s'" and "kind \<in> set kinds"
    and "select_source tx kind s1 = Some src" and "r = Some (lease_claim_of l (fst token))"
    and "grants sha256 token tx w kind src l s1 s'"
  | (refused) m s1 where "reap_expired_leases st tx 100 True s = Inr (m, s1)" and "exec_inv st s'"
    and "r = None" and "leases s' = leases s1"
proof -
  from run obtain m s1 w n where reap: "reap_expired_leases st tx 100 True s = Inr (m, s1)"
    and w: "find_by wo_id wid (workers s1) = Some w" and adm: "claim_admitted tx w kinds s1 = Inr n"
    and k: "claim_kinds st idna sha256 token tx w n kinds s1 = Inr (r, s')"
    by (auto simp: claim_work_def bind_result_Inr_iff split: option.split_asm)
  have inv1: "exec_inv st s1" by (rule recovers_inv [OF inv recovers_reap_expired [OF inv reap]])
  have n: "n = worker_live_leases (tx_now tx) wid (leases s1)"
    using adm find_by_SomeD [OF w] by (auto simp: claim_admitted_def Let_def split: if_split_asm)
  from k show thesis
  proof (cases rule: claim_kinds_cases)
    case 1
    with refused [OF reap] inv1 show thesis by simp
  next
    case (2 kind src)
    from inv1 st 2(2,3) show thesis
    proof (cases rule: claim_source_step)
      case (granted l)
      with that(1) [OF reap w _ inv1 _ 2(1,2)] adm n show thesis by simp
    next
      case revoked
      with that(2) [OF reap] show thesis by simp
    qed
  qed
qed

subsection \<open>Properties\<close>

lemma countp_snoc_le: "countp P t < n \<Longrightarrow> countp P (t @ [x]) \<le> n"
  by (cases "P x") simp_all

text \<open>
  C1: a granted claim keeps the invariant and stores exactly one new active lease for the claimed source.
  The lease belongs to the worker, is live, expires no later than its deadline and carries the payload
  that was handed out with its digest. The worker then holds at most \<open>max_concurrency\<close> live leases, and
  for work that takes a project slot the project holds at most \<open>max_active_leases\<close>.
\<close>

theorem claim_work_exclusive_and_bounded:
  assumes "exec_inv st s" and "settings_ok st"
    and "claim_work st idna sha256 token tx wid kinds s = Inr (Some c, s')"
  shows "exec_inv st s' \<and> (\<exists>l w. l \<in> set (leases s') \<and> le_id l = lc_id c \<and> le_worker_id l = wid \<and>
      lc_work_kind c \<in> set kinds \<and> lease_live (tx_now tx) l \<and> le_expires_at l \<le> le_deadline_at l \<and>
      le_payload_snapshot l = lc_payload c \<and>
      le_payload_digest l = canonical_fingerprint sha256 (JDict (lc_payload c)) \<and>
      filter (\<lambda>m. source_key m = source_key l \<and> le_status m = Le_ACTIVE) (leases s') = [l] \<and>
      find_by wo_id wid (workers s') = Some w \<and>
      worker_live_leases (tx_now tx) wid (leases s') \<le> wo_max_concurrency w \<and>
      (project_slot_kind (lc_work_kind c) \<longrightarrow> (\<exists>p. find_by pj_id (lc_project_id c) (projects s') = Some p \<and>
         project_live_leases (tx_now tx) (lc_project_id c) (leases s') \<le> pj_max_active_leases p)))"
  using assms
proof (cases rule: claim_work_cases)
  case (granted m s1 w kind src l)
  note g = granted(9) [unfolded grants_def]
  have c: "lc_id c = le_id l" "lc_work_kind c = kind" "lc_project_id c = le_project_id l"
      "lc_payload c = le_payload_snapshot l"
    using granted(8) g by (auto simp: lease_claim_of_def)
  have wid: "wo_id w = wid" using find_by_SomeD [OF granted(2)] by simp
  have "\<not> active_key s1 (source_key l)"
    using pending_not_active [OF granted(4) select_source_pending(1) [OF granted(4,7)]] g by simp
  then have none: "filter (\<lambda>m. source_key m = source_key l \<and> le_status m = Le_ACTIVE) (leases s1) = []"
    by (auto simp: active_key_def filter_empty_conv)
  have "worker_live_leases (tx_now tx) wid (leases s1) < wo_max_concurrency w"
    using granted(3) by (auto simp: claim_admitted_def Let_def split: if_split_asm)
  then have wl: "worker_live_leases (tx_now tx) wid (leases s') \<le> wo_max_concurrency w"
    using g countp_snoc_le by (fastforce simp: worker_live_leases_def)
  have pl: "\<exists>p. find_by pj_id (lc_project_id c) (projects s') = Some p \<and>
      project_live_leases (tx_now tx) (lc_project_id c) (leases s') \<le> pj_max_active_leases p"
    if "project_slot_kind kind"
    using g that countp_snoc_le by (fastforce simp: project_live_leases_def c)
  show ?thesis
    using granted(2,5,6) g wid none wl pl
    by (intro conjI exI [of _ l] exI [of _ w]) (simp_all add: c lease_live_def)
qed simp

text \<open>The sample database with an agent version and a verified source archive for its queued build.\<close>

definition ex_version :: agent_version where
  "ex_version = \<lparr>agv_id = 5, agv_manifest = [(''capabilities'', JDict [])]\<rparr>"

definition ex_object :: storage_object where
  "ex_object = \<lparr>so_id = 9, so_organization_id = 2, so_project_id = 3, so_status = ''AVAILABLE'',
     so_scan_status = ''PASSED'', so_deleted_at = None, so_sha256_digest = Some ''abc'',
     so_size_bytes = Some 4096, so_media_type = ''application/gzip''\<rparr>"

definition ex_claim_db :: "build list \<Rightarrow> claim_db" where
  "ex_claim_db bs = \<lparr>audit_log = [], next_id = 100, run_events = [], leases = [ex_lease], builds = bs,
     build_outbox = [ex_dispatch], runs = [ex_run], run_commands = [ex_start], projects = [ex_project],
     workers = [ex_worker], secret_grants = [], recovery_state = Some ex_recovery,
     run_idempotency = [], agent_versions = [ex_version], artifacts = [], storage_objects = [ex_object],
     bound_policies = [], bound_revisions = []\<rparr>"

definition ex_sourced_build :: build where
  "ex_sourced_build = ex_build\<lparr>bd_source_object_id := Some 9\<rparr>"

lemma ex_canary_settings_ok: "settings_ok ex_canary"
  by (simp add: ex_canary_def settings_ok_def)

lemma ex_claim_inv: "map bd_id bs = [6] \<Longrightarrow> exec_inv ex_canary (ex_claim_db bs)"
  by (cases bs) (auto simp: ex_defs ex_canary_def ex_claim_db_def exec_inv_defs split: if_splits)

lemma ex_claim_reap: "reap_expired_leases ex_canary (ex_tx 920) 100 True (ex_claim_db bs) = Inr (0, ex_claim_db bs)"
  by (simp add: reap_expired_leases_def expired_batch_def select_limit_def lease_overdue_def
      reap_overdue_cancellations_def overdue_batch_def cancellation_overdue_def ex_claim_db_def ex_defs)

lemma ex_claim_live: "worker_live_leases (seconds 920) (Suc 0) [ex_lease] = 1"
  "project_live_leases (seconds 920) 3 [ex_lease] = 1"
  by (simp_all add: worker_live_leases_def project_live_leases_def lease_live_def project_slot_kind_def ex_defs)

lemma ex_claim_admitted: "claim_admitted (ex_tx 920) ex_worker [Wk_BUILD] (ex_claim_db bs) = Inr 1"
  using ex_claim_live
  by (simp add: claim_admitted_def recovery_pending_def ex_claim_db_def ex_worker_def ex_tx_def)

lemma ex_claim_select: "select_source (ex_tx 920) Wk_BUILD (ex_claim_db bs) = Some (Src_build ex_dispatch)"
proof -
  have "project_admits (seconds 920) 3 (ex_claim_db bs)"
    using ex_claim_live(2) by (simp add: project_admits_def ex_claim_db_def ex_project_def)
  then show ?thesis
    by (simp add: select_source_def first_by_def ex_tx_def ex_claim_db_def ex_dispatch_def seconds_def)
qed

lemma ex_claim_project:
  "lock_project_admission (ex_tx 920) 3 Wk_BUILD (ex_claim_db bs) = Inr (ex_project, 1)"
  using ex_claim_live(2)
  by (simp add: lock_project_admission_def ex_claim_db_def ex_project_def ex_tx_def)

lemma ex_claim_window:
  "claim_deadline ex_canary (ex_tx 920) [] Wk_BUILD = Inr (seconds 1820)"
  "claim_expiry ex_canary (ex_tx 920) (seconds 1820) = Inr (seconds 980)"
  by (simp_all add: claim_deadline_def execution_timeout_seconds_def as_int_def execution_deadline_at_def
      claim_expiry_def clamp_lease_expiry_def ex_canary_def ex_tx_def seconds_def)

lemma ex_claim_no_policy: "sandbox_claim_policy ex_canary idna sha256 ex_worker p = Inr None"
  by (simp add: sandbox_claim_policy_def ex_worker_def)

abbreviation ex_claim :: "build list \<Rightarrow> (lease_claim option \<times> claim_db) result" where
  "ex_claim bs \<equiv> claim_work ex_canary (\<lambda>_. None) ex_sha (''raw'', ''digest'') (ex_tx 920) 1 [Wk_BUILD] (ex_claim_db bs)"

lemma ex_claim_admit:
  "ex_claim bs = admit_source ex_canary (\<lambda>_. None) ex_sha (''raw'', ''digest'') (ex_tx 920) ex_worker 1
     Wk_BUILD (Src_build ex_dispatch) (ex_claim_db bs)"
proof -
  have "find_by wo_id 1 (workers (ex_claim_db bs)) = Some ex_worker"
    by (simp add: ex_claim_db_def ex_worker_def)
  then show ?thesis
    by (simp add: claim_work_def ex_claim_reap ex_claim_admitted ex_claim_select claim_source_def)
qed

lemma ex_claim_granted: "\<exists>c s'. ex_claim [ex_sourced_build] = Inr (Some c, s')"
proof -
  let ?l = "claimed_lease ex_sha (ex_tx 920) ex_worker Wk_BUILD (Src_build ex_dispatch) ''digest''
    (seconds 980) (seconds 1820) 100"
  have "lease_constraints ?l [ex_lease]"
    by (simp add: lease_constraints_def claimed_lease_def ex_defs)
  then obtain s1 where s1: "add_lease ?l (mark_claimed (ex_tx 920) (Src_build ex_dispatch)
      (ex_claim_db [ex_sourced_build])) = Inr s1" "builds s1 = [ex_sourced_build]"
      "agent_versions s1 = [ex_version]" "storage_objects s1 = [ex_object]"
    by (simp add: add_lease_def mark_claimed_def ex_claim_db_def)
  have "\<exists>q b. build_claim_payload ex_dispatch s1 = Inr (q, b)"
    by (simp add: build_claim_payload_def s1 ex_dispatch_def ex_sourced_build_def ex_build_def ex_version_def ex_object_def)
  then obtain q s2 where "start_target (ex_tx 920) Wk_BUILD (Src_build ex_dispatch) s1 = Inr (q, s2)"
    by (auto simp: start_target_def)
  moreover have "source_payload (Src_build ex_dispatch) = []" "source_project (Src_build ex_dispatch) = 3"
    "next_id (ex_claim_db [ex_sourced_build]) = 100"
    by (simp_all add: source_payload_def source_project_def ex_dispatch_def ex_claim_db_def)
  ultimately show ?thesis
    unfolding ex_claim_admit using s1(1)
    by (simp add: admit_source_def ex_claim_project ex_claim_window finish_payload_def
        ex_claim_no_policy canary_activation_def Let_def)
qed

theorem claim_work_exclusive_and_bounded_witness:
  "\<exists>c s' l. ex_claim [ex_sourced_build] = Inr (Some c, s') \<and> exec_inv ex_canary s' \<and>
     l \<in> set (leases s') \<and> le_id l = lc_id c \<and>
     filter (\<lambda>m. source_key m = source_key l \<and> le_status m = Le_ACTIVE) (leases s') = [l]"
proof -
  obtain c s' where run: "ex_claim [ex_sourced_build] = Inr (Some c, s')" using ex_claim_granted by blast
  have "exec_inv ex_canary (ex_claim_db [ex_sourced_build])"
    by (rule ex_claim_inv) (simp add: ex_sourced_build_def ex_build_def)
  from claim_work_exclusive_and_bounded [OF this ex_canary_settings_ok run] run show ?thesis by blast
qed

text \<open>A handler that raises anything but \<open>IntegrityError\<close>.\<close>

definition no_integrity :: "'a result \<Rightarrow> bool" where
  "no_integrity m \<longleftrightarrow> m \<noteq> Inl IntegrityError"

lemma no_integrity_simps [simp]:
  "no_integrity (Inr x)" "no_integrity (Inl (ApiError a b))" "no_integrity (Inl ValueError)"
  by (simp_all add: no_integrity_def)

lemma no_integrity_bind:
  "no_integrity m \<Longrightarrow> (\<And>x. m = Inr x \<Longrightarrow> no_integrity (f x)) \<Longrightarrow> no_integrity (bind_result m f)"
  by (cases m) (simp_all add: no_integrity_def)

lemma no_integrity_event: "no_integrity (run_event_for tx r et p s)"
  unfolding run_event_for_def append_run_event_def
  by (auto intro!: no_integrity_bind simp: sanitize_event_payload_def split: json.split)

lemma no_integrity_int_or: "no_integrity (int_or d k n)"
  by (simp add: int_or_def split: option.split)

lemma no_integrity_policy: "no_integrity (sandbox_claim_policy st idna sha256 w p)"
  unfolding sandbox_claim_policy_def
  by (auto intro!: no_integrity_bind no_integrity_int_or split: option.split)

lemma no_integrity_activation: "no_integrity (canary_activation st idna sha256 w p q)"
  unfolding canary_activation_def Let_def by (simp split: option.split prod.split)

lemma no_integrity_finish: "no_integrity (finish_payload st idna sha256 w dl adm p)"
  unfolding finish_payload_def Let_def
  by (intro no_integrity_bind no_integrity_policy no_integrity_activation) (rule no_integrity_simps(1))

lemma no_integrity_timeout: "no_integrity (execution_timeout_seconds st p kind)"
  unfolding execution_timeout_seconds_def case_prod_beta Let_def deadline_invalid_def by (simp split: option.split)

lemma no_integrity_cancel_deadline: "no_integrity (cancellation_deadline_from_source p)"
  unfolding cancellation_deadline_from_source_def deadline_invalid_def by (simp split: option.split prod.split)

lemma no_integrity_deadline: "no_integrity (claim_deadline st tx p kind)"
  unfolding claim_deadline_def
proof (intro no_integrity_bind no_integrity_timeout)
  show "no_integrity (execution_deadline_at (tx_now tx) n)" for n by (simp add: execution_deadline_at_def)
  show "no_integrity (if kind = Wk_RUN_CANCEL
      then bind_result (cancellation_deadline_from_source p) (\<lambda>c. Inr (min d c)) else Inr d)" for d :: instant
    by (simp add: no_integrity_bind [OF no_integrity_cancel_deadline])
  show "no_integrity (if d \<le> tx_now tx then Inl (ApiError 409 ''WORK_ITEM_DEADLINE_EXPIRED'') else Inr d)" for d
    by simp
qed

lemma no_integrity_expiry: "no_integrity (claim_expiry st tx dl)"
  by (simp add: claim_expiry_def clamp_lease_expiry_def Let_def)

lemma no_integrity_start: "no_integrity (start_target tx kind src s)"
  unfolding start_target_def
  by (auto intro!: no_integrity_bind no_integrity_event split: work_source.split option.split
      simp: build_claim_payload_def run_claim_payload_def state_conflict_def Let_def)

lemma no_integrity_binding: "no_integrity (bound_run_egress_policy_is_current st idna sha256 tx c s)"
  unfolding bound_run_egress_policy_is_current_def revoke_bound_run_def
  by (auto intro!: no_integrity_bind no_integrity_event split: option.split prod.split simp: Let_def)

lemma claimed_lease_constraints:
  assumes inv: "exec_inv st s" and st: "settings_ok st" and sel: "select_source tx kind s = Some src"
    and dl: "claim_deadline st tx p kind = Inr dl" and e: "claim_expiry st tx dl = Inr e"
    and new: "d \<notin> le_lease_token_digest ` set (leases s)"
  shows "lease_constraints (claimed_lease sha256 tx w kind src d e dl i) (leases s)"
proof -
  let ?l = "claimed_lease sha256 tx w kind src d e dl i"
  note pend = select_source_pending [OF inv sel]
  have n: "0 \<le> source_attempts src" "source_attempts src < 20"
    using sources_okD [OF exec_invD(5) [OF inv] pend(1)] st by (simp_all add: settings_ok_def)
  have "\<not> (source_key x = source_key ?l \<and> (le_attempt x = le_attempt ?l \<or> le_status x = Le_ACTIVE))"
    if "x \<in> set (leases s)" for x
    using exec_invD(3) [OF inv that] pend(1) claimed_lease_key [OF pend(2)] by (auto simp: lease_tied_def)
  then have "\<forall>x \<in> set (leases s). \<not> (le_work_kind x = kind \<and> le_source_outbox_id x = le_source_outbox_id ?l \<and>
      (le_attempt x = le_attempt ?l \<or> le_status x = Le_ACTIVE))"
    by (force simp: source_key_def)
  with new n claim_window [OF st dl e] claimed_lease_target [OF pend(2), of sha256 tx w d e dl i] show ?thesis
    by (auto simp: lease_constraints_def list_all_iff)
qed

lemma no_integrity_admit:
  assumes inv: "exec_inv st s" and st: "settings_ok st" and sel: "select_source tx kind s = Some src"
    and new: "snd token \<notin> le_lease_token_digest ` set (leases s)"
  shows "no_integrity (admit_source st idna sha256 token tx w n kind src s)"
proof -
  have "no_integrity (lock_project_admission tx i kind s)" for i
    by (simp add: lock_project_admission_def Let_def split: option.split)
  moreover have "no_integrity (add_lease (claimed_lease sha256 tx w kind src (snd token) e dl (next_id s))
      (mark_claimed tx src s))"
    if "claim_deadline st tx (source_payload src) kind = Inr dl" "claim_expiry st tx dl = Inr e" for e dl
    using claimed_lease_constraints [OF inv st sel that new] by (simp add: add_lease_def)
  ultimately show ?thesis
    unfolding admit_source_def Let_def case_prod_beta
    by (intro no_integrity_bind no_integrity_deadline no_integrity_expiry no_integrity_start no_integrity_finish) auto
qed

lemma no_integrity_claim_source:
  assumes inv: "exec_inv st s" and st: "settings_ok st" and sel: "select_source tx kind s = Some src"
    and new: "snd token \<notin> le_lease_token_digest ` set (leases s)"
  shows "no_integrity (claim_source st idna sha256 token tx w n kind src s)"
  unfolding claim_source_def case_prod_beta
proof (rule no_integrity_bind)
  show "no_integrity (case src of Src_build b \<Rightarrow> Inr (True, s)
      | Src_run c \<Rightarrow> if kind = Wk_RUN_START then bound_run_egress_policy_is_current st idna sha256 tx c s
                       else Inr (True, s))"
    by (simp add: no_integrity_binding split: work_source.split)
next
  fix x assume "(case src of Src_build b \<Rightarrow> Inr (True, s)
      | Src_run c \<Rightarrow> if kind = Wk_RUN_START then bound_run_egress_policy_is_current st idna sha256 tx c s
                       else Inr (True, s)) = Inr x"
  then have "fst x \<Longrightarrow> snd x = s"
    by (cases x) (auto split: work_source.split_asm if_split_asm elim: binding_check_cases)
  then show "no_integrity (if fst x then admit_source st idna sha256 token tx w n kind src (snd x)
      else Inr (None, snd x))"
    using no_integrity_admit [OF inv st sel new] by simp
qed

lemma reap_expired_total_all:
  assumes "settings_ok st" and "1 \<le> b" and "b \<le> 500"
  shows "\<exists>n s'. reap_expired_leases st tx b rc s = Inr (n, s')"
proof -
  obtain s1 where s1: "reap_leases st tx (expired_batch tx b s) s = Inr s1"
    using reap_leases_total [OF assms(1)] by blast
  obtain n s2 where "reap_overdue_cancellations tx b s1 = Inr (n, s2)"
    using converge_all_total [of tx "overdue_batch tx b s1" s1] assms(2,3)
    by (auto simp: reap_overdue_cancellations_def)
  with s1 assms(2,3) show ?thesis by (simp add: reap_expired_leases_def Let_def)
qed

lemma recovers_digests:
  "recovers st s s' \<Longrightarrow> le_lease_token_digest ` set (leases s') = le_lease_token_digest ` set (leases s)"
  using list_all2_map_eq [of "lease_le st" "leases s" "leases s'" le_lease_token_digest]
  by (simp add: recovers_def lease_le_def flip: set_map)

text \<open>
  C2: with a token digest that no lease has, a claim never violates a constraint of the lease table: the
  unique indexes on the active source, the attempt and the token, and the checks on the attempt, the
  window and the target all hold for the row it inserts.
\<close>

theorem claim_work_no_constraint_violation:
  assumes inv: "exec_inv st s" and st: "settings_ok st"
    and new: "snd token \<notin> le_lease_token_digest ` set (leases s)"
  shows "claim_work st idna sha256 token tx wid kinds s \<noteq> Inl IntegrityError"
proof -
  obtain m s1 where reap: "reap_expired_leases st tx 100 True s = Inr (m, s1)"
    using reap_expired_total_all [OF st, of 100 tx True s] by auto
  have rec: "recovers st s s1" by (rule recovers_reap_expired [OF inv reap])
  note inv1 = recovers_inv [OF inv rec]
  have new1: "snd token \<notin> le_lease_token_digest ` set (leases s1)" using new recovers_digests [OF rec] by simp
  have "no_integrity (claim_kinds st idna sha256 token tx w n ks s1)" for w n ks
    by (induction ks) (auto intro: no_integrity_claim_source [OF inv1 st _ new1] split: option.split)
  moreover have "no_integrity (claim_admitted tx w kinds s1)" for w
    by (simp add: claim_admitted_def Let_def)
  ultimately have "no_integrity (claim_work st idna sha256 token tx wid kinds s)"
    by (auto simp: claim_work_def reap credential_invalid_def split: option.split intro!: no_integrity_bind)
  then show ?thesis by (simp add: no_integrity_def)
qed

theorem claim_work_no_constraint_violation_witness:
  "ex_claim [ex_sourced_build] \<noteq> Inl IntegrityError \<and> ''digest'' \<notin> le_lease_token_digest ` set (leases (ex_claim_db [ex_sourced_build]))"
proof -
  have new: "snd (''raw'', ''digest'') \<notin> le_lease_token_digest ` set (leases (ex_claim_db [ex_sourced_build]))"
    by (simp add: ex_claim_db_def ex_lease_def)
  have "exec_inv ex_canary (ex_claim_db [ex_sourced_build])"
    by (rule ex_claim_inv) (simp add: ex_sourced_build_def ex_build_def)
  from claim_work_no_constraint_violation [OF this ex_canary_settings_ok new] new show ?thesis by simp
qed

text \<open>
  C27: a claim fails as a whole when the oldest claimable build has no verified source archive. The
  exception rolls the transaction back, so the build stays the oldest: every later claim that asks for
  builds first fails in the same way, whatever other work is pending in any project.
\<close>

theorem claim_work_blocked_by_unclaimable_build:
  assumes "reap_expired_leases st tx 100 True s = Inr (m, s1)"
    and "find_by wo_id wid (workers s1) = Some w" and "claim_admitted tx w (Wk_BUILD # kinds) s1 = Inr n"
    and "exec_inv st s" and "settings_ok st" and "snd token \<notin> le_lease_token_digest ` set (leases s)"
    and "select_source tx Wk_BUILD s1 = Some (Src_build o1)" and "map_of (bo_payload o1) ''timeout_seconds'' = None"
    and "1 \<le> st_sandbox_max_build_seconds st" and "distinct (map pj_id (projects s1))"
    and "find_by bd_id (bo_build_id o1) (builds s1) = Some b" and "bd_status b = Bd_QUEUED"
    and "find_by agv_id (bd_agent_version_id b) (agent_versions s1) \<noteq> None" and "bd_source_object_id b = None"
  shows "claim_work st idna sha256 token tx wid (Wk_BUILD # kinds) s =
    Inl (ApiError 409 ''SOURCE_OBJECT_UNAVAILABLE'')"
proof -
  have rec: "recovers st s s1" by (rule recovers_reap_expired [OF assms(4,1)])
  note inv1 = recovers_inv [OF assms(4) rec]
  note pend = select_source_pending [OF inv1 assms(7)]
  have "project_admits (tx_now tx) (bo_project_id o1) s1"
    using pend(3) by (simp add: project_slot_kind_def source_project_def)
  then obtain p where p: "p \<in> set (projects s1)" "pj_id p = bo_project_id o1" "pj_status p = ''ACTIVE''"
      "pj_deleted_at p = None" "project_live_leases (tx_now tx) (bo_project_id o1) (leases s1) < pj_max_active_leases p"
    by (auto simp: project_admits_def split: option.split_asm dest: find_SomeD)
  then have "find_by pj_id (bo_project_id o1) (projects s1) = Some p"
    using find_by_eq_Some_iff [OF assms(10)] by simp
  with p obtain k where adm: "lock_project_admission tx (bo_project_id o1) Wk_BUILD s1 = Inr (p, k)"
    by (simp add: lock_project_admission_def)
  let ?dl = "tx_now tx + seconds (st_sandbox_max_build_seconds st)"
  have dl: "claim_deadline st tx (bo_payload o1) Wk_BUILD = Inr ?dl"
    using assms(8,9) by (simp add: claim_deadline_def execution_timeout_seconds_def as_int_def
        execution_deadline_at_def not_le)
  have "1 \<le> st_worker_lease_max_seconds st" using assms(5) by (simp add: settings_ok_def)
  with assms(9) obtain e where e: "claim_expiry st tx ?dl = Inr e"
    by (simp add: claim_expiry_def clamp_lease_expiry_def Let_def not_le)
  let ?l = "claimed_lease sha256 tx w Wk_BUILD (Src_build o1) (snd token) e ?dl (next_id s1)"
  have "lease_constraints ?l (leases s1)"
    by (rule claimed_lease_constraints [OF inv1 assms(5,7) dl e])
      (use assms(6) recovers_digests [OF rec] in simp)
  then obtain s2 where s2: "add_lease ?l (mark_claimed tx (Src_build o1) s1) = Inr s2" "builds s2 = builds s1"
      "agent_versions s2 = agent_versions s1"
    by (simp add: add_lease_def mark_claimed_def)
  have "List.find P xs = None" if "\<And>x. \<not> P x" for P and xs :: "storage_object list"
    using that by (simp add: find_None_iff)
  then have "build_claim_payload o1 s2 = Inl (ApiError 409 ''SOURCE_OBJECT_UNAVAILABLE'')"
    using assms(11-14) by (auto simp: build_claim_payload_def s2)
  then show ?thesis
    using assms(1-3,7) adm dl e s2(1)
    by (simp add: claim_work_def claim_source_def admit_source_def source_project_def source_payload_def
        start_target_def Let_def)
qed

theorem claim_work_blocked_by_unclaimable_build_witness:
  "ex_claim [ex_build] = Inl (ApiError 409 ''SOURCE_OBJECT_UNAVAILABLE'')"
proof -
  have inv: "exec_inv ex_canary (ex_claim_db [ex_build])" by (rule ex_claim_inv) (simp add: ex_build_def)
  have w: "find_by wo_id 1 (workers (ex_claim_db [ex_build])) = Some ex_worker"
    by (simp add: ex_claim_db_def ex_worker_def)
  show ?thesis
    by (rule claim_work_blocked_by_unclaimable_build [OF ex_claim_reap w ex_claim_admitted inv
          ex_canary_settings_ok _ ex_claim_select, where b = ex_build])
      (simp_all add: ex_claim_db_def ex_lease_def ex_dispatch_def ex_build_def ex_canary_def ex_version_def)
qed

end
