(* ===== verification/Py_Bytes.thy ===== *)
theory Py_Bytes
  imports Py_Text
begin

section \<open>Bytes: Base64 and UTF-8\<close>

text \<open>
  What the program uses of Python's \<open>base64\<close> module and of \<open>str.encode\<close>. A \<open>bytes\<close> object is a list of
  8-bit characters. Base64 is parametrised by the two characters of the values 62 and 63, which
  differ between \<open>b64encode\<close> and \<open>urlsafe_b64encode\<close>. The text of the model has code points below 256,
  so UTF-8 uses one or two bytes.
\<close>

subsection \<open>Base64\<close>

type_synonym alphabet = "char \<times> char"

definition standard_alphabet :: alphabet where
  "standard_alphabet = (CHR ''+'', CHR ''/'')"

definition urlsafe_alphabet :: alphabet where
  "urlsafe_alphabet = (CHR ''-'', CHR ''_'')"

definition b64_char :: "alphabet \<Rightarrow> nat \<Rightarrow> char" where
  "b64_char ab n = (if n < 26 then char_of (65 + n) else if n < 52 then char_of (71 + n)
     else if n < 62 then char_of (n - 4) else if n = 62 then fst ab else snd ab)"

definition b64_val :: "alphabet \<Rightarrow> char \<Rightarrow> nat option" where
  "b64_val ab c = (let k = code_point c in
     if 65 \<le> k \<and> k \<le> 90 then Some (k - 65) else if 97 \<le> k \<and> k \<le> 122 then Some (k - 71)
     else if 48 \<le> k \<and> k \<le> 57 then Some (k + 4)
     else if c = fst ab then Some 62 else if c = snd ab then Some 63 else None)"

fun b64encode :: "alphabet \<Rightarrow> string \<Rightarrow> string" where
  "b64encode ab [] = []"
| "b64encode ab [a] = (let x = code_point a in
     [b64_char ab (x div 4), b64_char ab (x mod 4 * 16), CHR ''='', CHR ''=''])"
| "b64encode ab [a, b] = (let x = code_point a; y = code_point b in
     [b64_char ab (x div 4), b64_char ab (x mod 4 * 16 + y div 16), b64_char ab (y mod 16 * 4), CHR ''=''])"
| "b64encode ab (a # b # c # rest) = (let x = code_point a; y = code_point b; z = code_point c in
     [b64_char ab (x div 4), b64_char ab (x mod 4 * 16 + y div 16), b64_char ab (y mod 16 * 4 + z div 64),
      b64_char ab (z mod 64)] @ b64encode ab rest)"

definition byte :: "nat \<Rightarrow> char" where
  "byte n = char_of (n mod 256)"

fun b64decode :: "alphabet \<Rightarrow> string \<Rightarrow> string option" where
  \<comment> \<open>digits of the alphabet with complete padding at the end and nothing else\<close>
  "b64decode ab [] = Some []"
| "b64decode ab (p # q # r # t # rest) = do {
     w \<leftarrow> b64_val ab p;
     x \<leftarrow> b64_val ab q;
     (if r = CHR ''='' then (if t = CHR ''='' \<and> rest = [] then Some [byte (w * 4 + x div 16)] else None)
      else do {
        y \<leftarrow> b64_val ab r;
        (if t = CHR ''='' then (if rest = [] then Some [byte (w * 4 + x div 16), byte (x mod 16 * 16 + y div 4)] else None)
         else do {
           z \<leftarrow> b64_val ab t;
           tail \<leftarrow> b64decode ab rest;
           Some ([byte (w * 4 + x div 16), byte (x mod 16 * 16 + y div 4), byte (y mod 4 * 64 + z)] @ tail) }) }) }"
| "b64decode ab _ = None"

definition alphabet_ok :: "alphabet \<Rightarrow> bool" where
  "alphabet_ok ab \<longleftrightarrow> ab \<in> {standard_alphabet, urlsafe_alphabet}"

lemma b64_val_char:
  assumes "alphabet_ok ab" and "n < 64"
  shows "b64_val ab (b64_char ab n) = Some n" and "b64_char ab n \<noteq> CHR ''=''"
proof -
  have eq: "code_point CHR ''='' = 61" "code_point CHR ''+'' = 43" "code_point CHR ''/'' = 47"
      "code_point CHR ''-'' = 45" "code_point CHR ''_'' = 95"
    by (simp_all add: code_point_def)
  have ab: "code_point (fst ab) \<in> {43, 45}" "code_point (snd ab) \<in> {47, 95}" "snd ab \<noteq> fst ab"
    using assms(1) by (auto simp: alphabet_ok_def standard_alphabet_def urlsafe_alphabet_def eq)
  consider "n < 26" | "26 \<le> n" "n < 52" | "52 \<le> n" "n < 62" | "n = 62" | "n = 63" using assms(2) by linarith
  then have v: "code_point (b64_char ab n) \<noteq> 61 \<and> b64_val ab (b64_char ab n) = Some n"
    by cases (use ab in \<open>auto simp: b64_char_def b64_val_def Let_def code_point_char_of\<close>)
  then show "b64_val ab (b64_char ab n) = Some n" by simp
  from v show "b64_char ab n \<noteq> CHR ''=''" using eq(1) by metis
qed

lemma code_point_less: "code_point c < 256"
  by (simp add: code_point_def)

lemma byte_code_point: "n = code_point c \<Longrightarrow> byte n = c"
  by (simp add: byte_def code_point_def)

lemma split_bytes:
  fixes x y z :: nat
  assumes "x < 256" and "y < 256" and "z < 256"
  shows "x div 4 < 64" and "x mod 4 * 16 < 64" and "x mod 4 * 16 + y div 16 < 64" and "y mod 16 * 4 < 64"
    and "y mod 16 * 4 + z div 64 < 64" and "z mod 64 < 64"
    and "x div 4 * 4 + (x mod 4 * 16) div 16 = x" and "x div 4 * 4 + (x mod 4 * 16 + y div 16) div 16 = x"
    and "(x mod 4 * 16 + y div 16) mod 16 * 16 + (y mod 16 * 4) div 4 = y"
    and "(x mod 4 * 16 + y div 16) mod 16 * 16 + (y mod 16 * 4 + z div 64) div 4 = y"
    and "(y mod 16 * 4 + z div 64) mod 4 * 64 + z mod 64 = z"
proof -
  have d: "y div 16 < 16" "z div 64 < 4" using assms by auto
  have m: "x mod 4 < 4" "y mod 16 < 16" by simp_all
  show "x div 4 < 64" using assms(1) by auto
  show "x mod 4 * 16 < 64" "y mod 16 * 4 < 64" "z mod 64 < 64" using m by simp_all
  show "x mod 4 * 16 + y div 16 < 64" "y mod 16 * 4 + z div 64 < 64" using m d by linarith+
  have e: "(x mod 4 * 16 + y div 16) div 16 = x mod 4" "(x mod 4 * 16 + y div 16) mod 16 = y div 16"
      "(y mod 16 * 4 + z div 64) div 4 = y mod 16" "(y mod 16 * 4 + z div 64) mod 4 = z div 64"
    using d by simp_all
  show "x div 4 * 4 + (x mod 4 * 16) div 16 = x" by simp
  show "x div 4 * 4 + (x mod 4 * 16 + y div 16) div 16 = x" unfolding e by simp
  show "(x mod 4 * 16 + y div 16) mod 16 * 16 + (y mod 16 * 4) div 4 = y" unfolding e by simp
  show "(x mod 4 * 16 + y div 16) mod 16 * 16 + (y mod 16 * 4 + z div 64) div 4 = y" unfolding e by simp
  show "(y mod 16 * 4 + z div 64) mod 4 * 64 + z mod 64 = z" unfolding e by simp
qed

lemma b64decode_digits:
  assumes "alphabet_ok ab" and "w < 64" and "x < 64" and "y < 64" and "z < 64"
  shows "b64decode ab [b64_char ab w, b64_char ab x, CHR ''='', CHR ''=''] = Some [byte (w * 4 + x div 16)]"
    and "b64decode ab [b64_char ab w, b64_char ab x, b64_char ab y, CHR ''=''] =
      Some [byte (w * 4 + x div 16), byte (x mod 16 * 16 + y div 4)]"
    and "b64decode ab (b64_char ab w # b64_char ab x # b64_char ab y # b64_char ab z # rest) =
      map_option ((@) [byte (w * 4 + x div 16), byte (x mod 16 * 16 + y div 4), byte (y mod 4 * 64 + z)])
        (b64decode ab rest)"
  using assms by (simp_all add: b64_val_char map_option_case split: option.split)

lemma b64decode_encode: "alphabet_ok ab \<Longrightarrow> b64decode ab (b64encode ab s) = Some s"
proof (induction ab s rule: b64encode.induct)
  case (2 ab a)
  note sp = split_bytes [OF code_point_less [of a] code_point_less [of a] code_point_less [of a]]
  show ?case
    unfolding b64encode.simps Let_def b64decode_digits(1) [OF 2 sp(1) sp(2) sp(1) sp(1)] sp(7)
      byte_code_point [OF refl] by (rule refl)
next
  case (3 ab a b)
  note sp = split_bytes [OF code_point_less [of a] code_point_less [of b] code_point_less [of a]]
  show ?case
    unfolding b64encode.simps Let_def b64decode_digits(2) [OF 3 sp(1) sp(3) sp(4) sp(1)] sp(8,9)
      byte_code_point [OF refl] by (rule refl)
next
  case (4 ab a b c rest)
  note sp = split_bytes [OF code_point_less [of a] code_point_less [of b] code_point_less [of c]]
  have IH: "b64decode ab (b64encode ab rest) = Some rest" using 4 by (simp add: Let_def)
  show ?case
    unfolding b64encode.simps Let_def append_Cons append_Nil b64decode_digits(3) [OF 4(2) sp(1) sp(3) sp(5) sp(6)]
      sp(8,10,11) byte_code_point [OF refl] IH by simp
qed simp

subsection \<open>UTF-8\<close>

definition utf8_encode :: "string \<Rightarrow> string" where
  "utf8_encode s = concat (map (\<lambda>c. let k = code_point c in
     if k < 128 then [c] else [char_of (192 + k div 64), char_of (128 + k mod 64)]) s)"

fun utf8_decode :: "string \<Rightarrow> string option" where
  \<comment> \<open>\<open>None\<close> for bytes that are not the encoding of a text with code points below 256\<close>
  "utf8_decode [] = Some []"
| "utf8_decode (a # rest) = (if code_point a < 128 then map_option ((#) a) (utf8_decode rest)
     else (case rest of [] \<Rightarrow> None
       | b # rest' \<Rightarrow> if (code_point a = 194 \<or> code_point a = 195) \<and> code_point b div 64 = 2
           then map_option ((#) (char_of ((code_point a - 192) * 64 + (code_point b - 128)))) (utf8_decode rest')
           else None))"

lemma utf8_decode_encode: "utf8_decode (utf8_encode s) = Some s"
proof (induction s)
  case (Cons c s)
  show ?case
  proof (cases "code_point c < 128")
    case True
    with Cons show ?thesis by (simp add: utf8_encode_def)
  next
    case False
    define k where "k = code_point c"
    have k: "128 \<le> k" "k < 256" using False code_point_less by (simp_all add: k_def)
    then have q: "k div 64 = 2 \<or> k div 64 = 3" by auto
    have cp: "code_point (char_of n) = n" if "n < 256" for n
      using that by (simp add: code_point_def)
    have lo: "code_point (char_of (128 + k mod 64)) = 128 + k mod 64" by (rule cp) simp
    have hi: "code_point (char_of (192 + k div 64)) = 192 + k div 64" by (rule cp) (use q in auto)
    have "char_of (k div 64 * 64 + k mod 64) = c" by (simp add: k_def code_point_def)
    moreover have "(128 + k mod 64) div 64 = 2" by simp
    moreover have "utf8_encode (c # s) = char_of (192 + k div 64) # char_of (128 + k mod 64) # utf8_encode s"
      using False by (simp add: utf8_encode_def k_def Let_def)
    ultimately show ?thesis using q Cons by (auto simp: hi lo)
  qed
qed (simp add: utf8_encode_def)

end
