(* ===== verification/Json_Text.thy ===== *)
theory Json_Text
  imports Py_Bytes
begin

section \<open>Reading JSON\<close>

text \<open>
  \<open>json.loads\<close> and \<open>json.dumps\<close> with the default \<open>ensure_ascii=True\<close>, and their round trip. The reader
  takes the values the model has: a number with a fraction or an exponent, \<open>NaN\<close>, \<open>Infinity\<close> and an
  escape above 255 give \<open>None\<close>. The program only reads back text it has written itself (signed cursors,
  sealed envelopes), and that text has none of them.
\<close>

subsection \<open>Writing\<close>

definition ascii_char :: "char \<Rightarrow> string" where
  "ascii_char c = (if code_point c < 127 then [c] else [char_of (92::nat)] @ ''u'' @ digits_in 16 4 (code_point c))"

definition encode_text :: "(char \<Rightarrow> string) \<Rightarrow> string \<Rightarrow> string" where
  "encode_text enc s = concat (map enc s)"

definition json_dumps_ascii :: "json \<Rightarrow> string" where
  \<comment> \<open>characters above 126 occur in string literals only, where each one becomes an escape\<close>
  "json_dumps_ascii v = encode_text ascii_char (json_dumps v)"

subsection \<open>Parsing\<close>

definition skip_ws :: "string \<Rightarrow> string" where
  "skip_ws s = dropWhile (\<lambda>c. code_point c \<in> {9, 10, 13, 32}) s"

definition simple_escape :: "char \<Rightarrow> char option" where
  "simple_escape c = map_of
     (zip (map char_of [34, 92, 47, 98, 102, 110, 114, 116 :: nat])
          (map char_of [34, 92, 47, 8, 12, 10, 13, 9 :: nat])) c"

definition hex4 :: "string \<Rightarrow> char option" where
  \<comment> \<open>the four digits of an escape, for a code point below 256\<close>
  "hex4 s = (if length s = 4 \<and> list_all (\<lambda>c. digit_val 16 c \<noteq> None) s
     then (case digits_val 16 0 True s of Some n \<Rightarrow> if n < 256 then Some (char_of n) else None | None \<Rightarrow> None)
     else None)"

function parse_string :: "string \<Rightarrow> (string \<times> string) option" where
  "parse_string [] = None"
| "parse_string (c # s) =
     (if code_point c = 34 then Some ([], s)
      else if code_point c = 92 then
        (case s of [] \<Rightarrow> None
         | e # r \<Rightarrow> if e = CHR ''u''
             then (case hex4 (take 4 r) of None \<Rightarrow> None
               | Some x \<Rightarrow> map_option (apfst ((#) x)) (parse_string (drop 4 r)))
             else (case simple_escape e of None \<Rightarrow> None
               | Some x \<Rightarrow> map_option (apfst ((#) x)) (parse_string r)))
      else if code_point c < 32 then None
      else map_option (apfst ((#) c)) (parse_string s))"
  by pat_completeness auto
termination
  by (relation "measure length") auto

declare parse_string.simps [simp del]

definition dec_digit :: "char \<Rightarrow> bool" where
  "dec_digit c \<longleftrightarrow> 48 \<le> code_point c \<and> code_point c \<le> 57"

definition dec_val :: "string \<Rightarrow> nat" where
  "dec_val s = foldl (\<lambda>a c. a * 10 + (code_point c - 48)) 0 s"

definition starts_float :: "string \<Rightarrow> bool" where
  "starts_float r = (case r of [] \<Rightarrow> False
     | c # s \<Rightarrow> (c = CHR ''.'' \<and> s \<noteq> [] \<and> dec_digit (hd s)) \<or>
         (c \<in> {CHR ''e'', CHR ''E''} \<and> (let t = (if s \<noteq> [] \<and> hd s \<in> {CHR ''+'', CHR ''-''} then tl s else s)
            in t \<noteq> [] \<and> dec_digit (hd t))))"

definition parse_nat :: "string \<Rightarrow> (nat \<times> string) option" where
  "parse_nat s = (case takeWhile dec_digit s of
     [] \<Rightarrow> None
   | d # ds \<Rightarrow>
       let (n, r) = (if d = CHR ''0'' then (0, tl s) else (dec_val (d # ds), dropWhile dec_digit s))
       in if starts_float r then None else Some (n, r))"

definition parse_number :: "string \<Rightarrow> (json \<times> string) option" where
  "parse_number s = (case s of [] \<Rightarrow> None
     | c # r \<Rightarrow> if c = CHR ''-'' then map_option (apfst (\<lambda>n. JInt (- int n))) (parse_nat r)
         else map_option (apfst (\<lambda>n. JInt (int n))) (parse_nat s))"

fun parse_value :: "nat \<Rightarrow> string \<Rightarrow> (json \<times> string) option"
  and parse_items :: "nat \<Rightarrow> string \<Rightarrow> (json list \<times> string) option"
  and parse_members :: "nat \<Rightarrow> string \<Rightarrow> (dict \<times> string) option" where
  "parse_value 0 s = None"
| "parse_value (Suc n) s = (case skip_ws s of
     [] \<Rightarrow> None
   | c # r \<Rightarrow>
       if code_point c = 34 then map_option (apfst JStr) (parse_string r)
       else if c = CHR ''['' then
         (case skip_ws r of [] \<Rightarrow> None
          | d # q \<Rightarrow> if d = CHR '']'' then Some (JList [], q)
              else map_option (apfst JList) (parse_items n r))
       else if c = CHR ''{'' then
         (case skip_ws r of [] \<Rightarrow> None
          | d # q \<Rightarrow> if d = CHR ''}'' then Some (JDict [], q)
              else map_option (apfst (JDict \<circ> dupdate [])) (parse_members n r))
       else if take 4 (c # r) = ''null'' then Some (JNull, drop 3 r)
       else if take 4 (c # r) = ''true'' then Some (JBool True, drop 3 r)
       else if take 5 (c # r) = ''false'' then Some (JBool False, drop 4 r)
       else parse_number (c # r))"
| "parse_items 0 s = None"
| "parse_items (Suc n) s = (case parse_value n s of
     None \<Rightarrow> None
   | Some (v, r) \<Rightarrow> (case skip_ws r of [] \<Rightarrow> None
       | c # q \<Rightarrow> if c = CHR '']'' then Some ([v], q)
           else if c = CHR '','' then map_option (apfst ((#) v)) (parse_items n q) else None))"
| "parse_members 0 s = None"
| "parse_members (Suc n) s = (case skip_ws s of
     [] \<Rightarrow> None
   | c # r \<Rightarrow> if code_point c \<noteq> 34 then None
       else (case parse_string r of None \<Rightarrow> None
         | Some (k, r1) \<Rightarrow> (case skip_ws r1 of [] \<Rightarrow> None
             | d # r2 \<Rightarrow> if d \<noteq> CHR '':'' then None
                 else (case parse_value n r2 of None \<Rightarrow> None
                   | Some (v, r3) \<Rightarrow> (case skip_ws r3 of [] \<Rightarrow> None
                       | e # q \<Rightarrow> if e = CHR ''}'' then Some ([(k, v)], q)
                           else if e = CHR '','' then map_option (apfst ((#) (k, v))) (parse_members n q)
                           else None)))))"

definition json_loads :: "string \<Rightarrow> json option" where
  "json_loads s = (case parse_value (Suc (length s)) s of
     None \<Rightarrow> None | Some (v, r) \<Rightarrow> if skip_ws r = [] then Some v else None)"

subsection \<open>Canonical values\<close>

fun canon :: "json \<Rightarrow> json" where
  \<comment> \<open>the value with the keys of every object in the order of \<open>sort_keys=True\<close>\<close>
  "canon (JList xs) = JList (map canon xs)"
| "canon (JDict d) = JDict (sort_key fst (map (\<lambda>kv. (fst kv, canon (snd kv))) d))"
| "canon v = v"

fun plain_json :: "json \<Rightarrow> bool" where
  \<comment> \<open>no floats, and every object has distinct keys, as a Python dict does\<close>
  "plain_json (JFloat f) = False"
| "plain_json (JList xs) = list_all plain_json xs"
| "plain_json (JDict d) = (distinct (map fst d) \<and> list_all (\<lambda>kv. plain_json (snd kv)) d)"
| "plain_json v = True"

lemma sort_key_map:
  assumes "\<And>x. key (f x) = key' x"
  shows "sort_key key (map f xs) = map f (sort_key key' xs)"
proof -
  have "insort_key key (f x) (map f ys) = map f (insort_key key' x ys)" for x ys
    by (induction ys) (simp_all add: assms)
  then show ?thesis by (induction xs) simp_all
qed

lemma json_dumps_dict:
  "json_dumps (JDict d) = ''{'' @ sep_concat (map (\<lambda>kv. json_quote (fst kv) @ '':'' @ json_dumps (snd kv))
     (sort_key fst d)) @ ''}''"
proof -
  have "sort_key fst (map (\<lambda>(k, v). (k, json_dumps v)) d) = map (\<lambda>(k, v). (k, json_dumps v)) (sort_key fst d)"
    by (rule sort_key_map) auto
  then show ?thesis by (simp add: case_prod_beta comp_def)
qed

lemma canon_dict: "canon (JDict d) = JDict (map (\<lambda>kv. (fst kv, canon (snd kv))) (sort_key fst d))"
  by (simp add: sort_key_map [where key' = fst])

lemma dupdate_distinct: "distinct (map fst (d @ e)) \<Longrightarrow> dupdate d e = d @ e"
proof (induction e arbitrary: d)
  case (Cons kv e)
  obtain k v where kv: "kv = (k, v)" by (cases kv)
  with Cons.prems have "dset k v d = d @ [(k, v)]" by (auto simp: dset_def)
  with Cons.IH [of "d @ [(k, v)]"] Cons.prems kv show ?case by (simp add: dupdate_def)
qed (simp add: dupdate_def)

subsection \<open>Scalars read back\<close>

lemma char_of_code_point [simp]: "char_of (code_point c) = c"
  by (simp add: code_point_def)

definition enc_ok :: "(char \<Rightarrow> string) \<Rightarrow> bool" where
  \<comment> \<open>an encoder that keeps ASCII and leaves or escapes the other characters\<close>
  "enc_ok enc \<longleftrightarrow> (\<forall>c. enc c = [c] \<or> 127 \<le> code_point c \<and>
     enc c = [char_of (92::nat)] @ ''u'' @ digits_in 16 4 (code_point c))"

lemma enc_ok_instances: "enc_ok ascii_char" "enc_ok (\<lambda>c. [c])"
  by (simp_all add: enc_ok_def ascii_char_def)

lemma encode_text_id [simp]: "encode_text (\<lambda>c. [c]) s = s"
  by (simp add: encode_text_def)

lemma encode_text_simps [simp]:
  "encode_text enc [] = []" "encode_text enc (c # s) = enc c @ encode_text enc s"
  "encode_text enc (s @ t) = encode_text enc s @ encode_text enc t"
  by (simp_all add: encode_text_def)

lemma encode_ascii:
  assumes "enc_ok enc" and "\<forall>c \<in> set s. code_point c < 127"
  shows "encode_text enc s = s"
  using assms(2)
proof (induction s)
  case (Cons c s)
  then have "enc c = [c]" using assms(1) unfolding enc_ok_def by (metis list.set_intros(1) not_le)
  with Cons show ?case by simp
qed simp

lemma hex4_digits: "n < 256 \<Longrightarrow> hex4 (digits_in 16 4 n) = Some (char_of n)"
  using digits_val_digits_in [of 16 4 n] digits_in_digits [of 16 _ 4 n] by (auto simp: hex4_def list_all_iff)

lemma parse_escape_u:
  assumes "n < 256"
  shows "parse_string (char_of (92::nat) # CHR ''u'' # digits_in 16 4 n @ r) =
    map_option (apfst ((#) (char_of n))) (parse_string r)"
proof -
  have "take 4 (digits_in 16 4 n @ r) = digits_in 16 4 n" "drop 4 (digits_in 16 4 n @ r) = r" by simp_all
  with hex4_digits [OF assms] show ?thesis
    by (subst parse_string.simps) (simp add: code_point_char_of)
qed

lemma simple_escapes:
  "simple_escape (char_of (34::nat)) = Some (char_of (34::nat))"
  "simple_escape (char_of (92::nat)) = Some (char_of (92::nat))"
  "simple_escape CHR ''b'' = Some (char_of (8::nat))" "simple_escape CHR ''f'' = Some (char_of (12::nat))"
  "simple_escape CHR ''n'' = Some (char_of (10::nat))" "simple_escape CHR ''r'' = Some (char_of (13::nat))"
  "simple_escape CHR ''t'' = Some (char_of (9::nat))"
  by code_simp+

lemma parse_escape_char:
  assumes "simple_escape e = Some x" and "e \<noteq> CHR ''u''"
  shows "parse_string (char_of (92::nat) # e # r) = map_option (apfst ((#) x)) (parse_string r)"
  using assms by (subst parse_string.simps) (simp add: code_point_char_of)

lemma parse_plain_char:
  assumes "32 \<le> code_point c" "code_point c \<noteq> 34" "code_point c \<noteq> 92"
  shows "parse_string (c # r) = map_option (apfst ((#) c)) (parse_string r)"
  using assms by (subst parse_string.simps) simp

lemma escape_letters: "char_of (34::nat) \<noteq> CHR ''u''" "char_of (92::nat) \<noteq> CHR ''u''"
  "code_point CHR ''n'' = 110" "code_point CHR ''r'' = 114" "code_point CHR ''t'' = 116"
  "code_point CHR ''f'' = 102" "code_point CHR ''b'' = 98"
  by code_simp+

lemma digits_ascii: "1 < b \<Longrightarrow> b \<le> 16 \<Longrightarrow> c \<in> set (digits_in b w n) \<Longrightarrow> code_point c < 127"
proof (induction w arbitrary: n)
  case (Suc w)
  then have "n mod b < 16" by (meson less_le_trans less_trans mod_less_divisor zero_less_one)
  then have "code_point (digit (n mod b)) < 127" by (simp add: digit_def code_point_char_of)
  with Suc show ?case by auto
qed simp

lemma escape_char_cases:
  obtains (esc) e where "json_escape_char c = [char_of (92::nat), e]" "simple_escape e = Some c"
      "e \<noteq> CHR ''u''" "code_point e < 127"
    | (ctl) "json_escape_char c = [char_of (92::nat)] @ ''u'' @ digits_in 16 4 (code_point c)" "code_point c < 32"
    | (raw) "json_escape_char c = [c]" "32 \<le> code_point c" "code_point c \<noteq> 34" "code_point c \<noteq> 92"
proof -
  have simple: thesis
    if "json_escape_char c = [char_of (92::nat), e]" "c = char_of n" "simple_escape e = Some (char_of n)"
       "e \<noteq> CHR ''u'' \<and> code_point e < 127" for e and n :: nat
    using that esc by auto
  have c: "c = char_of n" if "code_point c = n" for n using that by (simp add: code_point_def flip: that)
  note d = json_escape_char_def Let_def code_point_def [symmetric]
  consider "code_point c = 34" | "code_point c = 92" | "code_point c = 10" | "code_point c = 13"
    | "code_point c = 9" | "code_point c = 12" | "code_point c = 8"
    | "code_point c \<notin> {34, 92, 10, 13, 9, 12, 8}" by blast
  then show thesis
  proof cases
    case 1 then show thesis by (intro simple [OF _ c simple_escapes(1)]) (auto simp: d code_point_char_of escape_letters)
  next
    case 2 then show thesis by (intro simple [OF _ c simple_escapes(2)]) (auto simp: d code_point_char_of escape_letters)
  next
    case 3 then show thesis by (intro simple [OF _ c simple_escapes(5)]) (auto simp: d escape_letters)
  next
    case 4 then show thesis by (intro simple [OF _ c simple_escapes(6)]) (auto simp: d escape_letters)
  next
    case 5 then show thesis by (intro simple [OF _ c simple_escapes(7)]) (auto simp: d escape_letters)
  next
    case 6 then show thesis by (intro simple [OF _ c simple_escapes(4)]) (auto simp: d escape_letters)
  next
    case 7 then show thesis by (intro simple [OF _ c simple_escapes(3)]) (auto simp: d escape_letters)
  next
    case 8 then show thesis using ctl raw by (cases "code_point c < 32") (auto simp: d)
  qed
qed

lemma parse_escaped_char:
  assumes "enc_ok enc"
  shows "parse_string (encode_text enc (json_escape_char c) @ r) = map_option (apfst ((#) c)) (parse_string r)"
proof (cases c rule: escape_char_cases)
  case (esc e)
  then have "encode_text enc (json_escape_char c) = [char_of (92::nat), e]"
    using encode_ascii [OF assms, of "json_escape_char c"] by (simp add: code_point_char_of)
  then show ?thesis using parse_escape_char [OF esc(2,3)] by simp
next
  case ctl
  have "encode_text enc (digits_in 16 4 n) = digits_in 16 4 n" for n
    by (intro encode_ascii [OF assms] ballI digits_ascii [of 16]) simp_all
  moreover have "encode_text enc ([char_of (92::nat)] @ ''u'') = [char_of (92::nat)] @ ''u''"
    by (intro encode_ascii [OF assms]) (simp add: code_point_char_of, simp add: code_point_def)
  ultimately have "encode_text enc (json_escape_char c) = json_escape_char c"
    unfolding ctl encode_text_simps(3) by simp
  then show ?thesis using ctl parse_escape_u [of "code_point c" r] by simp
next
  case raw
  consider "enc c = [c]" | "enc c = [char_of (92::nat)] @ ''u'' @ digits_in 16 4 (code_point c)"
    using assms unfolding enc_ok_def by blast
  then show ?thesis
    using raw parse_plain_char [of c r] parse_escape_u [of "code_point c" r] code_point_less [of c] by cases simp_all
qed

lemma parse_quoted:
  assumes "enc_ok enc"
  shows "parse_string (encode_text enc (concat (map json_escape_char s)) @ char_of (34::nat) # r) = Some (s, r)"
  by (induction s) (simp_all add: parse_escaped_char [OF assms] parse_string.simps code_point_char_of)

definition delimited :: "string \<Rightarrow> bool" where
  \<comment> \<open>what may follow a value in encoded text\<close>
  "delimited r \<longleftrightarrow> r = [] \<or> hd r \<in> {CHR '','', CHR '']'', CHR ''}''}"

lemma dec_digits: "list_all dec_digit (dec n)"
proof (induction n rule: dec.induct)
  case (1 n)
  have "dec_digit (digit k)" if "k < 10" for k using that by (simp add: dec_digit_def digit_def code_point_char_of)
  with 1 show ?case by (simp add: dec.simps [of n])
qed

lemma dec_not_Nil [simp]: "dec n \<noteq> []"
  by (simp add: dec.simps [of n])

lemma dec_val_dec: "dec_val (dec n) = n"
proof (induction n rule: dec.induct)
  case (1 n)
  have "code_point (digit k) - 48 = k" if "k < 10" for k using that by (simp add: digit_def code_point_char_of)
  with 1 show ?case by (simp add: dec.simps [of n] dec_val_def)
qed

lemma dec_head_zero: "hd (dec n) = CHR ''0'' \<longleftrightarrow> n = 0"
proof (induction n rule: dec.induct)
  case (1 n)
  have "digit n = CHR ''0'' \<longleftrightarrow> n = 0" if "n < 10"
  proof -
    have "code_point (digit n) = 48 + n" using that by (simp add: digit_def code_point_char_of)
    moreover have "code_point CHR ''0'' = 48" "CHR ''0'' = char_of (48::nat)" by code_simp+
    ultimately show ?thesis using that by (auto simp: digit_def)
  qed
  with 1 show ?case by (auto simp: dec.simps [of n] hd_append)
qed

lemma parse_nat_dec:
  assumes "delimited r"
  shows "parse_nat (dec n @ r) = Some (n, r)"
proof -
  have stop: "\<not> dec_digit c" "\<not> starts_float (c # q)" if "c \<in> {CHR '','', CHR '']'', CHR ''}''}" for c q
    using that by (auto simp: dec_digit_def starts_float_def code_point_def)
  have r: "takeWhile dec_digit r = []" "dropWhile dec_digit r = r" "\<not> starts_float r"
    using assms stop by (cases r; auto simp: delimited_def starts_float_def)+
  have split: "takeWhile dec_digit (dec n @ r) = dec n" "dropWhile dec_digit (dec n @ r) = r"
    using dec_digits [of n] r by (simp_all add: takeWhile_append2 dropWhile_append2 list_all_iff)
  obtain d ds where d: "dec n = d # ds" by (cases "dec n") simp_all
  show ?thesis
  proof (cases "n = 0")
    case True
    moreover have "dec 0 = ''0''" by code_simp
    ultimately show ?thesis using r split d dec_digits [of n] by (simp add: parse_nat_def)
  next
    case False
    then show ?thesis using r split d dec_head_zero [of n] dec_val_dec [of n] by (simp add: parse_nat_def)
  qed
qed

lemma parse_number_int:
  assumes "delimited r"
  shows "parse_number (int_str n @ r) = Some (JInt n, r)"
proof (cases "n < 0")
  case True
  then show ?thesis by (simp add: parse_number_def int_str_def parse_nat_dec [OF assms])
next
  case False
  obtain d ds where d: "dec (nat n) = d # ds" by (cases "dec (nat n)") simp_all
  with dec_digits [of "nat n"] have "d \<noteq> CHR ''-''" by (auto simp: dec_digit_def code_point_def)
  with False d parse_nat_dec [OF assms, of "nat n"] show ?thesis by (simp add: parse_number_def int_str_def)
qed

subsection \<open>Values read back\<close>

lemma skip_ws_Cons: "32 < code_point c \<Longrightarrow> skip_ws (c # q) = c # q"
  by (auto simp: skip_ws_def)

lemma token_points:
  "code_point CHR ''['' = 91" "code_point CHR '']'' = 93" "code_point CHR ''{'' = 123" "code_point CHR ''}'' = 125"
  "code_point CHR '','' = 44" "code_point CHR '':'' = 58" "code_point CHR ''-'' = 45"
  "code_point CHR ''n'' = 110" "code_point CHR ''t'' = 116" "code_point CHR ''f'' = 102"
  by code_simp+

definition head_ok :: "string \<Rightarrow> bool" where
  \<comment> \<open>the first character of a value: no white space and no closing bracket\<close>
  "head_ok s \<longleftrightarrow> s \<noteq> [] \<and> 32 < code_point (hd s) \<and> code_point (hd s) < 127 \<and>
     hd s \<noteq> CHR '']'' \<and> hd s \<noteq> CHR ''}''"

lemma int_str_head: "int_str n \<noteq> [] \<and> (hd (int_str n) = CHR ''-'' \<or> dec_digit (hd (int_str n)))"
proof -
  have "dec_digit (hd (dec m))" for m using dec_digits [of m] dec_not_Nil [of m] by (cases "dec m") auto
  then show ?thesis by (simp add: int_str_def)
qed

lemma dec_digit_head: "dec_digit c \<Longrightarrow> 32 < code_point c \<and> code_point c < 127 \<and> c \<noteq> CHR '']'' \<and> c \<noteq> CHR ''}''"
  by (auto simp: dec_digit_def token_points)

lemma dumps_head: "plain_json v \<Longrightarrow> head_ok (json_dumps v)"
proof (cases v)
  case (JInt n)
  then show ?thesis using int_str_head [of n] dec_digit_head
    by (auto simp: head_ok_def token_points)
next
  case (JStr s)
  have "char_of (34::nat) \<noteq> CHR '']''" "char_of (34::nat) \<noteq> CHR ''}''" by code_simp+
  with JStr show ?thesis by (simp add: head_ok_def json_quote_def code_point_char_of)
next
  case (JDict d)
  then show ?thesis unfolding JDict json_dumps_dict by (simp add: head_ok_def token_points)
qed (auto simp: head_ok_def token_points)

lemma encode_head:
  assumes "enc_ok enc" "head_ok s"
  shows "head_ok (encode_text enc s)"
proof (cases s)
  case (Cons c t)
  then have "enc c = [c]" using assms unfolding enc_ok_def head_ok_def by fastforce
  with Cons assms(2) show ?thesis by (simp add: head_ok_def)
qed (use assms in \<open>simp add: head_ok_def\<close>)

lemma skip_ws_head: "head_ok s \<Longrightarrow> skip_ws (s @ r) = s @ r"
  by (cases s) (auto simp: head_ok_def skip_ws_Cons)

definition reads_back :: "(char \<Rightarrow> string) \<Rightarrow> json \<Rightarrow> bool" where
  \<comment> \<open>the statement of the induction over values\<close>
  "reads_back enc v \<longleftrightarrow> (\<forall>m r. length (encode_text enc (json_dumps v)) < m \<longrightarrow> delimited r \<longrightarrow>
     parse_value m (encode_text enc (json_dumps v) @ r) = Some (canon v, r))"

lemma reads_backD:
  "reads_back enc v \<Longrightarrow> length (encode_text enc (json_dumps v)) < m \<Longrightarrow> delimited r \<Longrightarrow>
     parse_value m (encode_text enc (json_dumps v) @ r) = Some (canon v, r)"
  by (simp add: reads_back_def)

lemma encode_token: "enc_ok enc \<Longrightarrow> code_point c < 127 \<Longrightarrow> enc c = [c]"
  unfolding enc_ok_def by (metis not_le)

lemma delimited_token: "c \<in> {CHR '','', CHR '']'', CHR ''}''} \<Longrightarrow> delimited (c # q)"
  by (auto simp: delimited_def)

lemma parse_items_back:
  assumes enc: "enc_ok enc" and "list_all (reads_back enc) xs" "list_all plain_json xs" "xs \<noteq> []"
    and "length (encode_text enc (sep_concat (map json_dumps xs))) + 1 < m"
  shows "parse_items m (encode_text enc (sep_concat (map json_dumps xs)) @ CHR '']'' # r) = Some (map canon xs, r)"
  using assms(2-)
proof (induction xs arbitrary: m rule: induct_list012)
  case (2 x)
  obtain m' where m: "m = Suc m'" using 2 by (cases m) auto
  with 2 have "parse_value m' (encode_text enc (json_dumps x) @ CHR '']'' # r) = Some (canon x, CHR '']'' # r)"
    by (intro reads_backD delimited_token) auto
  then show ?case by (simp add: m skip_ws_Cons token_points)
next
  case (3 x y xs)
  have comma: "enc CHR '','' = '',''" using encode_token [OF enc] by (simp add: token_points)
  have "encode_text enc (json_dumps x) \<noteq> []"
    using encode_head [OF enc dumps_head [of x]] 3 by (auto simp: head_ok_def)
  then have pos: "0 < length (encode_text enc (json_dumps x))" by simp
  let ?t = "encode_text enc (sep_concat (map json_dumps (y # xs)))"
  obtain m' where m: "m = Suc m'" using 3 by (cases m) auto
  with 3 have "parse_value m' (encode_text enc (json_dumps x) @ CHR '','' # ?t @ CHR '']'' # r) =
      Some (canon x, CHR '','' # ?t @ CHR '']'' # r)"
    by (intro reads_backD delimited_token) auto
  moreover have "parse_items m' (?t @ CHR '']'' # r) = Some (map canon (y # xs), r)"
    using 3 pos comma by (intro "3.IH"(2)) (auto simp: m)
  ultimately show ?case by (simp add: m skip_ws_Cons token_points comma)
qed simp

abbreviation member_text :: "string \<times> json \<Rightarrow> string" where
  "member_text kv \<equiv> json_quote (fst kv) @ '':'' @ json_dumps (snd kv)"

lemma encode_quote:
  assumes "enc_ok enc"
  shows "encode_text enc (json_quote s) =
    char_of (34::nat) # encode_text enc (concat (map json_escape_char s)) @ [char_of (34::nat)]"
  using encode_token [OF assms, of "char_of (34::nat)"] by (simp add: json_quote_def code_point_char_of)

lemma parse_member:
  assumes enc: "enc_ok enc" and kv: "reads_back enc (snd kv)" "plain_json (snd kv)"
    and n: "length (encode_text enc (json_dumps (snd kv))) < n" and c: "delimited (c # q)" "c \<in> {CHR '','', CHR ''}''}"
  shows "parse_members (Suc n) (encode_text enc (member_text kv) @ c # q) =
    (if c = CHR ''}'' then Some ([(fst kv, canon (snd kv))], q)
     else map_option (apfst ((#) (fst kv, canon (snd kv)))) (parse_members n q))"
proof -
  have colon: "enc CHR '':'' = '':''" using encode_token [OF enc] by (simp add: token_points)
  have "skip_ws (char_of (34::nat) # s) = char_of (34::nat) # s" for s
    by (rule skip_ws_Cons) (simp add: code_point_char_of)
  moreover have "parse_value n (encode_text enc (json_dumps (snd kv)) @ c # q) = Some (canon (snd kv), c # q)"
    by (rule reads_backD [OF kv(1) n c(1)])
  moreover have "skip_ws (c # q) = c # q" using c(2) by (intro skip_ws_Cons) (auto simp: token_points)
  moreover have "c = CHR ''}'' \<or> c = CHR '',''" using c(2) by auto
  ultimately show ?thesis
    by (auto simp: encode_quote [OF enc] parse_quoted [OF enc] colon skip_ws_Cons token_points code_point_char_of)
qed

lemma parse_members_back:
  assumes enc: "enc_ok enc" and "list_all (reads_back enc \<circ> snd) d" "list_all (plain_json \<circ> snd) d" "d \<noteq> []"
    and "length (encode_text enc (sep_concat (map member_text d))) + 1 < m"
  shows "parse_members m (encode_text enc (sep_concat (map member_text d)) @ CHR ''}'' # r) =
    Some (map (\<lambda>kv. (fst kv, canon (snd kv))) d, r)"
  using assms(2-)
proof (induction d arbitrary: m rule: induct_list012)
  case (2 kv)
  obtain m' where m: "m = Suc m'" using 2 by (cases m) auto
  with 2 show ?case using parse_member [OF enc, of kv m' "CHR ''}''" r] by (simp add: delimited_token)
next
  case (3 kv kv' d)
  have comma: "enc CHR '','' = '',''" using encode_token [OF enc] by (simp add: token_points)
  let ?t = "encode_text enc (sep_concat (map member_text (kv' # d)))"
  obtain m' where m: "m = Suc m'" using 3 by (cases m) auto
  have "parse_members m' (?t @ CHR ''}'' # r) = Some (map (\<lambda>kv. (fst kv, canon (snd kv))) (kv' # d), r)"
    using 3 comma by (intro "3.IH"(2)) (auto simp: m encode_quote [OF enc])
  with 3 comma parse_member [OF enc, of kv m' "CHR '',''" "?t @ CHR ''}'' # r"] show ?case
    by (simp add: m delimited_token)
qed simp

lemma reads_backI:
  assumes "\<And>n r. length (encode_text enc (json_dumps v)) \<le> n \<Longrightarrow> delimited r \<Longrightarrow>
    parse_value (Suc n) (encode_text enc (json_dumps v) @ r) = Some (canon v, r)"
  shows "reads_back enc v"
  unfolding reads_back_def
proof (intro allI impI)
  fix m r assume *: "length (encode_text enc (json_dumps v)) < m" "delimited r"
  then obtain n where "m = Suc n" by (cases m) auto
  with * assms show "parse_value m (encode_text enc (json_dumps v) @ r) = Some (canon v, r)" by simp
qed

lemma parse_word:
  assumes "enc_ok enc"
  shows "reads_back enc JNull" "reads_back enc (JBool b)"
proof -
  have "enc CHR ''n'' = ''n''" "enc CHR ''u'' = ''u''" "enc CHR ''l'' = ''l''" "enc CHR ''t'' = ''t''"
    "enc CHR ''r'' = ''r''" "enc CHR ''e'' = ''e''" "enc CHR ''f'' = ''f''" "enc CHR ''a'' = ''a''"
    "enc CHR ''s'' = ''s''"
    by (rule encode_token [OF assms]; simp add: code_point_def)+
  then show "reads_back enc JNull" "reads_back enc (JBool b)"
    by (auto intro!: reads_backI simp: skip_ws_Cons token_points)
qed

lemma parse_value_number:
  assumes "c = CHR ''-'' \<or> dec_digit c"
  shows "parse_value (Suc n) (c # q) = parse_number (c # q)"
proof -
  have "skip_ws (c # q) = c # q" using assms by (intro skip_ws_Cons) (auto simp: token_points dec_digit_def)
  moreover have "code_point c \<noteq> 34" "c \<notin> {CHR ''['', CHR ''{'', CHR ''n'', CHR ''t'', CHR ''f''}"
    using assms by (auto simp: token_points dec_digit_def)
  ultimately show ?thesis by simp
qed

lemma parse_int:
  assumes "enc_ok enc"
  shows "reads_back enc (JInt n)"
proof (rule reads_backI)
  fix m r assume r: "delimited r"
  have "encode_text enc (int_str n) = int_str n"
    using dec_digits dec_digit_head by (intro encode_ascii [OF assms]) (auto simp: int_str_def list_all_iff token_points)
  moreover obtain c q where c: "int_str n = c # q" "c = CHR ''-'' \<or> dec_digit c"
    using int_str_head [of n] by (cases "int_str n") auto
  ultimately show "parse_value (Suc m) (encode_text enc (json_dumps (JInt n)) @ r) = Some (canon (JInt n), r)"
    using parse_number_int [OF r, of n] parse_value_number [OF c(2), of m "q @ r"] by (simp del: parse_value.simps)
qed

lemma parse_str:
  assumes "enc_ok enc"
  shows "reads_back enc (JStr s)"
  by (rule reads_backI)
    (simp add: encode_quote [OF assms] parse_quoted [OF assms] skip_ws_Cons code_point_char_of)

lemma parse_list:
  assumes enc: "enc_ok enc" and "list_all (reads_back enc) xs" "list_all plain_json xs"
  shows "reads_back enc (JList xs)"
proof (rule reads_backI)
  fix n r assume n: "length (encode_text enc (json_dumps (JList xs))) \<le> n"
  have br: "enc CHR ''['' = ''[''" "enc CHR '']'' = '']''"
    using encode_token [OF enc] by (simp_all add: token_points)
  show "parse_value (Suc n) (encode_text enc (json_dumps (JList xs)) @ r) = Some (canon (JList xs), r)"
  proof (cases xs)
    case Nil
    then show ?thesis by (simp add: br skip_ws_Cons token_points)
  next
    case (Cons x ys)
    have "head_ok (json_dumps x)" using dumps_head assms(3) Cons by simp
    then have "head_ok (sep_concat (map json_dumps xs))" using Cons by (cases ys) (auto simp: head_ok_def)
    then have h: "head_ok (encode_text enc (sep_concat (map json_dumps xs)))" by (rule encode_head [OF enc])
    have "parse_items n (encode_text enc (sep_concat (map json_dumps xs)) @ CHR '']'' # r) = Some (map canon xs, r)"
      using assms n Cons by (intro parse_items_back) (auto simp: br)
    then show ?thesis using h skip_ws_head [OF h, of "CHR '']'' # r"]
      by (cases "encode_text enc (sep_concat (map json_dumps xs))")
        (auto simp: br skip_ws_Cons token_points head_ok_def)
  qed
qed

lemma parse_dict:
  assumes enc: "enc_ok enc" and "list_all (reads_back enc \<circ> snd) d" "plain_json (JDict d)"
  shows "reads_back enc (JDict d)"
proof (rule reads_backI)
  fix n r assume n: "length (encode_text enc (json_dumps (JDict d))) \<le> n"
  define sd where "sd = sort_key fst d"
  have br: "enc CHR ''{'' = ''{''" "enc CHR ''}'' = ''}''"
    using encode_token [OF enc] by (simp_all add: token_points)
  have sd: "list_all (reads_back enc \<circ> snd) sd" "list_all (plain_json \<circ> snd) sd" "distinct (map fst sd)"
    using assms by (simp_all add: sd_def list_all_iff distinct_map comp_def)
  let ?t = "encode_text enc (sep_concat (map member_text sd))"
  have "parse_value (Suc n) (CHR ''{'' # ?t @ CHR ''}'' # r) =
    Some (JDict (map (\<lambda>kv. (fst kv, canon (snd kv))) sd), r)"
  proof (cases sd)
    case Nil
    then show ?thesis by (simp add: skip_ws_Cons token_points)
  next
    case (Cons kv ys)
    have "head_ok (encode_text enc (json_quote s) @ u)" for s u
      unfolding encode_quote [OF enc]
      by (simp add: head_ok_def code_point_char_of escape_letters) code_simp
    then have h: "head_ok ?t" using Cons by (cases ys) simp_all
    have "parse_members n (?t @ CHR ''}'' # r) = Some (map (\<lambda>kv. (fst kv, canon (snd kv))) sd, r)"
      using n sd Cons unfolding json_dumps_dict sd_def [symmetric]
      by (intro parse_members_back [OF enc]) (simp_all add: br)
    moreover have "dupdate [] (map (\<lambda>kv. (fst kv, canon (snd kv))) sd) = map (\<lambda>kv. (fst kv, canon (snd kv))) sd"
      using dupdate_distinct [of "[]" "map (\<lambda>kv. (fst kv, canon (snd kv))) sd"] sd(3) by (simp add: comp_def)
    ultimately show ?thesis using h skip_ws_head [OF h, of "CHR ''}'' # r"]
      by (cases ?t) (auto simp: skip_ws_Cons token_points head_ok_def)
  qed
  then show "parse_value (Suc n) (encode_text enc (json_dumps (JDict d)) @ r) = Some (canon (JDict d), r)"
    unfolding json_dumps_dict canon_dict sd_def [symmetric] by (simp add: br del: parse_value.simps)
qed

lemma json_reads_back:
  assumes "enc_ok enc"
  shows "plain_json v \<Longrightarrow> reads_back enc v"
proof (induction v)
  case (JList xs)
  then show ?case by (intro parse_list [OF assms]) (auto simp: list_all_iff)
next
  case (JDict d)
  then show ?case by (intro parse_dict [OF assms]) (auto simp: list_all_iff prod_set_defs)
qed (simp_all add: parse_word [OF assms] parse_int [OF assms] parse_str [OF assms])

lemma json_loads_encoded:
  assumes "enc_ok enc" "plain_json v"
  shows "json_loads (encode_text enc (json_dumps v)) = Some (canon v)"
  using reads_backD [OF json_reads_back [OF assms], of "Suc (length (encode_text enc (json_dumps v)))" "[]"]
  by (simp add: json_loads_def delimited_def skip_ws_def del: parse_value.simps)

subsection \<open>Fingerprints\<close>

lemma sorted_map_fst: "map fst (map (\<lambda>kv. (fst kv, f (snd kv))) xs) = map fst xs"
  by simp

lemma json_dumps_canon: "json_dumps (canon v) = json_dumps v"
proof (induction v)
  case (JList xs)
  have "map (json_dumps \<circ> canon) xs = map json_dumps xs" by (rule map_cong) (simp_all add: JList)
  then show ?case by (simp del: map_eq_conv)
next
  case (JDict d)
  let ?items = "map (\<lambda>kv. (fst kv, canon (snd kv))) (sort_key fst d)"
  have "sorted (map fst ?items)" unfolding sorted_map_fst by simp
  then have "sort_key fst ?items = ?items" by (rule sort_key_id_if_sorted)
  moreover have "json_dumps (canon (snd kv)) = json_dumps (snd kv)" if "kv \<in> set d" for kv
    using JDict [OF that, of "snd kv"] by (simp add: prod_set_defs)
  moreover from this have "map (\<lambda>kv. json_quote (fst kv) @ '':'' @ json_dumps (canon (snd kv))) (sort_key fst d) =
      map (\<lambda>kv. json_quote (fst kv) @ '':'' @ json_dumps (snd kv)) (sort_key fst d)"
    by (intro map_cong refl) simp
  ultimately show ?case
    unfolding canon_dict json_dumps_dict by (simp add: comp_def del: map_eq_conv)
qed simp_all

text \<open>
  C30: a fingerprint identifies a request. Two values without floating-point numbers have the same
  fingerprint, whatever the digest function is, exactly when they are equal up to the order of their
  keys, and the text that is digested can be read back to that value. A replay under the same
  idempotency key is therefore taken for the same request only if it is the same request, or the digest
  has a collision.
\<close>

theorem canonical_fingerprint_identifies:
  assumes "plain_json v" and "plain_json w"
  shows "((\<forall>sha256. canonical_fingerprint sha256 v = canonical_fingerprint sha256 w) \<longleftrightarrow> canon v = canon w) \<and>
    json_loads (json_dumps v) = Some (canon v)"
proof
  have loads: "json_loads (json_dumps u) = Some (canon u)" if "plain_json u" for u
    using json_loads_encoded [OF enc_ok_instances(2) that] by simp
  then show "json_loads (json_dumps v) = Some (canon v)" using assms(1) .
  show "(\<forall>sha256. canonical_fingerprint sha256 v = canonical_fingerprint sha256 w) \<longleftrightarrow> canon v = canon w"
  proof
    assume "\<forall>sha256. canonical_fingerprint sha256 v = canonical_fingerprint sha256 w"
    then have "json_dumps v = json_dumps w" by (auto simp: canonical_fingerprint_def dest: spec [of _ id])
    with loads assms show "canon v = canon w" by (metis option.inject)
  next
    assume "canon v = canon w"
    then show "\<forall>sha256. canonical_fingerprint sha256 v = canonical_fingerprint sha256 w"
      unfolding canonical_fingerprint_def by (metis json_dumps_canon)
  qed
qed

theorem canonical_fingerprint_identifies_witness:
  "(\<forall>sha256. canonical_fingerprint sha256 (JDict [(''b'', JInt 1), (''a'', JList [JNull])]) =
      canonical_fingerprint sha256 (JDict [(''a'', JList [JNull]), (''b'', JInt 1)])) \<and>
   \<not> (\<forall>sha256. canonical_fingerprint sha256 (JDict [(''a'', JInt 1)]) = canonical_fingerprint sha256 (JDict [(''a'', JInt 2)]))"
proof -
  have "canon (JDict [(''b'', JInt 1), (''a'', JList [JNull])]) = canon (JDict [(''a'', JList [JNull]), (''b'', JInt 1)])"
    "canon (JDict [(''a'', JInt 1)]) \<noteq> canon (JDict [(''a'', JInt 2)])"
    by code_simp+
  then show ?thesis
    using canonical_fingerprint_identifies [of "JDict [(''b'', JInt 1), (''a'', JList [JNull])]"
        "JDict [(''a'', JList [JNull]), (''b'', JInt 1)]"]
      canonical_fingerprint_identifies [of "JDict [(''a'', JInt 1)]" "JDict [(''a'', JInt 2)]"]
    by simp
qed

end
