(* ===== verification/Exec_Workers.thy ===== *)
theory Exec_Workers
  imports Exec_Claim
begin

section \<open>Workers and their credentials\<close>

text \<open>
  \<open>register_worker\<close> and \<open>heartbeat_worker\<close> of \<open>services/execution_plane.py\<close>, and the two dependencies
  every internal route goes through, \<open>resolve_worker_context\<close> and \<open>require_lease_access\<close> of
  \<open>api/internal_dependencies.py\<close>. \<open>digest\<close> is \<open>secret_digest\<close> with the pepper of the token at hand; the
  random worker token is an argument (prefix, last four characters, text). The session settings that
  row-level security reads are not modelled.
\<close>

subsection \<open>Registration\<close>

record issued_token =
  it_public_prefix :: string
  it_last_four :: string
  it_raw_token :: string

record register_request =
  rg_name :: string
  rg_capabilities :: "string list"
  rg_max_concurrency :: int
  rg_protocol_version :: string
  rg_software_version :: string
  rg_sandbox :: "sandbox_attestation option"
  rg_metadata :: dict

definition worker_capabilities :: "string list" where
  "worker_capabilities = [''BUILD'', ''RUN_START'', ''RUN_CANCEL'', ''EVENT_INGEST'', ''SECRET_ENVELOPE'',
     ''DATASET_APPEND'', ''KV_ACCESS'', ''REQUEST_QUEUE_ACCESS'']"

definition register_request_ok :: "register_request \<Rightarrow> bool" where
  \<comment> \<open>the validation of \<open>RegisterWorkerRequest\<close>, without the size of the metadata\<close>
  "register_request_ok p \<longleftrightarrow> worker_name_text (rg_name p) \<and> 1 \<le> length (rg_capabilities p) \<and>
     length (rg_capabilities p) \<le> 8 \<and> distinct (rg_capabilities p) \<and>
     set (rg_capabilities p) \<subseteq> set worker_capabilities \<and>
     1 \<le> rg_max_concurrency p \<and> rg_max_concurrency p \<le> 256 \<and> rg_protocol_version p = ''rdc.worker/v1'' \<and>
     1 \<le> length (rg_software_version p) \<and> length (rg_software_version p) \<le> 80"

definition new_worker ::
  "canary_settings \<Rightarrow> (string \<Rightarrow> string) \<Rightarrow> txn \<Rightarrow> issued_token \<Rightarrow> register_request \<Rightarrow> uuid \<Rightarrow> worker" where
  "new_worker st digest tx issued p i =
     \<lparr>wo_id = i, wo_name = rg_name p, wo_public_prefix = it_public_prefix issued,
      wo_last_four = it_last_four issued, wo_token_digest = digest (it_raw_token issued),
      wo_capabilities = sort (rg_capabilities p),
      wo_max_concurrency = min (rg_max_concurrency p) (st_worker_registration_max_concurrency st),
      wo_status = Ws_ACTIVE, wo_protocol_version = rg_protocol_version p,
      wo_software_version = rg_software_version p, wo_metadata_json = rg_metadata p,
      wo_sandbox_profile = None, wo_sandbox_attestation_digest = None,
      wo_sandbox_execution_enabled = False, wo_sandbox_attested_at = None,
      wo_registered_at = tx_now tx, wo_last_seen_at = Some (tx_now tx), wo_last_lost_at = None,
      wo_last_recovered_at = None, wo_last_cleanup_at = None, wo_cleanup_generation = 0,
      wo_expires_at = None, wo_revoked_at = None\<rparr>"

definition register_worker ::
  "canary_settings \<Rightarrow> (string \<Rightarrow> string) \<Rightarrow> (string \<Rightarrow> string) \<Rightarrow> txn \<Rightarrow> issued_token \<Rightarrow> register_request \<Rightarrow>
   'a exec_db_scheme \<Rightarrow> (worker \<times> 'a exec_db_scheme) result" where
  "register_worker st digest sha256 tx issued p s =
     (if find_by wo_name (rg_name p) (workers s) \<noteq> None then Inl (ApiError 409 ''WORKER_NAME_CONFLICT'')
      else let w = apply_sandbox_attestation st sha256 (tx_now tx) (rg_sandbox p)
             (new_worker st digest tx issued p (next_id s))
        in if \<exists>x \<in> set (workers s). wo_public_prefix x = wo_public_prefix w \<or>
              wo_token_digest x = wo_token_digest w then Inl IntegrityError
           else Inr (w, append_audit_event tx None None ''system'' ''worker-bootstrap'' ''worker.registered''
             ''worker'' (Some (uuid_str (wo_id w)))
             [(''name'', JStr (wo_name w)), (''capabilities'', jstrs (wo_capabilities w)),
              (''protocol_version'', JStr (wo_protocol_version w)),
              (''requested_max_concurrency'', JInt (rg_max_concurrency p)),
              (''effective_max_concurrency'', JInt (wo_max_concurrency w))]
             (s\<lparr>workers := workers s @ [w], next_id := next_id s + 1\<rparr>)))"

subsection \<open>Heartbeats\<close>

record recovery_report =
  rr_startup_id :: uuid
  rr_managed_containers_removed :: int
  rr_workspace_directories_removed :: int

record heartbeat_request =
  hb_draining :: bool
  hb_software_version :: string
  hb_active_lease_count :: int
  hb_sandbox :: "sandbox_attestation option"
  hb_recovery :: "recovery_report option"
  hb_metadata :: dict

definition server_owned :: "string set" where
  "server_owned = {''active_lease_count'', ''recovery_startup_id'', ''managed_containers_removed'',
     ''workspace_directories_removed''}"

definition heartbeat_request_ok :: "heartbeat_request \<Rightarrow> bool" where
  \<comment> \<open>the validation of \<open>WorkerHeartbeatRequest\<close> and of its recovery report, without the size of the metadata\<close>
  "heartbeat_request_ok p \<longleftrightarrow> 1 \<le> length (hb_software_version p) \<and> length (hb_software_version p) \<le> 80 \<and>
     0 \<le> hb_active_lease_count p \<and> hb_active_lease_count p \<le> 256 \<and>
     fst ` set (hb_metadata p) \<inter> server_owned = {} \<and>
     (case hb_recovery p of None \<Rightarrow> True
      | Some r \<Rightarrow> 0 \<le> rr_managed_containers_removed r \<and> rr_managed_containers_removed r \<le> 256 \<and>
          0 \<le> rr_workspace_directories_removed r \<and> rr_workspace_directories_removed r \<le> 256)"

definition heartbeat_row ::
  "canary_settings \<Rightarrow> (string \<Rightarrow> string) \<Rightarrow> txn \<Rightarrow> heartbeat_request \<Rightarrow> worker \<Rightarrow> worker" where
  \<comment> \<open>the assignments up to \<open>_apply_sandbox_attestation\<close>\<close>
  "heartbeat_row st sha256 tx p w =
     apply_sandbox_attestation st sha256 (tx_now tx) (hb_sandbox p)
       (w\<lparr>wo_status := (if hb_draining p then Ws_DRAINING else Ws_ACTIVE),
         wo_software_version := hb_software_version p, wo_last_seen_at := Some (tx_now tx),
         wo_metadata_json := dset ''active_lease_count'' (JInt (hb_active_lease_count p))
           (dupdate (wo_metadata_json w) (hb_metadata p))\<rparr>)"

definition recovered_row :: "txn \<Rightarrow> bool \<Rightarrow> recovery_report \<Rightarrow> worker \<Rightarrow> worker" where
  "recovered_row tx pending r w =
     w\<lparr>wo_last_cleanup_at := Some (tx_now tx), wo_cleanup_generation := wo_cleanup_generation w + 1,
       wo_metadata_json := dupdate (wo_metadata_json w)
         [(''recovery_startup_id'', juuid (rr_startup_id r)),
          (''managed_containers_removed'', JInt (rr_managed_containers_removed r)),
          (''workspace_directories_removed'', JInt (rr_workspace_directories_removed r))],
       wo_last_recovered_at := (if pending then Some (tx_now tx) else wo_last_recovered_at w)\<rparr>"

definition audit_recovered ::
  "txn \<Rightarrow> recovery_report \<Rightarrow> worker \<Rightarrow> 'a exec_db_scheme \<Rightarrow> 'a exec_db_scheme" where
  "audit_recovered tx r w = append_audit_event tx None None ''worker'' (uuid_str (wo_id w))
     ''worker.recovered'' ''worker'' (Some (uuid_str (wo_id w)))
     [(''cleanup_generation'', JInt (wo_cleanup_generation w)),
      (''managed_containers_removed'', JInt (rr_managed_containers_removed r)),
      (''workspace_directories_removed'', JInt (rr_workspace_directories_removed r))]"

definition new_report :: "json \<Rightarrow> heartbeat_request \<Rightarrow> recovery_report option" where
  \<comment> \<open>the recovery report, if it is not the one last accepted\<close>
  "new_report previous_startup_id p = (case hb_recovery p of None \<Rightarrow> None
     | Some r \<Rightarrow> if previous_startup_id = juuid (rr_startup_id r) then None else Some r)"

definition heartbeat_worker ::
  "canary_settings \<Rightarrow> (string \<Rightarrow> string) \<Rightarrow> txn \<Rightarrow> uuid \<Rightarrow> heartbeat_request \<Rightarrow> 'a exec_db_scheme \<Rightarrow>
   (worker \<times> 'a exec_db_scheme) result" where
  "heartbeat_worker st sha256 tx worker_id p s =
     (case find_by wo_id worker_id (workers s) of
        None \<Rightarrow> Inl credential_invalid
      | Some w \<Rightarrow>
          if wo_status w = Ws_REVOKED \<or> wo_revoked_at w \<noteq> None then Inl credential_invalid
          else if recovery_pending w \<and> hb_recovery p = None
            then Inl (ApiError 409 ''WORKER_RECOVERY_REQUIRED'')
          else
            let previous_startup_id = dget (wo_metadata_json w) ''recovery_startup_id'';
                report = new_report previous_startup_id p;
                w1 = heartbeat_row st sha256 tx p w
            in if recovery_pending w \<and> report = None
                 then Inl (ApiError 409 ''WORKER_RECOVERY_REPORT_REPLAYED'')
               else
                 let w2 = (case report of None \<Rightarrow> w1 | Some r \<Rightarrow> recovered_row tx (recovery_pending w) r w1);
                     w3 = (if st_sandbox_execution_enabled st then w2
                       else w2\<lparr>wo_sandbox_execution_enabled := False\<rparr>);
                     s1 = (case report of None \<Rightarrow> s
                       | Some r \<Rightarrow> if recovery_pending w then audit_recovered tx r w2 s else s);
                     s2 = s1\<lparr>workers := upd_by wo_id worker_id (\<lambda>_. w3) (workers s1)\<rparr>
                 in bind_result (reap_expired_leases st tx 100 True s2) (\<lambda>(_, s3). Inr (w3, s3)))"

subsection \<open>Credentials\<close>

definition partition_space :: "string \<Rightarrow> string \<times> string" where
  \<comment> \<open>\<open>authorization.partition(" ")\<close>: the text before and after the first space\<close>
  "partition_space a = (takeWhile (\<lambda>c. c \<noteq> CHR '' '') a, drop 1 (dropWhile (\<lambda>c. c \<noteq> CHR '' '') a))"

definition base32_char :: "char \<Rightarrow> bool" where
  "base32_char c \<longleftrightarrow> (97 \<le> code_point c \<and> code_point c \<le> 122) \<or> (50 \<le> code_point c \<and> code_point c \<le> 55)"

definition worker_token_prefix :: "string \<Rightarrow> string option" where
  \<comment> \<open>\<open>WORKER_TOKEN_PATTERN.fullmatch(token)\<close>: group 1\<close>
  "worker_token_prefix token =
     (let rest = drop 11 token; prefix = take 8 rest; tail = drop 9 rest
      in if take 11 token = ''rdc_worker_'' \<and> length prefix = 8 \<and> list_all base32_char prefix \<and>
            take 1 (drop 8 rest) = ''_'' \<and> tail \<noteq> [] \<and> list_all (\<lambda>c. code_point c \<noteq> 10) tail
         then Some prefix else None)"

definition worker_credential_ok :: "txn \<Rightarrow> worker \<Rightarrow> bool" where
  "worker_credential_ok tx w \<longleftrightarrow> wo_status w \<in> {Ws_ACTIVE, Ws_DRAINING} \<and> wo_revoked_at w = None \<and>
     (case wo_expires_at w of None \<Rightarrow> True | Some t \<Rightarrow> tx_now tx < t)"

definition resolve_worker_context ::
  "(string \<Rightarrow> string) \<Rightarrow> txn \<Rightarrow> string option \<Rightarrow> 'a exec_db_scheme \<Rightarrow> (worker \<times> 'a exec_db_scheme) result" where
  "resolve_worker_context digest tx authorization s =
     (case authorization of
        None \<Rightarrow> Inl (ApiError 401 ''INTERNAL_AUTH_REQUIRED'')
      | Some a \<Rightarrow> (case (partition_space a, worker_token_prefix (snd (partition_space a))) of
          ((scheme, token), Some prefix) \<Rightarrow>
            if casefold scheme \<noteq> ''bearer'' then Inl credential_invalid
            else (case find_by wo_public_prefix prefix (workers s) of
              None \<Rightarrow> Inl credential_invalid
            | Some w \<Rightarrow>
                if \<not> worker_credential_ok tx w \<or> wo_token_digest w \<noteq> digest token then Inl credential_invalid
                else let w' = w\<lparr>wo_last_seen_at := Some (tx_now tx)\<rparr>
                  in Inr (w', s\<lparr>workers := upd_by wo_id (wo_id w) (\<lambda>_. w') (workers s)\<rparr>))
        | _ \<Rightarrow> Inl credential_invalid))"

definition lease_credential_invalid :: exn where
  "lease_credential_invalid = ApiError 401 ''LEASE_CREDENTIAL_INVALID''"

definition require_lease_access ::
  "(string \<Rightarrow> string) \<Rightarrow> txn \<Rightarrow> uuid \<Rightarrow> uuid \<Rightarrow> string option \<Rightarrow> 'a exec_db_scheme \<Rightarrow> lease result" where
  "require_lease_access digest tx worker_id lease_id lease_token s =
     (case lease_token of
        None \<Rightarrow> Inl lease_credential_invalid
      | Some token \<Rightarrow>
          if token = [] then Inl lease_credential_invalid
          else (case List.find (\<lambda>l. le_id l = lease_id \<and> le_worker_id l = worker_id) (leases s) of
            None \<Rightarrow> Inl lease_credential_invalid
          | Some l \<Rightarrow>
              if \<not> lease_live (tx_now tx) l \<or> le_lease_token_digest l \<noteq> digest token
                then Inl lease_credential_invalid
              else if le_work_kind l = Wk_RUN_START \<and>
                Option.bind (find_run (le_run_id l) s) rn_cancel_requested_at \<noteq> None
                then Inl lease_credential_invalid
              else Inr l))"

end
