(* ===== verification/Exec_Lease.thy ===== *)
theory Exec_Lease
  imports Exec_Workers
begin

section \<open>Working under a lease\<close>

text \<open>
  What a worker does with a lease it has been given access to: \<open>renew_lease\<close>, \<open>update_lease_status\<close>,
  \<open>append_worker_events\<close>, \<open>_register_artifact\<close> and \<open>complete_lease\<close> of \<open>services/execution_plane.py\<close>.
  The lease and the worker are the rows \<open>require_lease_access\<close> and \<open>resolve_worker_context\<close> return in the
  same transaction. The object store is a parameter: for an object key it gives the error code of
  \<open>StorageBackendError\<close>, or what \<open>head_object\<close> and \<open>sha256_object\<close> report. The updates of \<open>updated_at\<close>
  that \<open>onupdate=func.now()\<close> makes are written out.
\<close>

definition audit_worker ::
  "txn \<Rightarrow> worker \<Rightarrow> lease \<Rightarrow> string \<Rightarrow> string \<Rightarrow> uuid \<Rightarrow> dict \<Rightarrow> 'a session_scheme \<Rightarrow> 'a session_scheme" where
  \<comment> \<open>\<open>append_audit_event\<close> with a worker as the actor, in the tenancy of its lease\<close>
  "audit_worker tx w l action rtype rid details =
     append_audit_event tx (Some (le_organization_id l)) (Some (le_project_id l)) ''worker''
       (uuid_str (wo_id w)) action rtype (Some (uuid_str rid)) details"

subsection \<open>Renewal\<close>

definition renew_lease ::
  "'b exec_settings_scheme \<Rightarrow> txn \<Rightarrow> worker \<Rightarrow> lease \<Rightarrow> int \<Rightarrow> 'a exec_db_scheme \<Rightarrow>
   (lease \<times> 'a exec_db_scheme) result" where
  "renew_lease st tx w l extend_seconds s =
     bind_result (clamp_lease_expiry (max (tx_now tx) (le_expires_at l) + seconds extend_seconds)
       (le_claimed_at l) (st_worker_lease_max_seconds st) (le_deadline_at l)) (\<lambda>extended_until.
     if extended_until \<le> tx_now tx
     then Inl (ApiError 409 (if le_deadline_at l \<le> tx_now tx then ''WORKLOAD_DEADLINE_EXCEEDED''
       else ''LEASE_MAXIMUM_REACHED''))
     else let l' = l\<lparr>le_expires_at := extended_until, le_last_renewed_at := Some (tx_now tx),
            le_updated_at := tx_now tx\<rparr>
       in Inr (l', audit_worker tx w l' ''execution.lease.renewed'' ''execution_lease'' (le_id l')
            [(''expires_at'', jtime (le_expires_at l')), (''deadline_at'', jtime (le_deadline_at l'))]
            (put_lease l' s)))"

subsection \<open>Status\<close>

datatype status_update = Up_STARTING | Up_RUNNING | Up_ABORTING

fun status_update_str :: "status_update \<Rightarrow> string" where
  "status_update_str Up_STARTING = ''STARTING''"
| "status_update_str Up_RUNNING = ''RUNNING''"
| "status_update_str Up_ABORTING = ''ABORTING''"

fun build_status_of :: "status_update \<Rightarrow> build_status option" where
  \<comment> \<open>\<open>None\<close> for the status a build lease cannot report\<close>
  "build_status_of Up_STARTING = Some Bd_STARTING"
| "build_status_of Up_RUNNING = Some Bd_RUNNING"
| "build_status_of Up_ABORTING = None"

fun run_status_of :: "status_update \<Rightarrow> run_status" where
  "run_status_of Up_STARTING = Rn_STARTING"
| "run_status_of Up_RUNNING = Rn_RUNNING"
| "run_status_of Up_ABORTING = Rn_ABORTING"

definition not_found :: exn where
  "not_found = ApiError 404 ''RESOURCE_NOT_FOUND''"

definition update_build_status ::
  "txn \<Rightarrow> lease \<Rightarrow> status_update \<Rightarrow> 'a exec_db_scheme \<Rightarrow> 'a exec_db_scheme result" where
  "update_build_status tx l status s =
     (case build_status_of status of
        None \<Rightarrow> Inl state_conflict
      | Some bs \<Rightarrow> (case Option.bind (le_build_id l) (\<lambda>i. find_by bd_id i (builds s)) of
          None \<Rightarrow> Inl not_found
        | Some b \<Rightarrow> Inr (put_build (b\<lparr>bd_status := bs,
            bd_started_at := Some (or_else (bd_started_at b) (tx_now tx)), bd_updated_at := tx_now tx,
            bd_version := bd_version b + 1\<rparr>) s)))"

definition update_run_status ::
  "txn \<Rightarrow> lease \<Rightarrow> status_update \<Rightarrow> string option \<Rightarrow> 'a exec_db_scheme \<Rightarrow> 'a exec_db_scheme result" where
  "update_run_status tx l status message s =
     (case find_run (le_run_id l) s of
        None \<Rightarrow> Inl not_found
      | Some r \<Rightarrow>
          if le_work_kind l = Wk_RUN_START \<and> rn_cancel_requested_at r \<noteq> None
            then Inl (ApiError 409 ''RUN_CANCELLATION_PENDING'')
          else if status \<notin> (if le_work_kind l = Wk_RUN_START then {Up_STARTING, Up_RUNNING} else {Up_ABORTING})
            then Inl state_conflict
          else
            let r' = r\<lparr>rn_status := run_status_of status,
                  rn_started_at := Some (or_else (rn_started_at r) (tx_now tx)),
                  rn_updated_at := tx_now tx, rn_version := rn_version r + 1\<rparr>
            in if rn_status r \<noteq> rn_status r'
               then run_event_for tx r' ''run.status''
                 (status_payload (rn_status r) (rn_status r') @ [(''message'', jopt JStr message)])
                 (put_run r' s)
               else Inr (put_run r' s))"

definition update_lease_status ::
  "txn \<Rightarrow> worker \<Rightarrow> lease \<Rightarrow> status_update \<Rightarrow> string option \<Rightarrow> 'a exec_db_scheme \<Rightarrow>
   (lease \<times> 'a exec_db_scheme) result" where
  "update_lease_status tx w l status message s =
     bind_result (if le_work_kind l = Wk_BUILD then update_build_status tx l status s
       else update_run_status tx l status message s) (\<lambda>s1.
     let l' = l\<lparr>le_last_renewed_at := Some (tx_now tx), le_updated_at := tx_now tx\<rparr>
     in Inr (l', audit_worker tx w l' ''execution.work.status_updated'' ''execution_lease'' (le_id l')
          [(''status'', JStr (status_update_str status))] (put_lease l' s1)))"

subsection \<open>Events\<close>

datatype worker_event_type = We_log | We_metric | We_warning

fun worker_event_str :: "worker_event_type \<Rightarrow> string" where
  "worker_event_str We_log = ''run.log''"
| "worker_event_str We_metric = ''run.metric''"
| "worker_event_str We_warning = ''run.warning''"

fun append_events ::
  "txn \<Rightarrow> run \<Rightarrow> (worker_event_type \<times> dict) list \<Rightarrow> 'a event_db_scheme \<Rightarrow> 'a event_db_scheme result" where
  "append_events tx r [] s = Inr s"
| "append_events tx r (e # es) s =
     bind_result (sanitize_event_payload (snd e)) (\<lambda>p.
     bind_result (run_event_for tx r (worker_event_str (fst e)) p s) (append_events tx r es))"

definition append_worker_events ::
  "txn \<Rightarrow> worker \<Rightarrow> lease \<Rightarrow> (worker_event_type \<times> dict) list \<Rightarrow> 'a exec_db_scheme \<Rightarrow>
   (nat \<times> 'a exec_db_scheme) result" where
  "append_worker_events tx w l events s =
     (if le_work_kind l \<noteq> Wk_RUN_START \<or> le_run_id l = None then Inl state_conflict
      else if ''EVENT_INGEST'' \<notin> set (wo_capabilities w) then Inl (ApiError 403 ''WORKER_CAPABILITY_DENIED'')
      else (case find_run (le_run_id l) s of
          None \<Rightarrow> Inl not_found
        | Some r \<Rightarrow> bind_result (append_events tx r events s) (\<lambda>s1.
            Inr (length events, audit_worker tx w l ''execution.run_events.appended'' ''run'' (rn_id r)
              [(''count'', JInt (int (length events))),
               (''event_types'', jstrs (sorted_set (map (worker_event_str \<circ> fst) events)))] s1))))"

subsection \<open>Artifacts\<close>

record artifact_registration =
  ar_kind :: string
  ar_digest_algorithm :: string
  ar_digest :: string
  ar_object_key :: string
  ar_media_type :: string
  ar_size_bytes :: int
  ar_status :: string
  ar_scan_status :: string
  ar_provenance :: dict

record stored_object =
  sob_size_bytes :: int
  sob_content_type :: string
  sob_metadata :: "(string \<times> string) list"
  sob_sha256 :: string
  sob_verified_size :: int

type_synonym object_store = "string \<Rightarrow> string + stored_object"

definition artifact_object_key :: "lease \<Rightarrow> string \<Rightarrow> string \<Rightarrow> string" where
  "artifact_object_key l kind digest =
     (let safe_kind = map (\<lambda>c. if c = CHR ''_'' then CHR ''-'' else c) (casefold kind)
      in ''artifacts/'' @ uuid_str (le_organization_id l) @ ''/'' @ uuid_str (le_project_id l) @ ''/'' @
         uuid_str (le_id l) @ ''/'' @ safe_kind @ ''/'' @ digest)"

definition same_field :: "dict \<Rightarrow> string \<Rightarrow> dict \<Rightarrow> string \<Rightarrow> bool" where
  \<comment> \<open>\<open>a.get(x) == b.get(y)\<close>\<close>
  "same_field a x b y = py_eq (dget a x) (dget b y)"

definition lineage_invalid :: exn where
  "lineage_invalid = ApiError 422 ''ARTIFACT_LINEAGE_INVALID''"

definition validate_activation_provenance :: "lease \<Rightarrow> artifact_registration \<Rightarrow> unit result" where
  "validate_activation_provenance l p =
     (let snapshot = le_payload_snapshot l; provenance = ar_provenance p
      in case as_dict (dget snapshot ''activation'') of
           None \<Rightarrow> Inr ()
         | Some activation \<Rightarrow>
             if \<not> py_eq (dget provenance ''activation'') (JDict activation)
             then Inl (ApiError 422 ''ARTIFACT_ACTIVATION_MISMATCH'')
             else (case le_work_kind l of
               Wk_BUILD \<Rightarrow> (case as_dict (dget snapshot ''source'') of
                   None \<Rightarrow> Inl lineage_invalid
                 | Some source \<Rightarrow> guard (same_field provenance ''source_sha256'' source ''sha256_digest'' \<and>
                     same_field provenance ''agent_version_id'' snapshot ''agent_version_id'') lineage_invalid)
             | Wk_RUN_START \<Rightarrow> (case as_dict (dget snapshot ''artifact'') of
                   None \<Rightarrow> Inl lineage_invalid
                 | Some artifact \<Rightarrow> guard (same_field provenance ''image_digest'' artifact ''digest'' \<and>
                     same_field provenance ''run_id'' snapshot ''run_id'') lineage_invalid)
             | Wk_RUN_CANCEL \<Rightarrow> Inr ()))"

definition object_verified :: "lease \<Rightarrow> artifact_registration \<Rightarrow> stored_object \<Rightarrow> bool" where
  "object_verified l p h =
     (let metadata = map_of (rev (map (\<lambda>(k, v). (casefold k, v)) (sob_metadata h)))
      in sob_verified_size h = ar_size_bytes p \<and> sob_size_bytes h = ar_size_bytes p \<and>
         sob_content_type h = ar_media_type p \<and> sob_sha256 h = ar_digest p \<and>
         metadata ''sha256'' = Some (ar_digest p) \<and> metadata ''rdc-lease-id'' = Some (uuid_str (le_id l)) \<and>
         metadata ''rdc-artifact-kind'' = Some (ar_kind p))"

definition artifact_matches :: "lease \<Rightarrow> artifact_registration \<Rightarrow> artifact \<Rightarrow> bool" where
  \<comment> \<open>an artifact registered earlier under the same digest and kind agrees with the registration\<close>
  "artifact_matches l p a \<longleftrightarrow> ea_object_key a = ar_object_key p \<and> ea_size_bytes a = ar_size_bytes p \<and>
     ea_media_type a = ar_media_type p \<and>
     \<not> (is_dict (dget (le_payload_snapshot l) ''activation'') \<and>
        \<not> py_eq (JDict (ea_provenance a)) (JDict (ar_provenance p)))"

definition new_artifact :: "txn \<Rightarrow> worker \<Rightarrow> lease \<Rightarrow> artifact_registration \<Rightarrow> uuid \<Rightarrow> artifact" where
  "new_artifact tx w l p i =
     \<lparr>ea_id = i, ea_organization_id = le_organization_id l, ea_project_id = le_project_id l,
      ea_build_id = le_build_id l, ea_run_id = le_run_id l, ea_lease_id = le_id l,
      ea_created_by_worker_id = wo_id w, ea_kind = ar_kind p, ea_digest_algorithm = ar_digest_algorithm p,
      ea_digest = ar_digest p, ea_object_key = ar_object_key p, ea_media_type = ar_media_type p,
      ea_size_bytes = ar_size_bytes p, ea_status = ar_status p, ea_scan_status = ar_scan_status p,
      ea_provenance = ar_provenance p, ea_created_at = tx_now tx\<rparr>"

definition find_artifact :: "lease \<Rightarrow> artifact_registration \<Rightarrow> 'a claim_db_scheme \<Rightarrow> artifact option" where
  "find_artifact l p s = List.find (\<lambda>a. ea_organization_id a = le_organization_id l \<and>
     ea_digest_algorithm a = ar_digest_algorithm p \<and> ea_digest a = ar_digest p \<and> ea_kind a = ar_kind p)
     (artifacts s)"

definition register_artifact ::
  "canary_settings \<Rightarrow> object_store \<Rightarrow> txn \<Rightarrow> worker \<Rightarrow> lease \<Rightarrow> artifact_registration \<Rightarrow>
   'a claim_db_scheme \<Rightarrow> (artifact \<times> 'a claim_db_scheme) result" where
  "register_artifact st store tx w l p s =
     bind_result (validate_activation_provenance l p) (\<lambda>_.
     if ar_object_key p \<noteq> artifact_object_key l (ar_kind p) (ar_digest p)
       then Inl (ApiError 422 ''ARTIFACT_OBJECT_KEY_INVALID'')
     else if ar_size_bytes p > st_sandbox_artifact_max_bytes st then Inl (ApiError 413 ''ARTIFACT_TOO_LARGE'')
     else (case store (ar_object_key p) of
         Inl error \<Rightarrow> Inl (ApiError (if error = ''STORAGE_OBJECT_NOT_UPLOADED'' then 409 else 503) error)
       | Inr h \<Rightarrow>
           if \<not> object_verified l p h then Inl (ApiError 422 ''ARTIFACT_VERIFICATION_FAILED'')
           else (case find_artifact l p s of
               Some a \<Rightarrow> if artifact_matches l p a then Inr (a, s)
                 else Inl (ApiError 409 ''ARTIFACT_DIGEST_CONFLICT'')
             | None \<Rightarrow> let a = new_artifact tx w l p (next_id s)
                 in Inr (a, s\<lparr>artifacts := artifacts s @ [a], next_id := next_id s + 1\<rparr>))))"

fun register_artifacts ::
  "canary_settings \<Rightarrow> object_store \<Rightarrow> txn \<Rightarrow> worker \<Rightarrow> lease \<Rightarrow> artifact_registration list \<Rightarrow>
   'a claim_db_scheme \<Rightarrow> (artifact list \<times> 'a claim_db_scheme) result" where
  "register_artifacts st store tx w l [] s = Inr ([], s)"
| "register_artifacts st store tx w l (p # ps) s =
     bind_result (register_artifact st store tx w l p s) (\<lambda>(a, s1).
     bind_result (register_artifacts st store tx w l ps s1) (\<lambda>(xs, s2). Inr (a # xs, s2)))"

subsection \<open>Completion\<close>

record complete_request =
  cq_outcome :: outcome
  cq_retryable :: bool
  cq_error_code :: "string option"
  cq_error_summary :: "string option"
  cq_artifacts :: "artifact_registration list"

text \<open>
  \<open>cq_artifacts\<close> is the list \<open>registrations\<close> the request gives, from \<open>artifact\<close> or from \<open>artifacts\<close>. A
  present error code is not empty, so \<open>error_code or default\<close> is \<open>or_else\<close>.
\<close>

definition source_exists :: "lease \<Rightarrow> 'a exec_db_scheme \<Rightarrow> bool" where
  \<comment> \<open>\<open>_source_for_lease\<close> finds a row\<close>
  "source_exists l s \<longleftrightarrow> (if le_work_kind l = Wk_BUILD
     then find_by bo_id (le_source_outbox_id l) (build_outbox s) \<noteq> None
     else find_by rc_id (le_source_outbox_id l) (run_commands s) \<noteq> None)"

definition close_source ::
  "txn \<Rightarrow> lease \<Rightarrow> outbox_status \<Rightarrow> string option \<Rightarrow> 'a exec_db_scheme \<Rightarrow> 'a exec_db_scheme" where
  "close_source tx l status error s = (if le_work_kind l = Wk_BUILD
     then s\<lparr>build_outbox := upd_by bo_id (le_source_outbox_id l) (\<lambda>b. b\<lparr>bo_status := status,
       bo_delivered_at := Some (tx_now tx), bo_last_error_code := error, bo_updated_at := tx_now tx\<rparr>)
       (build_outbox s)\<rparr>
     else s\<lparr>run_commands := upd_by rc_id (le_source_outbox_id l) (\<lambda>c. c\<lparr>rc_status := status,
       rc_delivered_at := Some (tx_now tx), rc_last_error_code := error, rc_updated_at := tx_now tx\<rparr>)
       (run_commands s)\<rparr>)"

definition reopen_source :: "txn \<Rightarrow> lease \<Rightarrow> instant \<Rightarrow> string \<Rightarrow> 'a exec_db_scheme \<Rightarrow> 'a exec_db_scheme" where
  "reopen_source tx l available_at error s = (if le_work_kind l = Wk_BUILD
     then s\<lparr>build_outbox := upd_by bo_id (le_source_outbox_id l) (\<lambda>b. b\<lparr>bo_status := Ob_PENDING,
       bo_available_at := available_at, bo_last_error_code := Some error, bo_updated_at := tx_now tx\<rparr>)
       (build_outbox s)\<rparr>
     else s\<lparr>run_commands := upd_by rc_id (le_source_outbox_id l) (\<lambda>c. c\<lparr>rc_status := Ob_PENDING,
       rc_available_at := available_at, rc_last_error_code := Some error, rc_updated_at := tx_now tx\<rparr>)
       (run_commands s)\<rparr>)"

definition reset_retry_target :: "txn \<Rightarrow> lease \<Rightarrow> 'a exec_db_scheme \<Rightarrow> 'a exec_db_scheme result" where
  "reset_retry_target tx l s =
     (if le_work_kind l = Wk_BUILD then
        (case Option.bind (le_build_id l) (\<lambda>i. find_by bd_id i (builds s)) of
           None \<Rightarrow> Inr s
         | Some b \<Rightarrow> Inr (put_build (b\<lparr>bd_status := Bd_QUEUED, bd_error_code := None,
             bd_error_message := None, bd_completed_at := None, bd_updated_at := tx_now tx,
             bd_version := bd_version b + 1\<rparr>) s))
      else (case find_run (le_run_id l) s of
          None \<Rightarrow> Inr s
        | Some r \<Rightarrow> if le_work_kind l = Wk_RUN_START
            then let r' = r\<lparr>rn_status := Rn_QUEUED, rn_failure_code := None, rn_failure_summary := None,
                   rn_finished_at := None, rn_updated_at := tx_now tx, rn_version := rn_version r + 1\<rparr>
              in run_event_for tx r' ''run.status'' (status_payload (rn_status r) Rn_QUEUED) (put_run r' s)
            else Inr s))"

definition close_lease_row ::
  "txn \<Rightarrow> lease_status \<Rightarrow> string option \<Rightarrow> string option \<Rightarrow> lease \<Rightarrow> lease" where
  "close_lease_row tx status failure_code summary l = l\<lparr>le_status := status, le_completed_at := Some (tx_now tx),
     le_failure_code := failure_code, le_failure_summary := summary, le_updated_at := tx_now tx\<rparr>"

definition retry_completion ::
  "'b exec_settings_scheme \<Rightarrow> txn \<Rightarrow> lease \<Rightarrow> complete_request \<Rightarrow> 'a exec_db_scheme \<Rightarrow>
   (lease \<times> instant option \<times> 'a exec_db_scheme) result" where
  \<comment> \<open>the branch \<open>if retry\<close>\<close>
  "retry_completion st tx l p s =
     bind_result (retry_available_at (tx_now tx) (le_attempt l) (st_worker_retry_base_seconds st)
       (st_worker_retry_max_seconds st)) (\<lambda>next_attempt_at.
     let failure_code = or_else (cq_error_code p) ''WORKER_RETRYABLE_FAILURE''
     in bind_result (reset_retry_target tx l (reopen_source tx l next_attempt_at failure_code s)) (\<lambda>s1.
        Inr (close_lease_row tx Le_FAILED (Some failure_code) (cq_error_summary p) l, Some next_attempt_at, s1)))"

definition image_of :: "artifact list \<Rightarrow> artifact option" where
  "image_of xs = List.find (\<lambda>a. ea_kind a = ''CONTAINER_IMAGE'') xs"

definition complete_build_row ::
  "txn \<Rightarrow> complete_request \<Rightarrow> artifact option \<Rightarrow> build \<Rightarrow> build result" where
  "complete_build_row tx p img b =
     bind_result (case cq_outcome p of
         Out_SUCCEEDED \<Rightarrow> (case img of
             None \<Rightarrow> Inl (ApiError 422 ''ARTIFACT_REQUIRED'')
           | Some a \<Rightarrow> if ea_kind a \<noteq> ''CONTAINER_IMAGE'' \<or> ea_status a \<noteq> ''AVAILABLE'' \<or> ea_scan_status a \<noteq> ''PASSED''
               then Inl (ApiError 422 ''ARTIFACT_REQUIRED'')
               else Inr (b\<lparr>bd_status := Bd_SUCCEEDED,
                 bd_artifact_digest := Some (ea_digest_algorithm a @ '':'' @ ea_digest a),
                 bd_error_code := None, bd_error_message := None\<rparr>))
       | Out_TIMED_OUT \<Rightarrow> Inr (b\<lparr>bd_status := Bd_TIMED_OUT,
           bd_error_code := Some (or_else (cq_error_code p) ''BUILD_TIMED_OUT''),
           bd_error_message := cq_error_summary p\<rparr>)
       | Out_FAILED \<Rightarrow> Inr (b\<lparr>bd_status := Bd_FAILED,
           bd_error_code := Some (or_else (cq_error_code p) ''BUILD_FAILED''),
           bd_error_message := cq_error_summary p\<rparr>)
       | _ \<Rightarrow> Inr (b\<lparr>bd_status := Bd_CANCELLED, bd_error_code := cq_error_code p,
           bd_error_message := cq_error_summary p\<rparr>)) (\<lambda>b1.
     Inr (b1\<lparr>bd_completed_at := Some (tx_now tx), bd_updated_at := tx_now tx,
       bd_version := bd_version b1 + 1\<rparr>))"

definition complete_build ::
  "txn \<Rightarrow> lease \<Rightarrow> complete_request \<Rightarrow> artifact option \<Rightarrow> 'a exec_db_scheme \<Rightarrow>
   (lease \<times> 'a exec_db_scheme) result" where
  \<comment> \<open>the branch of a build lease\<close>
  "complete_build tx l p img s =
     (case Option.bind (le_build_id l) (\<lambda>i. find_by bd_id i (builds s)) of
        None \<Rightarrow> Inl not_found
      | Some b \<Rightarrow> bind_result (complete_build_row tx p img b) (\<lambda>b'.
          let ok = (cq_outcome p = Out_SUCCEEDED)
          in Inr (close_lease_row tx (if ok then Le_COMPLETED else Le_FAILED) (bd_error_code b')
                    (bd_error_message b') l,
                  close_source tx l (if ok then Ob_DELIVERED else Ob_FAILED) (bd_error_code b')
                    (put_build b' s))))"

definition audit_worker_confirmed ::
  "txn \<Rightarrow> worker \<Rightarrow> run \<Rightarrow> int \<Rightarrow> 'a session_scheme \<Rightarrow> 'a session_scheme" where
  "audit_worker_confirmed tx w r fenced_lease_count =
     append_audit_event tx (Some (rn_organization_id r)) (Some (rn_project_id r)) ''worker''
       (uuid_str (wo_id w)) ''run.cancellation_converged'' ''run'' (Some (uuid_str (rn_id r)))
       [(''previous_status'', JStr (run_status_str (rn_status r))), (''reason'', JStr ''WORKER_CONFIRMED''),
        (''fenced_lease_count'', JInt fenced_lease_count),
        (''cancel_deadline_at'', jopt jtime (rn_cancel_deadline_at r))]"

definition fail_run :: "run_status \<Rightarrow> string option \<Rightarrow> string option \<Rightarrow> run \<Rightarrow> run" where
  "fail_run status failure_code summary r = r\<lparr>rn_status := status, rn_failure_code := failure_code, rn_failure_summary := summary\<rparr>"

definition complete_run_row :: "lease \<Rightarrow> complete_request \<Rightarrow> run \<Rightarrow> run" where
  \<comment> \<open>the status and the failure of the run\<close>
  "complete_run_row l p r =
     (if le_work_kind l = Wk_RUN_CANCEL then
        if cq_outcome p \<notin> {Out_ABORTED, Out_SUCCEEDED}
        then fail_run Rn_FAILED (Some (or_else (cq_error_code p) ''CANCEL_FAILED'')) (cq_error_summary p) r
        else fail_run Rn_ABORTED None None r
      else (case cq_outcome p of
          Out_SUCCEEDED \<Rightarrow> fail_run Rn_SUCCEEDED None None r
        | Out_TIMED_OUT \<Rightarrow> fail_run Rn_TIMED_OUT (Some (or_else (cq_error_code p) ''RUN_TIMED_OUT''))
            (cq_error_summary p) r
        | Out_FAILED \<Rightarrow> fail_run Rn_FAILED (Some (or_else (cq_error_code p) ''RUN_FAILED'')) (cq_error_summary p) r
        | _ \<Rightarrow> fail_run Rn_ABORTED (cq_error_code p) (cq_error_summary p) r))"

definition confirm_cancel ::
  "txn \<Rightarrow> worker \<Rightarrow> lease \<Rightarrow> complete_request \<Rightarrow> run \<Rightarrow> 'a exec_db_scheme \<Rightarrow> 'a exec_db_scheme" where
  \<comment> \<open>what a confirmed cancellation does beside the run row\<close>
  "confirm_cancel tx w l p r s =
     (if le_work_kind l = Wk_RUN_CANCEL \<and> cq_outcome p \<in> {Out_ABORTED, Out_SUCCEEDED}
      then (case fence_cancelled_run_leases tx (rn_id r) (Some (le_id l))
          (if source_exists l s then Some (le_source_outbox_id l) else None) s of
          (n, s1) \<Rightarrow> audit_worker_confirmed tx w r n s1)
      else s)"

definition complete_run ::
  "txn \<Rightarrow> worker \<Rightarrow> lease \<Rightarrow> complete_request \<Rightarrow> 'a exec_db_scheme \<Rightarrow> (lease \<times> 'a exec_db_scheme) result" where
  \<comment> \<open>the branch of a run lease\<close>
  "complete_run tx w l p s =
     (case find_run (le_run_id l) s of
        None \<Rightarrow> Inl not_found
      | Some r \<Rightarrow>
          let s1 = confirm_cancel tx w l p r s;
              r' = (complete_run_row l p r)\<lparr>rn_finished_at := Some (tx_now tx), rn_updated_at := tx_now tx,
                rn_version := rn_version r + 1\<rparr>;
              ok = (rn_status r' \<in> {Rn_SUCCEEDED, Rn_ABORTED})
          in bind_result (run_event_for tx r' ''run.status'' (status_payload (rn_status r) (rn_status r'))
               (put_run r' s1)) (\<lambda>s2.
             bind_result (run_event_for tx r' (if ok then ''run.completed'' else ''run.failed'')
               [(''status'', JStr (run_status_str (rn_status r'))),
                (''failure_code'', jopt JStr (rn_failure_code r')),
                (''failure_summary'', jopt JStr (rn_failure_summary r'))] s2) (\<lambda>s3.
             Inr (close_lease_row tx (if ok then Le_COMPLETED else Le_FAILED) (rn_failure_code r')
                    (rn_failure_summary r') l,
                  close_source tx l (if ok then Ob_DELIVERED else Ob_FAILED) (rn_failure_code r') s3))))"

definition revoke_grants :: "uuid \<Rightarrow> secret_grant list \<Rightarrow> secret_grant list" where
  "revoke_grants lease_id = map (\<lambda>g. if sg_lease_id g = lease_id \<and> sg_status g = Gr_ISSUED
     then g\<lparr>sg_status := Gr_REVOKED\<rparr> else g)"

definition finish_completion ::
  "txn \<Rightarrow> worker \<Rightarrow> lease \<Rightarrow> complete_request \<Rightarrow> bool \<Rightarrow> instant option \<Rightarrow> artifact option \<Rightarrow>
   'a exec_db_scheme \<Rightarrow> lease \<times> 'a exec_db_scheme" where
  \<comment> \<open>the statements after the three branches\<close>
  "finish_completion tx w l' p retry next_attempt_at img s =
     (l', audit_worker tx w l' ''execution.lease.completed'' ''execution_lease'' (le_id l')
        [(''work_kind'', JStr (work_kind_str (le_work_kind l'))), (''outcome'', JStr (outcome_str (cq_outcome p))),
         (''retryable'', JBool retry), (''next_attempt_at'', jopt jtime next_attempt_at),
         (''artifact_id'', jopt (\<lambda>a. juuid (ea_id a)) img)]
        (put_lease l' (s\<lparr>secret_grants := revoke_grants (le_id l') (secret_grants s)\<rparr>)))"

definition converge_late ::
  "txn \<Rightarrow> lease \<Rightarrow> 'a exec_db_scheme \<Rightarrow> (bool \<times> 'a exec_db_scheme) result" where
  \<comment> \<open>the cancellation check at the start of \<open>complete_lease\<close>\<close>
  "converge_late tx l s =
     (if le_work_kind l \<noteq> Wk_RUN_START then Inr (False, s)
      else (case find_run (le_run_id l) s of
          None \<Rightarrow> Inr (False, s)
        | Some r \<Rightarrow> if rn_cancel_requested_at r = None then Inr (False, s)
            else converge_cancelled_run tx (rn_id r) ''LATE_RUN_START_COMPLETION'' s))"

definition complete_lease ::
  "canary_settings \<Rightarrow> object_store \<Rightarrow> txn \<Rightarrow> worker \<Rightarrow> lease \<Rightarrow> complete_request \<Rightarrow> 'a claim_db_scheme \<Rightarrow>
   (lease \<times> 'a claim_db_scheme) result" where
  "complete_lease st store tx w l p s =
     bind_result (converge_late tx l s) (\<lambda>(converged, s1).
     if converged then Inr (or_else (find_by le_id (le_id l) (leases s1)) l,
       audit_worker tx w l ''execution.lease.cancellation_converged'' ''execution_lease'' (le_id l)
         [(''work_kind'', JStr (work_kind_str (le_work_kind l))), (''attempt'', JInt (le_attempt l)),
          (''reported_outcome'', JStr (outcome_str (cq_outcome p))), (''retry_scheduled'', JBool False)] s1)
     else
       let retry = execution_retry_allowed (cq_retryable p) (cq_outcome p) (le_attempt l)
             (st_worker_max_attempts st) (source_exists l s1)
       in bind_result (register_artifacts st store tx w l (cq_artifacts p) s1) (\<lambda>(registered, s2).
          let img = image_of registered
          in if retry
             then bind_result (retry_completion st tx l p s2) (\<lambda>(l', next_attempt_at, s3).
               Inr (finish_completion tx w l' p retry next_attempt_at img s3))
             else bind_result (if le_work_kind l = Wk_BUILD then complete_build tx l p img s2
               else complete_run tx w l p s2) (\<lambda>(l', s3).
               Inr (finish_completion tx w l' p retry None img s3))))"

end
