(* ===== verification/Run_Cancel.thy ===== *)
theory Run_Cancel
  imports Exec_Lease
begin

section \<open>Cancelling a run\<close>

text \<open>
  \<open>cancel_run\<close> and \<open>_ensure_cancel_command\<close> of \<open>services/runs.py\<close>. The service reads the run again with
  \<open>populate_existing\<close>, so the copy the route loaded only gives the identifiers. The advisory lock on the
  idempotency key serialises the transactions of one key, which are atomic here anyway.
\<close>

definition json_run_snapshot :: "run \<Rightarrow> dict" where
  \<comment> \<open>\<open>run_metadata\<close> with its identifiers and instants as text\<close>
  "json_run_snapshot r =
     [(''id'', juuid (rn_id r)), (''organization_id'', juuid (rn_organization_id r)),
      (''project_id'', juuid (rn_project_id r)), (''agent_id'', juuid (rn_agent_id r)),
      (''agent_version_id'', juuid (rn_agent_version_id r)), (''build_id'', juuid (rn_build_id r)),
      (''status'', JStr (run_status_str (rn_status r))), (''input_reference'', JDict (rn_input_reference r)),
      (''runtime_configuration'', JDict (rn_runtime_configuration r)), (''memory_mb'', JInt (rn_memory_mb r)),
      (''cpu_millis'', JInt (rn_cpu_millis r)), (''timeout_seconds'', JInt (rn_timeout_seconds r)),
      (''queued_at'', jtime (rn_queued_at r)), (''started_at'', jopt jtime (rn_started_at r)),
      (''finished_at'', jopt jtime (rn_finished_at r)),
      (''cancel_requested_at'', jopt jtime (rn_cancel_requested_at r)),
      (''cancel_deadline_at'', jopt jtime (rn_cancel_deadline_at r)),
      (''failure_code'', jopt JStr (rn_failure_code r)), (''failure_summary'', jopt JStr (rn_failure_summary r)),
      (''created_at'', jtime (rn_created_at r)), (''updated_at'', jtime (rn_updated_at r)),
      (''version'', JInt (rn_version r)), (''status_url'', JStr (''/api/v1/runs/'' @ uuid_str (rn_id r))),
      (''events_url'', JStr (''/api/v1/runs/'' @ uuid_str (rn_id r) @ ''/events'')),
      (''cancel_url'', JStr (''/api/v1/runs/'' @ uuid_str (rn_id r) @ ''/cancel''))]"

definition cancel_command :: "txn \<Rightarrow> run \<Rightarrow> uuid \<Rightarrow> run_command" where
  "cancel_command tx r i =
     \<lparr>rc_id = i, rc_organization_id = rn_organization_id r, rc_project_id = rn_project_id r,
      rc_run_id = rn_id r, rc_command = Cm_CANCEL, rc_topic = ''rdc.run.cancel.requested.v1'',
      rc_payload = [(''schema_version'', JStr ''1''), (''run_id'', juuid (rn_id r)),
        (''organization_id'', juuid (rn_organization_id r)), (''project_id'', juuid (rn_project_id r)),
        (''cancel_deadline_at'', jopt jtime (rn_cancel_deadline_at r))],
      rc_status = Ob_PENDING, rc_attempts = 0, rc_available_at = tx_now tx, rc_claimed_at = None,
      rc_delivered_at = None, rc_last_error_code = None, rc_created_at = tx_now tx, rc_updated_at = tx_now tx\<rparr>"

definition ensure_cancel_command :: "txn \<Rightarrow> run \<Rightarrow> 'a exec_db_scheme \<Rightarrow> 'a exec_db_scheme" where
  "ensure_cancel_command tx r s =
     (case List.find (\<lambda>c. rc_run_id c = rn_id r \<and> rc_command c = Cm_CANCEL) (run_commands s) of
        Some _ \<Rightarrow> s
      | None \<Rightarrow> s\<lparr>run_commands := run_commands s @ [cancel_command tx r (next_id s)], next_id := next_id s + 1\<rparr>)"

definition cancel_requested :: "'b exec_settings_scheme \<Rightarrow> txn \<Rightarrow> run_status \<Rightarrow> run \<Rightarrow> run" where
  "cancel_requested st tx status r =
     r\<lparr>rn_cancel_requested_at := Some (tx_now tx),
       rn_cancel_deadline_at := Some (tx_now tx + seconds (st_worker_cancel_convergence_seconds st)),
       rn_status := status, rn_version := rn_version r + 1, rn_updated_at := tx_now tx\<rparr>"

definition cancel_start_command :: "txn \<Rightarrow> uuid \<Rightarrow> 'a exec_db_scheme \<Rightarrow> 'a exec_db_scheme" where
  \<comment> \<open>the pending \<open>START\<close> command of a run that has not started\<close>
  "cancel_start_command tx run_id s =
     (case List.find (\<lambda>c. rc_run_id c = run_id \<and> rc_command c = Cm_START) (run_commands s) of
        None \<Rightarrow> s
      | Some c \<Rightarrow> if rc_status c \<noteq> Ob_PENDING then s
          else s\<lparr>run_commands := upd_by rc_id (rc_id c)
            (\<lambda>c. c\<lparr>rc_status := Ob_CANCELLED, rc_updated_at := tx_now tx\<rparr>) (run_commands s)\<rparr>)"

definition cancel_waiting_run ::
  "'b exec_settings_scheme \<Rightarrow> txn \<Rightarrow> run \<Rightarrow> 'a exec_db_scheme \<Rightarrow> (run \<times> 'a exec_db_scheme) result" where
  "cancel_waiting_run st tx r s =
     (let r' = (cancel_requested st tx Rn_ABORTED r)\<lparr>rn_finished_at := Some (tx_now tx)\<rparr>
      in bind_result (run_event_for tx r' ''run.status'' (status_payload (rn_status r) Rn_ABORTED)
           (cancel_start_command tx (rn_id r) (put_run r' s))) (\<lambda>s1.
         bind_result (run_event_for tx r' ''run.completed'' [(''status'', JStr ''ABORTED'')] s1) (\<lambda>s2.
         Inr (r', s2))))"

definition cancel_active_run ::
  "'b exec_settings_scheme \<Rightarrow> txn \<Rightarrow> run \<Rightarrow> 'a exec_db_scheme \<Rightarrow> (run \<times> 'a exec_db_scheme) result" where
  "cancel_active_run st tx r s =
     (let r' = cancel_requested st tx Rn_ABORTING r
      in bind_result (run_event_for tx r' ''run.status'' (status_payload (rn_status r) Rn_ABORTING)
           (ensure_cancel_command tx r' (put_run r' s))) (\<lambda>s1. Inr (r', s1)))"

definition cancel_transition ::
  "'b exec_settings_scheme \<Rightarrow> txn \<Rightarrow> run \<Rightarrow> 'a exec_db_scheme \<Rightarrow> (run \<times> 'a exec_db_scheme) result" where
  "cancel_transition st tx r s =
     (if run_terminal (rn_status r) then Inr (r, s)
      else if rn_status r \<in> {Rn_DRAFT, Rn_READY, Rn_QUEUED} then cancel_waiting_run st tx r s
      else if run_cancellable_active (rn_status r) then cancel_active_run st tx r s
      else if rn_status r = Rn_ABORTING then Inr (r, ensure_cancel_command tx r s)
      else Inl (ApiError 409 ''RUN_STATE_CONFLICT''))"

definition cancel_endpoint :: string where
  "cancel_endpoint = ''POST:/api/v1/runs/{run_id}/cancel''"

definition find_cancel_record ::
  "uuid \<Rightarrow> uuid \<Rightarrow> string \<Rightarrow> 'a exec_db_scheme \<Rightarrow> run_idempotency option" where
  "find_cancel_record org user key_digest s = List.find (\<lambda>x. ix_organization_id x = org \<and>
     ix_principal_id x = uuid_str user \<and> ix_endpoint x = cancel_endpoint \<and> ix_key_digest x = key_digest)
     (run_idempotency s)"

definition cancel_record ::
  "txn \<Rightarrow> uuid \<Rightarrow> string \<Rightarrow> string \<Rightarrow> run \<Rightarrow> run_idempotency" where
  "cancel_record tx user key_digest fingerprint r =
     \<lparr>ix_organization_id = rn_organization_id r, ix_principal_id = uuid_str user,
      ix_endpoint = cancel_endpoint, ix_key_digest = key_digest, ix_request_fingerprint = fingerprint,
      ix_resource_type = ''run'', ix_resource_id = uuid_str (rn_id r), ix_response_status = 202,
      ix_response_snapshot = Some (json_run_snapshot r), ix_created_at = tx_now tx,
      ix_expires_at = tx_now tx + seconds 86400\<rparr>"

definition cancel_run ::
  "'b exec_settings_scheme \<Rightarrow> (string \<Rightarrow> string) \<Rightarrow> txn \<Rightarrow> run \<Rightarrow> uuid \<Rightarrow> string \<Rightarrow> 'a exec_db_scheme \<Rightarrow>
   (dict \<times> 'a exec_db_scheme) result" where
  "cancel_run st sha256 tx record user idempotency_key s =
     (if \<not> (8 \<le> length idempotency_key \<and> length idempotency_key \<le> 200)
      then Inl (ApiError 400 ''INVALID_REQUEST'')
      else
        let fingerprint = canonical_fingerprint sha256 (JDict [(''run_id'', juuid (rn_id record))]);
            key_digest = sha256 idempotency_key
        in case find_cancel_record (rn_organization_id record) user key_digest s of
             Some x \<Rightarrow>
               if ix_request_fingerprint x \<noteq> fingerprint then Inl (ApiError 409 ''IDEMPOTENCY_CONFLICT'')
               else (case ix_response_snapshot x of
                   None \<Rightarrow> Inl (ApiError 409 ''RESOURCE_CONFLICT'')
                 | Some d \<Rightarrow> Inr (d, s))
           | None \<Rightarrow> (case List.find (\<lambda>r. rn_id r = rn_id record \<and>
                 rn_organization_id r = rn_organization_id record \<and> rn_project_id r = rn_project_id record)
                 (runs s) of
               None \<Rightarrow> Inl not_found
             | Some r \<Rightarrow> bind_result (cancel_transition st tx r s) (\<lambda>(r', s1).
                 Inr (json_run_snapshot r',
                   append_audit_event tx (Some (rn_organization_id r')) (Some (rn_project_id r')) ''user''
                     (uuid_str user) ''run.cancel_requested'' ''run'' (Some (uuid_str (rn_id r')))
                     [(''previous_status'', JStr (run_status_str (rn_status r))),
                      (''resulting_status'', JStr (run_status_str (rn_status r'))),
                      (''cancel_deadline_at'', jopt jtime (rn_cancel_deadline_at r'))]
                     (s1\<lparr>run_idempotency := run_idempotency s1 @
                       [cancel_record tx user key_digest fingerprint r']\<rparr>)))))"

end
