(* ===== verification/Envelope_Crypto.thy ===== *)
theory Envelope_Crypto
  imports Json_Text Exec_State
begin

section \<open>Encrypted secrets and envelopes\<close>

text \<open>
  \<open>core/envelope_encryption.py\<close> and \<open>core/worker_crypto.py\<close>, and their counterpart in the worker client.
  The primitives of the \<open>cryptography\<close> package are the fields of \<open>crypto\<close>: AES-GCM, X25519 and HKDF-SHA256
  with the one \<open>info\<close> text the program uses. Their documented laws are the predicate \<open>crypto_ok\<close>. Random
  keys and nonces are arguments.
\<close>

subsection \<open>Reading a canonical object\<close>

abbreviation canon_items :: "dict \<Rightarrow> dict" where
  "canon_items d \<equiv> map (\<lambda>kv. (fst kv, canon (snd kv))) (sort_key fst d)"

lemma dget_canon_items:
  assumes "distinct (map fst d)"
  shows "dget (canon_items d) k = (case map_of d k of None \<Rightarrow> JNull | Some v \<Rightarrow> canon v)"
proof -
  have sd: "distinct (map fst (sort_key fst d))" using assms by (simp add: distinct_map)
  have "map_of (map (\<lambda>kv. (fst kv, canon (snd kv))) xs) k = map_option canon (map_of xs k)" for xs
    by (induction xs) auto
  moreover have "map_of (sort_key fst d) = map_of d"
    using map_of_inject_set [OF sd assms] by simp
  ultimately show ?thesis by (simp add: dget_def split: option.split)
qed

lemma dkeys_canon_items: "dkeys (canon_items d) = dkeys d"
  by (force simp: dkeys_def)

subsection \<open>Primitives\<close>

record crypto =
  cr_seal :: "string \<Rightarrow> string \<Rightarrow> string \<Rightarrow> string \<Rightarrow> string"
    \<comment> \<open>key, nonce, data, associated data\<close>
  cr_open :: "string \<Rightarrow> string \<Rightarrow> string \<Rightarrow> string \<Rightarrow> string option"
    \<comment> \<open>\<open>None\<close> is \<open>InvalidTag\<close>\<close>
  cr_public :: "string \<Rightarrow> string"
  cr_exchange :: "string \<Rightarrow> string \<Rightarrow> string option"
    \<comment> \<open>own private key, peer's public key; \<open>None\<close> for a peer of low order\<close>
  cr_hkdf :: "string \<Rightarrow> string"

definition crypto_ok :: "crypto \<Rightarrow> bool" where
  \<comment> \<open>decryption inverts encryption, and both ends of a key exchange agree\<close>
  "crypto_ok c \<longleftrightarrow>
     (\<forall>key nonce d aad. cr_open c key nonce (cr_seal c key nonce d aad) aad = Some d) \<and>
     (\<forall>a b. cr_exchange c a (cr_public c b) = cr_exchange c b (cr_public c a)) \<and>
     (\<forall>a. length (cr_public c a) = 32) \<and> (\<forall>s. length (cr_hkdf c s) = 32)"

definition aes_encrypt :: "crypto \<Rightarrow> string \<Rightarrow> string \<Rightarrow> string \<Rightarrow> string \<Rightarrow> string result" where
  \<comment> \<open>\<open>AESGCM(key).encrypt(nonce, data, aad)\<close>, which refuses a key or a nonce of the wrong length\<close>
  "aes_encrypt c key nonce d aad =
     (if length key \<notin> {16, 24, 32} \<or> \<not> (8 \<le> length nonce \<and> length nonce \<le> 128) then Inl ValueError
      else Inr (cr_seal c key nonce d aad))"

definition aes_decrypt :: "crypto \<Rightarrow> string \<Rightarrow> string \<Rightarrow> string \<Rightarrow> string \<Rightarrow> string result" where
  "aes_decrypt c key nonce d aad =
     (if length key \<notin> {16, 24, 32} \<or> \<not> (8 \<le> length nonce \<and> length nonce \<le> 128) then Inl ValueError
      else (case cr_open c key nonce d aad of None \<Rightarrow> Inl InvalidTag | Some p \<Rightarrow> Inr p))"

lemma aes_roundtrip:
  assumes "crypto_ok c" and "aes_encrypt c key nonce d aad = Inr x"
  shows "aes_decrypt c key nonce x aad = Inr d"
  using assms by (auto simp: aes_encrypt_def aes_decrypt_def crypto_ok_def split: if_splits)

subsection \<open>Project secrets at rest\<close>

record secret_random =
  sr_data_key :: string
  sr_value_nonce :: string
  sr_key_nonce :: string

definition secret_random_ok :: "secret_random \<Rightarrow> bool" where
  \<comment> \<open>\<open>AESGCM.generate_key(bit_length=256)\<close> and twice \<open>os.urandom(12)\<close>\<close>
  "secret_random_ok r \<longleftrightarrow> length (sr_data_key r) = 32 \<and> length (sr_value_nonce r) = 12 \<and>
     length (sr_key_nonce r) = 12"

record encrypted_value =
  en_ciphertext :: string
  en_value_nonce :: string
  en_wrapped_data_key :: string
  en_key_nonce :: string
  en_algorithm :: string
  en_master_key_version :: string

definition secret_aad :: "uuid \<Rightarrow> uuid \<Rightarrow> uuid \<Rightarrow> string \<Rightarrow> int \<Rightarrow> string" where
  "secret_aad organization_id project_id secret_id name version =
     utf8_encode (''rdc/project-secret/v1:'' @ uuid_str organization_id @ '':'' @ uuid_str project_id @ '':'' @
       uuid_str secret_id @ '':'' @ name @ '':'' @ int_str version)"

definition encrypt_project_secret ::
  "crypto \<Rightarrow> string \<times> string \<Rightarrow> secret_random \<Rightarrow> string \<Rightarrow> uuid \<Rightarrow> uuid \<Rightarrow> uuid \<Rightarrow> string \<Rightarrow> int \<Rightarrow>
   encrypted_value result" where
  \<comment> \<open>\<open>master\<close> is the master key and its version\<close>
  "encrypt_project_secret c master r plaintext organization_id project_id secret_id name version =
     (let aad = secret_aad organization_id project_id secret_id name version
      in bind_result (aes_encrypt c (sr_data_key r) (sr_value_nonce r) (utf8_encode plaintext) aad) (\<lambda>ciphertext.
         bind_result (aes_encrypt c (fst master) (sr_key_nonce r) (sr_data_key r) aad) (\<lambda>wrapped.
         Inr \<lparr>en_ciphertext = ciphertext, en_value_nonce = sr_value_nonce r, en_wrapped_data_key = wrapped,
              en_key_nonce = sr_key_nonce r, en_algorithm = ''AES-256-GCM'', en_master_key_version = snd master\<rparr>)))"

definition decrypt_project_secret ::
  "crypto \<Rightarrow> string \<Rightarrow> string \<Rightarrow> string \<Rightarrow> string \<Rightarrow> string \<Rightarrow> uuid \<Rightarrow> uuid \<Rightarrow> uuid \<Rightarrow> string \<Rightarrow> int \<Rightarrow>
   string result" where
  "decrypt_project_secret c master_key ciphertext value_nonce wrapped_data_key key_nonce organization_id project_id
     secret_id name version =
     (let aad = secret_aad organization_id project_id secret_id name version
      in bind_result (aes_decrypt c master_key key_nonce wrapped_data_key aad) (\<lambda>data_key.
         aes_decrypt c data_key value_nonce ciphertext aad))"

subsection \<open>Envelopes for a worker\<close>

record worker_envelope =
  we_algorithm :: string
  we_ephemeral_public_key :: string
  we_nonce :: string
  we_ciphertext :: string
  we_worker_public_key_digest :: string

definition decode_worker_public_key :: "string \<Rightarrow> string result" where
  "decode_worker_public_key v = (case b64decode standard_alphabet v of
     None \<Rightarrow> Inl ValueError
   | Some raw \<Rightarrow> if length raw \<noteq> 32 then Inl ValueError else Inr raw)"

definition worker_secret_aad :: "string \<Rightarrow> string \<Rightarrow> string \<Rightarrow> string" where
  "worker_secret_aad lease_id worker_id run_id =
     utf8_encode (''rdc/worker-secret-envelope/v1:'' @ lease_id @ '':'' @ worker_id @ '':'' @ run_id)"

definition worker_egress_credential_aad :: "string \<Rightarrow> string \<Rightarrow> string \<Rightarrow> string \<Rightarrow> string" where
  "worker_egress_credential_aad lease_id worker_id run_id policy_binding_digest =
     utf8_encode (''rdc/worker-egress-credential-envelope/v1:'' @ lease_id @ '':'' @ worker_id @ '':'' @ run_id @
       '':'' @ policy_binding_digest)"

definition envelope_algorithm :: string where
  "envelope_algorithm = ''X25519-HKDF-SHA256-AES-256-GCM''"

definition exchange :: "crypto \<Rightarrow> string \<Rightarrow> string \<Rightarrow> string result" where
  \<comment> \<open>\<open>X25519PublicKey.from_public_bytes\<close>, \<open>exchange\<close> and \<open>HKDF(...).derive\<close>\<close>
  "exchange c priv peer = (if length peer \<noteq> 32 then Inl ValueError
     else (case cr_exchange c priv peer of None \<Rightarrow> Inl ValueError | Some shared \<Rightarrow> Inr (cr_hkdf c shared)))"

definition encrypt_secret_payload_for_worker ::
  "crypto \<Rightarrow> (string \<Rightarrow> string) \<Rightarrow> string \<times> string \<Rightarrow> string \<Rightarrow> string \<Rightarrow> string \<Rightarrow> worker_envelope result" where
  \<comment> \<open>\<open>eph\<close> is the ephemeral private key and the nonce; \<open>sha256\<close> gives the hexadecimal digest\<close>
  "encrypt_secret_payload_for_worker c sha256 eph plaintext worker_public_key aad =
     bind_result (exchange c (fst eph) worker_public_key) (\<lambda>key.
     bind_result (aes_encrypt c key (snd eph) plaintext aad) (\<lambda>ciphertext.
     Inr \<lparr>we_algorithm = envelope_algorithm, we_ephemeral_public_key = cr_public c (fst eph),
          we_nonce = snd eph, we_ciphertext = ciphertext,
          we_worker_public_key_digest = sha256 worker_public_key\<rparr>))"

end
