(* ===== verification/Secret_Envelopes.thy ===== *)
theory Secret_Envelopes
  imports Envelope_Crypto Exec_Lease Exec_Sample
begin

section \<open>Secret envelopes\<close>

text \<open>
  \<open>issue_secret_envelope\<close> and \<open>issue_egress_credential_envelope\<close> of \<open>services/execution_plane.py\<close>, and
  \<open>decrypt_secret_envelope\<close> and \<open>decrypt_egress_credential_envelope\<close> of the worker client, which open what
  the two services seal. The master key with its version, the ephemeral key with its nonce, and the
  lifetime of an envelope are arguments.
\<close>

subsection \<open>Tables and requests\<close>

record project_secret =
  ps_id :: uuid
  ps_organization_id :: uuid
  ps_project_id :: uuid
  ps_name :: string
  ps_description :: "string option"
  ps_environment :: string
  ps_encrypted_value :: string
  ps_value_nonce :: string
  ps_wrapped_data_key :: string
  ps_key_nonce :: string
  ps_encryption_algorithm :: string
  ps_master_key_version :: string
  ps_last_used_at :: "instant option"
  ps_created_by_user_id :: uuid
  ps_updated_by_user_id :: uuid
  ps_version :: int
  ps_created_at :: instant
  ps_updated_at :: instant

record secret_db = claim_db +
  project_secrets :: "project_secret list"

record envelope_keys =
  ek_crypto :: crypto
  ek_master_key :: string
  ek_master_key_version :: string
  ek_envelope_seconds :: int

record envelope_request =
  eq_names :: "string list"
  eq_environment :: string
  eq_worker_public_key_b64 :: string

definition envelope_request_ok :: "envelope_request \<Rightarrow> bool" where
  \<comment> \<open>the validation of \<open>SecretEnvelopeRequest\<close>: the names are distinct and arrive sorted\<close>
  "envelope_request_ok p \<longleftrightarrow> 1 \<le> length (eq_names p) \<and> length (eq_names p) \<le> 64 \<and> distinct (eq_names p) \<and>
     sorted (eq_names p) \<and> 40 \<le> length (eq_worker_public_key_b64 p) \<and> length (eq_worker_public_key_b64 p) \<le> 100"

record envelope_response =
  ev_grant_id :: uuid
  ev_algorithm :: string
  ev_ephemeral_public_key_b64 :: string
  ev_nonce_b64 :: string
  ev_ciphertext_b64 :: string
  ev_expires_at :: instant

text \<open>
  The fields both responses share. \<open>SecretEnvelopeResponse\<close> repeats the secret names of the grant and the
  environment of the request, \<open>EgressCredentialEnvelopeResponse\<close> the policy binding digest of the request.
\<close>

definition response_of :: "secret_grant \<Rightarrow> envelope_response" where
  "response_of g = \<lparr>ev_grant_id = sg_id g, ev_algorithm = sg_algorithm g,
     ev_ephemeral_public_key_b64 = b64encode standard_alphabet (sg_ephemeral_public_key g),
     ev_nonce_b64 = b64encode standard_alphabet (sg_nonce g),
     ev_ciphertext_b64 = b64encode standard_alphabet (sg_ciphertext g), ev_expires_at = sg_expires_at g\<rparr>"

definition find_grant :: "uuid \<Rightarrow> string \<Rightarrow> 'a exec_db_scheme \<Rightarrow> secret_grant option" where
  "find_grant lease_id fingerprint s = List.find (\<lambda>g. sg_lease_id g = lease_id \<and>
     sg_request_fingerprint g = fingerprint) (secret_grants s)"

definition grant_usable :: "txn \<Rightarrow> secret_grant \<Rightarrow> bool" where
  "grant_usable tx g \<longleftrightarrow> \<not> (sg_expires_at g \<le> tx_now tx \<or> sg_status g \<noteq> Gr_ISSUED)"

definition new_grant ::
  "envelope_keys \<Rightarrow> txn \<Rightarrow> worker \<Rightarrow> lease \<Rightarrow> uuid \<Rightarrow> string \<Rightarrow> string list \<Rightarrow> string \<Rightarrow> worker_envelope \<Rightarrow> uuid \<Rightarrow>
   secret_grant" where
  "new_grant ek tx w l run_id fingerprint names environment e i =
     \<lparr>sg_id = i, sg_worker_id = wo_id w, sg_lease_id = le_id l, sg_organization_id = le_organization_id l,
      sg_project_id = le_project_id l, sg_run_id = run_id, sg_request_fingerprint = fingerprint,
      sg_secret_names = names, sg_environment = environment, sg_algorithm = we_algorithm e,
      sg_ephemeral_public_key = we_ephemeral_public_key e, sg_nonce = we_nonce e,
      sg_ciphertext = we_ciphertext e, sg_worker_public_key_digest = we_worker_public_key_digest e,
      sg_status = Gr_ISSUED, sg_issued_at = tx_now tx,
      sg_expires_at = min (le_expires_at l) (tx_now tx + seconds (ek_envelope_seconds ek)),
      sg_consumed_at = None\<rparr>"

definition use_secret :: "txn \<Rightarrow> project_secret \<Rightarrow> 'a secret_db_scheme \<Rightarrow> 'a secret_db_scheme" where
  "use_secret tx x s = s\<lparr>project_secrets := upd_by ps_id (ps_id x)
     (\<lambda>x. x\<lparr>ps_last_used_at := Some (tx_now tx), ps_updated_at := tx_now tx\<rparr>) (project_secrets s)\<rparr>"

definition reveal :: "envelope_keys \<Rightarrow> project_secret \<Rightarrow> string result" where
  \<comment> \<open>the key version check and \<open>decrypt_project_secret\<close>\<close>
  "reveal ek x =
     (if ps_master_key_version x \<noteq> ek_master_key_version ek
      then Inl (ApiError 503 ''SECRET_KEY_VERSION_UNAVAILABLE'')
      else decrypt_project_secret (ek_crypto ek) (ek_master_key ek) (ps_encrypted_value x) (ps_value_nonce x)
        (ps_wrapped_data_key x) (ps_key_nonce x) (ps_organization_id x) (ps_project_id x) (ps_id x) (ps_name x)
        (ps_version x))"

subsection \<open>Secrets of a run\<close>

definition declared_secrets :: "dict \<Rightarrow> string set" where
  "declared_secrets manifest = (case dget manifest ''secrets'' of
     JList xs \<Rightarrow> set (List.map_filter as_str xs) | _ \<Rightarrow> {})"

definition secret_named ::
  "lease \<Rightarrow> string \<Rightarrow> string list \<Rightarrow> 'a secret_db_scheme \<Rightarrow> string \<Rightarrow> project_secret option" where
  \<comment> \<open>\<open>by_name\<close>, a dict over the selected rows\<close>
  "secret_named l environment names s n = List.find (\<lambda>x. ps_name x = n) (rev (filter (\<lambda>x.
     ps_organization_id x = le_organization_id l \<and> ps_project_id x = le_project_id l \<and>
     ps_environment x = environment \<and> ps_name x \<in> set names) (project_secrets s)))"

fun reveal_all ::
  "envelope_keys \<Rightarrow> txn \<Rightarrow> (string \<times> project_secret) list \<Rightarrow> 'a secret_db_scheme \<Rightarrow>
   (dict \<times> 'a secret_db_scheme) result" where
  "reveal_all ek tx [] s = Inr ([], s)"
| "reveal_all ek tx ((n, x) # xs) s =
     bind_result (reveal ek x) (\<lambda>raw. case utf8_decode raw of None \<Rightarrow> Inl ValueError
       | Some v \<Rightarrow> bind_result (reveal_all ek tx xs (use_secret tx x s)) (\<lambda>(d, s'). Inr ((n, JStr v) # d, s')))"

definition secret_plaintext :: "lease \<Rightarrow> run \<Rightarrow> string \<Rightarrow> dict \<Rightarrow> json" where
  "secret_plaintext l r environment values = JDict
     [(''schema_version'', JStr ''1''), (''lease_id'', juuid (le_id l)), (''run_id'', juuid (rn_id r)),
      (''environment'', JStr environment), (''secrets'', JDict values)]"

definition secret_fingerprint :: "(string \<Rightarrow> string) \<Rightarrow> lease \<Rightarrow> envelope_request \<Rightarrow> string \<Rightarrow> string" where
  "secret_fingerprint sha256 l p public_key = canonical_fingerprint sha256 (JDict
     [(''lease_id'', juuid (le_id l)), (''names'', jstrs (eq_names p)), (''environment'', JStr (eq_environment p)),
      (''worker_public_key_digest'', JStr (sha256 public_key))])"

definition seal_secrets ::
  "envelope_keys \<Rightarrow> (string \<Rightarrow> string) \<Rightarrow> txn \<Rightarrow> string \<times> string \<Rightarrow> worker \<Rightarrow> lease \<Rightarrow> run \<Rightarrow> envelope_request \<Rightarrow>
   string \<Rightarrow> 'a secret_db_scheme \<Rightarrow> (envelope_response \<times> 'a secret_db_scheme) result" where
  \<comment> \<open>the part after the replay check\<close>
  "seal_secrets ek sha256 tx eph w l r p public_key s =
     (let by_name = secret_named l (eq_environment p) (eq_names p) s
      in if \<exists>n \<in> set (eq_names p). by_name n = None then Inl (ApiError 409 ''SECRET_NOT_CONFIGURED'')
         else bind_result (reveal_all ek tx (map (\<lambda>n. (n, the (by_name n))) (eq_names p)) s) (\<lambda>(values, s1).
           bind_result (encrypt_secret_payload_for_worker (ek_crypto ek) sha256 eph
             (json_dumps_ascii (secret_plaintext l r (eq_environment p) values)) public_key
             (worker_secret_aad (uuid_str (le_id l)) (uuid_str (wo_id w)) (uuid_str (rn_id r)))) (\<lambda>e.
           let g = new_grant ek tx w l (rn_id r) (secret_fingerprint sha256 l p public_key) (eq_names p)
                 (eq_environment p) e (next_id s1)
           in Inr (response_of g,
                audit_worker tx w l ''execution.secret_envelope.issued'' ''secret_injection_grant'' (sg_id g)
                  [(''run_id'', juuid (rn_id r)), (''secret_names'', jstrs (eq_names p)),
                   (''environment'', JStr (eq_environment p)), (''expires_at'', jtime (sg_expires_at g))]
                  (s1\<lparr>secret_grants := secret_grants s1 @ [g], next_id := next_id s1 + 1\<rparr>)))))"

definition issue_secret_envelope ::
  "envelope_keys \<Rightarrow> (string \<Rightarrow> string) \<Rightarrow> txn \<Rightarrow> string \<times> string \<Rightarrow> worker \<Rightarrow> lease \<Rightarrow> envelope_request \<Rightarrow>
   'a secret_db_scheme \<Rightarrow> (envelope_response \<times> 'a secret_db_scheme) result" where
  "issue_secret_envelope ek sha256 tx eph w l p s =
     (if le_work_kind l \<noteq> Wk_RUN_START \<or> le_run_id l = None then Inl state_conflict
      else if ''SECRET_ENVELOPE'' \<notin> set (wo_capabilities w) then Inl (ApiError 403 ''WORKER_CAPABILITY_DENIED'')
      else (case find_run (le_run_id l) s of
          None \<Rightarrow> Inl not_found
        | Some r \<Rightarrow> (case find_by agv_id (rn_agent_version_id r) (agent_versions s) of
            None \<Rightarrow> Inl not_found
          | Some version \<Rightarrow>
              if \<not> set (eq_names p) \<subseteq> declared_secrets (agv_manifest version)
              then Inl (ApiError 403 ''SECRET_NOT_DECLARED'')
              else (case decode_worker_public_key (eq_worker_public_key_b64 p) of
                  Inl _ \<Rightarrow> Inl (ApiError 422 ''VALIDATION_FAILED'')
                | Inr public_key \<Rightarrow> (case find_grant (le_id l) (secret_fingerprint sha256 l p public_key) s of
                    Some g \<Rightarrow> if grant_usable tx g then Inr (response_of g, s)
                      else Inl (ApiError 409 ''SECRET_GRANT_EXPIRED'')
                  | None \<Rightarrow> seal_secrets ek sha256 tx eph w l r p public_key s)))))"

subsection \<open>Egress credentials\<close>

record credential_request =
  cr_policy_binding_digest :: string
  cr_worker_public_key_b64 :: string

definition bound_credential_ids ::
  "canary_settings \<Rightarrow> (string \<Rightarrow> string option) \<Rightarrow> (string \<Rightarrow> string) \<Rightarrow> string \<Rightarrow> dict \<Rightarrow> (uuid \<times> uuid) option" where
  \<comment> \<open>the \<open>try\<close> block: the policy and the revision of an intact binding that has a credential\<close>
  "bound_credential_ids st idna sha256 binding_digest input_reference =
     (case (bound_egress_policy st idna sha256 input_reference,
            as_dict (dget input_reference ''project_egress_policy_receipt'')) of
        (Inr (Some _), Some receipt) \<Rightarrow>
          (case (uuid_of_text (py_str (dget receipt ''policy_id'')),
                 uuid_of_text (py_str (dget receipt ''revision_id''))) of
             (Some policy_id, Some revision_id) \<Rightarrow>
               if dget receipt ''credential_configured'' = JBool True \<and>
                  dget receipt ''binding_digest'' = JStr binding_digest
               then Some (policy_id, revision_id) else None
           | _ \<Rightarrow> None)
      | _ \<Rightarrow> None)"

definition credential_secret_of ::
  "lease \<Rightarrow> dict \<Rightarrow> uuid \<Rightarrow> uuid \<Rightarrow> 'a claim_db_scheme \<Rightarrow> uuid option" where
  \<comment> \<open>the credential of the bound revision, while it is the one the policy selects\<close>
  "credential_secret_of l receipt policy_id revision_id s =
     (case (List.find (\<lambda>p. ep_id p = policy_id \<and> ep_organization_id p = le_organization_id l \<and>
              ep_project_id p = le_project_id l) (bound_policies s),
            List.find (\<lambda>v. er_id v = revision_id \<and> er_policy_id v = policy_id \<and>
              er_organization_id v = le_organization_id l \<and> er_project_id v = le_project_id l)
              (bound_revisions s)) of
        (Some policy, Some revision) \<Rightarrow>
          if ep_status policy = Ep_ACTIVE \<and> ep_active_revision_id policy = Some (er_id revision) \<and>
             py_eq (dget receipt ''revision_number'') (JInt (er_revision_number revision)) \<and>
             py_eq (dget receipt ''policy_digest'') (JStr (er_policy_digest revision))
          then er_credential_secret_id revision else None
      | _ \<Rightarrow> None)"

definition credential_fingerprint ::
  "(string \<Rightarrow> string) \<Rightarrow> lease \<Rightarrow> string \<Rightarrow> project_secret \<Rightarrow> string \<Rightarrow> string" where
  "credential_fingerprint sha256 l binding_digest x public_key = canonical_fingerprint sha256 (JDict
     [(''purpose'', JStr ''egress-authorization/v1''), (''lease_id'', juuid (le_id l)),
      (''policy_binding_digest'', JStr binding_digest), (''secret_version'', JInt (ps_version x)),
      (''worker_public_key_digest'', JStr (sha256 public_key))])"

definition authorization_ok :: "string \<Rightarrow> bool" where
  "authorization_ok a \<longleftrightarrow> a \<noteq> [] \<and> length a \<le> 8192 \<and> char_of (13::nat) \<notin> set a \<and> char_of (10::nat) \<notin> set a"

definition credential_plaintext :: "lease \<Rightarrow> run \<Rightarrow> string \<Rightarrow> instant \<Rightarrow> string \<Rightarrow> json" where
  "credential_plaintext l r binding_digest expires_at authorization = JDict
     [(''schema_version'', JStr ''rdc.egress-credential/v1''), (''lease_id'', juuid (le_id l)),
      (''run_id'', juuid (rn_id r)), (''policy_binding_digest'', JStr binding_digest),
      (''expires_at'', jtime expires_at), (''authorization'', JStr authorization)]"

definition seal_credential ::
  "envelope_keys \<Rightarrow> (string \<Rightarrow> string) \<Rightarrow> txn \<Rightarrow> string \<times> string \<Rightarrow> worker \<Rightarrow> lease \<Rightarrow> run \<Rightarrow> string \<Rightarrow>
   project_secret \<Rightarrow> string \<Rightarrow> 'a secret_db_scheme \<Rightarrow> (envelope_response \<times> 'a secret_db_scheme) result" where
  \<comment> \<open>the part after the replay check\<close>
  "seal_credential ek sha256 tx eph w l r binding_digest x public_key s =
     bind_result (reveal ek x) (\<lambda>raw. case utf8_decode raw of
       None \<Rightarrow> Inl (ApiError 409 ''EGRESS_CREDENTIAL_INVALID'')
     | Some authorization \<Rightarrow>
         if \<not> authorization_ok authorization then Inl (ApiError 409 ''EGRESS_CREDENTIAL_INVALID'')
         else
           let expires_at = min (le_expires_at l) (tx_now tx + seconds (ek_envelope_seconds ek))
           in bind_result (encrypt_secret_payload_for_worker (ek_crypto ek) sha256 eph
                (json_dumps_ascii (credential_plaintext l r binding_digest expires_at authorization)) public_key
                (worker_egress_credential_aad (uuid_str (le_id l)) (uuid_str (wo_id w)) (uuid_str (rn_id r))
                  binding_digest)) (\<lambda>e.
              let g = new_grant ek tx w l (rn_id r) (credential_fingerprint sha256 l binding_digest x public_key)
                    [ps_name x] (ps_environment x) e (next_id s);
                  s1 = use_secret tx x s
              in Inr (response_of g,
                   audit_worker tx w l ''execution.egress_credential_envelope.issued'' ''secret_injection_grant''
                     (sg_id g)
                     [(''run_id'', juuid (rn_id r)), (''policy_binding_digest'', JStr binding_digest),
                      (''expires_at'', jtime expires_at)]
                     (s1\<lparr>secret_grants := secret_grants s1 @ [g], next_id := next_id s1 + 1\<rparr>))))"

definition issue_egress_credential_envelope ::
  "canary_settings \<Rightarrow> envelope_keys \<Rightarrow> (string \<Rightarrow> string option) \<Rightarrow> (string \<Rightarrow> string) \<Rightarrow> txn \<Rightarrow> string \<times> string \<Rightarrow>
   worker \<Rightarrow> lease \<Rightarrow> credential_request \<Rightarrow> 'a secret_db_scheme \<Rightarrow>
   (envelope_response \<times> 'a secret_db_scheme) result" where
  "issue_egress_credential_envelope st ek idna sha256 tx eph w l p s =
     (if le_work_kind l \<noteq> Wk_RUN_START \<or> le_run_id l = None then Inl state_conflict
      else if ''SECRET_ENVELOPE'' \<notin> set (wo_capabilities w) then Inl (ApiError 403 ''WORKER_CAPABILITY_DENIED'')
      else (case find_run (le_run_id l) s of
          None \<Rightarrow> Inl not_found
        | Some r \<Rightarrow> (case bound_credential_ids st idna sha256 (cr_policy_binding_digest p) (rn_input_reference r) of
            None \<Rightarrow> Inl (ApiError 409 ''EGRESS_CREDENTIAL_BINDING_INVALID'')
          | Some (policy_id, revision_id) \<Rightarrow>
              let receipt = or_else (as_dict (dget (rn_input_reference r) ''project_egress_policy_receipt'')) []
              in (case credential_secret_of l receipt policy_id revision_id s of
                None \<Rightarrow> Inl (ApiError 409 ''EGRESS_CREDENTIAL_BINDING_REVOKED'')
              | Some secret_id \<Rightarrow> (case List.find (\<lambda>x. ps_id x = secret_id \<and>
                    ps_organization_id x = le_organization_id l \<and> ps_project_id x = le_project_id l)
                    (project_secrets s) of
                  None \<Rightarrow> Inl (ApiError 409 ''EGRESS_CREDENTIAL_UNAVAILABLE'')
                | Some x \<Rightarrow> (case decode_worker_public_key (cr_worker_public_key_b64 p) of
                    Inl _ \<Rightarrow> Inl (ApiError 422 ''VALIDATION_FAILED'')
                  | Inr public_key \<Rightarrow> (case find_grant (le_id l)
                        (credential_fingerprint sha256 l (cr_policy_binding_digest p) x public_key) s of
                      Some g \<Rightarrow> if grant_usable tx g then Inr (response_of g, s)
                        else Inl (ApiError 409 ''EGRESS_CREDENTIAL_GRANT_EXPIRED'')
                    | None \<Rightarrow> seal_credential ek sha256 tx eph w l r (cr_policy_binding_digest p) x public_key s)))))))"

subsection \<open>The worker's side\<close>

definition item :: "dict \<Rightarrow> string \<Rightarrow> json result" where
  \<comment> \<open>\<open>d[k]\<close>\<close>
  "item d k = (case map_of d k of None \<Rightarrow> Inl KeyError | Some v \<Rightarrow> Inr v)"

definition b64_item :: "dict \<Rightarrow> string \<Rightarrow> string result" where
  \<comment> \<open>\<open>base64.b64decode(d[k], validate=True)\<close>\<close>
  "b64_item d k = bind_result (item d k) (\<lambda>v. case as_str v of None \<Rightarrow> Inl TypeError
     | Some t \<Rightarrow> (case b64decode standard_alphabet t of None \<Rightarrow> Inl ValueError | Some raw \<Rightarrow> Inr raw))"

definition open_envelope :: "crypto \<Rightarrow> string \<Rightarrow> dict \<Rightarrow> string \<Rightarrow> json result" where
  \<comment> \<open>the key agreement, \<open>AESGCM(key).decrypt\<close> and \<open>json.loads\<close> both functions share\<close>
  "open_envelope c priv d aad =
     bind_result (b64_item d ''ephemeral_public_key_b64'') (\<lambda>peer.
     bind_result (exchange c priv peer) (\<lambda>key.
     bind_result (b64_item d ''nonce_b64'') (\<lambda>nonce.
     bind_result (b64_item d ''ciphertext_b64'') (\<lambda>ciphertext.
     bind_result (aes_decrypt c key nonce ciphertext aad) (\<lambda>plaintext.
     (case Option.bind (utf8_decode plaintext) json_loads of None \<Rightarrow> Inl ValueError | Some v \<Rightarrow> Inr v))))))"

definition decrypt_secret_envelope ::
  "crypto \<Rightarrow> string \<Rightarrow> dict \<Rightarrow> string \<Rightarrow> string \<Rightarrow> string \<Rightarrow> dict result" where
  \<comment> \<open>\<open>d\<close> is \<open>envelope["data"]\<close>\<close>
  "decrypt_secret_envelope c priv d lease_id worker_id run_id =
     bind_result (item d ''algorithm'') (\<lambda>algorithm.
     if \<not> py_eq algorithm (JStr envelope_algorithm) then Inl WorkerProtocolError
     else bind_result (open_envelope c priv d (worker_secret_aad lease_id worker_id run_id)) (\<lambda>v.
       case as_dict v of None \<Rightarrow> Inl WorkerProtocolError | Some r \<Rightarrow> Inr r))"

definition credential_payload_ok :: "string \<Rightarrow> string \<Rightarrow> string \<Rightarrow> json \<Rightarrow> bool" where
  "credential_payload_ok lease_id run_id binding_digest v = (case as_dict v of None \<Rightarrow> False
     | Some r \<Rightarrow>
         list_all (\<lambda>(k, x). py_eq (dget r k) (JStr x))
           [(''schema_version'', ''rdc.egress-credential/v1''), (''lease_id'', lease_id), (''run_id'', run_id),
            (''policy_binding_digest'', binding_digest)] \<and>
         dkeys r = {''schema_version'', ''lease_id'', ''run_id'', ''policy_binding_digest'', ''authorization'',
           ''expires_at''} \<and>
         (case as_str (dget r ''authorization'') of None \<Rightarrow> False | Some a \<Rightarrow> authorization_ok a))"

definition decrypt_egress_credential_envelope ::
  "crypto \<Rightarrow> instant \<Rightarrow> string \<Rightarrow> dict \<Rightarrow> string \<Rightarrow> string \<Rightarrow> string \<Rightarrow> string \<Rightarrow> string result" where
  \<comment> \<open>a naive and an aware time are never equal\<close>
  "decrypt_egress_credential_envelope c now priv d lease_id worker_id run_id binding_digest =
     bind_result (item d ''algorithm'') (\<lambda>algorithm.
     if \<not> py_eq algorithm (JStr envelope_algorithm) \<or>
        \<not> py_eq (dget d ''policy_binding_digest'') (JStr binding_digest) then Inl WorkerProtocolError
     else bind_result (open_envelope c priv d
         (worker_egress_credential_aad lease_id worker_id run_id binding_digest)) (\<lambda>v.
       if \<not> credential_payload_ok lease_id run_id binding_digest v then Inl WorkerProtocolError
       else let r = or_else (as_dict v) [] in
         (case (fromisoformat (py_str (dget r ''expires_at'')), map_of d ''expires_at'') of
            (Some (t, aware), Some x) \<Rightarrow> (case fromisoformat (py_str x) of
               None \<Rightarrow> Inl WorkerProtocolError
             | Some u \<Rightarrow> if \<not> aware \<or> (t, aware) \<noteq> u \<or> t \<le> now then Inl WorkerProtocolError
                 else Inr (py_str (dget r ''authorization'')))
          | _ \<Rightarrow> Inl WorkerProtocolError)))"

subsection \<open>What is sealed is what is opened\<close>

lemma ascii_text: "c \<in> set (json_dumps_ascii v) \<Longrightarrow> code_point c < 127"
proof -
  assume "c \<in> set (json_dumps_ascii v)"
  then obtain d where "c \<in> set (ascii_char d)" by (auto simp: json_dumps_ascii_def encode_text_def)
  then show ?thesis
    using digits_ascii [of 16 c 4 "code_point d"]
    by (auto simp: ascii_char_def code_point_char_of split: if_splits) (simp add: code_point_def)
qed

lemma utf8_decode_ascii: "\<forall>c \<in> set s. code_point c < 128 \<Longrightarrow> utf8_decode s = Some s"
  by (induction s) auto

lemma utf8_decode_json: "utf8_decode (json_dumps_ascii v) = Some (json_dumps_ascii v)"
  by (rule utf8_decode_ascii) (use ascii_text in \<open>fastforce\<close>)

lemma json_loads_ascii: "plain_json v \<Longrightarrow> json_loads (json_dumps_ascii v) = Some (canon v)"
  unfolding json_dumps_ascii_def by (rule json_loads_encoded [OF enc_ok_instances(1)])

definition carries :: "dict \<Rightarrow> envelope_response \<Rightarrow> bool" where
  \<comment> \<open>the response as the worker receives it\<close>
  "carries d e \<longleftrightarrow> map_of d ''algorithm'' = Some (JStr (ev_algorithm e)) \<and>
     map_of d ''ephemeral_public_key_b64'' = Some (JStr (ev_ephemeral_public_key_b64 e)) \<and>
     map_of d ''nonce_b64'' = Some (JStr (ev_nonce_b64 e)) \<and>
     map_of d ''ciphertext_b64'' = Some (JStr (ev_ciphertext_b64 e))"

lemma standard_ok: "alphabet_ok standard_alphabet"
  by (simp add: alphabet_ok_def)

lemma decode_public_key:
  "crypto_ok c \<Longrightarrow> decode_worker_public_key (b64encode standard_alphabet (cr_public c a)) = Inr (cr_public c a)"
  by (simp add: decode_worker_public_key_def b64decode_encode [OF standard_ok] crypto_ok_def)

lemma exchange_agrees:
  assumes "crypto_ok c"
  shows "exchange c a (cr_public c b) = exchange c b (cr_public c a)"
proof -
  have "length (cr_public c b) = 32" "length (cr_public c a) = 32"
    "cr_exchange c a (cr_public c b) = cr_exchange c b (cr_public c a)"
    using assms unfolding crypto_ok_def by blast+
  then show ?thesis by (simp add: exchange_def)
qed

lemma open_sealed:
  assumes c: "crypto_ok c"
    and e: "encrypt_secret_payload_for_worker c sha256 eph (json_dumps_ascii v) (cr_public c priv) aad = Inr e"
    and v: "plain_json v"
    and d: "carries d (response_of (new_grant ek tx w l i fp ns env e j))"
  shows "open_envelope c priv d aad = Inr (canon v)"
proof -
  from e obtain key ct where k: "exchange c (fst eph) (cr_public c priv) = Inr key"
    and ct: "aes_encrypt c key (snd eph) (json_dumps_ascii v) aad = Inr ct"
    and e': "we_ephemeral_public_key e = cr_public c (fst eph)" "we_nonce e = snd eph" "we_ciphertext e = ct"
    by (auto simp: encrypt_secret_payload_for_worker_def bind_result_Inr_iff)
  have "b64_item d ''ephemeral_public_key_b64'' = Inr (cr_public c (fst eph))"
    "b64_item d ''nonce_b64'' = Inr (snd eph)" "b64_item d ''ciphertext_b64'' = Inr ct"
    using d by (simp_all add: carries_def response_of_def new_grant_def b64_item_def item_def as_str_def
        b64decode_encode [OF standard_ok] e')
  moreover have "exchange c priv (cr_public c (fst eph)) = Inr key"
    using exchange_agrees [OF c] k by metis
  ultimately show ?thesis
    by (simp add: open_envelope_def aes_roundtrip [OF c ct] utf8_decode_json json_loads_ascii [OF v])
qed

definition stored_as :: "envelope_keys \<Rightarrow> project_secret \<Rightarrow> string \<Rightarrow> bool" where
  \<comment> \<open>the row holds the encryption of the value for its own identity, under the current master key\<close>
  "stored_as ek x v \<longleftrightarrow> (\<exists>r e. encrypt_project_secret (ek_crypto ek) (ek_master_key ek, ek_master_key_version ek) r v
     (ps_organization_id x) (ps_project_id x) (ps_id x) (ps_name x) (ps_version x) = Inr e \<and>
     ps_encrypted_value x = en_ciphertext e \<and> ps_value_nonce x = en_value_nonce e \<and>
     ps_wrapped_data_key x = en_wrapped_data_key e \<and> ps_key_nonce x = en_key_nonce e \<and>
     ps_master_key_version x = en_master_key_version e)"

lemma reveal_stored:
  assumes "crypto_ok (ek_crypto ek)" and "stored_as ek x v"
  shows "reveal ek x = Inr (utf8_encode v)"
proof -
  obtain r e where e: "encrypt_project_secret (ek_crypto ek) (ek_master_key ek, ek_master_key_version ek) r v
      (ps_organization_id x) (ps_project_id x) (ps_id x) (ps_name x) (ps_version x) = Inr e"
    and f: "ps_encrypted_value x = en_ciphertext e" "ps_value_nonce x = en_value_nonce e"
      "ps_wrapped_data_key x = en_wrapped_data_key e" "ps_key_nonce x = en_key_nonce e"
      "ps_master_key_version x = en_master_key_version e"
    using assms(2) by (auto simp: stored_as_def)
  from e obtain ct wk where "aes_encrypt (ek_crypto ek) (sr_data_key r) (sr_value_nonce r) (utf8_encode v)
        (secret_aad (ps_organization_id x) (ps_project_id x) (ps_id x) (ps_name x) (ps_version x)) = Inr ct"
      "aes_encrypt (ek_crypto ek) (ek_master_key ek) (sr_key_nonce r) (sr_data_key r)
        (secret_aad (ps_organization_id x) (ps_project_id x) (ps_id x) (ps_name x) (ps_version x)) = Inr wk"
    and e': "en_ciphertext e = ct" "en_value_nonce e = sr_value_nonce r" "en_wrapped_data_key e = wk"
      "en_key_nonce e = sr_key_nonce r" "en_master_key_version e = ek_master_key_version ek"
    by (auto simp: encrypt_project_secret_def bind_result_Inr_iff Let_def)
  then show ?thesis
    using aes_roundtrip [OF assms(1)] by (simp add: reveal_def decrypt_project_secret_def Let_def f)
qed

lemma reveal_all_stored:
  assumes "crypto_ok (ek_crypto ek)" and "\<forall>(n, x) \<in> set xs. stored_as ek x (val n)"
  shows "\<exists>s'. reveal_all ek tx xs s = Inr (map (\<lambda>(n, x). (n, JStr (val n))) xs, s')"
  using assms(2)
proof (induction xs arbitrary: s)
  case (Cons p xs)
  obtain n x where p: "p = (n, x)" by (cases p)
  from Cons obtain s' where "reveal_all ek tx xs (use_secret tx x s) = Inr (map (\<lambda>(n, x). (n, JStr (val n))) xs, s')"
    by fastforce
  moreover have "reveal ek x = Inr (utf8_encode (val n))"
    using Cons.prems p by (intro reveal_stored [OF assms(1)]) simp
  ultimately show ?case by (simp add: p utf8_decode_encode)
qed simp

lemma plain_values: "distinct ns \<Longrightarrow> plain_json (JDict (map (\<lambda>n. (n, JStr (val n))) ns))"
  by (simp add: list_all_iff comp_def)

lemma exchange_sealed:
  assumes "crypto_ok c" and "cr_exchange c a (cr_public c b) = Some shared"
  shows "exchange c a (cr_public c b) = Inr (cr_hkdf c shared)" and "length (cr_hkdf c shared) = 32"
proof -
  have "length (cr_public c b) = 32" using assms(1) unfolding crypto_ok_def by blast
  with assms(2) show "exchange c a (cr_public c b) = Inr (cr_hkdf c shared)" by (simp add: exchange_def)
  show "length (cr_hkdf c shared) = 32" using assms(1) unfolding crypto_ok_def by blast
qed

lemma encrypt_total:
  assumes "crypto_ok c" and "cr_exchange c (fst eph) (cr_public c b) = Some shared" and "length (snd eph) = 12"
  shows "\<exists>e. encrypt_secret_payload_for_worker c sha256 eph x (cr_public c b) aad = Inr e \<and>
    we_algorithm e = envelope_algorithm"
  using exchange_sealed [OF assms(1,2)] assms(3)
  by (simp add: encrypt_secret_payload_for_worker_def aes_encrypt_def)

text \<open>The conditions under which a worker is given the secrets of its run.\<close>

definition envelope_due ::
  "envelope_keys \<Rightarrow> (string \<Rightarrow> string) \<Rightarrow> string \<times> string \<Rightarrow> string \<Rightarrow> worker \<Rightarrow> lease \<Rightarrow> run \<Rightarrow> envelope_request \<Rightarrow>
   (string \<Rightarrow> string) \<Rightarrow> 'a secret_db_scheme \<Rightarrow> bool" where
  "envelope_due ek sha256 eph priv w l r p val s \<longleftrightarrow>
     (let c = ek_crypto ek in
      crypto_ok c \<and> cr_exchange c (fst eph) (cr_public c priv) \<noteq> None \<and> length (snd eph) = 12 \<and>
      le_work_kind l = Wk_RUN_START \<and> le_run_id l = Some (rn_id r) \<and> ''SECRET_ENVELOPE'' \<in> set (wo_capabilities w) \<and>
      find_by rn_id (rn_id r) (runs s) = Some r \<and>
      (case find_by agv_id (rn_agent_version_id r) (agent_versions s) of None \<Rightarrow> False
       | Some v \<Rightarrow> set (eq_names p) \<subseteq> declared_secrets (agv_manifest v)) \<and>
      distinct (eq_names p) \<and> eq_worker_public_key_b64 p = b64encode standard_alphabet (cr_public c priv) \<and>
      find_grant (le_id l) (secret_fingerprint sha256 l p (cr_public c priv)) s = None \<and>
      (\<forall>n \<in> set (eq_names p). case secret_named l (eq_environment p) (eq_names p) s n of None \<Rightarrow> False
         | Some x \<Rightarrow> stored_as ek x (val n)))"

lemma issue_sealed:
  assumes due: "envelope_due ek sha256 eph priv w l r p val s"
  obtains e s' g where "issue_secret_envelope ek sha256 tx eph w l p s = Inr (response_of g, s')"
    and "g = new_grant ek tx w l (rn_id r) (secret_fingerprint sha256 l p (cr_public (ek_crypto ek) priv))
      (eq_names p) (eq_environment p) e (sg_id g)"
    and "encrypt_secret_payload_for_worker (ek_crypto ek) sha256 eph
      (json_dumps_ascii (secret_plaintext l r (eq_environment p) (map (\<lambda>n. (n, JStr (val n))) (eq_names p))))
      (cr_public (ek_crypto ek) priv)
      (worker_secret_aad (uuid_str (le_id l)) (uuid_str (wo_id w)) (uuid_str (rn_id r))) = Inr e"
    and "we_algorithm e = envelope_algorithm" and "g \<in> set (secret_grants s')"
proof -
  let ?c = "ek_crypto ek" and ?ns = "eq_names p"
  let ?named = "secret_named l (eq_environment p) ?ns s"
  note d = due [unfolded envelope_due_def Let_def]
  have named: "?named n = Some (the (?named n)) \<and> stored_as ek (the (?named n)) (val n)" if "n \<in> set ?ns" for n
    using d that by (auto split: option.split_asm)
  have c: "crypto_ok ?c" using d by blast
  define xs where "xs = map (\<lambda>n. (n, the (?named n))) ?ns"
  have "\<forall>(n, x) \<in> set xs. stored_as ek x (val n)" using named by (simp add: xs_def)
  then obtain s1 where rev: "reveal_all ek tx xs s = Inr (map (\<lambda>(n, x). (n, JStr (val n))) xs, s1)"
    using reveal_all_stored [OF c] by blast
  have xs: "map (\<lambda>(n, x). (n, JStr (val n))) xs = map (\<lambda>n. (n, JStr (val n))) ?ns" by (simp add: xs_def)
  have none: "(\<exists>n \<in> set ?ns. ?named n = None) = False" using named by fastforce
  have rev': "reveal_all ek tx (map (\<lambda>n. (n, the (?named n))) ?ns) s = Inr (map (\<lambda>n. (n, JStr (val n))) ?ns, s1)"
    using rev xs by (simp only: xs_def)
  obtain e where e: "encrypt_secret_payload_for_worker ?c sha256 eph
      (json_dumps_ascii (secret_plaintext l r (eq_environment p) (map (\<lambda>n. (n, JStr (val n))) ?ns)))
      (cr_public ?c priv) (worker_secret_aad (uuid_str (le_id l)) (uuid_str (wo_id w)) (uuid_str (rn_id r))) = Inr e"
      "we_algorithm e = envelope_algorithm"
    using encrypt_total [of ?c eph priv] d by blast
  define g where "g = new_grant ek tx w l (rn_id r) (secret_fingerprint sha256 l p (cr_public ?c priv)) ?ns
    (eq_environment p) e (next_id s1)"
  have "\<exists>s'. seal_secrets ek sha256 tx eph w l r p (cr_public ?c priv) s = Inr (response_of g, s') \<and>
      g \<in> set (secret_grants s')"
    unfolding seal_secrets_def Let_def none if_False rev' bind_result_simps prod.case e(1) g_def [symmetric]
    by (simp add: audit_worker_def append_audit_event_def)
  then obtain s' where s': "seal_secrets ek sha256 tx eph w l r p (cr_public ?c priv) s = Inr (response_of g, s')"
      "g \<in> set (secret_grants s')" by blast
  have "issue_secret_envelope ek sha256 tx eph w l p s = Inr (response_of g, s')"
    using d s'(1) decode_public_key [of ?c priv]
    by (auto simp: issue_secret_envelope_def find_run_def split: option.split_asm)
  then show ?thesis using e s'(2) by (intro that [of g s' e]) (simp_all add: g_def new_grant_def)
qed

subsection \<open>Properties\<close>

text \<open>
  C29: a run's worker gets exactly the secrets it asked for. When the request is due, the service issues an
  envelope that expires no later than the lease, and the worker that holds the private key opens it to an
  object that names the lease, the run and the environment and maps the requested names, and no others, to
  the values that were encrypted into the project's rows.
\<close>

theorem secret_envelope_roundtrip:
  assumes "envelope_due ek sha256 eph priv w l r p val s"
  shows "\<exists>e s'. issue_secret_envelope ek sha256 tx eph w l p s = Inr (e, s') \<and> ev_expires_at e \<le> le_expires_at l \<and>
    (\<forall>d. carries d e \<longrightarrow> (\<exists>q m. decrypt_secret_envelope (ek_crypto ek) priv d (uuid_str (le_id l))
        (uuid_str (wo_id w)) (uuid_str (rn_id r)) = Inr q \<and>
      dget q ''lease_id'' = juuid (le_id l) \<and> dget q ''run_id'' = juuid (rn_id r) \<and>
      dget q ''environment'' = JStr (eq_environment p) \<and> dget q ''secrets'' = JDict m \<and>
      dkeys m = set (eq_names p) \<and> (\<forall>n \<in> set (eq_names p). dget m n = JStr (val n))))"
proof -
  let ?vals = "map (\<lambda>n. (n, JStr (val n))) (eq_names p)"
  let ?v = "secret_plaintext l r (eq_environment p) ?vals"
  from assms obtain e s' g where run: "issue_secret_envelope ek sha256 tx eph w l p s = Inr (response_of g, s')"
    and g: "g = new_grant ek tx w l (rn_id r) (secret_fingerprint sha256 l p (cr_public (ek_crypto ek) priv))
      (eq_names p) (eq_environment p) e (sg_id g)"
    and e: "encrypt_secret_payload_for_worker (ek_crypto ek) sha256 eph (json_dumps_ascii ?v)
      (cr_public (ek_crypto ek) priv)
      (worker_secret_aad (uuid_str (le_id l)) (uuid_str (wo_id w)) (uuid_str (rn_id r))) = Inr e"
    and alg: "we_algorithm e = envelope_algorithm"
    by (rule issue_sealed)
  have c: "crypto_ok (ek_crypto ek)" and ns: "distinct (eq_names p)"
    using assms by (simp_all add: envelope_due_def Let_def)
  have v: "plain_json ?v" using plain_values [OF ns, of val] by (simp add: secret_plaintext_def)
  have m: "map_of ?vals n = Some (JStr (val n))" if "n \<in> set (eq_names p)" for n
    using that ns by (induction "eq_names p") (auto simp: map_of_eq_Some_iff comp_def)
  have opened: "\<exists>q m. decrypt_secret_envelope (ek_crypto ek) priv d (uuid_str (le_id l)) (uuid_str (wo_id w))
        (uuid_str (rn_id r)) = Inr q \<and>
      dget q ''lease_id'' = juuid (le_id l) \<and> dget q ''run_id'' = juuid (rn_id r) \<and>
      dget q ''environment'' = JStr (eq_environment p) \<and> dget q ''secrets'' = JDict m \<and>
      dkeys m = set (eq_names p) \<and> (\<forall>n \<in> set (eq_names p). dget m n = JStr (val n))"
    if d: "carries d (response_of g)" for d
  proof -
    have "open_envelope (ek_crypto ek) priv d
        (worker_secret_aad (uuid_str (le_id l)) (uuid_str (wo_id w)) (uuid_str (rn_id r))) = Inr (canon ?v)"
      using open_sealed [OF c e v] d g by metis
    moreover have "map_of d ''algorithm'' = Some (JStr envelope_algorithm)"
      using d alg by (subst (asm) g) (simp add: carries_def response_of_def new_grant_def)
    moreover obtain pl where pl: "?v = JDict pl" "distinct (map fst pl)"
        "map_of pl ''lease_id'' = Some (juuid (le_id l))" "map_of pl ''run_id'' = Some (juuid (rn_id r))"
        "map_of pl ''environment'' = Some (JStr (eq_environment p))" "map_of pl ''secrets'' = Some (JDict ?vals)"
      by (simp add: secret_plaintext_def)
    ultimately show ?thesis
      unfolding pl(1) canon_dict using pl(2-) dget_canon_items [OF pl(2)]
      by (intro exI [of _ "canon_items pl"] exI [of _ "canon_items ?vals"])
        (simp add: decrypt_secret_envelope_def item_def as_dict_def canon_dict dkeys_canon_items
          dget_canon_items m ns comp_def dkeys_def image_image del: canon.simps(2))
  qed
  have "ev_expires_at (response_of g) \<le> le_expires_at l"
    by (subst g) (simp add: response_of_def new_grant_def)
  with run opened show ?thesis by blast
qed

text \<open>A concrete instance of the primitives, a stored secret and a worker entitled to it.\<close>

definition ex_pub :: "string \<Rightarrow> string" where
  "ex_pub a = take 32 (a @ replicate 32 CHR ''p'')"

definition ex_sum :: "string \<Rightarrow> nat" where
  "ex_sum a = sum_list (map code_point a)"

definition ex_crypto :: crypto where
  "ex_crypto = \<lparr>cr_seal = (\<lambda>key nonce d aad. key @ nonce @ aad @ d),
     cr_open = (\<lambda>key nonce d aad. let t = key @ nonce @ aad
       in if take (length t) d = t then Some (drop (length t) d) else None),
     cr_public = ex_pub, cr_exchange = (\<lambda>a q. Some [char_of (ex_sum (ex_pub a) + ex_sum q)]),
     cr_hkdf = (\<lambda>x. take 32 (x @ replicate 32 CHR ''k''))\<rparr>"

lemma ex_crypto_ok: "crypto_ok ex_crypto"
  by (simp add: crypto_ok_def ex_crypto_def ex_pub_def Let_def add.commute min_def)

definition ex_keys :: envelope_keys where
  "ex_keys = \<lparr>ek_crypto = ex_crypto, ek_master_key = replicate 32 CHR ''m'', ek_master_key_version = ''local-v1'',
     ek_envelope_seconds = 60\<rparr>"

definition ex_random :: secret_random where
  "ex_random = \<lparr>sr_data_key = replicate 32 CHR ''d'', sr_value_nonce = replicate 12 CHR ''v'',
     sr_key_nonce = replicate 12 CHR ''w''\<rparr>"

definition ex_secret :: project_secret where
  "ex_secret = (case encrypt_project_secret ex_crypto (replicate 32 CHR ''m'', ''local-v1'') ex_random ''hunter2''
       2 3 50 ''API_KEY'' 1 of
     Inr e \<Rightarrow> \<lparr>ps_id = 50, ps_organization_id = 2, ps_project_id = 3, ps_name = ''API_KEY'', ps_description = None,
       ps_environment = ''production'', ps_encrypted_value = en_ciphertext e, ps_value_nonce = en_value_nonce e,
       ps_wrapped_data_key = en_wrapped_data_key e, ps_key_nonce = en_key_nonce e,
       ps_encryption_algorithm = en_algorithm e, ps_master_key_version = en_master_key_version e,
       ps_last_used_at = None, ps_created_by_user_id = 7, ps_updated_by_user_id = 7, ps_version = 1,
       ps_created_at = 0, ps_updated_at = 0\<rparr>)"

definition ex_secret_db :: secret_db where
  "ex_secret_db = \<lparr>audit_log = [], next_id = 100, run_events = [], leases = [ex_lease], builds = [ex_build],
     build_outbox = [ex_dispatch], runs = [ex_run], run_commands = [ex_start], projects = [ex_project],
     workers = [ex_worker], secret_grants = [], recovery_state = Some ex_recovery, run_idempotency = [],
     agent_versions = [\<lparr>agv_id = 5, agv_manifest = [(''secrets'', JList [JStr ''API_KEY''])]\<rparr>],
     artifacts = [], storage_objects = [], bound_policies = [], bound_revisions = [],
     project_secrets = [ex_secret]\<rparr>"

definition ex_envelope_request :: envelope_request where
  "ex_envelope_request = \<lparr>eq_names = [''API_KEY''], eq_environment = ''production'',
     eq_worker_public_key_b64 = b64encode standard_alphabet (ex_pub ''worker key'')\<rparr>"

abbreviation ex_secret_worker :: worker where
  "ex_secret_worker \<equiv> ex_worker\<lparr>wo_capabilities := [''RUN_START'', ''SECRET_ENVELOPE'']\<rparr>"

abbreviation ex_eph :: "string \<times> string" where
  "ex_eph \<equiv> (''ephemeral'', replicate 12 CHR ''n'')"

lemma ex_secret_stored: "ps_name ex_secret = ''API_KEY'' \<and> ps_organization_id ex_secret = 2 \<and>
  ps_project_id ex_secret = 3 \<and> ps_environment ex_secret = ''production'' \<and> ps_id ex_secret = 50 \<and>
  stored_as ex_keys ex_secret ''hunter2''"
proof -
  let ?e = "encrypt_project_secret ex_crypto (replicate 32 CHR ''m'', ''local-v1'') ex_random ''hunter2'' 2 3 50 ''API_KEY'' 1"
  obtain e where e: "?e = Inr e"
    by (simp add: encrypt_project_secret_def aes_encrypt_def ex_random_def Let_def)
  then show ?thesis
    unfolding stored_as_def ex_secret_def e sum.case
    by (simp add: ex_keys_def) (intro exI [of _ ex_random] exI [of _ e] conjI e refl)
qed

lemma ex_envelope_due:
  "envelope_due ex_keys id ex_eph ''worker key'' ex_secret_worker ex_lease ex_run ex_envelope_request
     (\<lambda>_. ''hunter2'') ex_secret_db"
proof -
  have "secret_named ex_lease ''production'' [''API_KEY''] ex_secret_db ''API_KEY'' = Some ex_secret"
    using ex_secret_stored by (simp add: secret_named_def ex_secret_db_def ex_lease_def)
  moreover have "cr_public ex_crypto = ex_pub" "cr_exchange ex_crypto a b \<noteq> None" for a b
    by (simp_all add: ex_crypto_def)
  ultimately show ?thesis
    using ex_crypto_ok ex_secret_stored
    by (simp add: envelope_due_def ex_keys_def ex_envelope_request_def ex_lease_def ex_run_def ex_secret_db_def
        find_grant_def find_by_def declared_secrets_def dget_def List.map_filter_def as_str_def)
qed

definition data_of :: "envelope_response \<Rightarrow> dict" where
  "data_of e = [(''algorithm'', JStr (ev_algorithm e)),
     (''ephemeral_public_key_b64'', JStr (ev_ephemeral_public_key_b64 e)), (''nonce_b64'', JStr (ev_nonce_b64 e)),
     (''ciphertext_b64'', JStr (ev_ciphertext_b64 e))]"

theorem secret_envelope_roundtrip_witness:
  "\<exists>e s' q m. issue_secret_envelope ex_keys id (ex_tx 920) ex_eph ex_secret_worker ex_lease ex_envelope_request
       ex_secret_db = Inr (e, s') \<and>
     decrypt_secret_envelope ex_crypto ''worker key'' (data_of e) (uuid_str 12) (uuid_str 1) (uuid_str 10) = Inr q \<and>
     dget q ''secrets'' = JDict m \<and> dget m ''API_KEY'' = JStr ''hunter2''"
proof -
  have "carries (data_of e) e" for e by (simp add: carries_def data_of_def)
  moreover have "ek_crypto ex_keys = ex_crypto" "le_id ex_lease = 12" "wo_id ex_secret_worker = 1" "rn_id ex_run = 10"
      "set (eq_names ex_envelope_request) = {''API_KEY''}"
    by (simp_all add: ex_keys_def ex_lease_def ex_worker_def ex_run_def ex_envelope_request_def)
  ultimately show ?thesis
    using secret_envelope_roundtrip [OF ex_envelope_due, of "ex_tx 920"] by (metis insertI1)
qed

end
