(* ===== verification/Exec_Steps.thy ===== *)
theory Exec_Steps
  imports Exec_Admission Run_Cancel Secret_Envelopes
begin

section \<open>Every handler keeps the execution plane consistent\<close>

text \<open>
  The handlers of workers, leases, cancellations and envelopes keep the invariant of \<open>Exec_Invariant\<close>, and
  a lease only ever moves forward: its identity, its source, its deadline and its token stay, and a closed
  lease stays closed. The two facts together are the relation \<open>keeps\<close>, which composes.
\<close>

subsection \<open>The common guarantee\<close>

definition leases_grow :: "'b exec_settings_scheme \<Rightarrow> instant \<Rightarrow> 'a exec_db_scheme \<Rightarrow> 'a exec_db_scheme \<Rightarrow> bool" where
  "leases_grow st t s s' \<longleftrightarrow> (\<exists>ls ms. leases s' = ls @ ms \<and> list_all2 (lease_le st) (leases s) ls \<and>
     (\<forall>m \<in> set ms. le_claimed_at m \<le> t))"

definition keeps :: "'b exec_settings_scheme \<Rightarrow> txn \<Rightarrow> 'a exec_db_scheme \<Rightarrow> 'a exec_db_scheme \<Rightarrow> bool" where
  "keeps st tx s s' \<longleftrightarrow> (exec_inv st s \<longrightarrow> exec_inv st s') \<and> leases_grow st (tx_now tx) s s'"

lemma lease_le_refl [simp]: "lease_le st l l"
  by (simp add: lease_le_def)

lemma leases_grow_same: "leases s' = leases s \<Longrightarrow> leases_grow st t s s'"
  unfolding leases_grow_def by (intro exI [of _ "leases s"] exI [of _ "[]"]) (simp add: list_all2_refl)

lemma leases_grow_trans:
  assumes "leases_grow st t s s'" and "leases_grow st t s' s''"
  shows "leases_grow st t s s''"
proof -
  from assms(1) obtain ls ms where a: "leases s' = ls @ ms" "list_all2 (lease_le st) (leases s) ls"
    "\<forall>m \<in> set ms. le_claimed_at m \<le> t" by (auto simp: leases_grow_def)
  from assms(2) a(1) obtain ls' ms' ns where b: "leases s'' = (ls' @ ms') @ ns" "list_all2 (lease_le st) ls ls'"
    "list_all2 (lease_le st) ms ms'" "\<forall>m \<in> set ns. le_claimed_at m \<le> t"
    by (auto simp: leases_grow_def list_all2_append1)
  have "list_all2 (lease_le st) (leases s) ls'"
    using list_all2_trans [of "lease_le st" "lease_le st" "lease_le st", OF lease_le_trans a(2) b(2)] .
  moreover have "\<forall>m \<in> set ms'. le_claimed_at m \<le> t"
    using a(3) by (auto simp: lease_le_def elim!: list_all2_in2 [OF b(3)])
  ultimately show ?thesis
    unfolding leases_grow_def using b(1,4) by (intro exI [of _ ls'] exI [of _ "ms' @ ns"]) auto
qed

lemma keeps_refl [simp]: "keeps st tx s s"
  by (simp add: keeps_def leases_grow_same)

lemma keeps_trans [trans]: "keeps st tx s s' \<Longrightarrow> keeps st tx s' s'' \<Longrightarrow> keeps st tx s s''"
  unfolding keeps_def using leases_grow_trans by blast

lemma keeps_recovers: "recovers st s s' \<Longrightarrow> keeps st tx s s'"
  unfolding keeps_def leases_grow_def
  by (intro conjI exI [of _ "leases s'"] exI [of _ "[]"]) (auto intro: recovers_inv dest: recoversD(2))

lemma keepsD: "keeps st tx s s' \<Longrightarrow> exec_inv st s \<Longrightarrow> exec_inv st s'"
  by (simp add: keeps_def)

text \<open>A handler may use up identifiers and write to tables the invariant does not speak about.\<close>

lemma keeps_frame:
  assumes "leases s' = leases s" "build_outbox s' = build_outbox s" "run_commands s' = run_commands s"
    "secret_grants s' = secret_grants s" "map rn_id (runs s') = map rn_id (runs s)"
    "map bd_id (builds s') = map bd_id (builds s)" "next_id s \<le> next_id s'" "run_events s' = run_events s"
  shows "keeps st tx s s'"
proof -
  have "source_at s' = source_at s" by (rule source_at_cong) (fact assms)+
  moreover have "tables_ok s \<Longrightarrow> tables_ok s'"
    using assms by (auto simp: tables_ok_def intro: fresh_ids_grow)
  ultimately show ?thesis
    using assms by (simp add: keeps_def leases_grow_same exec_inv_def lease_tied_def sources_ok_def active_id_def)
qed

lemma keeps_audit [simp]:
  "keeps st tx s (append_audit_event tx' a b c d e f g h s)"
  "keeps st tx s (audit_worker tx' w l x y i z s)"
  by (simp_all add: audit_worker_def keeps_recovers)

lemma recovers_put_lease:
  assumes "l \<in> set (leases s)" and "lease_le st l l'" and "le_status l' = le_status l"
    and "distinct (map le_id (leases s))"
  shows "recovers st s (put_lease l' s)"
proof -
  have row: "x = l" if "x \<in> set (leases s)" "le_id x = le_id l'" for x
    using distinct_key_unique [OF assms(4) that(1) assms(1)] that(2) assms(2) by (simp add: lease_le_def)
  have ll: "list_all2 (lease_le st) (leases s) (leases (put_lease l' s))"
    using row assms(2) by (auto simp: put_lease_def upd_by_def list.rel_map intro!: list.rel_refl_strong)
  have "source_at (put_lease l' s) = source_at s" by (rule source_at_cong) (simp_all add: put_lease_def)
  moreover have "active_id (put_lease l' s) i" if "active_id s i" for i
  proof -
    from that obtain x where x: "x \<in> set (leases s)" "le_id x = i" "le_status x = Le_ACTIVE"
      by (auto simp: active_id_def)
    let ?y = "if le_id x = le_id l' then l' else x"
    have "?y \<in> set (leases (put_lease l' s))" using x(1) by (auto simp: put_lease_def set_upd_by)
    moreover have "le_id ?y = i" "le_status ?y = Le_ACTIVE" using row [OF x(1)] x assms(3) by auto
    ultimately show ?thesis unfolding active_id_def by blast
  qed
  moreover have "rel_option (source_le st (put_lease l' s) k) (source_at s k) (source_at s k)" for k
    by (cases "source_at s k") (simp_all add: source_le_def)
  ultimately show ?thesis
    using ll by (simp add: recovers_def same_keys_def) (simp add: put_lease_def)
qed

subsection \<open>Workers\<close>

lemma keeps_register:
  assumes "register_worker st digest sha256 tx issued p s = Inr (w, s')"
  shows "keeps st tx s s'"
proof -
  let ?s = "\<lambda>w. s\<lparr>workers := workers s @ [w], next_id := next_id s + 1\<rparr>"
  have "keeps st tx (?s w) s'"
    using assms unfolding register_worker_def Let_def by (auto split: if_split_asm)
  moreover have "keeps st tx s (?s w)" by (rule keeps_frame) simp_all
  ultimately show ?thesis using keeps_trans by blast
qed

lemma keeps_workers: "keeps st tx s (s\<lparr>workers := ws\<rparr>)"
  by (rule keeps_frame) simp_all

lemma keeps_resolve:
  assumes "resolve_worker_context digest tx a s = Inr (w, s')"
  shows "keeps st tx s s'"
  using assms keeps_workers
  by (cases "partition_space (the a)")
    (auto simp: resolve_worker_context_def Let_def split: option.split_asm if_split_asm)

lemma keeps_reap:
  assumes "reap_expired_leases st tx b rc s = Inr (n, s')" and "exec_inv st s"
  shows "keeps st tx s s'"
  by (rule keeps_recovers) (rule recovers_reap_expired [OF assms(2,1)])

lemma heartbeat_worker_cases:
  assumes "heartbeat_worker st sha256 tx i p s = Inr (w', s')"
  obtains s1 ws n where "s1 = s \<or> (\<exists>r w. s1 = audit_recovered tx r w s)"
    and "reap_expired_leases st tx 100 True (s1\<lparr>workers := ws\<rparr>) = Inr (n, s')"
  using assms
  by (auto simp: heartbeat_worker_def Let_def bind_result_Inr_iff split: option.split_asm if_split_asm)
    (rule that [rotated], assumption, blast)+

lemma keeps_heartbeat:
  assumes "heartbeat_worker st sha256 tx i p s = Inr (w', s')" and inv: "exec_inv st s"
  shows "keeps st tx s s'"
  using assms(1)
proof (cases rule: heartbeat_worker_cases)
  case (1 s1 ws n)
  have "keeps st tx s s1" using 1(1) by (auto simp: audit_recovered_def)
  also have "keeps st tx s1 (s1\<lparr>workers := ws\<rparr>)" by (rule keeps_workers)
  finally have k: "keeps st tx s (s1\<lparr>workers := ws\<rparr>)" .
  also have "keeps st tx (s1\<lparr>workers := ws\<rparr>) s'" using keeps_reap [OF 1(2) keepsD [OF k inv]] .
  finally show ?thesis .
qed

lemma keeps_claim:
  assumes run: "claim_work st idna sha256 token tx wid kinds s = Inr (r, s')" and inv: "exec_inv st s"
    and st: "settings_ok st"
  shows "keeps st tx s s'"
  using inv st run
proof (cases rule: claim_work_cases)
  case (granted m s1 w kind src l)
  have "leases_grow st (tx_now tx) s s1" using keeps_reap [OF granted(1) inv] by (simp add: keeps_def)
  moreover have "leases_grow st (tx_now tx) s1 s'"
    unfolding leases_grow_def using granted(9)
    by (intro exI [of _ "leases s1"] exI [of _ "[l]"]) (simp add: grants_def list_all2_refl)
  ultimately show ?thesis using granted(5) leases_grow_trans by (auto simp: keeps_def)
next
  case (refused m s1)
  have "leases_grow st (tx_now tx) s s1" using keeps_reap [OF refused(1) inv] by (simp add: keeps_def)
  with refused(2,4) show ?thesis using leases_grow_same leases_grow_trans by (fastforce simp: keeps_def)
qed

subsection \<open>Leases\<close>

definition lease_held :: "txn \<Rightarrow> worker \<Rightarrow> lease \<Rightarrow> 'a exec_db_scheme \<Rightarrow> bool" where
  \<comment> \<open>what \<open>require_lease_access\<close> has checked of the row it has locked\<close>
  "lease_held tx w l s \<longleftrightarrow> l \<in> set (leases s) \<and> le_worker_id l = wo_id w \<and> lease_live (tx_now tx) l"

lemma require_lease_access_held:
  assumes "require_lease_access digest tx (wo_id w) lid token s = Inr l"
  shows "lease_held tx w l s \<and> le_id l = lid"
  using assms
  by (auto simp: require_lease_access_def lease_held_def find_Some_iff split: option.split_asm if_split_asm)

lemma exec_inv_distinct: "exec_inv st s \<Longrightarrow> distinct (map le_id (leases s))"
  by (auto dest!: exec_invD(1) simp: tables_ok_def fresh_ids_def)

lemma keeps_renew:
  assumes run: "renew_lease st tx w l n s = Inr (l', s')" and inv: "exec_inv st s" and held: "lease_held tx w l s"
    and n: "0 \<le> n"
  shows "keeps st tx s s'"
proof -
  from run obtain e where e: "clamp_lease_expiry (max (tx_now tx) (le_expires_at l) + seconds n) (le_claimed_at l)
      (st_worker_lease_max_seconds st) (le_deadline_at l) = Inr e" "tx_now tx < e"
    and l': "l' = l\<lparr>le_expires_at := e, le_last_renewed_at := Some (tx_now tx), le_updated_at := tx_now tx\<rparr>"
    and s': "keeps st tx (put_lease l' s) s'"
    by (auto simp: renew_lease_def bind_result_Inr_iff Let_def split: if_split_asm)
  have l: "l \<in> set (leases s)" using held by (simp add: lease_held_def)
  have ok: "lease_ok st l" using exec_invD(2) [OF inv l] .
  then have "lease_ok st l'"
    using e n by (auto simp: lease_ok_def l' clamp_lease_expiry_Inr seconds_def)
  then have "lease_le st l l'" by (simp add: lease_le_def l' source_key_def)
  then have "recovers st s (put_lease l' s)"
    using l by (intro recovers_put_lease [OF _ _ _ exec_inv_distinct [OF inv]]) (simp_all add: l')
  with s' show ?thesis using keeps_recovers keeps_trans by blast
qed

lemma leases_put [simp]: "leases (put_run r s) = leases s" "leases (put_build b s) = leases s"
  by (simp_all add: put_run_def put_build_def)

lemma recovers_run_row: "run_event_for tx r et p (put_run r' s) = Inr s' \<Longrightarrow> recovers st s s'"
  using recovers_put_run recovers_event recovers_trans by blast

lemma keeps_status:
  assumes run: "update_lease_status tx w l status msg s = Inr (l', s')" and inv: "exec_inv st s"
    and held: "lease_held tx w l s"
  shows "keeps st tx s s'"
proof -
  from run obtain s1 where s1: "(if le_work_kind l = Wk_BUILD then update_build_status tx l status s
       else update_run_status tx l status msg s) = Inr s1"
    and l': "l' = l\<lparr>le_last_renewed_at := Some (tx_now tx), le_updated_at := tx_now tx\<rparr>"
    and s': "keeps st tx (put_lease l' s1) s'"
    by (auto simp: update_lease_status_def bind_result_Inr_iff Let_def)
  have a: "recovers st s s1 \<and> leases s1 = leases s"
    using s1 by (auto simp: update_build_status_def update_run_status_def Let_def recovers_put_build
        recovers_put_run recovers_run_row same_limits_def dest: event_limits split: option.split_asm if_split_asm)
  have "lease_le st l l'" by (simp add: lease_le_def l' source_key_def lease_ok_def)
  then have "recovers st s1 (put_lease l' s1)"
    using held a exec_inv_distinct [OF inv] by (intro recovers_put_lease [of l]) (simp_all add: l' lease_held_def)
  with a s' show ?thesis using keeps_recovers keeps_trans by blast
qed

lemma recovers_append_events: "append_events tx r es s = Inr s' \<Longrightarrow> recovers st s s'"
proof (induction es arbitrary: s)
  case (Cons e es)
  then show ?case
    by (auto simp: bind_result_Inr_iff) (blast intro: recovers_trans recovers_event)
qed simp

lemma keeps_events:
  assumes "append_worker_events tx w l es s = Inr (n, s')"
  shows "keeps st tx s s'"
  using assms keeps_trans [OF keeps_recovers [OF recovers_append_events] keeps_audit(2)]
  by (auto simp: append_worker_events_def bind_result_Inr_iff split: if_split_asm option.split_asm)

subsection \<open>Completion\<close>

definition same_but_artifacts :: "'a claim_db_scheme \<Rightarrow> 'a claim_db_scheme \<Rightarrow> bool" where
  "same_but_artifacts s s' \<longleftrightarrow> leases s' = leases s \<and> builds s' = builds s \<and> build_outbox s' = build_outbox s \<and>
     runs s' = runs s \<and> run_commands s' = run_commands s \<and> secret_grants s' = secret_grants s \<and>
     run_events s' = run_events s \<and> next_id s \<le> next_id s'"

lemma register_artifacts_frame:
  "register_artifacts st store tx w l ps s = Inr (xs, s') \<Longrightarrow> same_but_artifacts s s'"
proof (induction ps arbitrary: s xs)
  case (Cons p ps)
  then obtain a s1 ys where one: "register_artifact st store tx w l p s = Inr (a, s1)"
    and rest: "register_artifacts st store tx w l ps s1 = Inr (ys, s')"
    by (auto simp: bind_result_Inr_iff)
  have "same_but_artifacts s s1"
    using one
    by (auto simp: register_artifact_def same_but_artifacts_def bind_result_Inr_iff Let_def
        split: if_split_asm option.split_asm sum.split_asm)
  with Cons.IH [OF rest] show ?case by (auto simp: same_but_artifacts_def)
qed (auto simp: same_but_artifacts_def)

lemma keeps_artifacts: "same_but_artifacts s s' \<Longrightarrow> keeps st tx s s'"
  by (rule keeps_frame) (auto simp: same_but_artifacts_def)

lemma gives_back_trans [trans]:
  assumes "gives_back st l s s'" and "gives_back st l s' s''"
  shows "gives_back st l s s''"
proof -
  have "rel_option (given_back st l k) (source_at s k) (source_at s'' k)" for k
  proof -
    have "rel_option (given_back st l k) (source_at s k) (source_at s' k)"
      "rel_option (given_back st l k) (source_at s' k) (source_at s'' k)"
      using assms unfolding gives_back_def by blast+
    then show ?thesis
      by (cases "source_at s k"; cases "source_at s' k"; cases "source_at s'' k") (auto simp: given_back_def)
  qed
  with assms show ?thesis by (auto simp: gives_back_def same_keys_def)
qed

lemma gives_back_rows:
  "gives_back st l s (put_run r s)" "gives_back st l s (put_build b s)" "gives_back st l s s"
  by (simp_all add: gives_back_def same_keys_def put_run_def put_build_def upd_by_def source_at_def given_back_refl)

lemma gives_back_event:
  assumes "run_event_for tx r et p s = Inr s'"
  shows "gives_back st l s s'"
proof -
  from assms have run: "append_run_event tx (rn_organization_id r) (rn_project_id r) (rn_id r) et p s = Inr s'"
    by (simp add: run_event_for_def)
  obtain e where e: "s' = s\<lparr>run_events := run_events s @ [e]\<rparr>" using run by (rule append_run_event_cases)
  moreover have "events_numbered (run_events s) \<Longrightarrow> events_numbered (run_events s')"
    using events_numbered_append [OF _ run] by blast
  moreover have "source_at s' = source_at s" by (rule source_at_cong) (simp_all add: e)
  ultimately show ?thesis by (simp add: gives_back_def same_keys_def given_back_refl)
qed

lemma gives_back_close: "x \<noteq> Ob_PENDING \<Longrightarrow> gives_back st l s (close_source tx l x e s)"
  unfolding gives_back_def close_source_def same_keys_def
  by (auto simp: map_upd_by source_at_def find_by_upd_by given_back_refl given_back_def option.rel_map
      intro: option.rel_refl)

lemma gives_back_reopen:
  "le_attempt l < st_worker_max_attempts st \<Longrightarrow> gives_back st l s (reopen_source tx l t e s)"
  unfolding gives_back_def reopen_source_def same_keys_def
  by (auto simp: map_upd_by source_at_def find_by_upd_by given_back_refl given_back_def option.rel_map source_key_def
      intro: option.rel_refl)

lemma gives_back_reset_retry: "reset_retry_target tx l s = Inr s' \<Longrightarrow> gives_back st l s s'"
  using gives_back_trans [OF gives_back_rows(1) gives_back_event]
  by (auto simp: reset_retry_target_def Let_def gives_back_rows split: if_split_asm option.split_asm)

definition closed_as :: "txn \<Rightarrow> lease \<Rightarrow> lease \<Rightarrow> bool" where
  "closed_as tx l l' \<longleftrightarrow> (\<exists>x fc sm. x \<noteq> Le_ACTIVE \<and> l' = close_lease_row tx x fc sm l)"

lemma closed_asI: "x \<noteq> Le_ACTIVE \<Longrightarrow> closed_as tx l (close_lease_row tx x fc sm l)"
  by (auto simp: closed_as_def)

lemma gives_back_retry:
  assumes "retry_completion st tx l p s = Inr (l', t, s')" and "le_attempt l < st_worker_max_attempts st"
  shows "gives_back st l s s' \<and> closed_as tx l l'"
  using assms gives_back_trans [OF gives_back_reopen gives_back_reset_retry]
  by (auto simp: retry_completion_def Let_def bind_result_Inr_iff closed_asI)

lemma gives_back_complete_build:
  assumes "complete_build tx l p img s = Inr (l', s')"
  shows "gives_back st l s s' \<and> closed_as tx l l'"
  using assms
  by (auto simp: complete_build_def Let_def bind_result_Inr_iff closed_asI split: option.split_asm if_split_asm
      intro!: gives_back_trans [OF gives_back_rows(2) gives_back_close])

lemma complete_run_cases:
  assumes "complete_run tx w l p s = Inr (l', s')"
  obtains r where "find_run (le_run_id l) s = Some r" and "gives_back st l (confirm_cancel tx w l p r s) s'"
    and "closed_as tx l l'"
proof -
  from assms obtain r where r: "find_run (le_run_id l) s = Some r"
    by (cases "find_run (le_run_id l) s") (simp_all add: complete_run_def)
  define r' where "r' = (complete_run_row l p r)\<lparr>rn_finished_at := Some (tx_now tx), rn_updated_at := tx_now tx,
      rn_version := rn_version r + 1\<rparr>"
  define x where "x = (rn_status r' \<in> {Rn_SUCCEEDED, Rn_ABORTED})"
  from assms obtain s2 s3 e where ev: "run_event_for tx r' ''run.status'' (status_payload (rn_status r) (rn_status r'))
        (put_run r' (confirm_cancel tx w l p r s)) = Inr s2"
      "run_event_for tx r' (if x then ''run.completed'' else ''run.failed'') e s2 = Inr s3"
    and s': "s' = close_source tx l (if x then Ob_DELIVERED else Ob_FAILED) (rn_failure_code r') s3"
    and l': "l' = close_lease_row tx (if x then Le_COMPLETED else Le_FAILED) (rn_failure_code r') (rn_failure_summary r') l"
    unfolding complete_run_def r option.case Let_def r'_def [symmetric] x_def [symmetric] bind_result_Inr_iff by blast
  have "gives_back st l (confirm_cancel tx w l p r s) s2"
    using gives_back_trans [OF gives_back_rows(1) gives_back_event [OF ev(1)]] .
  also have "gives_back st l s2 s3" using gives_back_event [OF ev(2)] .
  also have "gives_back st l s3 s'" unfolding s' by (rule gives_back_close) simp
  finally show thesis using that r by (simp add: l' closed_asI)
qed

text \<open>The row of the lease when it is closed: the one the handler was given, or that row fenced.\<close>

definition row_of :: "txn \<Rightarrow> lease \<Rightarrow> 'a exec_db_scheme \<Rightarrow> lease \<Rightarrow> bool" where
  "row_of tx l s x \<longleftrightarrow> x \<in> set (leases s) \<and> latest s x \<and> (x = l \<or> x = cancel_lease_row tx l)"

lemma row_of_frame:
  assumes "row_of tx l s x" and "leases s' = leases s" and "source_at s' = source_at s"
  shows "row_of tx l s' x"
  using assms by (simp add: row_of_def latest_def)

lemma fence_row:
  assumes f: "fence_cancelled_run_leases tx i pl ps s = (n, s')" and x: "row_of tx l s x"
  obtains y where "row_of tx l s' y"
proof -
  let ?y = "if le_id x \<in> set (fenced_ids tx i pl (leases s)) then cancel_lease_row tx x else x"
  have "latest s' ?y"
    using x by (intro recovers_latest [OF recovers_fence [OF f], where l = x])
      (simp_all add: row_of_def cancel_lease_row_def source_key_def)
  moreover have "?y \<in> set (leases s')" using x by (simp add: fence_sel(1) [OF f] row_of_def)
  moreover have "cancel_lease_row tx (cancel_lease_row tx l) = cancel_lease_row tx l"
    by (simp add: cancel_lease_row_def)
  ultimately show thesis using that [of ?y] x by (auto simp: row_of_def)
qed

lemma recovers_close_lease:
  assumes inv: "exec_inv st s" and x: "row_of tx l s x" and gb: "gives_back st l s s1" and l': "closed_as tx l l'"
  shows "recovers st s (put_lease l' (s1\<lparr>secret_grants := revoke_grants (le_id l') (secret_grants s1)\<rparr>))"
    (is "recovers st s ?s")
proof (rule recovers_give_back [OF inv])
  let ?f = "\<lambda>y. if y = l \<or> y = cancel_lease_row tx l then l' else y\<lparr>le_status := Le_FAILED\<rparr>"
  note g = gb [unfolded gives_back_def]
  have same: "le_id l' = le_id l" "source_key l' = source_key l" "le_attempt l' = le_attempt l"
      "le_lease_token_digest l' = le_lease_token_digest l" "le_worker_id l' = le_worker_id l"
      "le_project_id l' = le_project_id l" "le_deadline_at l' = le_deadline_at l" "le_claimed_at l' = le_claimed_at l"
      "le_expires_at l' = le_expires_at l" "le_work_kind l' = le_work_kind l" "le_run_id l' = le_run_id l"
      "le_status l' \<noteq> Le_ACTIVE"
    using l' by (auto simp: closed_as_def close_lease_row_def source_key_def)
  show "x \<in> set (leases s)" "latest s x" using x by (simp_all add: row_of_def)
  have k: "le_id x = le_id l" "source_key x = source_key l" "le_attempt x = le_attempt l"
    using x by (auto simp: row_of_def cancel_lease_row_def source_key_def)
  show "closes ?f" by (auto simp: closes_def same) (simp_all add: cancel_lease_row_def source_key_def)
  have "y = x" if "y \<in> set (leases s)" "le_id y = le_id l" for y
    using distinct_key_unique [OF exec_inv_distinct [OF inv] that(1) \<open>x \<in> set (leases s)\<close>] that(2) k(1) by simp
  then show "leases ?s = upd_by le_id (le_id x) ?f (leases s)"
    using g x k(1) by (auto simp: put_lease_def upd_by_def same row_of_def)
  show "g \<in> set (secret_grants s) \<and> sg_lease_id g \<noteq> le_id x"
    if "g \<in> set (secret_grants ?s)" "sg_status g = Gr_ISSUED" for g
    using that g k(1) same(1) by (auto simp: put_lease_def revoke_grants_def split: if_splits)
  show "same_keys s ?s" using g by (simp add: same_keys_def put_lease_def)
  have "source_at ?s = source_at s1" by (rule source_at_cong) (simp_all add: put_lease_def)
  moreover have "given_back st x = given_back st l" by (simp add: given_back_def k fun_eq_iff)
  ultimately show "rel_option (given_back st x j) (source_at s j) (source_at ?s j)" for j using g by metis
  show "events_numbered (run_events s) \<Longrightarrow> events_numbered (run_events ?s)"
    using g by (simp add: put_lease_def)
qed

lemma row_of_self: "l \<in> set (leases s) \<Longrightarrow> latest s l \<Longrightarrow> row_of tx l s l"
  by (simp add: row_of_def)

lemma converge_late_cases:
  assumes "converge_late tx l s = Inr (b, s')" and "l \<in> set (leases s)" and "latest s l"
  shows "recovers st s s'" and "\<not> b \<Longrightarrow> \<exists>x. row_of tx l s' x"
proof -
  have "(\<not> b \<and> s' = s) \<or> (\<exists>i. converge_cancelled_run tx i ''LATE_RUN_START_COMPLETION'' s = Inr (b, s'))"
  proof (cases "find_run (le_run_id l) s")
    case None
    with assms(1) show ?thesis by (simp add: converge_late_def split: if_split_asm)
  next
    case (Some r)
    show ?thesis
    proof (cases "le_work_kind l \<noteq> Wk_RUN_START \<or> rn_cancel_requested_at r = None")
      case True
      with assms(1) Some show ?thesis by (auto simp: converge_late_def split: if_split_asm)
    next
      case False
      with assms(1) Some show ?thesis unfolding converge_late_def by (simp only: option.case if_False if_True de_Morgan_disj not_not simp_thms) blast
    qed
  qed
  then consider "\<not> b" "s' = s" | i where "converge_cancelled_run tx i ''LATE_RUN_START_COMPLETION'' s = Inr (b, s')"
    by (elim disjE exE conjE)
  then have "recovers st s s' \<and> (\<not> b \<longrightarrow> (\<exists>x. row_of tx l s' x))"
  proof cases
    case 1
    with row_of_self [OF assms(2,3)] show ?thesis by auto
  next
    case (2 i)
    from 2 show ?thesis
    proof (cases rule: converge_cancelled_run_cases)
      case (untouched n)
      obtain x where "row_of tx l s' x" using fence_row [OF untouched(1) row_of_self [OF assms(2,3)]] .
      with recovers_converge [OF 2] show ?thesis by auto
    qed (use recovers_converge [OF 2] in simp)
  qed
  then show "recovers st s s'" "\<not> b \<Longrightarrow> \<exists>x. row_of tx l s' x" by auto
qed

lemma confirm_cancel_row:
  assumes "row_of tx l s x"
  shows "recovers st s (confirm_cancel tx w l p r s)" and "\<exists>y. row_of tx l (confirm_cancel tx w l p r s) y"
proof -
  have "recovers st s (confirm_cancel tx w l p r s) \<and> (\<exists>y. row_of tx l (confirm_cancel tx w l p r s) y)"
  proof (cases "le_work_kind l = Wk_RUN_CANCEL \<and> cq_outcome p \<in> {Out_ABORTED, Out_SUCCEEDED}")
    case True
    let ?ps = "if source_exists l s then Some (le_source_outbox_id l) else None"
    obtain n s1 where f: "fence_cancelled_run_leases tx (rn_id r) (Some (le_id l)) ?ps s = (n, s1)" by fastforce
    with True have c: "confirm_cancel tx w l p r s = audit_worker_confirmed tx w r n s1"
      unfolding confirm_cancel_def by (simp only: if_True prod.case simp_thms)
    obtain y where y: "row_of tx l s1 y" using fence_row [OF f assms] .
    have "recovers st s1 (audit_worker_confirmed tx w r n s1)" by (simp add: audit_worker_confirmed_def)
    then have "recovers st s (confirm_cancel tx w l p r s)" unfolding c using recovers_fence [OF f] recovers_trans by blast
    moreover have "row_of tx l (confirm_cancel tx w l p r s) y"
      unfolding c by (rule row_of_frame [OF y])
        (simp_all add: audit_worker_confirmed_def append_audit_event_def source_at_def fun_eq_iff)
    ultimately show ?thesis by blast
  next
    case False
    with assms show ?thesis by (auto simp: confirm_cancel_def)
  qed
  then show "recovers st s (confirm_cancel tx w l p r s)" "\<exists>y. row_of tx l (confirm_cancel tx w l p r s) y" by auto
qed

lemma finish_completion_keeps:
  assumes "exec_inv st s" and "row_of tx l s x" and "gives_back st l s s1" and "closed_as tx l l'"
    and "finish_completion tx w l' p retry t img s1 = (l2, s')"
  shows "keeps st tx s s'"
proof -
  let ?s = "put_lease l' (s1\<lparr>secret_grants := revoke_grants (le_id l') (secret_grants s1)\<rparr>)"
  have "keeps st tx s ?s" by (rule keeps_recovers) (rule recovers_close_lease [OF assms(1-4)])
  also have "keeps st tx ?s s'" using assms(5) by (auto simp: finish_completion_def)
  finally show ?thesis .
qed

lemma retry_allowed_attempts:
  "execution_retry_allowed r out a m av \<Longrightarrow> a < m"
  by (auto simp: execution_retry_allowed_def)

lemma complete_lease_cases:
  assumes "complete_lease st store tx w l p s = Inr (l2, s')"
  obtains (converged) s1 where "converge_late tx l s = Inr (True, s1)" and "keeps st tx s1 s'"
  | (finished) s1 xs s2 l' retry t s3 where "converge_late tx l s = Inr (False, s1)"
    and "register_artifacts st store tx w l (cq_artifacts p) s1 = Inr (xs, s2)"
    and "finish_completion tx w l' p retry t (image_of xs) s3 = (l2, s')"
    and "retry_completion st tx l p s2 = Inr (l', t, s3) \<and> le_attempt l < st_worker_max_attempts st \<or>
      complete_build tx l p (image_of xs) s2 = Inr (l', s3) \<or> complete_run tx w l p s2 = Inr (l', s3)"
proof -
  obtain b s1 where c: "converge_late tx l s = Inr (b, s1)"
    using assms by (auto simp: complete_lease_def bind_result_Inr_iff)
  show thesis
  proof (cases b)
    case True
    then have "keeps st tx s1 s'" using assms c by (auto simp: complete_lease_def)
    with converged c True show thesis by simp
  next
    case False
    then have cF: "converge_late tx l s = Inr (False, s1)" using c by simp
    define retry where "retry = execution_retry_allowed (cq_retryable p) (cq_outcome p) (le_attempt l)
             (st_worker_max_attempts st) (source_exists l s1)"
    from assms obtain xs s2 where reg: "register_artifacts st store tx w l (cq_artifacts p) s1 = Inr (xs, s2)"
      and rest: "(if retry
             then bind_result (retry_completion st tx l p s2) (\<lambda>(l', t, s3).
               Inr (finish_completion tx w l' p retry t (image_of xs) s3))
             else bind_result (if le_work_kind l = Wk_BUILD then complete_build tx l p (image_of xs) s2
               else complete_run tx w l p s2) (\<lambda>(l', s3).
               Inr (finish_completion tx w l' p retry None (image_of xs) s3))) = Inr (l2, s')"
      unfolding complete_lease_def cF bind_result_simps prod.case if_False Let_def retry_def [symmetric]
      by (subst (asm) bind_result_Inr_iff) auto
    show thesis
    proof (cases retry)
      case True
      then have "le_attempt l < st_worker_max_attempts st"
        unfolding retry_def by (rule retry_allowed_attempts)
      with rest True show thesis
        by (auto simp: bind_result_Inr_iff intro: finished [OF cF reg])
    next
      case no: False
      with rest show thesis
        by (cases "le_work_kind l = Wk_BUILD")
          (auto simp: bind_result_Inr_iff intro: finished [OF cF reg])
    qed
  qed
qed

lemma keeps_complete:
  assumes run: "complete_lease st store tx w l p s = Inr (l2, s')" and inv: "exec_inv st s"
    and held: "lease_held tx w l s"
  shows "keeps st tx s s'"
proof -
  have l: "l \<in> set (leases s)" "latest s l"
    using held active_latest [OF inv] by (auto simp: lease_held_def lease_live_def)
  from run show ?thesis
  proof (cases rule: complete_lease_cases)
    case (converged s1)
    show ?thesis
      using keeps_trans [OF keeps_recovers [OF converge_late_cases(1) [OF converged(1) l]] converged(2)] .
  next
    case (finished s1 xs s2 l' retry t s3)
    obtain x where x: "row_of tx l s1 x" using converge_late_cases(2) [OF finished(1) l] by auto
    have a: "same_but_artifacts s1 s2" by (rule register_artifacts_frame) (fact finished(2))
    have "keeps st tx s s1" using keeps_recovers [OF converge_late_cases(1) [OF finished(1) l]] .
    also have "keeps st tx s1 s2" using keeps_artifacts [OF a] .
    finally have k: "keeps st tx s s2" .
    have inv2: "exec_inv st s2" using keepsD [OF k inv] .
    have x2: "row_of tx l s2 x"
      using a by (intro row_of_frame [OF x]) (simp_all add: same_but_artifacts_def source_at_def fun_eq_iff)
    have "keeps st tx s2 s'" using finished(4)
    proof (elim disjE conjE)
      assume "retry_completion st tx l p s2 = Inr (l', t, s3)" "le_attempt l < st_worker_max_attempts st"
      with gives_back_retry show ?thesis using finish_completion_keeps [OF inv2 x2 _ _ finished(3)] by blast
    next
      assume "complete_build tx l p (image_of xs) s2 = Inr (l', s3)"
      with gives_back_complete_build show ?thesis using finish_completion_keeps [OF inv2 x2 _ _ finished(3)] by blast
    next
      assume "complete_run tx w l p s2 = Inr (l', s3)"
      then obtain r where r: "gives_back st l (confirm_cancel tx w l p r s2) s3" "closed_as tx l l'"
        by (rule complete_run_cases)
      have c: "recovers st s2 (confirm_cancel tx w l p r s2)" using x2 by (rule confirm_cancel_row)
      obtain y where y: "row_of tx l (confirm_cancel tx w l p r s2) y" using confirm_cancel_row(2) [OF x2] by blast
      have "keeps st tx (confirm_cancel tx w l p r s2) s'"
        by (rule finish_completion_keeps [OF recovers_inv [OF inv2 c] y r finished(3)])
      with keeps_recovers [OF c] show ?thesis by (rule keeps_trans)
    qed
    with k show ?thesis by (rule keeps_trans)
  qed
qed

subsection \<open>Cancellation\<close>

lemma keeps_new_command:
  assumes "settings_ok st" and c: "rc_status c = Ob_PENDING" "rc_attempts c = 0" "rc_id c = next_id s"
    and inv: "exec_inv st s"
    and s': "s' = s\<lparr>run_commands := run_commands s @ [c], next_id := next_id s + 1\<rparr>"
  shows "keeps st tx s s'"
proof -
  have t: "tables_ok s" using inv by (rule exec_invD(1))
  have new: "find_by rc_id (next_id s) (run_commands s) = None"
    using t by (auto simp: tables_ok_def intro: find_by_fresh)
  have src: "source_at s' = (source_at s)((False, next_id s) \<mapsto> (Ob_PENDING, 0))"
    using new c by (auto simp: s' fun_eq_iff source_at_def find_by_append split: option.splits)
  have none: "source_at s (False, next_id s) = None" using new by (simp add: source_at_def)
  have sel: "leases s' = leases s" "secret_grants s' = secret_grants s" "run_events s' = run_events s"
    by (simp_all add: s')
  have tied: "lease_tied s' l" if "l \<in> set (leases s)" for l
    using exec_invD(3) [OF inv that] none by (cases "source_key l = (False, next_id s)") (simp_all add: lease_tied_def src)
  have "0 < st_worker_max_attempts st" using assms(1) by (simp add: settings_ok_def)
  then have "sources_ok st s'"
    using exec_invD(5) [OF inv] by (auto simp: sources_ok_def src split: if_splits)
  moreover have "tables_ok s'"
    using t c(3) by (auto simp: s' tables_ok_def intro: fresh_ids_snoc fresh_ids_mono)
  ultimately have "exec_inv st s'"
    using exec_invD(2,4,6,7) [OF inv] tied by (simp add: exec_inv_def active_id_def sel)
  then show ?thesis by (simp add: keeps_def leases_grow_same sel)
qed

lemma keeps_ensure_cancel:
  assumes "settings_ok st" and "exec_inv st s"
  shows "keeps st tx s (ensure_cancel_command tx r s)"
proof (cases "List.find (\<lambda>c. rc_run_id c = rn_id r \<and> rc_command c = Cm_CANCEL) (run_commands s)")
  case None
  have "keeps st tx s (s\<lparr>run_commands := run_commands s @ [cancel_command tx r (next_id s)], next_id := next_id s + 1\<rparr>)"
    by (rule keeps_new_command [OF assms(1) _ _ _ assms(2) refl]) (simp_all add: cancel_command_def)
  with None show ?thesis by (simp add: ensure_cancel_command_def)
qed (simp add: ensure_cancel_command_def)

lemma recovers_cancel_start: "recovers st s (cancel_start_command tx i s)"
proof (cases "List.find (\<lambda>c. rc_run_id c = i \<and> rc_command c = Cm_START) (run_commands s)")
  case (Some c)
  let ?f = "\<lambda>c. c\<lparr>rc_status := Ob_CANCELLED, rc_updated_at := tx_now tx\<rparr>"
  let ?s = "s\<lparr>run_commands := upd_by rc_id (rc_id c) ?f (run_commands s)\<rparr>"
  have "rel_option (source_le st ?s k) (source_at s k) (source_at ?s k)" for k
  proof (cases "fst k")
    case True
    then show ?thesis
      by (cases "find_by bo_id (snd k) (build_outbox s)") (simp_all add: source_at_def source_le_def)
  next
    case False
    have f: "find_by rc_id (snd k) (upd_by rc_id (rc_id c) ?f (run_commands s)) =
        (if rc_id c = snd k then map_option ?f (find_by rc_id (snd k) (run_commands s))
         else find_by rc_id (snd k) (run_commands s))"
      by (rule find_by_upd_by) simp
    from False show ?thesis
      by (cases "find_by rc_id (snd k) (run_commands s)") (auto simp: source_at_def f source_le_def)
  qed
  moreover have "list_all2 (lease_le st) (leases s) (leases s)" by (rule list_all2_refl) simp
  moreover have "active_id ?s = active_id s" by (simp add: active_id_def fun_eq_iff)
  ultimately have "recovers st s ?s" by (simp add: recovers_def same_keys_def map_upd_by)
  with Some show ?thesis by (simp add: cancel_start_command_def)
qed (simp add: cancel_start_command_def)

lemma keeps_cancel_transition:
  assumes run: "cancel_transition st tx r s = Inr (r', s')" and inv: "exec_inv st s" and st: "settings_ok st"
  shows "keeps st tx s s'"
proof -
  from run consider "s' = s" | "cancel_waiting_run st tx r s = Inr (r', s')" | "cancel_active_run st tx r s = Inr (r', s')"
    | "s' = ensure_cancel_command tx r s"
    unfolding cancel_transition_def by (auto split: if_split_asm)
  then show ?thesis
  proof cases
    case 2
    then obtain q s1 where ev: "run_event_for tx q ''run.status'' (status_payload (rn_status r) Rn_ABORTED)
          (cancel_start_command tx (rn_id r) (put_run q s)) = Inr s1"
        "run_event_for tx q ''run.completed'' [(''status'', JStr ''ABORTED'')] s1 = Inr s'"
      unfolding cancel_waiting_run_def Let_def bind_result_Inr_iff by blast
    have "recovers st s (put_run q s)" by (rule recovers_put_run)
    also have "recovers st \<dots> (cancel_start_command tx (rn_id r) (put_run q s))" by (rule recovers_cancel_start)
    also have "recovers st \<dots> s1" using recovers_event [OF ev(1)] .
    also have "recovers st s1 s'" using recovers_event [OF ev(2)] .
    finally show ?thesis by (rule keeps_recovers)
  next
    case 3
    then obtain q where ev: "run_event_for tx q ''run.status'' (status_payload (rn_status r) Rn_ABORTING)
          (ensure_cancel_command tx q (put_run q s)) = Inr s'"
      unfolding cancel_active_run_def Let_def bind_result_Inr_iff by blast
    have p: "recovers st s (put_run q s)" by (rule recovers_put_run)
    have "keeps st tx s (put_run q s)" using keeps_recovers [OF p] .
    also have "keeps st tx \<dots> (ensure_cancel_command tx q (put_run q s))"
      by (rule keeps_ensure_cancel [OF st recovers_inv [OF inv p]])
    also have "keeps st tx \<dots> s'" using keeps_recovers [OF recovers_event [OF ev]] .
    finally show ?thesis .
  qed (simp_all add: keeps_ensure_cancel [OF st inv])
qed

lemma keeps_cancel_run:
  assumes run: "cancel_run st sha256 tx record user key s = Inr (d, s')" and inv: "exec_inv st s" and st: "settings_ok st"
  shows "keeps st tx s s'"
proof -
  have "keeps st tx t (t\<lparr>run_idempotency := xs\<rparr>)" for t xs by (rule keeps_frame) simp_all
  then have "keeps st tx s (append_audit_event tx a b c d e f g h (t\<lparr>run_idempotency := xs\<rparr>))"
    if "cancel_transition st tx r s = Inr (r', t)" for a b c d e f g h r r' t xs
    using keeps_cancel_transition [OF that inv st] keeps_audit(1) keeps_trans by metis
  with run show ?thesis
    unfolding cancel_run_def Let_def
    by (auto simp: bind_result_Inr_iff split: if_split_asm option.split_asm)
qed

subsection \<open>Envelopes\<close>

lemma keeps_new_grant:
  assumes inv: "exec_inv st s" and l: "l \<in> set (leases s)" "le_status l = Le_ACTIVE" and g: "sg_lease_id g = le_id l"
  shows "keeps st tx s (s\<lparr>secret_grants := secret_grants s @ [g], next_id := next_id s + 1\<rparr>)" (is "keeps st tx s ?s")
proof -
  have "exec_inv st (s\<lparr>secret_grants := secret_grants s @ [g]\<rparr>)" (is "exec_inv st ?t")
  proof -
    have "source_at ?t = source_at s" by (rule source_at_cong) simp_all
    moreover have "active_id ?t = active_id s" by (simp add: active_id_def fun_eq_iff)
    moreover have "active_id s (le_id l)" using l by (auto simp: active_id_def)
    ultimately show ?thesis
      using inv g by (auto simp: exec_inv_def tables_ok_def lease_tied_def sources_ok_def)
  qed
  then have "keeps st tx s ?t" by (simp add: keeps_def leases_grow_same)
  also have "keeps st tx ?t ?s" by (rule keeps_frame) simp_all
  finally show ?thesis .
qed

definition same_but_secrets :: "'a secret_db_scheme \<Rightarrow> 'a secret_db_scheme \<Rightarrow> bool" where
  "same_but_secrets s s' \<longleftrightarrow> leases s' = leases s \<and> builds s' = builds s \<and> build_outbox s' = build_outbox s \<and>
     runs s' = runs s \<and> run_commands s' = run_commands s \<and> secret_grants s' = secret_grants s \<and>
     run_events s' = run_events s \<and> next_id s' = next_id s"

lemma reveal_all_frame: "reveal_all ek tx xs s = Inr (vs, s') \<Longrightarrow> same_but_secrets s s'"
proof (induction xs arbitrary: s vs)
  case (Cons x xs)
  obtain n y where x: "x = (n, y)" by fastforce
  from Cons.prems obtain ws where "reveal_all ek tx xs (use_secret tx y s) = Inr (ws, s')"
    by (auto simp: x bind_result_Inr_iff split: option.split_asm)
  from Cons.IH [OF this] show ?case by (simp add: same_but_secrets_def use_secret_def)
qed (simp add: same_but_secrets_def)

lemma keeps_grant_after:
  assumes f: "same_but_secrets s t" and inv: "exec_inv st s" and held: "lease_held tx w l s" and g: "sg_lease_id g = le_id l"
  shows "keeps st tx s (audit_worker tx w l a b i d (t\<lparr>secret_grants := secret_grants t @ [g], next_id := Suc (next_id t)\<rparr>))"
proof -
  have k: "keeps st tx s t" using f by (intro keeps_frame) (simp_all add: same_but_secrets_def)
  have "keeps st tx t (t\<lparr>secret_grants := secret_grants t @ [g], next_id := next_id t + 1\<rparr>)"
    using held f by (intro keeps_new_grant [OF keepsD [OF k inv] _ _ g])
      (simp_all add: lease_held_def lease_live_def same_but_secrets_def)
  from keeps_trans [OF keeps_trans [OF k this] keeps_audit(2)] show ?thesis by simp
qed

lemma new_grant_lease [simp]: "sg_lease_id (new_grant ek tx w l r f ns env e i) = le_id l"
  by (simp add: new_grant_def)

lemma keeps_secret_envelope:
  assumes run: "issue_secret_envelope ek sha256 tx eph w l p s = Inr (e, s')" and inv: "exec_inv st s"
    and held: "lease_held tx w l s"
  shows "keeps st tx s s'"
proof -
  have seal: "keeps st tx s s'" if "seal_secrets ek sha256 tx eph w l r p k s = Inr (e, s')" for r k
    using that
    by (auto simp: seal_secrets_def Let_def bind_result_Inr_iff split: if_split_asm
        intro!: keeps_grant_after [OF reveal_all_frame inv held])
  from run show ?thesis
    unfolding issue_secret_envelope_def
    by (auto simp: seal split: if_split_asm option.split_asm sum.split_asm)
qed

lemma keeps_credential_envelope:
  assumes run: "issue_egress_credential_envelope st' ek idna sha256 tx eph w l p s = Inr (e, s')" and inv: "exec_inv st s"
    and held: "lease_held tx w l s"
  shows "keeps st tx s s'"
proof -
  have frame: "same_but_secrets s (use_secret tx x s)" for x by (simp add: same_but_secrets_def use_secret_def)
  have seal: "keeps st tx s s'" if "seal_credential ek sha256 tx eph w l r d x k s = Inr (e, s')" for r d x k
    using that
    by (auto simp: seal_credential_def Let_def bind_result_Inr_iff split: if_split_asm option.split_asm
        intro!: keeps_grant_after [OF frame inv held])
  from run show ?thesis
    unfolding issue_egress_credential_envelope_def Let_def
    by (auto simp: seal split: if_split_asm option.split_asm sum.split_asm)
qed

subsection \<open>Recovery\<close>

lemma keeps_sweep:
  assumes "run_execution_recovery_sweep st tx acq ow b s = Inr (r, s')" and "exec_inv st s" and "claimed_before tx s"
  shows "keeps st tx s s'"
  by (rule keeps_recovers) (rule recovers_sweep [OF assms(2,3,1)])

lemma keeps_recovery_failure: "keeps st tx s (record_execution_recovery_failure tx t ow e s)"
  by (rule keeps_frame) (simp_all add: record_execution_recovery_failure_def)

lemmas handlers_keep = keeps_register keeps_resolve keeps_heartbeat keeps_claim keeps_renew keeps_status keeps_events
  keeps_complete keeps_cancel_run keeps_secret_envelope keeps_credential_envelope keeps_sweep keeps_recovery_failure

end
