(* ===== verification/Exec_Reach.thy ===== *)
theory Exec_Reach
  imports Exec_Steps
begin

section \<open>The execution plane under every sequence of requests\<close>

text \<open>
  The routes of \<open>api/routes/internal_execution.py\<close> as transactions, the step relation they, the cancellation
  of runs and the recovery sweeper span, and what holds in every reachable database. A step carries the
  clock of its transaction; clocks of successive transactions increase.
\<close>

subsection \<open>Routes\<close>

text \<open>What the code outside the sources, the settings and the environment give the routes.\<close>

record plane =
  pl_settings :: canary_settings
  pl_idna :: "string \<Rightarrow> string option"
  pl_sha256 :: "string \<Rightarrow> string"
  pl_worker_digest :: "string \<Rightarrow> string"
  pl_lease_digest :: "string \<Rightarrow> string"
  pl_store :: object_store
  pl_keys :: envelope_keys

definition with_worker ::
  "plane \<Rightarrow> txn \<Rightarrow> string option \<Rightarrow> (worker \<Rightarrow> 'a exec_db_scheme \<Rightarrow> ('r \<times> 'a exec_db_scheme) result) \<Rightarrow>
   'a exec_db_scheme \<Rightarrow> ('r \<times> 'a exec_db_scheme) result" where
  \<comment> \<open>\<open>Depends(resolve_worker_context)\<close>\<close>
  "with_worker pl tx authorization f s =
     bind_result (resolve_worker_context (pl_worker_digest pl) tx authorization s) (\<lambda>(w, s1). f w s1)"

definition with_lease ::
  "plane \<Rightarrow> txn \<Rightarrow> string option \<Rightarrow> uuid \<Rightarrow> string option \<Rightarrow>
   (worker \<Rightarrow> lease \<Rightarrow> 'a exec_db_scheme \<Rightarrow> ('r \<times> 'a exec_db_scheme) result) \<Rightarrow>
   'a exec_db_scheme \<Rightarrow> ('r \<times> 'a exec_db_scheme) result" where
  \<comment> \<open>\<open>Depends(require_lease_access)\<close>\<close>
  "with_lease pl tx authorization lease_id lease_token f =
     with_worker pl tx authorization (\<lambda>w s.
       bind_result (require_lease_access (pl_lease_digest pl) tx (wo_id w) lease_id lease_token s) (\<lambda>l. f w l s))"

definition register_worker_route ::
  "plane \<Rightarrow> txn \<Rightarrow> issued_token \<Rightarrow> register_request \<Rightarrow> 'a exec_db_scheme \<Rightarrow> (worker \<times> 'a exec_db_scheme) result" where
  \<comment> \<open>behind \<open>require_worker_bootstrap\<close>, which compares a shared token\<close>
  "register_worker_route pl tx issued p s =
     register_worker (pl_settings pl) (pl_worker_digest pl) (pl_sha256 pl) tx issued p s"

definition heartbeat_worker_route ::
  "plane \<Rightarrow> txn \<Rightarrow> string option \<Rightarrow> heartbeat_request \<Rightarrow> 'a exec_db_scheme \<Rightarrow> (worker \<times> 'a exec_db_scheme) result" where
  "heartbeat_worker_route pl tx authorization p =
     with_worker pl tx authorization (\<lambda>w. heartbeat_worker (pl_settings pl) (pl_sha256 pl) tx (wo_id w) p)"

definition claim_work_route ::
  "plane \<Rightarrow> txn \<Rightarrow> string option \<Rightarrow> string \<times> string \<Rightarrow> work_kind list \<Rightarrow> 'a claim_db_scheme \<Rightarrow>
   (lease_claim option \<times> 'a claim_db_scheme) result" where
  "claim_work_route pl tx authorization token kinds =
     with_worker pl tx authorization (\<lambda>w.
       claim_work (pl_settings pl) (pl_idna pl) (pl_sha256 pl) token tx (wo_id w) kinds)"

definition renew_lease_route ::
  "plane \<Rightarrow> txn \<Rightarrow> string option \<Rightarrow> uuid \<Rightarrow> string option \<Rightarrow> int \<Rightarrow> 'a exec_db_scheme \<Rightarrow>
   (lease \<times> 'a exec_db_scheme) result" where
  "renew_lease_route pl tx authorization lease_id lease_token extend_seconds =
     with_lease pl tx authorization lease_id lease_token (\<lambda>w l. renew_lease (pl_settings pl) tx w l extend_seconds)"

definition update_lease_status_route ::
  "plane \<Rightarrow> txn \<Rightarrow> string option \<Rightarrow> uuid \<Rightarrow> string option \<Rightarrow> status_update \<Rightarrow> string option \<Rightarrow> 'a exec_db_scheme \<Rightarrow>
   (lease \<times> 'a exec_db_scheme) result" where
  "update_lease_status_route pl tx authorization lease_id lease_token status message =
     with_lease pl tx authorization lease_id lease_token (\<lambda>w l. update_lease_status tx w l status message)"

definition append_worker_events_route ::
  "plane \<Rightarrow> txn \<Rightarrow> string option \<Rightarrow> uuid \<Rightarrow> string option \<Rightarrow> (worker_event_type \<times> dict) list \<Rightarrow> 'a exec_db_scheme \<Rightarrow>
   (nat \<times> 'a exec_db_scheme) result" where
  "append_worker_events_route pl tx authorization lease_id lease_token events =
     with_lease pl tx authorization lease_id lease_token (\<lambda>w l. append_worker_events tx w l events)"

definition issue_secret_envelope_route ::
  "plane \<Rightarrow> txn \<Rightarrow> string option \<Rightarrow> uuid \<Rightarrow> string option \<Rightarrow> string \<times> string \<Rightarrow> envelope_request \<Rightarrow>
   'a secret_db_scheme \<Rightarrow> (envelope_response \<times> 'a secret_db_scheme) result" where
  "issue_secret_envelope_route pl tx authorization lease_id lease_token eph p =
     with_lease pl tx authorization lease_id lease_token (\<lambda>w l.
       issue_secret_envelope (pl_keys pl) (pl_sha256 pl) tx eph w l p)"

definition issue_egress_credential_envelope_route ::
  "plane \<Rightarrow> txn \<Rightarrow> string option \<Rightarrow> uuid \<Rightarrow> string option \<Rightarrow> string \<times> string \<Rightarrow> credential_request \<Rightarrow>
   'a secret_db_scheme \<Rightarrow> (envelope_response \<times> 'a secret_db_scheme) result" where
  "issue_egress_credential_envelope_route pl tx authorization lease_id lease_token eph p =
     with_lease pl tx authorization lease_id lease_token (\<lambda>w l.
       issue_egress_credential_envelope (pl_settings pl) (pl_keys pl) (pl_idna pl) (pl_sha256 pl) tx eph w l p)"

definition complete_lease_route ::
  "plane \<Rightarrow> txn \<Rightarrow> string option \<Rightarrow> uuid \<Rightarrow> string option \<Rightarrow> complete_request \<Rightarrow> 'a claim_db_scheme \<Rightarrow>
   (lease \<times> 'a claim_db_scheme) result" where
  "complete_lease_route pl tx authorization lease_id lease_token p =
     with_lease pl tx authorization lease_id lease_token (\<lambda>w l. complete_lease (pl_settings pl) (pl_store pl) tx w l p)"

subsection \<open>Steps\<close>

text \<open>
  A route reads \<open>cancel_requested_at\<close> of the run without a lock, so a cancellation may commit between the
  check of \<open>require_lease_access\<close> and the handler. The steps under a lease therefore only assume of the
  database what the row lock on the lease protects, \<open>lease_held\<close>.
\<close>

definition lease_handled :: "plane \<Rightarrow> txn \<Rightarrow> worker \<Rightarrow> lease \<Rightarrow> secret_db \<Rightarrow> secret_db \<Rightarrow> bool" where
  "lease_handled pl tx w l s s' \<longleftrightarrow>
     (\<exists>n x. 15 \<le> n \<and> n \<le> 300 \<and> renew_lease (pl_settings pl) tx w l n s = Inr (x, s')) \<or>
     (\<exists>u m x. update_lease_status tx w l u m s = Inr (x, s')) \<or>
     (\<exists>es n. append_worker_events tx w l es s = Inr (n, s')) \<or>
     (\<exists>eph p e. issue_secret_envelope (pl_keys pl) (pl_sha256 pl) tx eph w l p s = Inr (e, s')) \<or>
     (\<exists>eph p e. issue_egress_credential_envelope (pl_settings pl) (pl_keys pl) (pl_idna pl) (pl_sha256 pl) tx eph
        w l p s = Inr (e, s')) \<or>
     (\<exists>p x. complete_lease (pl_settings pl) (pl_store pl) tx w l p s = Inr (x, s'))"

inductive exec_step :: "plane \<Rightarrow> instant \<times> secret_db \<Rightarrow> instant \<times> secret_db \<Rightarrow> bool" for pl where
  register: "t < tx_now tx \<Longrightarrow> register_worker_route pl tx issued p s = Inr (w, s') \<Longrightarrow>
    exec_step pl (t, s) (tx_now tx, s')"
| heartbeat: "t < tx_now tx \<Longrightarrow> heartbeat_worker_route pl tx a p s = Inr (w, s') \<Longrightarrow>
    exec_step pl (t, s) (tx_now tx, s')"
| claim: "t < tx_now tx \<Longrightarrow> claim_work_route pl tx a token kinds s = Inr (c, s') \<Longrightarrow>
    exec_step pl (t, s) (tx_now tx, s')"
| lease: "t < tx_now tx \<Longrightarrow> resolve_worker_context (pl_worker_digest pl) tx a s = Inr (w, s1) \<Longrightarrow>
    lease_held tx w l s1 \<Longrightarrow> lease_handled pl tx w l s1 s' \<Longrightarrow> exec_step pl (t, s) (tx_now tx, s')"
| cancel: "t < tx_now tx \<Longrightarrow> cancel_run (pl_settings pl) (pl_sha256 pl) tx record user key s = Inr (d, s') \<Longrightarrow>
    exec_step pl (t, s) (tx_now tx, s')"
| sweep: "t < tx_now tx \<Longrightarrow> run_execution_recovery_sweep (pl_settings pl) tx acq ow b s = Inr (r, s') \<Longrightarrow>
    exec_step pl (t, s) (tx_now tx, s')"
| failure: "t < tx_now tx \<Longrightarrow> exec_step pl (t, s) (tx_now tx, record_execution_recovery_failure tx from ow e s)"

definition exec_init :: "secret_db \<Rightarrow> bool" where
  \<comment> \<open>builds and runs wait, none has been handed out\<close>
  "exec_init s \<longleftrightarrow> tables_ok s \<and> leases s = [] \<and> secret_grants s = [] \<and> run_events s = [] \<and>
     list_all (\<lambda>b. bo_attempts b = 0) (build_outbox s) \<and> list_all (\<lambda>c. rc_attempts c = 0) (run_commands s)"

inductive exec_reachable :: "plane \<Rightarrow> instant \<Rightarrow> secret_db \<Rightarrow> bool" for pl where
  start: "exec_init s \<Longrightarrow> exec_reachable pl t s"
| step: "exec_reachable pl t s \<Longrightarrow> exec_step pl (t, s) (t', s') \<Longrightarrow> exec_reachable pl t' s'"

subsection \<open>Steps keep the invariant\<close>

lemma bind_pairE:
  assumes "bind_result m (\<lambda>(x, y). f x y) = Inr z"
  obtains x y where "m = Inr (x, y)" and "f x y = Inr z"
  using assms by (auto simp: bind_result_Inr_iff)

lemma lease_handled_keeps:
  assumes "lease_handled pl tx w l s s'" and "lease_held tx w l s" and "exec_inv (pl_settings pl) s"
  shows "keeps (pl_settings pl) tx s s'"
  using assms(1) unfolding lease_handled_def
  by (elim disjE exE conjE) (erule handlers_keep; use assms in simp)+

text \<open>Every route under a lease is such a step.\<close>

lemma with_lease_step:
  assumes "with_lease pl tx a lid token f s = Inr (x, s')" and "t < tx_now tx"
    and "\<And>w l s1. f w l s1 = Inr (x, s') \<Longrightarrow> lease_handled pl tx w l s1 s'"
  shows "exec_step pl (t, s) (tx_now tx, s')"
proof -
  from assms(1) obtain w s1 l where r: "resolve_worker_context (pl_worker_digest pl) tx a s = Inr (w, s1)"
    and l: "require_lease_access (pl_lease_digest pl) tx (wo_id w) lid token s1 = Inr l" and f: "f w l s1 = Inr (x, s')"
    unfolding with_lease_def with_worker_def by (auto simp: bind_result_Inr_iff)
  from require_lease_access_held [OF l] have "lease_held tx w l s1" by simp
  from exec_step.lease [OF assms(2) r this assms(3) [OF f]] show ?thesis .
qed

lemma lease_routes_step:
  assumes "t < tx_now tx"
  shows "renew_lease_route pl tx a lid token n s = Inr (x, s') \<Longrightarrow> 15 \<le> n \<Longrightarrow> n \<le> 300 \<Longrightarrow> exec_step pl (t, s) (tx_now tx, s')"
    and "update_lease_status_route pl tx a lid token u m s = Inr (x, s') \<Longrightarrow> exec_step pl (t, s) (tx_now tx, s')"
    and "append_worker_events_route pl tx a lid token es s = Inr (y, s') \<Longrightarrow> exec_step pl (t, s) (tx_now tx, s')"
    and "issue_secret_envelope_route pl tx a lid token eph p s = Inr (e, s') \<Longrightarrow> exec_step pl (t, s) (tx_now tx, s')"
    and "issue_egress_credential_envelope_route pl tx a lid token eph q s = Inr (e, s') \<Longrightarrow>
      exec_step pl (t, s) (tx_now tx, s')"
    and "complete_lease_route pl tx a lid token cq s = Inr (x, s') \<Longrightarrow> exec_step pl (t, s) (tx_now tx, s')"
  unfolding renew_lease_route_def update_lease_status_route_def append_worker_events_route_def
    issue_secret_envelope_route_def issue_egress_credential_envelope_route_def complete_lease_route_def
  by (erule with_lease_step [OF _ assms]; unfold lease_handled_def; blast)+

definition clock_ok :: "instant \<Rightarrow> 'a exec_db_scheme \<Rightarrow> bool" where
  "clock_ok t s \<longleftrightarrow> (\<forall>l \<in> set (leases s). le_claimed_at l \<le> t)"

lemma clock_ok_grow:
  assumes "clock_ok t s" and "t < tx_now tx" and "keeps st tx s s'"
  shows "clock_ok (tx_now tx) s'"
proof -
  from assms(3) obtain ls ms where g: "leases s' = ls @ ms" "list_all2 (lease_le st) (leases s) ls"
    "\<forall>m \<in> set ms. le_claimed_at m \<le> tx_now tx" by (auto simp: keeps_def leases_grow_def)
  have "le_claimed_at l' \<le> tx_now tx" if l': "l' \<in> set ls" for l'
  proof -
    obtain l where "l \<in> set (leases s)" "lease_le st l l'" using list_all2_in2 [OF g(2) l'] .
    then have "le_claimed_at l' = le_claimed_at l" "le_claimed_at l \<le> t"
      using assms(1) by (simp_all add: clock_ok_def lease_le_def)
    with assms(2) show ?thesis by simp
  qed
  with g show ?thesis by (auto simp: clock_ok_def)
qed

lemma exec_step_keeps:
  assumes "exec_step pl (t, s) (t', s')" and inv: "exec_inv (pl_settings pl) s" and "clock_ok t s"
    and st: "settings_ok (pl_settings pl)"
  obtains tx where "t < tx_now tx" and "t' = tx_now tx" and "keeps (pl_settings pl) tx s s'"
  using assms(1)
proof cases
  case (register tx issued p w)
  from register(3) have "keeps (pl_settings pl) tx s s'" unfolding register_worker_route_def by (rule keeps_register)
  with register that show thesis by blast
next
  case (heartbeat tx a p w)
  from heartbeat(3) obtain w' s1 where r: "resolve_worker_context (pl_worker_digest pl) tx a s = Inr (w', s1)"
    and h: "heartbeat_worker (pl_settings pl) (pl_sha256 pl) tx (wo_id w') p s1 = Inr (w, s')"
    unfolding heartbeat_worker_route_def with_worker_def by (rule bind_pairE)
  have k: "keeps (pl_settings pl) tx s s1" using r by (rule keeps_resolve)
  from keeps_trans [OF k keeps_heartbeat [OF h keepsD [OF k inv]]] heartbeat that show thesis by blast
next
  case (claim tx a token kinds c)
  from claim(3) obtain w s1 where r: "resolve_worker_context (pl_worker_digest pl) tx a s = Inr (w, s1)"
    and h: "claim_work (pl_settings pl) (pl_idna pl) (pl_sha256 pl) token tx (wo_id w) kinds s1 = Inr (c, s')"
    unfolding claim_work_route_def with_worker_def by (rule bind_pairE)
  have k: "keeps (pl_settings pl) tx s s1" using r by (rule keeps_resolve)
  from keeps_trans [OF k keeps_claim [OF h keepsD [OF k inv] st]] claim that show thesis by blast
next
  case (lease tx a w s1 l)
  have k: "keeps (pl_settings pl) tx s s1" using lease(3) by (rule keeps_resolve)
  from keeps_trans [OF k lease_handled_keeps [OF lease(5,4) keepsD [OF k inv]]] lease(1,2) that show thesis by blast
next
  case (cancel tx run user key d)
  from that [OF cancel(2,1) keeps_cancel_run [OF cancel(3) inv st]] show thesis .
next
  case (sweep tx acq ow b r)
  have "claimed_before tx s" using assms(3) sweep(2) by (auto simp: clock_ok_def claimed_before_def)
  from that [OF sweep(2,1) keeps_sweep [OF sweep(3) inv this]] show thesis .
next
  case (failure tx ft ow e)
  from that [OF failure(3,1)] keeps_recovery_failure failure(2) show thesis by blast
qed

lemma exec_init_inv:
  assumes "exec_init s" and "settings_ok st"
  shows "exec_inv st s"
proof -
  have "1 \<le> st_worker_max_attempts st" using assms(2) by (simp add: settings_ok_def)
  moreover have "source_at s k = Some (x, n) \<Longrightarrow> n = 0" for k x n
    using assms(1) by (auto simp: exec_init_def source_at_def list_all_iff split: if_split_asm dest!: find_by_SomeD)
  ultimately have "sources_ok st s" by (force simp: sources_ok_def)
  with assms(1) show ?thesis by (simp add: exec_inv_def exec_init_def events_numbered_def numbered_def event_sequences_def)
qed

lemma exec_reachable_ok:
  assumes "exec_reachable pl t s" and "settings_ok (pl_settings pl)"
  shows "exec_inv (pl_settings pl) s \<and> clock_ok t s"
  using assms(1)
proof induction
  case (start s t)
  with exec_init_inv [OF start assms(2)] show ?case by (simp add: exec_init_def clock_ok_def)
next
  case (step t s t' s')
  then obtain tx where "t < tx_now tx" "t' = tx_now tx" "keeps (pl_settings pl) tx s s'"
    using exec_step_keeps assms(2) by blast
  with step.IH show ?case using clock_ok_grow keepsD by blast
qed

definition leases_evolve :: "'b exec_settings_scheme \<Rightarrow> 'a exec_db_scheme \<Rightarrow> 'a exec_db_scheme \<Rightarrow> bool" where
  "leases_evolve st s s' \<longleftrightarrow> (\<exists>t. leases_grow st t s s')"

lemma leases_grow_mono: "leases_grow st t s s' \<Longrightarrow> t \<le> u \<Longrightarrow> leases_grow st u s s'"
  unfolding leases_grow_def by (meson order.trans)

lemma exec_steps_evolve:
  assumes "(exec_step pl)\<^sup>*\<^sup>* (t, s) (t', s')" and "exec_reachable pl t s" and "settings_ok (pl_settings pl)"
  shows "exec_reachable pl t' s' \<and> leases_evolve (pl_settings pl) s s'"
  using assms(1)
proof (induction rule: rtranclp_induct2)
  case refl
  show ?case using assms(2) by (auto simp: leases_evolve_def intro: leases_grow_same)
next
  case (step t1 s1 t2 s2)
  then have r: "exec_reachable pl t2 s2" by (blast intro: exec_reachable.step)
  from exec_reachable_ok [OF _ assms(3)] step obtain tx where "keeps (pl_settings pl) tx s1 s2"
    using exec_step_keeps [OF step(2) _ _ assms(3)] by blast
  then have b: "leases_grow (pl_settings pl) (tx_now tx) s1 s2" by (simp add: keeps_def)
  from step obtain u where a: "leases_grow (pl_settings pl) u s s1" by (auto simp: leases_evolve_def)
  have "leases_grow (pl_settings pl) (max u (tx_now tx)) s s2"
    using leases_grow_trans [OF leases_grow_mono [OF a] leases_grow_mono [OF b]] by simp
  with r show ?case by (auto simp: leases_evolve_def)
qed

lemma evolve_closed:
  assumes "leases_evolve st s s'" and "l \<in> set (leases s)" and "le_status l \<noteq> Le_ACTIVE" and "exec_inv st s'"
    and "x \<in> set (leases s')" and "le_id x = le_id l"
  shows "le_status x \<noteq> Le_ACTIVE"
proof -
  from assms(1) obtain ls ms where g: "leases s' = ls @ ms" "list_all2 (lease_le st) (leases s) ls"
    by (auto simp: leases_evolve_def leases_grow_def)
  obtain l' where l': "l' \<in> set ls" "lease_le st l l'" using list_all2_in1 [OF g(2) assms(2)] .
  have "x = l'"
    by (rule distinct_key_unique [OF exec_inv_distinct [OF assms(4)] assms(5)])
      (use g(1) l' assms(6) in \<open>simp_all add: lease_le_def\<close>)
  with l'(2) assms(3) show ?thesis by (auto simp: lease_le_def)
qed

subsection \<open>A sample deployment\<close>

text \<open>A deployment with one worker and one queued build.\<close>

definition ex_fresh_worker :: "instant option \<Rightarrow> worker" where
  "ex_fresh_worker seen = ex_worker\<lparr>wo_public_prefix := ''abcdefgh'', wo_last_seen_at := seen\<rparr>"

definition ex_fresh_db :: "instant option \<Rightarrow> secret_db" where
  "ex_fresh_db seen = \<lparr>audit_log = [], next_id = 100, run_events = [], leases = [], builds = [ex_sourced_build],
     build_outbox = [ex_dispatch], runs = [], run_commands = [], projects = [ex_project],
     workers = [ex_fresh_worker seen], secret_grants = [], recovery_state = Some ex_recovery,
     run_idempotency = [], agent_versions = [ex_version], artifacts = [], storage_objects = [ex_object],
     bound_policies = [], bound_revisions = [], project_secrets = []\<rparr>"

definition ex_plane :: plane where
  "ex_plane = \<lparr>pl_settings = ex_canary, pl_idna = (\<lambda>_. None), pl_sha256 = ex_sha, pl_worker_digest = (\<lambda>_. ''d''),
     pl_lease_digest = id, pl_store = (\<lambda>_. Inl ''STORAGE_OBJECT_NOT_UPLOADED''), pl_keys = ex_keys\<rparr>"

definition ex_authorization :: "string option" where
  "ex_authorization = Some ''Bearer rdc_worker_abcdefgh_x''"

lemma ex_resolve:
  assumes "workers s = [ex_fresh_worker seen]"
  shows "resolve_worker_context (pl_worker_digest ex_plane) (ex_tx t) ex_authorization s =
    Inr (ex_fresh_worker (Some (seconds t)), s\<lparr>workers := [ex_fresh_worker (Some (seconds t))]\<rparr>)"
proof -
  have p: "partition_space ''Bearer rdc_worker_abcdefgh_x'' = (''Bearer'', ''rdc_worker_abcdefgh_x'')"
    "worker_token_prefix ''rdc_worker_abcdefgh_x'' = Some ''abcdefgh''" "casefold ''Bearer'' = ''bearer''"
    by code_simp+
  show ?thesis
    using assms
    by (simp add: resolve_worker_context_def ex_authorization_def p ex_fresh_worker_def worker_credential_ok_def
        ex_worker_def ex_plane_def ex_tx_def Let_def upd_by_def)
qed

lemma ex_fresh_init: "exec_init (ex_fresh_db None)"
  by (simp add: exec_init_def ex_fresh_db_def tables_ok_def fresh_ids_def ex_sourced_build_def ex_build_def ex_dispatch_def)

lemma ex_fresh_claim:
  "claim_work ex_canary (\<lambda>_. None) ex_sha (''raw'', ''digest'') (ex_tx 920) 1 [Wk_BUILD] (ex_fresh_db seen) =
   admit_source ex_canary (\<lambda>_. None) ex_sha (''raw'', ''digest'') (ex_tx 920) (ex_fresh_worker seen) 0
     Wk_BUILD (Src_build ex_dispatch) (ex_fresh_db seen)"
proof -
  let ?s = "ex_fresh_db seen"
  have reap: "reap_expired_leases ex_canary (ex_tx 920) 100 True ?s = Inr (0, ?s)"
    by (simp add: reap_expired_leases_def expired_batch_def select_limit_def reap_overdue_cancellations_def
        overdue_batch_def ex_fresh_db_def)
  have adm: "claim_admitted (ex_tx 920) (ex_fresh_worker seen) [Wk_BUILD] ?s = Inr 0"
    by (simp add: claim_admitted_def recovery_pending_def ex_fresh_db_def ex_fresh_worker_def ex_worker_def
        worker_live_leases_def)
  have "project_admits (seconds 920) 3 ?s"
    by (simp add: project_admits_def ex_fresh_db_def ex_project_def project_live_leases_def)
  then have sel: "select_source (ex_tx 920) Wk_BUILD ?s = Some (Src_build ex_dispatch)"
    by (simp add: select_source_def first_by_def ex_tx_def ex_fresh_db_def ex_dispatch_def seconds_def)
  have "find_by wo_id 1 (workers ?s) = Some (ex_fresh_worker seen)"
    by (simp add: ex_fresh_db_def ex_fresh_worker_def ex_worker_def)
  then show ?thesis by (simp add: claim_work_def reap adm sel claim_source_def)
qed
lemma ex_fresh_granted:
  obtains c s' l b where
    "claim_work ex_canary (\<lambda>_. None) ex_sha (''raw'', ''digest'') (ex_tx 920) 1 [Wk_BUILD] (ex_fresh_db seen) =
       Inr (Some c, s')"
    and "leases s' = [l]" and "le_id l = 100" and "le_work_kind l = Wk_BUILD" and "le_build_id l = Some 6"
    and "le_status l = Le_ACTIVE" and "le_expires_at l = seconds 980" and "le_deadline_at l = seconds 1820"
    and "le_worker_id l = 1" and "builds s' = [b]" and "bd_id b = 6" and "workers s' = [ex_fresh_worker seen]"
proof -
  let ?s = "ex_fresh_db seen" and ?w = "ex_fresh_worker seen"
  let ?l = "claimed_lease ex_sha (ex_tx 920) ?w Wk_BUILD (Src_build ex_dispatch) ''digest''
    (seconds 980) (seconds 1820) 100"
  have "lease_constraints ?l []"
    by (simp add: lease_constraints_def claimed_lease_def ex_defs)
  then obtain s1 where s1: "add_lease ?l (mark_claimed (ex_tx 920) (Src_build ex_dispatch) ?s) = Inr s1"
      "builds s1 = [ex_sourced_build]" "agent_versions s1 = [ex_version]" "storage_objects s1 = [ex_object]"
      "leases s1 = [?l]" "workers s1 = [?w]"
    by (simp add: add_lease_def mark_claimed_def ex_fresh_db_def)
  have "\<exists>q. build_claim_payload ex_dispatch s1 = Inr (q, ex_sourced_build)"
    by (simp add: build_claim_payload_def s1 ex_dispatch_def ex_sourced_build_def ex_build_def ex_version_def ex_object_def)
  then obtain q s2 b where st: "start_target (ex_tx 920) Wk_BUILD (Src_build ex_dispatch) s1 = Inr (q, s2)"
    and s2: "leases s2 = [?l]" "workers s2 = [?w]" "builds s2 = [b]" "bd_id b = 6"
    by (auto simp: start_target_def s1 put_build_def ex_sourced_build_def ex_build_def)
  have pol: "sandbox_claim_policy ex_canary idna sha256 ?w p = Inr None" for idna sha256 p
    by (simp add: sandbox_claim_policy_def ex_worker_def ex_fresh_worker_def)
  have proj: "lock_project_admission (ex_tx 920) 3 Wk_BUILD ?s = Inr (ex_project, 0)"
    by (simp add: lock_project_admission_def ex_fresh_db_def ex_project_def project_live_leases_def ex_tx_def)
  have src: "source_payload (Src_build ex_dispatch) = []" "source_project (Src_build ex_dispatch) = 3" "next_id ?s = 100"
    by (simp_all add: source_payload_def source_project_def ex_dispatch_def ex_fresh_db_def)
  obtain p a where fin: "finish_payload ex_canary (\<lambda>_. None) ex_sha ?w (seconds 1820)
      (admission_fields ?w 0 ex_project 0 Wk_BUILD) q = Inr (p, a)"
    by (simp add: finish_payload_def pol canary_activation_def)
  define l where "l = ?l\<lparr>le_payload_digest := canonical_fingerprint ex_sha (JDict p), le_payload_snapshot := p\<rparr>"
  define s' where "s' = audit_claim (ex_tx 920) ?w l (admission_fields ?w 0 ex_project 0 Wk_BUILD) a (put_lease l s2)"
  have run: "admit_source ex_canary (\<lambda>_. None) ex_sha (''raw'', ''digest'') (ex_tx 920) ?w 0 Wk_BUILD
      (Src_build ex_dispatch) ?s = Inr (Some (lease_claim_of l ''raw''), s')"
    using s1(1) st fin
    by (simp add: admit_source_def src proj ex_claim_window Let_def l_def s'_def)
  have id: "le_id l = 100" "le_id ?l = 100" by (simp_all add: l_def)
  have ls: "leases s' = [l]" "workers s' = [?w]" "builds s' = [b]"
    using s2 id by (simp_all add: s'_def audit_claim_def append_audit_event_def put_lease_def upd_by_def)
  have "le_build_id l = Some 6" by (simp add: l_def claimed_lease_def ex_dispatch_def)
  moreover have "le_worker_id l = 1" by (simp add: l_def ex_fresh_worker_def ex_worker_def)
  ultimately show thesis
    using that [OF run [folded ex_fresh_claim] ls(1) id(1), of b] ls s2 by (simp add: l_def)
qed

definition ex_failed :: complete_request where
  "ex_failed = \<lparr>cq_outcome = Out_FAILED, cq_retryable = False, cq_error_code = None, cq_error_summary = None,
     cq_artifacts = []\<rparr>"

text \<open>The build is claimed and its lease completed as failed: a reachable database with a closed lease.\<close>

lemma ex_reached:
  obtains s l where "exec_reachable ex_plane (seconds 930) s" and "leases s = [l]" and "le_id l = 100"
    and "le_status l = Le_FAILED"
proof -
  let ?w = "\<lambda>t. ex_fresh_worker (Some (seconds t))"
  have w: "wo_id (ex_fresh_worker x) = 1" for x by (simp add: ex_fresh_worker_def ex_worker_def)
  have pl: "pl_settings ex_plane = ex_canary" "pl_idna ex_plane = (\<lambda>_. None)" "pl_sha256 ex_plane = ex_sha"
    by (simp_all add: ex_plane_def)
  obtain c s1 l b where g: "claim_work ex_canary (\<lambda>_. None) ex_sha (''raw'', ''digest'') (ex_tx 920) 1 [Wk_BUILD]
        (ex_fresh_db (Some (seconds 920))) = Inr (Some c, s1)" "leases s1 = [l]" "le_id l = 100"
      "le_work_kind l = Wk_BUILD" "le_build_id l = Some 6" "le_status l = Le_ACTIVE" "le_expires_at l = seconds 980"
      "le_deadline_at l = seconds 1820" "le_worker_id l = 1" "builds s1 = [b]" "bd_id b = 6" "workers s1 = [?w 920]"
    by (rule ex_fresh_granted)
  have "resolve_worker_context (pl_worker_digest ex_plane) (ex_tx 920) ex_authorization (ex_fresh_db None) =
      Inr (?w 920, ex_fresh_db (Some (seconds 920)))"
    using ex_resolve [of "ex_fresh_db None" None] by (simp add: ex_fresh_db_def)
  then have "claim_work_route ex_plane (ex_tx 920) ex_authorization (''raw'', ''digest'') [Wk_BUILD] (ex_fresh_db None) =
      Inr (Some c, s1)"
    unfolding claim_work_route_def with_worker_def by (simp only: bind_result_simps prod.case pl w g(1))
  moreover have "exec_reachable ex_plane 0 (ex_fresh_db None)" using ex_fresh_init by (rule exec_reachable.start)
  moreover have "tx_now (ex_tx t) = seconds t" for t by (simp add: ex_tx_def)
  ultimately have r1: "exec_reachable ex_plane (seconds 920) s1"
    using exec_step.claim [of 0 "ex_tx 920" ex_plane] by (metis exec_reachable.step seconds_pos zero_less_numeral)
  define s2 where "s2 = s1\<lparr>workers := [?w 930]\<rparr>"
  have r2: "resolve_worker_context (pl_worker_digest ex_plane) (ex_tx 930) ex_authorization s1 = Inr (?w 930, s2)"
    unfolding s2_def by (rule ex_resolve) (fact g(12))
  have held: "lease_held (ex_tx 930) (?w 930) l s2"
    using g by (simp add: lease_held_def s2_def w lease_live_def ex_tx_def)
  have no_retry: "\<not> execution_retry_allowed False Out_FAILED a m x" for a m x
    by (simp add: execution_retry_allowed_def)
  obtain l' s3 where s3: "complete_lease (pl_settings ex_plane) (pl_store ex_plane) (ex_tx 930) (?w 930) l ex_failed s2 =
      Inr (l', s3)" "leases s3 = [l']" "le_id l' = 100" "le_status l' = Le_FAILED"
    using g
    by (simp add: complete_lease_def converge_late_def s2_def ex_failed_def Let_def no_retry complete_build_def
        complete_build_row_def finish_completion_def audit_worker_def append_audit_event_def put_lease_def
        close_lease_row_def close_source_def put_build_def upd_by_def)
  have "lease_handled ex_plane (ex_tx 930) (?w 930) l s2 s3" using s3(1) unfolding lease_handled_def by blast
  from exec_reachable.step [OF r1 exec_step.lease [OF _ r2 held this]] s3(2-) that show thesis by (simp add: ex_tx_def)
qed

subsection \<open>Properties\<close>

text \<open>
  C3: in every database that workers, users and the sweeper can reach, the invariant of the execution plane
  holds: identifiers are unique, every lease lies within its window, its deadline and the attempt limit and
  is tied to its source, issued secret grants belong to active leases, run events are numbered without
  gaps, and no source has two active leases.
\<close>

theorem exec_reachable_inv:
  assumes "exec_reachable pl t s" and "settings_ok (pl_settings pl)"
  shows "exec_inv (pl_settings pl) s \<and>
    (\<forall>l \<in> set (leases s). \<forall>l' \<in> set (leases s). le_status l = Le_ACTIVE \<longrightarrow> le_status l' = Le_ACTIVE \<longrightarrow>
       source_key l' = source_key l \<longrightarrow> l' = l)"
proof -
  have inv: "exec_inv (pl_settings pl) s" using exec_reachable_ok [OF assms] by simp
  then show ?thesis using active_unique [OF inv] active_latest [OF inv] by blast
qed

theorem exec_reachable_inv_witness:
  "\<exists>s l. exec_reachable ex_plane (seconds 930) s \<and> leases s = [l] \<and> le_status l = Le_FAILED \<and> exec_inv ex_canary s"
proof -
  have pl: "pl_settings ex_plane = ex_canary" by (simp add: ex_plane_def)
  obtain s l where "exec_reachable ex_plane (seconds 930) s" "leases s = [l]" "le_status l = Le_FAILED"
    by (rule ex_reached)
  with exec_reachable_inv [of ex_plane "seconds 930" s] ex_canary_settings_ok pl show ?thesis by auto
qed

text \<open>
  C4: a lease that has been completed, expired, fenced or lost stays without access. Whatever happens
  afterwards, no worker gets access under it again with any token, so no request of it can change a build,
  a run or an artifact, and no secret grant of it is usable.
\<close>

theorem exec_closed_lease_fenced:
  assumes "exec_reachable pl t s" and "settings_ok (pl_settings pl)" and "(exec_step pl)\<^sup>*\<^sup>* (t, s) (t', s')"
    and "l \<in> set (leases s)" and "le_status l \<noteq> Le_ACTIVE"
  shows "require_lease_access digest tx worker_id (le_id l) token s' = Inl lease_credential_invalid \<and>
    (\<forall>g \<in> set (secret_grants s'). sg_lease_id g = le_id l \<longrightarrow> sg_status g \<noteq> Gr_ISSUED)"
proof -
  note e = exec_steps_evolve [OF assms(3,1,2)]
  have inv: "exec_inv (pl_settings pl) s'" using exec_reachable_ok [OF _ assms(2)] e by blast
  have closed: "le_status x \<noteq> Le_ACTIVE" if "x \<in> set (leases s')" "le_id x = le_id l" for x
    using evolve_closed [OF _ assms(4,5) inv that] e by blast
  have "List.find (\<lambda>x. le_id x = le_id l \<and> le_worker_id x = worker_id) (leases s') = Some x \<Longrightarrow>
      \<not> lease_live (tx_now tx) x" for x
    using closed by (auto simp: find_Some_iff lease_live_def)
  then have "require_lease_access digest tx worker_id (le_id l) token s' = Inl lease_credential_invalid"
    by (auto simp: require_lease_access_def split: option.split)
  moreover have "sg_status g \<noteq> Gr_ISSUED" if "g \<in> set (secret_grants s')" "sg_lease_id g = le_id l" for g
    using exec_invD(7) [OF inv that(1)] that(2) closed by (auto simp: active_id_def)
  ultimately show ?thesis by blast
qed

theorem exec_closed_lease_fenced_witness:
  "\<exists>t s. exec_reachable ex_plane t s \<and> 100 \<in> le_id ` set (leases s) \<and>
     require_lease_access id (ex_tx 950) 1 100 (Some ''raw'') s = Inl lease_credential_invalid"
proof -
  have st: "settings_ok (pl_settings ex_plane)" using ex_canary_settings_ok by (simp add: ex_plane_def)
  obtain s l where r: "exec_reachable ex_plane (seconds 930) s" and l: "leases s = [l]" "le_id l = 100"
    "le_status l = Le_FAILED"
    by (rule ex_reached)
  let ?s = "record_execution_recovery_failure (ex_tx 940) 0 ''owner'' ''code'' s"
  have step: "exec_step ex_plane (seconds 930, s) (seconds 940, ?s)"
    using exec_step.failure [of "seconds 930" "ex_tx 940" ex_plane s 0 "''owner''" "''code''"] by (simp add: ex_tx_def)
  from exec_closed_lease_fenced [OF r st r_into_rtranclp [of "exec_step ex_plane", OF step], of l id "ex_tx 950" 1 "Some ''raw''"]
  have "require_lease_access id (ex_tx 950) 1 100 (Some ''raw'') ?s = Inl lease_credential_invalid"
    using l by simp
  moreover have "exec_reachable ex_plane (seconds 940) ?s" using r step by (rule exec_reachable.step)
  moreover have "100 \<in> le_id ` set (leases ?s)" using l by (simp add: record_execution_recovery_failure_def)
  ultimately show ?thesis by blast
qed

text \<open>
  C5: retries end. In every reachable database a build or run command has been handed out at most
  \<open>worker_max_attempts\<close> times, whatever workers report and however often leases are lost.
\<close>

theorem exec_attempts_bounded:
  assumes "exec_reachable pl t s" and "settings_ok (pl_settings pl)"
  shows "int (length (filter (\<lambda>l. source_key l = k) (leases s))) \<le> st_worker_max_attempts (pl_settings pl)"
proof -
  let ?ls = "filter (\<lambda>l. source_key l = k) (leases s)" and ?m = "st_worker_max_attempts (pl_settings pl)"
  have inv: "exec_inv (pl_settings pl) s" using exec_reachable_ok [OF assms] by simp
  have "distinct (map (\<lambda>l. (source_key l, le_attempt l)) ?ls)"
    using exec_invD(4) [OF inv] by (simp add: distinct_map_filter)
  moreover have "map (\<lambda>l. (source_key l, le_attempt l)) ?ls = map (Pair k) (map le_attempt ?ls)" by simp
  ultimately have d: "distinct (map le_attempt ?ls)" by (metis distinct_map)
  have "set (map le_attempt ?ls) \<subseteq> {1..?m}"
    using exec_invD(2) [OF inv] by (auto simp: lease_ok_def)
  then have "card (set (map le_attempt ?ls)) \<le> nat ?m" using card_mono [of "{1..?m}"] by fastforce
  moreover have "1 \<le> ?m" using assms(2) by (simp add: settings_ok_def)
  ultimately show ?thesis using distinct_card [OF d] by simp
qed

theorem exec_attempts_bounded_witness:
  "\<exists>s l. exec_reachable ex_plane (seconds 930) s \<and> leases s = [l] \<and>
     int (length (filter (\<lambda>x. source_key x = source_key l) (leases s))) \<le> st_worker_max_attempts ex_canary"
proof -
  have pl: "pl_settings ex_plane = ex_canary" by (simp add: ex_plane_def)
  obtain s l where s: "exec_reachable ex_plane (seconds 930) s" "leases s = [l]" by (rule ex_reached)
  from exec_attempts_bounded [of ex_plane "seconds 930" s "source_key l"] s ex_canary_settings_ok pl show ?thesis
    by auto
qed

end
