(* ===== verification/Exec_Restart.thy ===== *)
theory Exec_Restart
  imports Exec_Reach
begin

section \<open>A failed cancellation and the reaper\<close>

text \<open>
  What happens to a run whose cancellation a worker reports as failed (\<open>complete_lease\<close>) when the lease of
  its start command expires afterwards (\<open>_reset_expired_source\<close>).
\<close>

lemma find_run_cong: "runs s' = runs s \<Longrightarrow> find_run i s' = find_run i s"
  by (cases i) (simp_all add: find_run_def)

lemma find_run_put: "find_run i s = Some r \<Longrightarrow> rn_id r' = rn_id r \<Longrightarrow> find_run i (put_run r' s) = Some r'"
  by (auto simp: find_run_def put_run_def find_by_put split: option.split_asm dest: find_by_SomeD)

lemma run_event_rows:
  assumes "run_event_for tx r et p s = Inr s'"
  shows "find_run i s' = find_run i s" and "run_commands s' = run_commands s" and "runs s' = runs s"
    and "leases s' = leases s"
  using assms by (auto simp: run_event_for_def find_run_def elim!: append_run_event_cases split: option.split)

text \<open>
  C31: the reaper restarts a run whose cancellation failed. A worker that reports a failed cancellation
  makes the run \<open>FAILED\<close> without closing the lease of its start command. When that lease expires with
  attempts left, the run is finished and its cancellation was requested, yet it becomes \<open>QUEUED\<close> again,
  its end is erased and its start command is pending for the next claim.
\<close>

theorem failed_cancellation_restarts_run:
  assumes inv: "exec_inv st s" and st: "settings_ok st" and l: "l \<in> set (leases s)" "le_status l = Le_ACTIVE"
    and start: "le_work_kind l = Wk_RUN_START" and r: "find_run (le_run_id l) s = Some r"
    and failed: "rn_status r = Rn_FAILED" "rn_cancel_requested_at r \<noteq> None"
    and late: "le_expires_at l \<le> tx_now tx" "tx_now tx < le_deadline_at l"
    and left: "le_attempt l < st_worker_max_attempts st"
  shows "\<exists>s' r'. reap_lease st tx l s = Inr s' \<and> find_run (le_run_id l) s' = Some r' \<and> rn_status r' = Rn_QUEUED \<and>
    rn_finished_at r' = None \<and> rn_cancel_requested_at r' = rn_cancel_requested_at r \<and>
    source_at s' (source_key l) = Some (Ob_PENDING, le_attempt l)"
proof -
  let ?reason = "''RUN_START_LEASE_LOST''" and ?fc = "expiry_failure_code tx l"
  have rid: "find_by rn_id (rn_id r) (runs s) = Some r"
    using r find_by_SomeD by (fastforce simp: find_run_def split: option.split_asm)
  obtain n s1 where f: "fence_cancelled_run_leases tx (rn_id r) None None s = (n, s1)" by fastforce
  note fs = fence_sel [OF f]
  have conv: "converge_cancelled_run tx (rn_id r) ?reason s = Inr (False, s1)"
    using f rid failed fs(2) by (simp add: converge_cancelled_run_def)
  have r1: "find_run (le_run_id l) s1 = Some r" using r find_run_cong [OF fs(2)] by simp
  have "latest s1 l" using recovers_latest [OF recovers_fence [OF f] active_latest [OF inv l]] by simp
  then obtain c where c: "find_by rc_id (le_source_outbox_id l) (run_commands s1) = Some c" "rc_attempts c = le_attempt l"
    using start by (auto simp: latest_def source_at_def source_key_def)
  have "1 \<le> le_attempt l" using exec_invD(2) [OF inv l(1)] by (simp add: lease_ok_def)
  then obtain t where t: "expiry_retry_at st tx l False True = Inr (Some t)"
    using st left by (auto simp: expiry_retry_at_def execution_retry_allowed_def retry_available_at_def retry_delay_seconds_def
        settings_ok_def Let_def)
  define r' where "r' = reset_run_row tx Wk_RUN_START True False ?fc r"
  have r': "rn_id r' = rn_id r" "rn_status r' = Rn_QUEUED" "rn_finished_at r' = None"
      "rn_cancel_requested_at r' = rn_cancel_requested_at r"
    by (simp_all add: r'_def reset_run_row_def)
  define s2 where "s2 = s1\<lparr>run_commands := upd_by rc_id (le_source_outbox_id l) (reset_run_source_row tx (Some t) ?fc)
      (run_commands s1)\<rparr>"
  have r2: "find_run (le_run_id l) s2 = Some r" using r1 find_run_cong [of s2 s1] by (simp add: s2_def)
  obtain s3 where ev: "run_event_for tx r' ''run.status'' (status_payload (rn_status r) (rn_status r')) (put_run r' s2) = Inr s3"
    using status_event_total by blast
  have req: "requeue_expired_run st tx l False ?fc s1 = Inr (Some t, s3)"
    using c(1) t r2 ev r'(2) failed(1)
    by (simp add: requeue_expired_run_def Let_def s2_def [symmetric] start r'_def [symmetric])
  have run: "\<exists>s'. reap_lease st tx l s = Inr s' \<and> runs s' = runs s3 \<and> run_commands s' = run_commands s3"
    using late(2) r failed(2) conv req start
    by (auto simp: reap_lease_def Let_def reset_expired_source_def audit_expired_lease_def append_audit_event_def)
  have "find_run (le_run_id l) s3 = Some r'"
    using run_event_rows(1) [OF ev] find_run_put [OF r2 r'(1)] by simp
  moreover have "find_by rc_id (le_source_outbox_id l) (run_commands s3) = Some (reset_run_source_row tx (Some t) ?fc c)"
    using run_event_rows(2) [OF ev] c(1)
    by (simp add: put_run_def s2_def find_by_upd_by reset_run_source_row_def)
  moreover obtain s' where "reap_lease st tx l s = Inr s'" "runs s' = runs s3" "run_commands s' = run_commands s3"
    using run by blast
  ultimately show ?thesis
    using r' c(2) start find_run_cong [of s' s3]
    by (intro exI [of _ s'] exI [of _ r']) (simp add: source_at_def source_key_def reset_run_source_row_def)
qed

text \<open>The running run of the sample database, with its cancellation requested and leased to the worker.\<close>

definition ex_aborting :: run where
  "ex_aborting = ex_run\<lparr>rn_status := Rn_ABORTING, rn_cancel_requested_at := Some (seconds 910),
     rn_cancel_deadline_at := Some (seconds 1210)\<rparr>"

definition ex_cancel :: run_command where
  "ex_cancel = ex_start\<lparr>rc_id := 13, rc_command := Cm_CANCEL, rc_topic := ''rdc.run.cancel.requested.v1''\<rparr>"

definition ex_cancel_lease :: lease where
  "ex_cancel_lease = ex_lease\<lparr>le_id := 14, le_work_kind := Wk_RUN_CANCEL, le_source_outbox_id := 13,
     le_source_topic := ''rdc.run.cancel.requested.v1'', le_lease_token_digest := ''u'',
     le_claimed_at := seconds 915, le_expires_at := seconds 975\<rparr>"

definition ex_cancel_db :: claim_db where
  "ex_cancel_db = (ex_claim_db [ex_sourced_build])\<lparr>leases := [ex_lease, ex_cancel_lease], runs := [ex_aborting],
     run_commands := [ex_start, ex_cancel]\<rparr>"

lemmas ex_cancel_defs = ex_cancel_db_def ex_cancel_lease_def ex_cancel_def ex_aborting_def ex_claim_db_def
  ex_sourced_build_def ex_canary_def ex_defs

lemma sources_okI:
  assumes "list_all (\<lambda>b. 0 \<le> bo_attempts b \<and> bo_attempts b < st_worker_max_attempts st) (build_outbox s)"
    and "list_all (\<lambda>c. 0 \<le> rc_attempts c \<and> rc_attempts c < st_worker_max_attempts st) (run_commands s)"
  shows "sources_ok st s"
  using assms
  by (fastforce simp: sources_ok_def source_at_def list_all_iff dest!: find_by_SomeD split: if_split_asm)

lemma ex_cancel_inv: "exec_inv ex_canary ex_cancel_db"
proof -
  have "sources_ok ex_canary ex_cancel_db" by (rule sources_okI) (simp_all add: ex_cancel_defs)
  moreover have "tables_ok ex_cancel_db" by (simp add: ex_cancel_defs tables_ok_def fresh_ids_def)
  moreover have "list_all (lease_ok ex_canary) (leases ex_cancel_db)" by (simp add: ex_cancel_defs lease_ok_def)
  moreover have "list_all (lease_tied ex_cancel_db) (leases ex_cancel_db)"
    by (simp add: ex_cancel_defs lease_tied_def source_at_def source_key_def)
  moreover have "distinct (map (\<lambda>l. (source_key l, le_attempt l)) (leases ex_cancel_db))"
    by (simp add: ex_cancel_defs source_key_def)
  moreover have "secret_grants ex_cancel_db = []" "run_events ex_cancel_db = []" by (simp_all add: ex_cancel_defs)
  ultimately show ?thesis
    by (simp add: exec_inv_def list_all_iff events_numbered_def numbered_def event_sequences_def)
qed

lemma ex_failed_event:
  "\<exists>s'. run_event_for tx r ''run.failed'' [(''status'', JStr ''FAILED''), (''failure_code'', JStr ''CANCEL_FAILED''),
     (''failure_summary'', JNull)] s = Inr s'"
proof -
  have "sanitize_event_payload [(''status'', JStr ''FAILED''), (''failure_code'', JStr ''CANCEL_FAILED''),
     (''failure_summary'', JNull)] = Inr [(''status'', JStr ''FAILED''), (''failure_code'', JStr ''CANCEL_FAILED''),
     (''failure_summary'', JNull)]"
    using ascii_length_plain [of "''FAILED''"] ascii_length_plain [of "''CANCEL_FAILED''"]
    by (simp add: sanitize_event_payload_def sanitize_value.simps sensitive_key_def sensitive_key_parts_def
        casefold_def casefold_char_def is_prefix_def clean_string_plain dupdate_def dset_def
        ascii_char_length_def json_escape_char_def plain_def)
  then show ?thesis by (simp add: run_event_for_def append_run_event_def persisted_event_types_def)
qed

definition ex_failed_run :: run where
  "ex_failed_run = ex_aborting\<lparr>rn_status := Rn_FAILED, rn_failure_code := Some ''CANCEL_FAILED'',
     rn_finished_at := Some (seconds 950), rn_updated_at := seconds 950, rn_version := 4\<rparr>"

lemma ex_cancel_failed:
  obtains x s where "complete_lease ex_canary store (ex_tx 950) ex_worker ex_cancel_lease ex_failed ex_cancel_db = Inr (x, s)"
    and "ex_lease \<in> set (leases s)" and "find_run (Some 10) s = Some ex_failed_run"
proof -
  let ?tx = "ex_tx 950" and ?l = ex_cancel_lease and ?s = ex_cancel_db and ?r = ex_failed_run
  have kind: "le_work_kind ?l = Wk_RUN_CANCEL" "le_run_id ?l = Some 10" by (simp_all add: ex_cancel_lease_def ex_lease_def)
  have run: "find_run (Some 10) ?s = Some ex_aborting"
    by (simp add: find_run_def ex_cancel_db_def ex_aborting_def ex_run_def)
  have conv: "converge_late ?tx ?l ?s = Inr (False, ?s)" by (simp add: converge_late_def kind)
  have conf: "confirm_cancel ?tx ex_worker ?l ex_failed ex_aborting ?s = ?s"
    by (simp add: confirm_cancel_def ex_failed_def)
  have row: "(complete_run_row ?l ex_failed ex_aborting)\<lparr>rn_finished_at := Some (tx_now ?tx), rn_updated_at := tx_now ?tx,
      rn_version := rn_version ex_aborting + 1\<rparr> = ?r"
    by (simp add: complete_run_row_def kind fail_run_def ex_failed_def ex_failed_run_def ex_aborting_def ex_run_def ex_tx_def)
  have r: "rn_status ?r = Rn_FAILED" "rn_failure_code ?r = Some ''CANCEL_FAILED''" "rn_failure_summary ?r = None"
      "rn_status ex_aborting = Rn_ABORTING" "rn_id ?r = rn_id ex_aborting"
    by (simp_all add: ex_failed_run_def ex_aborting_def ex_run_def)
  obtain s2 where e1: "run_event_for ?tx ?r ''run.status'' (status_payload Rn_ABORTING Rn_FAILED) (put_run ?r ?s) = Inr s2"
    using status_event_total by blast
  obtain s3 where e2: "run_event_for ?tx ?r ''run.failed'' [(''status'', JStr ''FAILED''),
      (''failure_code'', JStr ''CANCEL_FAILED''), (''failure_summary'', JNull)] s2 = Inr s3"
    using ex_failed_event by blast
  define x where "x = close_lease_row ?tx Le_FAILED (Some ''CANCEL_FAILED'') None ?l"
  define s4 where "s4 = close_source ?tx ?l Ob_FAILED (Some ''CANCEL_FAILED'') s3"
  have ran: "complete_run ?tx ex_worker ?l ex_failed ?s = Inr (x, s4)"
    unfolding complete_run_def kind(2) run option.case Let_def conf row
    by (simp add: r e1 e2 jopt_def x_def s4_def)
  obtain y s5 where fin: "finish_completion ?tx ex_worker x ex_failed False None (image_of []) s4 = (y, s5)"
    and s5: "leases s5 = upd_by le_id 14 (\<lambda>_. x) (leases s4)" "runs s5 = runs s4"
    by (simp add: finish_completion_def audit_worker_def append_audit_event_def put_lease_def x_def close_lease_row_def
        ex_cancel_lease_def)
  have comp: "complete_lease ex_canary store ?tx ex_worker ?l ex_failed ?s = Inr (y, s5)"
    using fin ran
    by (simp add: complete_lease_def conv kind(1) ex_failed_def Let_def execution_retry_allowed_def)
  have "leases s4 = leases ?s" "runs s4 = runs (put_run ?r ?s)"
    using run_event_rows(3,4) [OF e1] run_event_rows(3,4) [OF e2]
    by (simp_all add: s4_def close_source_def kind(1))
  note rows = this
  have "ex_lease \<in> set (leases s5)"
    unfolding s5(1) rows(1) by (simp add: ex_cancel_db_def set_upd_by ex_lease_def)
  moreover have "find_run (Some 10) s5 = Some ?r"
    using find_run_put [OF run r(5)] find_run_cong [of s5 "put_run ?r ?s"] s5(2) rows(2) by simp
  ultimately show thesis by (rule that [OF comp])
qed

theorem failed_cancellation_restarts_run_witness:
  "\<exists>x s s' r. complete_lease ex_canary (\<lambda>_. Inl ''error'') (ex_tx 950) ex_worker ex_cancel_lease ex_failed ex_cancel_db =
       Inr (x, s) \<and> find_run (Some 10) s = Some ex_failed_run \<and>
     reap_lease ex_canary (ex_tx 970) ex_lease s = Inr s' \<and> find_run (Some 10) s' = Some r \<and> rn_status r = Rn_QUEUED \<and>
     rn_finished_at r = None \<and> source_at s' (False, 11) = Some (Ob_PENDING, 1)"
proof -
  obtain x s where run: "complete_lease ex_canary (\<lambda>_. Inl ''error'') (ex_tx 950) ex_worker ex_cancel_lease ex_failed
      ex_cancel_db = Inr (x, s)" and s: "ex_lease \<in> set (leases s)" "find_run (Some 10) s = Some ex_failed_run"
    by (rule ex_cancel_failed)
  have "lease_held (ex_tx 950) ex_worker ex_cancel_lease ex_cancel_db"
    by (simp add: lease_held_def lease_live_def ex_cancel_defs)
  then have inv: "exec_inv ex_canary s" using keepsD [OF keeps_complete [OF run ex_cancel_inv] ex_cancel_inv] by blast
  have "source_key ex_lease = (False, 11)" "le_run_id ex_lease = Some 10" "le_attempt ex_lease = 1"
    by (simp_all add: ex_lease_def source_key_def)
  with failed_cancellation_restarts_run [OF inv ex_canary_settings_ok s(1), of ex_failed_run "ex_tx 970"] s(2) run
  show ?thesis
    by (auto simp: ex_lease_def ex_failed_run_def ex_aborting_def ex_tx_def ex_canary_def)
qed

end
