(* ===== verification/Spec2Isabelle.thy ===== *)
theory Spec2Isabelle
  imports
    Recovery_Policy
    Request_Queue
    Webhooks
    Schedules
    Exec_Admission
    Json_Text
    Exec_Restart
begin

text \<open>
  \<^bold>\<open>Rooz Data Cloud: the control plane\<close>

  The program is the FastAPI control plane of a scraping platform (\<open>apps/api/app\<close>). Its
  services run inside database transactions and its tables are the shared state of the API
  processes, the workers and the recovery sweepers.

  Theories:
  \<^item> \<open>Rdc_Prelude\<close>: tables, transactions, exceptions;
  \<^item> \<open>Py_Values\<close>: Python's JSON values, their equality and canonical encoding, the audit log;
  \<^item> \<open>Claim_Protocol\<close>, \<open>Idempotency\<close>: the two contracts several services share;
  \<^item> \<open>Recovery_Policy\<close>: \<open>execution_recovery.py\<close>;
  \<^item> \<open>Request_Queue\<close>: \<open>services/request_queues.py\<close>.
\<close>

end
